(* ===== verification/Fubun_Prelude.thy ===== *)
theory Fubun_Prelude
  imports Main "HOL-Library.Word" "HOL-Library.Char_ord" "HOL-Library.List_Lexorder"
    "HOL-Library.AList" "HOL-Library.Multiset" "HOL-Library.Sublist"
begin

text \<open>
  The prelude of the development: the type names of the model, Rust's \<open>Result\<close> as a sum
  (\<open>Inl\<close> the error), Rust strings as lists of UTF-8 bytes with the few operations of the
  standard library the sources call on them, hexadecimal output, the contract of a text
  encoding as a locale, and the lemmas about lists and association lists that several
  components share.
\<close>

section \<open>Types\<close>

text \<open>
  A \<open>Uuid\<close> is a 128-bit value. Machine integers keep their width. A timestamp is a point on
  the UTC time line (nanoseconds since the epoch) together with the offset it is written with;
  \<open>now_utc\<close> gives offset 0, a timestamp sent by a client may have any.
\<close>

type_synonym uuid = "128 word"
type_synonym u8 = "8 word"
type_synonym u16 = "16 word"
type_synonym u32 = "32 word"
type_synonym u64 = "64 word"

datatype timestamp = Timestamp (unix_ns: int) (offset_secs: int)

text \<open>\<open>Uuid::nil()\<close>.\<close>

abbreviation uuid_nil :: uuid where
  "uuid_nil \<equiv> 0"

named_theorems text_simps \<open>evaluation of the string operations\<close>
named_theorems codec_simps \<open>round trips of the text encodings\<close>

section \<open>Results\<close>

text \<open>The \<open>?\<close> operator and \<open>map_err\<close> of the sources, and \<open>collect\<close> into a \<open>Result\<close>.\<close>

definition and_then :: "'e + 'a \<Rightarrow> ('a \<Rightarrow> 'e + 'b) \<Rightarrow> 'e + 'b" where
  "and_then r f = (case r of Inl e \<Rightarrow> Inl e | Inr a \<Rightarrow> f a)"

definition map_err :: "('e \<Rightarrow> 'f) \<Rightarrow> 'e + 'a \<Rightarrow> 'f + 'a" where
  "map_err g r = (case r of Inl e \<Rightarrow> Inl (g e) | Inr a \<Rightarrow> Inr a)"

definition ok_or :: "'e \<Rightarrow> 'a option \<Rightarrow> 'e + 'a" where
  "ok_or e x = (case x of None \<Rightarrow> Inl e | Some a \<Rightarrow> Inr a)"

definition is_ok :: "'e + 'a \<Rightarrow> bool" where
  "is_ok r = (case r of Inl _ \<Rightarrow> False | Inr _ \<Rightarrow> True)"

primrec collect_results :: "('e + 'a) list \<Rightarrow> 'e + 'a list" where
  "collect_results [] = Inr []"
| "collect_results (r # rs) =
     (case r of Inl e \<Rightarrow> Inl e
      | Inr a \<Rightarrow> (case collect_results rs of Inl e \<Rightarrow> Inl e | Inr as \<Rightarrow> Inr (a # as)))"

lemma and_then_simps [simp]:
  "and_then (Inl e) f = Inl e" "and_then (Inr a) f = f a"
  by (simp_all add: and_then_def)

lemma map_err_simps [simp]:
  "map_err g (Inl e) = Inl (g e)" "map_err g (Inr a) = Inr a"
  by (simp_all add: map_err_def)

lemma ok_or_simps [simp]:
  "ok_or e None = Inl e" "ok_or e (Some a) = Inr a"
  by (simp_all add: ok_or_def)

lemma is_ok_simps [simp]:
  "is_ok (Inl e) = False" "is_ok (Inr a) = True"
  by (simp_all add: is_ok_def)

lemma and_then_Inr_iff: "and_then r f = Inr b \<longleftrightarrow> (\<exists>a. r = Inr a \<and> f a = Inr b)"
  by (cases r) auto

lemma and_then_Inl_iff:
  "and_then r f = Inl e \<longleftrightarrow> r = Inl e \<or> (\<exists>a. r = Inr a \<and> f a = Inl e)"
  by (cases r) auto

lemma map_err_Inr_iff [simp]: "map_err g r = Inr a \<longleftrightarrow> r = Inr a"
  by (cases r) auto

lemma map_err_Inl_iff: "map_err g r = Inl e \<longleftrightarrow> (\<exists>d. r = Inl d \<and> e = g d)"
  by (cases r) auto

lemma ok_or_Inr_iff [simp]: "ok_or e x = Inr a \<longleftrightarrow> x = Some a"
  by (cases x) auto

text \<open>An early return of an error that did not happen.\<close>

lemma guard_Inr_iff: "(if b then Inl e else r) = Inr a \<longleftrightarrow> \<not> b \<and> r = Inr a"
  by simp

lemma not_both: "\<not> (a \<and> x \<noteq> y) \<Longrightarrow> a \<Longrightarrow> x = y"
  by blast

lemma is_ok_iff: "is_ok r \<longleftrightarrow> (\<exists>a. r = Inr a)"
  by (cases r) auto

lemma is_ok_map_err [simp]: "is_ok (map_err g r) = is_ok r"
  by (cases r) auto

lemma is_ok_and_then: "is_ok (and_then r f) \<longleftrightarrow> (\<exists>a. r = Inr a \<and> is_ok (f a))"
  by (cases r) auto

lemma collect_results_Cons_Inr_iff:
  "collect_results (r # rs) = Inr as \<longleftrightarrow>
     (\<exists>b bs. r = Inr b \<and> collect_results rs = Inr bs \<and> as = b # bs)"
  by (auto split: sum.splits)

lemma collect_results_Inr_iff:
  "collect_results rs = Inr as \<longleftrightarrow> rs = map Inr as"
  by (induction rs arbitrary: as)
     (auto simp: collect_results_Cons_Inr_iff Cons_eq_map_conv simp del: collect_results.simps(2))

lemma collect_results_map_Inr:
  "(\<And>x. x \<in> set xs \<Longrightarrow> f x = Inr (g x)) \<Longrightarrow> collect_results (map f xs) = Inr (map g xs)"
  unfolding collect_results_Inr_iff by simp

section \<open>Strings\<close>

text \<open>
  A Rust \<open>str\<close> is a sequence of UTF-8 bytes, always well formed; \<open>string\<close> holds those
  bytes. \<open>len()\<close> counts bytes, \<open>chars()\<close> groups a leading byte with the continuation bytes
  (binary 10xxxxxx) after it.
\<close>

definition byte_val :: "char \<Rightarrow> nat" where
  "byte_val c = of_char c"

definition is_continuation :: "char \<Rightarrow> bool" where
  "is_continuation c = (128 \<le> byte_val c \<and> byte_val c < 192)"

function chars :: "string \<Rightarrow> string list" where
  "chars [] = []"
| "chars (b # bs) = (b # takeWhile is_continuation bs) # chars (dropWhile is_continuation bs)"
  by pat_completeness auto
termination
  by (relation "measure length") (auto simp: le_imp_less_Suc length_dropWhile_le)

definition chars_count :: "string \<Rightarrow> nat" where
  "chars_count s = length (chars s)"

text \<open>\<open>char::is_control\<close>: the category Cc, U+0000 to U+001F and U+007F to U+009F.\<close>

fun char_is_control :: "string \<Rightarrow> bool" where
  "char_is_control [a] = (byte_val a < 32 \<or> byte_val a = 127)"
| "char_is_control [a, b] = (byte_val a = 194 \<and> 128 \<le> byte_val b \<and> byte_val b < 160)"
| "char_is_control _ = False"

text \<open>\<open>char::is_whitespace\<close>: the property White_Space.\<close>

fun char_is_whitespace :: "string \<Rightarrow> bool" where
  "char_is_whitespace [a] = ((9 \<le> byte_val a \<and> byte_val a \<le> 13) \<or> byte_val a = 32)"
| "char_is_whitespace [a, b] = (byte_val a = 194 \<and> (byte_val b = 133 \<or> byte_val b = 160))"
| "char_is_whitespace [a, b, c] =
     ((byte_val a = 225 \<and> byte_val b = 154 \<and> byte_val c = 128) \<or>
      (byte_val a = 226 \<and> byte_val b = 128 \<and>
         (128 \<le> byte_val c \<and> byte_val c \<le> 138 \<or> byte_val c \<in> {168, 169, 175})) \<or>
      (byte_val a = 226 \<and> byte_val b = 129 \<and> byte_val c = 159) \<or>
      (byte_val a = 227 \<and> byte_val b = 128 \<and> byte_val c = 128))"
| "char_is_whitespace _ = False"

definition has_control :: "string \<Rightarrow> bool" where
  "has_control s = list_ex char_is_control (chars s)"

text \<open>\<open>value.trim().is_empty()\<close>.\<close>

definition is_blank :: "string \<Rightarrow> bool" where
  "is_blank s = list_all char_is_whitespace (chars s)"

definition is_ascii_alphanumeric :: "char \<Rightarrow> bool" where
  "is_ascii_alphanumeric c =
     ((48 \<le> byte_val c \<and> byte_val c \<le> 57) \<or> (65 \<le> byte_val c \<and> byte_val c \<le> 90) \<or>
      (97 \<le> byte_val c \<and> byte_val c \<le> 122))"

text \<open>\<open>Path::is_absolute\<close> and \<open>Path::join\<close> on Unix.\<close>

definition path_is_absolute :: "string \<Rightarrow> bool" where
  "path_is_absolute p = prefix ''/'' p"

definition path_join :: "string \<Rightarrow> string \<Rightarrow> string" where
  "path_join p q =
     (if path_is_absolute q then q
      else if p = [] then q
      else if last p = CHR ''/'' then p @ q
      else p @ ''/'' @ q)"

lemma concat_chars [simp]: "concat (chars s) = s"
  by (induction s rule: chars.induct) auto

lemma chars_nonempty: "c \<in> set (chars s) \<Longrightarrow> c \<noteq> []"
  by (induction s rule: chars.induct) auto

lemma chars_eq_Nil_iff [simp]: "chars s = [] \<longleftrightarrow> s = []"
  by (cases s) auto

lemma chars_count_0_iff [simp]: "chars_count s = 0 \<longleftrightarrow> s = []"
  by (simp add: chars_count_def)

lemma chars_count_pos_iff [simp]: "0 < chars_count s \<longleftrightarrow> s \<noteq> []"
  by (simp add: chars_count_def)

lemma chars_count_le_length: "chars_count s \<le> length s"
proof -
  have "length cs \<le> length (concat cs)" if "\<forall>c \<in> set cs. c \<noteq> []" for cs :: "string list"
    using that
  proof (induction cs)
    case (Cons c cs)
    then have "1 \<le> length c" by (cases c) auto
    with Cons show ?case by auto
  qed simp
  from this [of "chars s"] show ?thesis
    by (simp add: chars_count_def chars_nonempty)
qed

lemma length_filter_takeWhile_dropWhile:
  "length (filter (\<lambda>c. \<not> P c) xs) = length (filter (\<lambda>c. \<not> P c) (dropWhile P xs))"
  by (induction xs) auto

lemma length_chars_shape:
  assumes "\<forall>c \<in> set cs. \<exists>b bs. c = b # bs \<and> \<not> is_continuation b \<and> list_all is_continuation bs"
  shows "chars (concat cs) = cs"
  using assms
proof (induction cs)
  case Nil
  then show ?case by simp
next
  case (Cons c cs)
  then obtain b bs where c: "c = b # bs" "\<not> is_continuation b" "list_all is_continuation bs"
    by auto
  have tw: "takeWhile is_continuation (concat cs) = []" and dw: "dropWhile is_continuation (concat cs) = concat cs"
    using Cons.prems by (cases cs; fastforce)+
  have "takeWhile is_continuation (bs @ concat cs) = bs"
    using c(3) tw by (simp add: takeWhile_append2 list_all_iff)
  moreover have "dropWhile is_continuation (bs @ concat cs) = concat cs"
    using c(3) dw by (simp add: dropWhile_append2 list_all_iff)
  ultimately show ?case using Cons c by simp
qed

text \<open>The characters of a well-formed string: each starts with a byte that is no continuation.\<close>

definition utf8_aligned :: "string \<Rightarrow> bool" where
  "utf8_aligned s = (case s of [] \<Rightarrow> True | b # _ \<Rightarrow> \<not> is_continuation b)"

lemma chars_shape:
  assumes "utf8_aligned s" "c \<in> set (chars s)"
  shows "\<exists>b bs. c = b # bs \<and> \<not> is_continuation b \<and> list_all is_continuation bs"
  using assms
proof (induction s rule: chars.induct)
  case 1
  then show ?case by simp
next
  case (2 b bs)
  have "utf8_aligned (dropWhile is_continuation bs)"
    unfolding utf8_aligned_def
    by (auto simp: dropWhile_eq_Cons_conv split: list.split)
  moreover have "list_all is_continuation (takeWhile is_continuation bs)"
    by (auto simp: list_all_iff dest: set_takeWhileD)
  ultimately show ?case using 2 by (auto simp: utf8_aligned_def)
qed

text \<open>Decimal output of an unsigned integer (\<open>to_string\<close>).\<close>

fun decimal :: "nat \<Rightarrow> string" where
  "decimal n = (if n < 10 then [char_of (48 + n)] else decimal (n div 10) @ [char_of (48 + n mod 10)])"

declare decimal.simps [simp del]

text \<open>Two lower-case hexadecimal digits of a byte.\<close>

definition hex_digit :: "nat \<Rightarrow> char" where
  "hex_digit n = ''0123456789abcdef'' ! n"

lemma hex_digit_inj: "m < 16 \<Longrightarrow> n < 16 \<Longrightarrow> hex_digit m = hex_digit n \<longleftrightarrow> m = n"
  by (simp add: hex_digit_def nth_eq_iff_index_eq)

section \<open>The contract of a text encoding\<close>

text \<open>
  A name function and its parser: the parser reads back what the name function writes and
  accepts nothing else.
\<close>

locale text_codec =
  fixes enc_name :: "'a \<Rightarrow> string"
    and dec_name :: "string \<Rightarrow> 'e + 'a"
  assumes dec_enc: "dec_name (enc_name a) = Inr a"
    and enc_dec: "dec_name s = Inr a \<Longrightarrow> s = enc_name a"
begin

lemma dec_Inr_iff: "dec_name s = Inr a \<longleftrightarrow> s = enc_name a"
  using dec_enc enc_dec by auto

lemma enc_inject: "enc_name a = enc_name b \<longleftrightarrow> a = b"
  by (metis dec_enc sum.inject(2))

lemma is_ok_dec_iff: "is_ok (dec_name s) \<longleftrightarrow> s \<in> range enc_name"
  by (auto simp: is_ok_iff dec_Inr_iff)

lemma dec_enc_list: "collect_results (map dec_name (map enc_name as)) = Inr as"
  by (simp only: collect_results_Inr_iff list.map_comp) (simp add: dec_enc)

end

section \<open>Rows of a table\<close>

text \<open>
  A table is the list of its rows in insertion order. \<open>row_find\<close> is a \<open>SELECT\<close> by key,
  \<open>row_update\<close> an \<open>UPDATE ... WHERE\<close>, \<open>unique_on\<close> a \<open>PRIMARY KEY\<close> or \<open>UNIQUE\<close> constraint.
\<close>

definition row_find :: "('r \<Rightarrow> 'k) \<Rightarrow> 'k \<Rightarrow> 'r list \<Rightarrow> 'r option" where
  "row_find key k t = find (\<lambda>r. key r = k) t"

definition row_update :: "('r \<Rightarrow> bool) \<Rightarrow> ('r \<Rightarrow> 'r) \<Rightarrow> 'r list \<Rightarrow> 'r list" where
  "row_update P f t = map (\<lambda>r. if P r then f r else r) t"

definition unique_on :: "('r \<Rightarrow> 'k) \<Rightarrow> 'r list \<Rightarrow> bool" where
  "unique_on key t = distinct (map key t)"

definition has_key :: "('r \<Rightarrow> 'k) \<Rightarrow> 'k \<Rightarrow> 'r list \<Rightarrow> bool" where
  "has_key key k t = list_ex (\<lambda>r. key r = k) t"

lemma has_key_iff: "has_key key k t \<longleftrightarrow> k \<in> key ` set t"
  by (auto simp: has_key_def list_ex_iff)

lemma row_find_None_iff: "row_find key k t = None \<longleftrightarrow> \<not> has_key key k t"
  by (auto simp: row_find_def find_None_iff has_key_def list_ex_iff)

lemma row_find_SomeD:
  "row_find key k t = Some r \<Longrightarrow> r \<in> set t \<and> key r = k"
  by (auto simp: row_find_def find_Some_iff)

lemma row_find_in_set: "unique_on key t \<Longrightarrow> r \<in> set t \<Longrightarrow> row_find key (key r) t = Some r"
  unfolding row_find_def unique_on_def
  by (induction t) (auto simp: image_iff)

lemma row_find_append:
  "row_find key k (t @ u) = (case row_find key k t of None \<Rightarrow> row_find key k u | Some r \<Rightarrow> Some r)"
  by (induction t) (auto simp: row_find_def)

lemma row_find_Nil [simp]: "row_find key k [] = None"
  by (simp add: row_find_def)

lemma row_find_Cons: "row_find key k (r # t) = (if key r = k then Some r else row_find key k t)"
  by (simp add: row_find_def)

lemma set_row_update: "set (row_update P f t) = (\<lambda>r. if P r then f r else r) ` set t"
  by (simp add: row_update_def)

lemma length_row_update [simp]: "length (row_update P f t) = length t"
  by (simp add: row_update_def)

lemma row_find_row_update:
  assumes "\<And>r. key (f r) = key r"
  shows "row_find key k (row_update P f t) =
    map_option (\<lambda>r. if P r then f r else r) (row_find key k t)"
  using assms by (induction t) (auto simp: row_find_def row_update_def)

lemma map_key_row_update:
  "(\<And>r. P r \<Longrightarrow> key (f r) = key r) \<Longrightarrow> map key (row_update P f t) = map key t"
  by (induction t) (auto simp: row_update_def)

lemma unique_on_row_update:
  "(\<And>r. P r \<Longrightarrow> key (f r) = key r) \<Longrightarrow> unique_on key (row_update P f t) = unique_on key t"
  by (simp add: unique_on_def map_key_row_update)

lemma has_key_row_update:
  "(\<And>r. P r \<Longrightarrow> key (f r) = key r) \<Longrightarrow> has_key key k (row_update P f t) = has_key key k t"
  unfolding has_key_iff by (simp only: set_map [symmetric] map_key_row_update)

lemma unique_on_append1 [simp]:
  "unique_on key (t @ [r]) \<longleftrightarrow> unique_on key t \<and> \<not> has_key key (key r) t"
  by (auto simp: unique_on_def has_key_iff)

lemma unique_on_Nil [simp]: "unique_on key []"
  by (simp add: unique_on_def)

lemma has_key_append1 [simp]: "has_key key k (t @ [r]) \<longleftrightarrow> has_key key k t \<or> key r = k"
  by (auto simp: has_key_iff)

lemma has_key_Nil [simp]: "\<not> has_key key k []"
  by (simp add: has_key_iff)

lemma unique_on_filter: "unique_on key t \<Longrightarrow> unique_on key (filter P t)"
  by (simp add: unique_on_def distinct_map_filter)

lemma unique_onD: "unique_on key t \<Longrightarrow> r \<in> set t \<Longrightarrow> s \<in> set t \<Longrightarrow> key r = key s \<Longrightarrow> r = s"
  by (auto simp: unique_on_def distinct_map inj_on_def)

end
