(* ===== verification/Fubun_Domain.thy ===== *)
theory Fubun_Domain
  imports Fubun_Prelude
begin

unbundle bit_operations_syntax

text \<open>
  Model of \<open>crates/fubun-domain/src/lib.rs\<close>: the enums as datatypes, the structs as records,
  and the validators with their error values in the order the code tests them. Field names carry
  a short prefix for the struct (\<open>ev_\<close> for \<open>Event\<close>, \<open>res_\<close> for \<open>Resource\<close> and so on), since
  Isabelle's record fields are global names.
\<close>

section \<open>Events\<close>

datatype actor = User | Fubun | System | Imported

datatype privacy_class = PrivacyNormal | PrivacySensitive

datatype event_type = SyntheticV1 | BrowserResourceOpenedV1 | VscodeWorkspaceOpenedV1

record adapter_identity =
  adp_id :: string
  adp_version :: string
  adp_instance_id :: uuid
  adp_sequence_no :: u64

record context_reference =
  ctx_project :: "string option"
  ctx_session :: "string option"

datatype event_data =
    Synthetic (syn_label: string) (syn_counter: "64 word")
  | BrowserResourceOpened (opened_resource_id: uuid)
  | VscodeWorkspaceOpened (opened_resource_id: uuid)

record event =
  ev_spec_version :: string
  ev_id :: uuid
  ev_type :: event_type
  ev_source :: string
  ev_occurred_at :: timestamp
  ev_received_at :: timestamp
  ev_actor :: actor
  ev_adapter :: adapter_identity
  ev_context :: "context_reference option"
  ev_privacy :: privacy_class
  ev_data :: event_data

definition EVENT_SPEC_VERSION :: string where
  "EVENT_SPEC_VERSION = ''1.0''"

datatype validation_error =
    UnsupportedSpecVersion string
  | EmptyField string
  | SequenceOutOfRange
  | LabelTooLong
  | TypeDataMismatch

definition validate_non_empty :: "string \<Rightarrow> string \<Rightarrow> validation_error + unit" where
  "validate_non_empty field s = (if is_blank s then Inl (EmptyField field) else Inr ())"

text \<open>\<open>i64::MAX as u64\<close>.\<close>

definition I64_MAX :: u64 where
  "I64_MAX = 9223372036854775807"

fun type_matches :: "event_type \<Rightarrow> event_data \<Rightarrow> bool" where
  "type_matches SyntheticV1 (Synthetic _ _) = True"
| "type_matches BrowserResourceOpenedV1 (BrowserResourceOpened _) = True"
| "type_matches VscodeWorkspaceOpenedV1 (VscodeWorkspaceOpened _) = True"
| "type_matches _ _ = False"

definition event_validate :: "event \<Rightarrow> validation_error + unit" where
  "event_validate e =
     (if ev_spec_version e \<noteq> EVENT_SPEC_VERSION
      then Inl (UnsupportedSpecVersion (ev_spec_version e))
      else and_then (validate_non_empty ''source'' (ev_source e)) (\<lambda>_.
        and_then (validate_non_empty ''adapter.id'' (adp_id (ev_adapter e))) (\<lambda>_.
        and_then (validate_non_empty ''adapter.version'' (adp_version (ev_adapter e))) (\<lambda>_.
        and_then (case ev_data e of
            Synthetic label _ \<Rightarrow> validate_non_empty ''data.label'' label
          | _ \<Rightarrow> Inr ()) (\<lambda>_.
        if I64_MAX < adp_sequence_no (ev_adapter e) then Inl SequenceOutOfRange
        else and_then (case ev_data e of
            Synthetic label _ \<Rightarrow> (if 128 < length label then Inl LabelTooLong else Inr ())
          | BrowserResourceOpened _ \<Rightarrow> Inr ()
          | VscodeWorkspaceOpened _ \<Rightarrow> Inr ()) (\<lambda>_.
        if \<not> type_matches (ev_type e) (ev_data e) then Inl TypeDataMismatch
        else Inr ()))))))"

text \<open>What a valid event is, written as one condition.\<close>

definition event_well_formed :: "event \<Rightarrow> bool" where
  "event_well_formed e \<longleftrightarrow>
     ev_spec_version e = EVENT_SPEC_VERSION \<and>
     \<not> is_blank (ev_source e) \<and> \<not> is_blank (adp_id (ev_adapter e)) \<and>
     \<not> is_blank (adp_version (ev_adapter e)) \<and>
     unat (adp_sequence_no (ev_adapter e)) < 2 ^ 63 \<and>
     type_matches (ev_type e) (ev_data e) \<and>
     (case ev_data e of Synthetic label _ \<Rightarrow> \<not> is_blank label \<and> length label \<le> 128 | _ \<Rightarrow> True)"

lemma I64_MAX_less_iff: "I64_MAX < n \<longleftrightarrow> \<not> unat n < 2 ^ 63" for n :: u64
  by (simp add: I64_MAX_def word_less_nat_alt not_less) arith

lemma validate_non_empty_Inr [simp]: "validate_non_empty f s = Inr () \<longleftrightarrow> \<not> is_blank s"
  by (simp add: validate_non_empty_def)

lemma event_validate_iff: "event_validate e = Inr () \<longleftrightarrow> event_well_formed e"
  by (cases "ev_data e")
     (auto simp: event_validate_def event_well_formed_def and_then_Inr_iff I64_MAX_less_iff
           split: if_splits)

lemma event_validate_is_ok: "is_ok (event_validate e) \<longleftrightarrow> event_well_formed e"
  by (simp add: is_ok_iff event_validate_iff)

section \<open>Resources\<close>

datatype resource_kind = File | Directory | WebPage

datatype resource_scope = Exact

datatype sensitivity = SensNormal | SensSensitive

record resource =
  res_id :: uuid
  res_kind :: resource_kind
  res_label :: string
  res_locator :: string
  res_canonical_locator :: string
  res_sensitivity :: sensitivity
  res_scope :: resource_scope
  res_created_at :: timestamp
  res_updated_at :: timestamp

datatype resource_validation_error =
    InvalidLabel | RelativePath | ControlCharacter | LocatorTooLong | InvalidCanonicalPath
  | InvalidWebUrl

datatype web_url_error = UnsupportedScheme | MissingHost | UserInfo | TooLong | Parse

definition WEB_URL_MAX_BYTES :: nat where
  "WEB_URL_MAX_BYTES = 2048"

text \<open>
  The operations of the crate \<open>url\<close> that the sources call. The crate is not part of the
  repository: a value of this record is an argument of everything that uses it.
\<close>

record 'u url_lib =
  url_parse :: "string \<Rightarrow> 'u option"
  url_scheme :: "'u \<Rightarrow> string"
  url_username :: "'u \<Rightarrow> string"
  url_password :: "'u \<Rightarrow> string option"
  url_host_str :: "'u \<Rightarrow> string option"
  url_port :: "'u \<Rightarrow> nat option"
  url_path :: "'u \<Rightarrow> string"
  url_set_query_none :: "'u \<Rightarrow> 'u"
  url_set_fragment_none :: "'u \<Rightarrow> 'u"
  url_set_path :: "string \<Rightarrow> 'u \<Rightarrow> 'u"
  url_set_port_none :: "'u \<Rightarrow> 'u option"
  url_to_string :: "'u \<Rightarrow> string"

text \<open>
  The block of \<open>canonicalize_web_url\<close> that edits the parsed URL: query and fragment dropped,
  an empty path replaced, the default port dropped.
\<close>

definition canonical_edit :: "'u url_lib \<Rightarrow> 'u \<Rightarrow> web_url_error + 'u" where
  "canonical_edit L u0 =
     (let u1 = url_set_query_none L u0;
          u2 = url_set_fragment_none L u1;
          u3 = (if url_path L u2 = [] then url_set_path L ''/'' u2 else u2)
      in if (url_scheme L u3 = ''http'' \<and> url_port L u3 = Some 80) \<or>
            (url_scheme L u3 = ''https'' \<and> url_port L u3 = Some 443)
         then ok_or Parse (url_set_port_none L u3)
         else Inr u3)"

definition canonicalize_web_url :: "'u url_lib \<Rightarrow> string \<Rightarrow> web_url_error + string" where
  "canonicalize_web_url L input =
     (if input = [] \<or> WEB_URL_MAX_BYTES < length input
      then Inl (if WEB_URL_MAX_BYTES < length input then TooLong else Parse)
      else and_then (ok_or Parse (url_parse L input)) (\<lambda>u.
        if url_scheme L u \<noteq> ''http'' \<and> url_scheme L u \<noteq> ''https'' then Inl UnsupportedScheme
        else if url_username L u \<noteq> [] \<or> url_password L u \<noteq> None then Inl UserInfo
        else if url_host_str L u = None then Inl MissingHost
        else and_then (canonical_edit L u) (\<lambda>u'.
          let canonical = url_to_string L u'
          in if WEB_URL_MAX_BYTES < length canonical then Inl TooLong else Inr canonical)))"

definition web_origin_pattern :: "'u url_lib \<Rightarrow> string \<Rightarrow> web_url_error + string" where
  "web_origin_pattern L canonical_url =
     and_then (ok_or Parse (url_parse L canonical_url)) (\<lambda>u.
     and_then (ok_or MissingHost (url_host_str L u)) (\<lambda>host.
       Inr (url_scheme L u @ ''://'' @ host @
            (case url_port L u of None \<Rightarrow> [] | Some p \<Rightarrow> '':'' @ decimal p) @ ''/*'')))"

text \<open>The output of \<open>{byte:02x}\<close> and of the table look-up in \<open>content_hash\<close>.\<close>

definition hex_byte :: "u8 \<Rightarrow> string" where
  "hex_byte b = [hex_digit (unat b div 16), hex_digit (unat b mod 16)]"

definition hex_byte_table :: "u8 \<Rightarrow> string" where
  "hex_byte_table b = [hex_digit (unat (drop_bit 4 b)), hex_digit (unat (b AND 15))]"

definition canonical_web_url_hash :: "(string \<Rightarrow> u8 list) \<Rightarrow> string \<Rightarrow> string" where
  "canonical_web_url_hash sha256 url = concat (map hex_byte (sha256 url))"

definition validate_path_string :: "string \<Rightarrow> resource_validation_error + unit" where
  "validate_path_string s =
     (if s = [] \<or> 4096 < length s \<or> list_ex (\<lambda>b. byte_val b = 0 \<or> byte_val b < 32) s
      then Inl (if 4096 < length s then LocatorTooLong else ControlCharacter)
      else Inr ())"

definition resource_validate :: "'u url_lib \<Rightarrow> resource \<Rightarrow> resource_validation_error + unit" where
  "resource_validate L r =
     (if \<not> (1 \<le> chars_count (res_label r) \<and> chars_count (res_label r) \<le> 128)
      then Inl InvalidLabel
      else if res_kind r = WebPage
      then and_then (map_err (\<lambda>_. InvalidWebUrl) (canonicalize_web_url L (res_locator r))) (\<lambda>canonical.
        if canonical \<noteq> res_locator r \<or> canonical \<noteq> res_canonical_locator r
        then Inl InvalidWebUrl else Inr ())
      else and_then (validate_path_string (res_locator r)) (\<lambda>_.
        and_then (validate_path_string (res_canonical_locator r)) (\<lambda>_.
        if \<not> path_is_absolute (res_locator r) then Inl RelativePath
        else if \<not> path_is_absolute (res_canonical_locator r) then Inl InvalidCanonicalPath
        else Inr ())))"

section \<open>Observation scopes\<close>

datatype observation_source = BrowserChromium | VscodeWorkspace

datatype observation_status = ObsActive | ObsPaused

record observation_scope =
  obs_id :: uuid
  obs_source :: observation_source
  obs_resource_id :: uuid
  obs_status :: observation_status
  obs_created_at :: timestamp
  obs_updated_at :: timestamp

section \<open>Actions\<close>

datatype action_spec =
    LinuxAppEnsureRunning (act_app_id: string)
  | LinuxPathOpen (act_resource_id: uuid)
  | DesktopNotificationShow (act_title: string) (act_body: string)
  | BrowserTabEnsureOpen (act_resource_id: uuid)

fun action_type :: "action_spec \<Rightarrow> string" where
  "action_type (LinuxAppEnsureRunning _) = ''linux.app.ensure_running.v1''"
| "action_type (LinuxPathOpen _) = ''linux.path.open.v1''"
| "action_type (DesktopNotificationShow _ _) = ''desktop.notification.show.v1''"
| "action_type (BrowserTabEnsureOpen _) = ''browser.tab.ensure_open.v1''"

datatype action_validation_error =
    InvalidAppId
  | InvalidNotification string nat

definition app_id_byte :: "char \<Rightarrow> bool" where
  "app_id_byte b = (is_ascii_alphanumeric b \<or> b = CHR ''.'' \<or> b = CHR ''_'' \<or> b = CHR ''-'')"

definition validate_app_id :: "string \<Rightarrow> action_validation_error + unit" where
  "validate_app_id app =
     (if app = [] \<or> 128 < length app \<or> \<not> list_all app_id_byte app
      then Inl InvalidAppId else Inr ())"

definition validate_notification :: "string \<Rightarrow> string \<Rightarrow> nat \<Rightarrow> action_validation_error + unit" where
  "validate_notification field s maximum =
     (if s = [] \<or> maximum < chars_count s \<or> has_control s
      then Inl (InvalidNotification field maximum) else Inr ())"

fun action_validate :: "action_spec \<Rightarrow> action_validation_error + unit" where
  "action_validate (LinuxAppEnsureRunning app) = validate_app_id app"
| "action_validate (LinuxPathOpen _) = Inr ()"
| "action_validate (DesktopNotificationShow title body) =
     and_then (validate_notification ''title'' title 128) (\<lambda>_. validate_notification ''body'' body 1024)"
| "action_validate (BrowserTabEnsureOpen _) = Inr ()"

section \<open>Rituals\<close>

datatype execution_mode = Sequential

datatype failure_mode = Stop

record ritual_execution_config =
  cfg_mode :: execution_mode
  cfg_on_failure :: failure_mode
  cfg_timeout_seconds :: u32

record ritual_definition =
  def_schema_version :: string
  def_name :: string
  def_actions :: "action_spec list"
  def_execution :: ritual_execution_config

definition RITUAL_SCHEMA_VERSION :: string where
  "RITUAL_SCHEMA_VERSION = ''dev.fubun.ritual/1''"

definition MAX_RITUAL_ACTIONS :: nat where
  "MAX_RITUAL_ACTIONS = 16"

datatype ritual_validation_error =
    UnsupportedSchemaVersion string
  | InvalidName
  | InvalidActionCount
  | InvalidAction nat action_validation_error
  | InvalidTimeout
  | ConsecutiveDuplicate nat

text \<open>The loop over \<open>self.actions.iter().enumerate()\<close>, from \<open>index\<close> on.\<close>

fun validate_actions_from ::
    "action_spec list \<Rightarrow> nat \<Rightarrow> action_spec list \<Rightarrow> ritual_validation_error + unit" where
  "validate_actions_from actions index [] = Inr ()"
| "validate_actions_from actions index (action # rest) =
     and_then (map_err (InvalidAction index) (action_validate action)) (\<lambda>_.
       if 0 < index \<and> actions ! (index - 1) = action then Inl (ConsecutiveDuplicate index)
       else validate_actions_from actions (index + 1) rest)"

definition ritual_validate :: "ritual_definition \<Rightarrow> ritual_validation_error + unit" where
  "ritual_validate d =
     (if def_schema_version d \<noteq> RITUAL_SCHEMA_VERSION
      then Inl (UnsupportedSchemaVersion (def_schema_version d))
      else if \<not> (1 \<le> chars_count (def_name d) \<and> chars_count (def_name d) \<le> 128) \<or> has_control (def_name d)
      then Inl InvalidName
      else if def_actions d = [] \<or> MAX_RITUAL_ACTIONS < length (def_actions d)
      then Inl InvalidActionCount
      else if cfg_timeout_seconds (def_execution d) = 0 \<or> 120 < cfg_timeout_seconds (def_execution d)
      then Inl InvalidTimeout
      else validate_actions_from (def_actions d) 0 (def_actions d))"

text \<open>
  \<open>content_hash\<close>: the SHA-256 digest (the crate \<open>sha2\<close>) of the JSON text (\<open>serde_json\<close>), in
  lower-case hexadecimal. Both crates are parameters.
\<close>

definition content_hash ::
    "(ritual_definition \<Rightarrow> string option) \<Rightarrow> (string \<Rightarrow> u8 list) \<Rightarrow> ritual_definition \<Rightarrow> string option" where
  "content_hash to_json sha256 d =
     (case to_json d of None \<Rightarrow> None
      | Some canonical \<Rightarrow> Some (concat (map hex_byte_table (sha256 canonical))))"

datatype ritual_status = RitualDraft | RitualActive | RitualPaused | RitualArchived

record ritual =
  rit_id :: uuid
  rit_name :: string
  rit_status :: ritual_status
  rit_current_version_id :: uuid
  rit_created_at :: timestamp
  rit_updated_at :: timestamp

record ritual_version =
  ver_id :: uuid
  ver_ritual_id :: uuid
  ver_version :: u32
  ver_schema_version :: string
  ver_canonical_json :: string
  ver_content_hash :: string
  ver_created_at :: timestamp

record approval =
  apr_id :: uuid
  apr_ritual_version_id :: uuid
  apr_action_type :: string
  apr_capability :: string
  apr_resource_id :: "uuid option"
  apr_app_id :: "string option"
  apr_content_hash :: string
  apr_approved_at :: timestamp

datatype trigger_kind = Manual

datatype execution_status =
    ExecPlanned | ExecRunning | ExecSucceeded | ExecFailed | ExecPartial | ExecAborted

record execution =
  exe_id :: uuid
  exe_ritual_id :: uuid
  exe_ritual_version_id :: uuid
  exe_status :: execution_status
  exe_trigger_kind :: trigger_kind
  exe_started_at :: timestamp
  exe_finished_at :: "timestamp option"
  exe_failure_code :: "string option"
  exe_created_at :: timestamp

datatype execution_step_status =
    StepPending | StepRunning | StepSucceeded | StepSkipped | StepFailed | StepAborted

record execution_step =
  stp_id :: uuid
  stp_execution_id :: uuid
  stp_step_index :: u32
  stp_action_type :: string
  stp_status :: execution_step_status
  stp_adapter_id :: "string option"
  stp_adapter_instance_id :: "uuid option"
  stp_started_at :: timestamp
  stp_finished_at :: "timestamp option"
  stp_result_code :: "string option"
  stp_redacted_message :: "string option"

section \<open>Lemmas about the validators\<close>

lemma is_ok_unit_iff: "is_ok r \<longleftrightarrow> r = Inr ()"
  by (cases r) auto

lemma validate_app_id_iff:
  "validate_app_id app = Inr () \<longleftrightarrow> app \<noteq> [] \<and> length app \<le> 128 \<and> list_all app_id_byte app"
  by (auto simp: validate_app_id_def)

lemma validate_notification_iff:
  "validate_notification f s m = Inr () \<longleftrightarrow> s \<noteq> [] \<and> chars_count s \<le> m \<and> \<not> has_control s"
  by (auto simp: validate_notification_def)

lemma app_id_byte_range:
  "app_id_byte c \<Longrightarrow> 45 \<le> byte_val c \<and> byte_val c \<le> 122 \<and> byte_val c \<noteq> 47 \<and> byte_val c \<noteq> 92"
  by (auto simp: app_id_byte_def is_ascii_alphanumeric_def byte_val_def)

lemma app_id_no_separator:
  assumes "list_all app_id_byte app"
  shows "CHR ''/'' \<notin> set app" "CHR 0x5C \<notin> set app" "CHR '' '' \<notin> set app"
  using assms by (auto simp: list_all_iff app_id_byte_def is_ascii_alphanumeric_def byte_val_def)

lemma ascii_not_continuation: "byte_val c < 128 \<Longrightarrow> \<not> is_continuation c"
  by (simp add: is_continuation_def)

lemma chars_ascii: "list_all (\<lambda>c. byte_val c < 128) s \<Longrightarrow> chars s = map (\<lambda>c. [c]) s"
proof (induction s rule: chars.induct)
  case 1
  then show ?case by simp
next
  case (2 b bs)
  then have "takeWhile is_continuation bs = []" and dw: "dropWhile is_continuation bs = bs"
    by (cases bs; simp add: ascii_not_continuation)+
  then show ?case using 2 by simp
qed

lemma app_id_no_control: "list_all app_id_byte app \<Longrightarrow> \<not> has_control app"
  by (subst has_control_def, subst chars_ascii)
     (auto simp: list_all_iff list_ex_iff dest!: app_id_byte_range)

lemma validate_actions_from_ok:
  assumes "actions = pre @ xs" "index = length pre"
  shows "validate_actions_from actions index xs = Inr () \<longleftrightarrow>
    (\<forall>a \<in> set xs. action_validate a = Inr ()) \<and>
    distinct_adj (if pre = [] then xs else last pre # xs)"
  using assms
proof (induction actions index xs arbitrary: pre rule: validate_actions_from.induct)
  case (1 actions index)
  then show ?case by simp
next
  case (2 actions index action rest)
  have IH: "\<not> (0 < index \<and> actions ! (index - 1) = action) \<Longrightarrow> action_validate action = Inr () \<Longrightarrow>
    validate_actions_from actions (index + 1) rest = Inr () \<longleftrightarrow>
      (\<forall>a \<in> set rest. action_validate a = Inr ()) \<and> distinct_adj (action # rest)"
    using "2.IH" [of "pre @ [action]"] "2.prems" by (simp add: and_then_def)
  have prev: "0 < index \<Longrightarrow> actions ! (index - 1) = last pre"
    using "2.prems" by (cases pre rule: rev_cases) (simp_all add: nth_append)
  show ?case
  proof (cases "action_validate action")
    case (Inl e)
    then show ?thesis by simp
  next
    case (Inr u)
    show ?thesis
    proof (cases "0 < index \<and> actions ! (index - 1) = action")
      case True
      with Inr prev "2.prems" show ?thesis by auto
    next
      case False
      with Inr IH prev "2.prems" show ?thesis by (cases "pre = []") (auto simp: False)
    qed
  qed
qed

definition timeout_in_range :: "u32 \<Rightarrow> bool" where
  "timeout_in_range t \<longleftrightarrow> 1 \<le> unat t \<and> unat t \<le> 120"

lemma timeout_in_range_iff: "\<not> (t = 0 \<or> 120 < t) \<longleftrightarrow> timeout_in_range t"
proof -
  have "120 < t \<longleftrightarrow> 120 < unat t" by (simp add: word_less_nat_alt)
  moreover have "t = 0 \<longleftrightarrow> unat t = 0" by (simp add: unat_eq_0)
  ultimately show ?thesis by (auto simp: timeout_in_range_def)
qed

definition ritual_well_formed :: "ritual_definition \<Rightarrow> bool" where
  "ritual_well_formed d \<longleftrightarrow>
     def_schema_version d = RITUAL_SCHEMA_VERSION \<and>
     1 \<le> chars_count (def_name d) \<and> chars_count (def_name d) \<le> 128 \<and> \<not> has_control (def_name d) \<and>
     1 \<le> length (def_actions d) \<and> length (def_actions d) \<le> MAX_RITUAL_ACTIONS \<and>
     timeout_in_range (cfg_timeout_seconds (def_execution d)) \<and>
     (\<forall>a \<in> set (def_actions d). action_validate a = Inr ()) \<and>
     distinct_adj (def_actions d)"

lemma ritual_validate_iff: "ritual_validate d = Inr () \<longleftrightarrow> ritual_well_formed d"
  using timeout_in_range_iff [of "cfg_timeout_seconds (def_execution d)"]
    validate_actions_from_ok [of "def_actions d" "[]" "def_actions d" 0]
  by (auto simp: ritual_validate_def ritual_well_formed_def Suc_le_eq split: if_splits)

lemma validate_actions_from_Inl:
  assumes "validate_actions_from actions index xs = Inl e"
    and "actions = pre @ xs" "index = length pre"
  shows "\<exists>i < length actions. index \<le> i \<and>
    (\<forall>j. index \<le> j \<and> j < i \<longrightarrow> action_validate (actions ! j) = Inr ()) \<and>
    ((\<exists>f. e = InvalidAction i f \<and> action_validate (actions ! i) = Inl f) \<or>
     (e = ConsecutiveDuplicate i \<and> 0 < i \<and> actions ! (i - 1) = actions ! i))"
  using assms
proof (induction actions index xs arbitrary: pre rule: validate_actions_from.induct)
  case (1 actions index)
  then show ?case by simp
next
  case (2 actions index action rest)
  have here: "actions ! index = action" "index < length actions"
    using "2.prems" by (simp_all add: nth_append)
  show ?case
  proof (cases "action_validate action")
    case (Inl f)
    with "2.prems"(1) have "e = InvalidAction index f" by simp
    with Inl here show ?thesis by (intro exI [of _ index]) auto
  next
    case (Inr u)
    show ?thesis
    proof (cases "0 < index \<and> actions ! (index - 1) = action")
      case True
      with Inr "2.prems"(1) have "e = ConsecutiveDuplicate index" by simp
      with True here show ?thesis by (intro exI [of _ index]) auto
    next
      case False
      with Inr "2.prems"(1) have "validate_actions_from actions (index + 1) rest = Inl e"
        by (auto split: if_splits)
      then obtain i where i: "i < length actions" "index + 1 \<le> i"
        "\<forall>j. index + 1 \<le> j \<and> j < i \<longrightarrow> action_validate (actions ! j) = Inr ()"
        "(\<exists>f. e = InvalidAction i f \<and> action_validate (actions ! i) = Inl f) \<or>
         (e = ConsecutiveDuplicate i \<and> 0 < i \<and> actions ! (i - 1) = actions ! i)"
        using "2.IH" [OF False, of "pre @ [action]"] "2.prems" by auto
      have "action_validate (actions ! j) = Inr ()" if "index \<le> j" "j < i" for j
        using that i(3) here(1) Inr by (cases "j = index") auto
      with i show ?thesis by (intro exI [of _ i]) auto
    qed
  qed
qed

lemma hex_byte_eq_table: "hex_byte_table b = hex_byte b"
proof -
  have "unat (drop_bit 4 b) = unat b div 16"
    by (simp add: drop_bit_eq_div unat_div)
  moreover have "unat (b AND 15) = unat b mod 16"
  proof -
    have "b AND 15 = take_bit 4 b" by (simp add: take_bit_eq_mask mask_eq_exp_minus_1)
    then show ?thesis by (simp add: take_bit_eq_mod unat_mod_distrib)
  qed
  ultimately show ?thesis by (simp add: hex_byte_def hex_byte_table_def)
qed

lemma length_hex [simp]: "length (concat (map hex_byte bs)) = 2 * length bs"
  by (induction bs) (simp_all add: hex_byte_def)

lemma hex_byte_inject: "hex_byte a = hex_byte b \<longleftrightarrow> a = b"
proof
  assume "hex_byte a = hex_byte b"
  moreover have "unat a < 256" "unat b < 256" using unsigned_less [of a] unsigned_less [of b] by simp_all
  ultimately have "unat a div 16 = unat b div 16" "unat a mod 16 = unat b mod 16"
    by (simp_all add: hex_byte_def hex_digit_inj less_mult_imp_div_less)
  then have "unat a = unat b" by (metis mult_div_mod_eq)
  then show "a = b" by (simp only: word_unat_eq_iff)
qed simp

lemma hex_inject: "concat (map hex_byte as) = concat (map hex_byte bs) \<longleftrightarrow> as = bs"
proof (induction as arbitrary: bs)
  case Nil
  then show ?case by (cases bs) (simp_all add: hex_byte_def)
next
  case (Cons a as)
  have two: "hex_byte x @ r = hex_byte y @ s \<longleftrightarrow> hex_byte x = hex_byte y \<and> r = s" for x y r s
    by (simp add: hex_byte_def)
  show ?case
  proof (cases bs)
    case Nil
    then show ?thesis by (simp add: hex_byte_def)
  next
    case (Cons b bs')
    with Cons.IH show ?thesis by (simp add: two hex_byte_inject)
  qed
qed

section \<open>The canonical form of a web URL\<close>

text \<open>
  What the code relies on of the crate \<open>url\<close>, from its documentation: a serialised URL parses
  back to the same value; the setters write one component and leave the others; a cleared
  component stays cleared; \<open>set_path("/")\<close> makes the path \<open>/\<close>; clearing the port leaves none.
\<close>

definition url_authority :: "'u url_lib \<Rightarrow> 'u \<Rightarrow> string \<times> string \<times> string option \<times> string option" where
  "url_authority L u = (url_scheme L u, url_username L u, url_password L u, url_host_str L u)"

definition url_lib_laws :: "'u url_lib \<Rightarrow> bool" where
  "url_lib_laws L \<longleftrightarrow>
     (\<forall>u. url_to_string L u \<noteq> [] \<and> url_parse L (url_to_string L u) = Some u) \<and>
     (\<forall>u. url_authority L (url_set_query_none L u) = url_authority L u \<and>
          url_authority L (url_set_fragment_none L u) = url_authority L u \<and>
          (\<forall>p. url_authority L (url_set_path L p u) = url_authority L u)) \<and>
     (\<forall>u. url_set_query_none L (url_set_query_none L u) = url_set_query_none L u \<and>
          url_set_fragment_none L (url_set_fragment_none L u) = url_set_fragment_none L u \<and>
          url_set_fragment_none L (url_set_query_none L u) =
            url_set_query_none L (url_set_fragment_none L u)) \<and>
     (\<forall>u p. url_set_query_none L (url_set_path L p u) = url_set_path L p (url_set_query_none L u) \<and>
          url_set_fragment_none L (url_set_path L p u) =
            url_set_path L p (url_set_fragment_none L u)) \<and>
     (\<forall>u. url_path L (url_set_path L ''/'' u) = ''/'') \<and>
     (\<forall>u v. url_set_port_none L u = Some v \<longrightarrow>
        url_port L v = None \<and> url_path L v = url_path L u \<and>
        url_authority L v = url_authority L u \<and>
        url_set_port_none L (url_set_query_none L u) = Some (url_set_query_none L v) \<and>
        url_set_port_none L (url_set_fragment_none L u) = Some (url_set_fragment_none L v))"

text \<open>A URL value that \<open>canonicalize_web_url\<close> leaves alone.\<close>

definition url_canonical :: "'u url_lib \<Rightarrow> 'u \<Rightarrow> bool" where
  "url_canonical L u \<longleftrightarrow>
     (url_scheme L u = ''http'' \<or> url_scheme L u = ''https'') \<and>
     url_username L u = [] \<and> url_password L u = None \<and> url_host_str L u \<noteq> None \<and>
     url_set_query_none L u = u \<and> url_set_fragment_none L u = u \<and> url_path L u \<noteq> [] \<and>
     \<not> (url_scheme L u = ''http'' \<and> url_port L u = Some 80) \<and>
     \<not> (url_scheme L u = ''https'' \<and> url_port L u = Some 443)"

lemma canonical_edit_canonical:
  assumes laws: "url_lib_laws L"
    and u: "url_scheme L u = ''http'' \<or> url_scheme L u = ''https''"
      "url_username L u = []" "url_password L u = None" "url_host_str L u \<noteq> None"
    and edit: "canonical_edit L u = Inr v"
  shows "url_canonical L v"
proof -
  define w where "w = url_set_fragment_none L (url_set_query_none L u)"
  define x where "x = (if url_path L w = [] then url_set_path L ''/'' w else w)"
  have w: "url_set_query_none L w = w" "url_set_fragment_none L w = w"
    using laws unfolding w_def url_lib_laws_def by metis+
  have x: "url_set_query_none L x = x" "url_set_fragment_none L x = x" "url_path L x \<noteq> []"
    "url_authority L x = url_authority L u"
    using laws w unfolding x_def url_lib_laws_def by (auto simp: w_def)
  have "url_set_port_none L x = Some v \<or> v = x \<and>
      \<not> (url_scheme L x = ''http'' \<and> url_port L x = Some 80) \<and>
      \<not> (url_scheme L x = ''https'' \<and> url_port L x = Some 443)"
    using edit unfolding canonical_edit_def Let_def w_def [symmetric] x_def [symmetric]
    by (auto split: if_splits)
  then show ?thesis
  proof
    assume port: "url_set_port_none L x = Some v"
    with laws have v: "url_port L v = None" "url_path L v = url_path L x"
      "url_authority L v = url_authority L x"
      "url_set_port_none L x = Some (url_set_query_none L v)"
      "url_set_port_none L x = Some (url_set_fragment_none L v)"
      using x(1,2) unfolding url_lib_laws_def by metis+
    with port x u show ?thesis by (simp add: url_canonical_def url_authority_def)
  next
    assume "v = x \<and> \<not> (url_scheme L x = ''http'' \<and> url_port L x = Some 80) \<and>
       \<not> (url_scheme L x = ''https'' \<and> url_port L x = Some 443)"
    with x u show ?thesis by (simp add: url_canonical_def url_authority_def)
  qed
qed

lemma canonicalize_Inr_obtain:
  assumes "url_lib_laws L" "canonicalize_web_url L s = Inr c"
  obtains v where "c = url_to_string L v" "url_canonical L v" "length c \<le> WEB_URL_MAX_BYTES"
proof -
  from assms(2) obtain u v where uv: "url_scheme L u = ''http'' \<or> url_scheme L u = ''https''"
      "url_username L u = []" "url_password L u = None" "url_host_str L u \<noteq> None"
      "canonical_edit L u = Inr v" "c = url_to_string L v" "length c \<le> WEB_URL_MAX_BYTES"
    by (auto simp: canonicalize_web_url_def and_then_Inr_iff Let_def not_less split: if_splits)
  from uv(6) canonical_edit_canonical [OF assms(1) uv(1-5)] uv(7) show thesis by (rule that)
qed

lemma canonicalize_canonical:
  assumes "url_lib_laws L" "url_canonical L v" "length (url_to_string L v) \<le> WEB_URL_MAX_BYTES"
  shows "canonicalize_web_url L (url_to_string L v) = Inr (url_to_string L v)"
proof -
  have "url_to_string L v \<noteq> []" "url_parse L (url_to_string L v) = Some v"
    using assms(1) by (simp_all add: url_lib_laws_def)
  moreover have "canonical_edit L v = Inr v"
    using assms(2) by (auto simp: canonical_edit_def url_canonical_def Let_def)
  ultimately show ?thesis
    using assms(2,3) by (auto simp: canonicalize_web_url_def url_canonical_def)
qed

lemma canonicalize_fixpoint:
  assumes "url_lib_laws L" "canonicalize_web_url L s = Inr c"
  shows "canonicalize_web_url L c = Inr c"
proof -
  from assms obtain v where "c = url_to_string L v" "url_canonical L v"
    "length c \<le> WEB_URL_MAX_BYTES" by (rule canonicalize_Inr_obtain)
  with canonicalize_canonical [OF assms(1), of v] show ?thesis by simp
qed

section \<open>Properties\<close>

text \<open>C36: \<open>RitualDefinition::validate\<close> accepts a definition exactly when it has the supported
  schema version, a name of 1 to 128 characters without control characters, 1 to 16 actions that
  are each valid with no two consecutive ones equal, and a timeout of 1 to 120 seconds.\<close>

theorem ritual_validate_exact: "ritual_validate d = Inr () \<longleftrightarrow> ritual_well_formed d"
  by (rule ritual_validate_iff)

text \<open>the action error that \<open>RitualDefinition::validate\<close> reports is the first one: it names
  an index in range, every earlier action is valid, and the action at the index is invalid or
  repeats its predecessor.\<close>

lemma ritual_validate_first_error:
  assumes "ritual_validate d = Inl e"
    and "e = InvalidAction i f \<or> e = ConsecutiveDuplicate i"
  shows "i < length (def_actions d) \<and>
    (\<forall>j < i. action_validate (def_actions d ! j) = Inr ()) \<and>
    (if e = ConsecutiveDuplicate i
     then 0 < i \<and> def_actions d ! (i - 1) = def_actions d ! i
     else action_validate (def_actions d ! i) = Inl f)"
proof -
  have "validate_actions_from (def_actions d) 0 (def_actions d) = Inl e"
    using assms by (auto simp: ritual_validate_def split: if_splits)
  from validate_actions_from_Inl [OF this, of "[]"] assms(2) show ?thesis by auto
qed

definition sample_ritual :: "action_spec list \<Rightarrow> ritual_definition" where
  "sample_ritual actions = \<lparr>def_schema_version = ''dev.fubun.ritual/1'', def_name = ''x'',
     def_actions = actions,
     def_execution = \<lparr>cfg_mode = Sequential, cfg_on_failure = Stop, cfg_timeout_seconds = 10\<rparr>\<rparr>"

lemma ritual_validate_first_error_witness:
  "\<exists>d e i f. ritual_validate d = Inl e \<and> e = InvalidAction i f \<and> i = 1 \<and> i < length (def_actions d)"
proof -
  let ?d = "sample_ritual [LinuxPathOpen 7, LinuxAppEnsureRunning ''../x'']"
  have v: "ritual_validate ?d = Inl (InvalidAction 1 InvalidAppId)" by code_simp
  from ritual_validate_first_error [OF v, of 1 InvalidAppId] have "1 < length (def_actions ?d)" by simp
  with v show ?thesis by blast
qed

text \<open>\<open>Event::validate\<close> accepts an event exactly when its version is supported, its source
  and adapter identity are not blank, its sequence number fits SQLite's signed 64-bit range, its
  type matches its payload, and a synthetic label is not blank and has at most 128 bytes.\<close>

lemma event_validate_exact: "event_validate e = Inr () \<longleftrightarrow> event_well_formed e"
  by (rule event_validate_iff)


text \<open>A concrete library with one page, with (\<open>False\<close>) and without (\<open>True\<close>) a query.\<close>

definition sample_url_lib :: "bool url_lib" where
  "sample_url_lib = \<lparr>
     url_parse = (\<lambda>s. if s = ''https://e.x/?q=1'' then Some False
                      else if s = ''https://e.x/'' then Some True else None),
     url_scheme = (\<lambda>_. ''https''), url_username = (\<lambda>_. []), url_password = (\<lambda>_. None),
     url_host_str = (\<lambda>_. Some ''e.x''), url_port = (\<lambda>_. None), url_path = (\<lambda>_. ''/''),
     url_set_query_none = (\<lambda>_. True), url_set_fragment_none = (\<lambda>u. u),
     url_set_path = (\<lambda>_ u. u), url_set_port_none = Some,
     url_to_string = (\<lambda>u. if u then ''https://e.x/'' else ''https://e.x/?q=1'')\<rparr>"

lemma sample_url_lib_laws: "url_lib_laws sample_url_lib"
  by (simp add: url_lib_laws_def sample_url_lib_def url_authority_def)


text \<open>\<open>content_hash\<close> identifies the digest: two definitions that serialise have the same hash
  text exactly when the digests of their JSON texts agree; the text has two characters per digest
  byte and is what \<open>canonical_web_url_hash\<close> prints for the same bytes.\<close>

lemma content_hash_identifies_digest:
  assumes "to_json d = Some j" and "to_json d' = Some j'"
  shows "(content_hash to_json sha d = content_hash to_json sha d' \<longleftrightarrow> sha j = sha j') \<and>
    map_option length (content_hash to_json sha d) = Some (2 * length (sha j)) \<and>
    content_hash to_json sha d = Some (canonical_web_url_hash sha j)"
  using assms
  by (simp add: content_hash_def canonical_web_url_hash_def hex_byte_eq_table hex_inject
      cong: map_cong)

lemma content_hash_identifies_digest_witness:
  "content_hash (\<lambda>d. Some (def_name d)) (map (\<lambda>c. word_of_nat (byte_val c))) (sample_ritual [])
     = Some ''78''"
proof -
  let ?j = "\<lambda>d. Some (def_name d)" and ?sha = "map (\<lambda>c. word_of_nat (byte_val c)) :: string \<Rightarrow> u8 list"
  have "?j (sample_ritual []) = Some ''x''" by (simp add: sample_ritual_def)
  from content_hash_identifies_digest [where to_json = ?j and sha = ?sha, OF this this]
  show ?thesis
    by (simp add: canonical_web_url_hash_def hex_byte_def hex_digit_def byte_val_def)
qed

end
