(* ===== verification/Fubun_Policy.thy ===== *)
theory Fubun_Policy
  imports Fubun_Domain
begin

text \<open>
  Model of \<open>crates/fubun-policy/src/lib.rs\<close>: the fixed action registry, the fields an approval
  binds, and the risk policy. The \<open>'static\<close> descriptors are constants.
\<close>

section \<open>The registry\<close>

datatype risk_level = R0 | R1 | R2 | R3

datatype idempotency = Idempotent | BestEffort | NonIdempotent

datatype revertability = NoStateChange | PartiallyRevertable | NotRevertable

text \<open>\<open>risk_level as u8\<close>.\<close>

fun risk_value :: "risk_level \<Rightarrow> u8" where
  "risk_value R0 = 0" | "risk_value R1 = 1" | "risk_value R2 = 2" | "risk_value R3 = 3"

record action_descriptor =
  dsc_action_type :: string
  dsc_schema_version :: string
  dsc_risk_level :: risk_level
  dsc_idempotency :: idempotency
  dsc_revertability :: revertability
  dsc_required_capability :: string
  dsc_default_timeout_ms :: u64

definition APP_ENSURE_RUNNING :: action_descriptor where
  "APP_ENSURE_RUNNING = \<lparr>dsc_action_type = ''linux.app.ensure_running.v1'',
     dsc_schema_version = ''1'', dsc_risk_level = R1, dsc_idempotency = BestEffort,
     dsc_revertability = NotRevertable,
     dsc_required_capability = ''linux.app.ensure_running.v1'', dsc_default_timeout_ms = 10000\<rparr>"

definition PATH_OPEN :: action_descriptor where
  "PATH_OPEN = \<lparr>dsc_action_type = ''linux.path.open.v1'',
     dsc_schema_version = ''1'', dsc_risk_level = R1, dsc_idempotency = BestEffort,
     dsc_revertability = NoStateChange,
     dsc_required_capability = ''linux.path.open.v1'', dsc_default_timeout_ms = 10000\<rparr>"

definition NOTIFICATION_SHOW :: action_descriptor where
  "NOTIFICATION_SHOW = \<lparr>dsc_action_type = ''desktop.notification.show.v1'',
     dsc_schema_version = ''1'', dsc_risk_level = R0, dsc_idempotency = NonIdempotent,
     dsc_revertability = NoStateChange,
     dsc_required_capability = ''desktop.notification.show.v1'', dsc_default_timeout_ms = 10000\<rparr>"

definition BROWSER_TAB_ENSURE_OPEN :: action_descriptor where
  "BROWSER_TAB_ENSURE_OPEN = \<lparr>dsc_action_type = ''browser.tab.ensure_open.v1'',
     dsc_schema_version = ''1'', dsc_risk_level = R1, dsc_idempotency = BestEffort,
     dsc_revertability = PartiallyRevertable,
     dsc_required_capability = ''browser.tab.ensure_open.v1'', dsc_default_timeout_ms = 10000\<rparr>"

definition descriptors :: "action_descriptor list" where
  "descriptors = [APP_ENSURE_RUNNING, PATH_OPEN, NOTIFICATION_SHOW, BROWSER_TAB_ENSURE_OPEN]"

fun descriptor :: "action_spec \<Rightarrow> action_descriptor" where
  "descriptor (LinuxAppEnsureRunning _) = APP_ENSURE_RUNNING"
| "descriptor (LinuxPathOpen _) = PATH_OPEN"
| "descriptor (DesktopNotificationShow _ _) = NOTIFICATION_SHOW"
| "descriptor (BrowserTabEnsureOpen _) = BROWSER_TAB_ENSURE_OPEN"

definition descriptor_by_type :: "string \<Rightarrow> action_descriptor option" where
  "descriptor_by_type t =
     (if t = ''linux.app.ensure_running.v1'' then Some APP_ENSURE_RUNNING
      else if t = ''linux.path.open.v1'' then Some PATH_OPEN
      else if t = ''desktop.notification.show.v1'' then Some NOTIFICATION_SHOW
      else if t = ''browser.tab.ensure_open.v1'' then Some BROWSER_TAB_ENSURE_OPEN
      else None)"

lemmas descriptor_defs =
  APP_ENSURE_RUNNING_def PATH_OPEN_def NOTIFICATION_SHOW_def BROWSER_TAB_ENSURE_OPEN_def

section \<open>Approval fields\<close>

record approval_fields_t =
  apf_action_type :: string
  apf_capability :: string
  apf_resource_id :: "uuid option"
  apf_app_id :: "string option"

fun approval_fields :: "action_spec \<Rightarrow> approval_fields_t" where
  "approval_fields (LinuxAppEnsureRunning app) =
     (let d = descriptor (LinuxAppEnsureRunning app)
      in \<lparr>apf_action_type = dsc_action_type d, apf_capability = dsc_required_capability d,
          apf_resource_id = None, apf_app_id = Some app\<rparr>)"
| "approval_fields (LinuxPathOpen rid) =
     (let d = descriptor (LinuxPathOpen rid)
      in \<lparr>apf_action_type = dsc_action_type d, apf_capability = dsc_required_capability d,
          apf_resource_id = Some rid, apf_app_id = None\<rparr>)"
| "approval_fields (DesktopNotificationShow t b) =
     (let d = descriptor (DesktopNotificationShow t b)
      in \<lparr>apf_action_type = dsc_action_type d, apf_capability = dsc_required_capability d,
          apf_resource_id = None, apf_app_id = None\<rparr>)"
| "approval_fields (BrowserTabEnsureOpen rid) =
     (let d = descriptor (BrowserTabEnsureOpen rid)
      in \<lparr>apf_action_type = dsc_action_type d, apf_capability = dsc_required_capability d,
          apf_resource_id = Some rid, apf_app_id = None\<rparr>)"

section \<open>The risk policy\<close>

datatype policy_error = UnknownAction | RiskNotPermitted

definition validate_action :: "action_spec \<Rightarrow> policy_error + action_descriptor" where
  "validate_action action =
     (let d = descriptor action
      in if risk_value R1 < risk_value (dsc_risk_level d) then Inl RiskNotPermitted else Inr d)"

section \<open>Lemmas\<close>

lemma dsc_action_types:
  "dsc_action_type APP_ENSURE_RUNNING = ''linux.app.ensure_running.v1''"
  "dsc_action_type PATH_OPEN = ''linux.path.open.v1''"
  "dsc_action_type NOTIFICATION_SHOW = ''desktop.notification.show.v1''"
  "dsc_action_type BROWSER_TAB_ENSURE_OPEN = ''browser.tab.ensure_open.v1''"
  by (simp_all add: descriptor_defs)

lemma descriptor_by_type_registered:
  "d \<in> set descriptors \<Longrightarrow> descriptor_by_type (dsc_action_type d) = Some d"
  unfolding descriptors_def by (elim set_ConsD [elim_format] disjE)
    (simp_all add: descriptor_by_type_def dsc_action_types)

lemma descriptor_by_type_SomeD:
  "descriptor_by_type t = Some d \<Longrightarrow> d \<in> set descriptors \<and> dsc_action_type d = t"
  by (simp add: descriptor_by_type_def descriptors_def dsc_action_types split: if_splits)

lemma descriptor_by_type_iff:
  "descriptor_by_type t = Some d \<longleftrightarrow> d \<in> set descriptors \<and> dsc_action_type d = t"
  using descriptor_by_type_registered descriptor_by_type_SomeD by metis

lemma descriptor_in_registry: "descriptor a \<in> set descriptors"
  by (cases a) (simp_all add: descriptors_def)

lemma action_type_descriptor: "dsc_action_type (descriptor a) = action_type a"
  by (cases a) (simp_all add: descriptor_defs)

lemma capability_descriptor: "dsc_required_capability (descriptor a) = action_type a"
  by (cases a) (simp_all add: descriptor_defs)

lemma validate_action_Inr [simp]: "validate_action a = Inr (descriptor a)"
  by (cases a) (simp_all add: validate_action_def descriptor_defs)

lemma default_timeout_ms: "dsc_default_timeout_ms (descriptor a) = 10000"
  by (cases a) (simp_all add: descriptor_defs)

text \<open>What an approval binds of an action: everything but the text of a notification.\<close>

fun same_target :: "action_spec \<Rightarrow> action_spec \<Rightarrow> bool" where
  "same_target (LinuxAppEnsureRunning a) (LinuxAppEnsureRunning b) = (a = b)"
| "same_target (LinuxPathOpen a) (LinuxPathOpen b) = (a = b)"
| "same_target (DesktopNotificationShow _ _) (DesktopNotificationShow _ _) = True"
| "same_target (BrowserTabEnsureOpen a) (BrowserTabEnsureOpen b) = (a = b)"
| "same_target _ _ = False"

lemma approval_fields_eq_iff: "approval_fields a = approval_fields b \<longleftrightarrow> same_target a b"
  by (cases a; cases b) (simp_all add: descriptor_defs)

section \<open>Properties\<close>

text \<open>the registry is closed and consistent: every action maps to a registered descriptor of
  its own type and capability, looking a type up finds exactly the registered descriptors, and the
  policy admits every action because nothing above R1 is registered.\<close>

lemma registry_consistent:
  "descriptor_by_type (action_type a) = Some (descriptor a) \<and>
   dsc_required_capability (descriptor a) = action_type a \<and>
   (descriptor_by_type t = Some d \<longleftrightarrow> d \<in> set descriptors \<and> dsc_action_type d = t) \<and>
   validate_action a = Inr (descriptor a) \<and>
   unat (risk_value (dsc_risk_level (descriptor a))) \<le> 1"
proof -
  have "unat (risk_value (dsc_risk_level (descriptor a))) \<le> 1"
    by (cases a) (simp_all add: descriptor_defs)
  then show ?thesis
    by (simp add: descriptor_by_type_iff descriptor_in_registry action_type_descriptor
        capability_descriptor)
qed

text \<open>C38: an approval binds the target of an action: two actions have the same approval fields
  exactly when they are of the same kind and name the same application or resource.\<close>

theorem approval_binds_target: "approval_fields a = approval_fields b \<longleftrightarrow> same_target a b"
  by (rule approval_fields_eq_iff)

end
