(* ===== verification/Fubun_Codec.thy ===== *)
theory Fubun_Codec
  imports Fubun_Policy
begin

text \<open>
  The text side of \<open>crates/fubun-storage/src/lib.rs\<close>: \<open>StorageError\<close>, the environment of the
  writer thread (the crates \<open>uuid\<close>, \<open>time\<close> and \<open>serde_json\<close>, the clock, and when SQLite fails), and
  the name and parse functions of the enums, each an instance of the locale \<open>text_codec\<close>.
\<close>

section \<open>Errors\<close>

text \<open>
  \<open>StorageError\<close>; its SQLite variant carries the cases of \<open>rusqlite::Error\<close> the code tells apart
  or produces. Texts of foreign errors are left out.
\<close>

datatype storage_error =
    Sqlite sqlite_error
  | Json
  | Time
  | TimeParse
  | Io
  | Validation validation_error
  | DuplicateEvent
  | QueueClosed
  | ResponseDropped
  | UnsupportedSchema u32
  | Startup string
  | WriterPanicked
  | NotFound
  | DuplicateResource
  | RitualAlreadyRunning
  | InvalidData string
and sqlite_error =
    ConstraintViolation
  | OtherFailure
  | QueryReturnedNoRows
  | FromSqlConversionFailure storage_error

definition is_duplicate_constraint :: "sqlite_error \<Rightarrow> bool" where
  "is_duplicate_constraint e = (e = ConstraintViolation)"

lemma is_duplicate_constraint_simps [simp]:
  "is_duplicate_constraint ConstraintViolation" "\<not> is_duplicate_constraint OtherFailure"
  by (simp_all add: is_duplicate_constraint_def)

section \<open>The environment\<close>

text \<open>
  What the storage code relies on outside the repository. \<open>se_now\<close> and \<open>se_sql_fault\<close> are
  indexed by a tick that every effect advances: the clock reading at that tick, and whether
  SQLite fails there for a reason outside the database's contents (a full disk, a busy file).
\<close>

record store_env =
  se_uuid_text :: "uuid \<Rightarrow> string"
  se_uuid_parse :: "string \<Rightarrow> uuid option"
  se_ts_format :: "timestamp \<Rightarrow> string option"
  se_ts_parse :: "string \<Rightarrow> timestamp option"
  se_ritual_json :: "ritual_definition \<Rightarrow> string option"
  se_ritual_of_json :: "string \<Rightarrow> ritual_definition option"
  se_event_json :: "event \<Rightarrow> string option"
  se_event_of_json :: "string \<Rightarrow> event option"
  se_context_json :: "context_reference \<Rightarrow> string option"
  se_data_json :: "event_data \<Rightarrow> string option"
  se_now :: "nat \<Rightarrow> timestamp"
  se_sql_fault :: "nat \<Rightarrow> bool"

text \<open>The documented round trips of the three crates.\<close>

definition store_env_laws :: "'z store_env_scheme \<Rightarrow> bool" where
  "store_env_laws E \<longleftrightarrow>
     (\<forall>u. se_uuid_parse E (se_uuid_text E u) = Some u) \<and>
     (\<forall>t s. se_ts_format E t = Some s \<longrightarrow> se_ts_parse E s = Some t) \<and>
     (\<forall>d j. se_ritual_json E d = Some j \<longrightarrow> se_ritual_of_json E j = Some d) \<and>
     (\<forall>e j. se_event_json E e = Some j \<longrightarrow> se_event_of_json E j = Some e)"

lemma uuid_text_inject:
  assumes "store_env_laws E"
  shows "se_uuid_text E u = se_uuid_text E v \<longleftrightarrow> u = v"
  using assms unfolding store_env_laws_def by (metis option.inject)

text \<open>\<open>format_ts\<close>, \<open>parse_ts\<close>, \<open>parse_uuid\<close>.\<close>

definition format_ts :: "'z store_env_scheme \<Rightarrow> timestamp \<Rightarrow> storage_error + string" where
  "format_ts E t = ok_or Time (se_ts_format E t)"

definition parse_ts :: "'z store_env_scheme \<Rightarrow> string \<Rightarrow> storage_error + timestamp" where
  "parse_ts E s = ok_or TimeParse (se_ts_parse E s)"

definition parse_uuid :: "'z store_env_scheme \<Rightarrow> string \<Rightarrow> storage_error + uuid" where
  "parse_uuid E s = ok_or (InvalidData ''invalid UUID'') (se_uuid_parse E s)"

text \<open>\<open>.map(f).transpose()\<close> on an option.\<close>

definition transpose_map :: "('a \<Rightarrow> 'e + 'b) \<Rightarrow> 'a option \<Rightarrow> 'e + 'b option" where
  "transpose_map f x =
     (case x of None \<Rightarrow> Inr None
      | Some a \<Rightarrow> (case f a of Inl e \<Rightarrow> Inl e | Inr b \<Rightarrow> Inr (Some b)))"

lemma transpose_map_simps [simp]:
  "transpose_map f None = Inr None"
  "f a = Inr b \<Longrightarrow> transpose_map f (Some a) = Inr (Some b)"
  by (simp_all add: transpose_map_def)

lemma transpose_map_Inr_iff:
  "transpose_map f x = Inr y \<longleftrightarrow>
     (case x of None \<Rightarrow> y = None | Some a \<Rightarrow> (\<exists>b. f a = Inr b \<and> y = Some b))"
  by (cases x) (auto simp: transpose_map_def split: sum.splits)

lemma format_ts_Inr [simp]: "format_ts E t = Inr s \<longleftrightarrow> se_ts_format E t = Some s"
  by (simp add: format_ts_def)

lemma parse_ts_format:
  "store_env_laws E \<Longrightarrow> se_ts_format E t = Some s \<Longrightarrow> parse_ts E s = Inr t"
  by (simp add: store_env_laws_def parse_ts_def)

lemma parse_uuid_text: "store_env_laws E \<Longrightarrow> parse_uuid E (se_uuid_text E u) = Inr u"
  by (simp add: store_env_laws_def parse_uuid_def)

lemma parse_ts_option_format:
  assumes "store_env_laws E" "transpose_map (format_ts E) t = Inr s"
  shows "transpose_map (parse_ts E) s = Inr t"
  using assms unfolding transpose_map_Inr_iff
  by (cases t) (auto simp: parse_ts_format)

lemma parse_uuid_option_text:
  assumes "store_env_laws E"
  shows "transpose_map (parse_uuid E) (map_option (se_uuid_text E) u) = Inr u"
  by (cases u) (simp_all add: parse_uuid_text assms)

section \<open>Names of the enums\<close>

fun resource_kind_name :: "resource_kind \<Rightarrow> string" where
  "resource_kind_name File = ''filesystem.file''"
| "resource_kind_name Directory = ''filesystem.directory''"
| "resource_kind_name WebPage = ''web.page''"

definition parse_resource_kind :: "string \<Rightarrow> storage_error + resource_kind" where
  "parse_resource_kind s =
     (if s = ''filesystem.file'' then Inr File
      else if s = ''filesystem.directory'' then Inr Directory
      else if s = ''web.page'' then Inr WebPage
      else Inl (InvalidData ''resource kind''))"

fun observation_source_name :: "observation_source \<Rightarrow> string" where
  "observation_source_name BrowserChromium = ''browser.chromium''"
| "observation_source_name VscodeWorkspace = ''vscode.workspace''"

definition parse_observation_source :: "string \<Rightarrow> storage_error + observation_source" where
  "parse_observation_source s =
     (if s = ''browser.chromium'' then Inr BrowserChromium
      else if s = ''vscode.workspace'' then Inr VscodeWorkspace
      else Inl (InvalidData ''observation source''))"

fun observation_status_name :: "observation_status \<Rightarrow> string" where
  "observation_status_name ObsActive = ''active''"
| "observation_status_name ObsPaused = ''paused''"

definition parse_observation_status :: "string \<Rightarrow> storage_error + observation_status" where
  "parse_observation_status s =
     (if s = ''active'' then Inr ObsActive
      else if s = ''paused'' then Inr ObsPaused
      else Inl (InvalidData ''observation status''))"

fun sensitivity_name :: "sensitivity \<Rightarrow> string" where
  "sensitivity_name SensNormal = ''normal''"
| "sensitivity_name SensSensitive = ''sensitive''"

definition parse_sensitivity :: "string \<Rightarrow> storage_error + sensitivity" where
  "parse_sensitivity s =
     (if s = ''normal'' then Inr SensNormal
      else if s = ''sensitive'' then Inr SensSensitive
      else Inl (InvalidData ''sensitivity''))"

fun resource_scope_name :: "resource_scope \<Rightarrow> string" where
  "resource_scope_name Exact = ''exact''"

definition parse_resource_scope :: "string \<Rightarrow> storage_error + resource_scope" where
  "parse_resource_scope s =
     (if s = ''exact'' then Inr Exact
      else Inl (InvalidData ''resource scope''))"

fun ritual_status_name :: "ritual_status \<Rightarrow> string" where
  "ritual_status_name RitualDraft = ''draft''"
| "ritual_status_name RitualActive = ''active''"
| "ritual_status_name RitualPaused = ''paused''"
| "ritual_status_name RitualArchived = ''archived''"

definition parse_ritual_status :: "string \<Rightarrow> storage_error + ritual_status" where
  "parse_ritual_status s =
     (if s = ''draft'' then Inr RitualDraft
      else if s = ''active'' then Inr RitualActive
      else if s = ''paused'' then Inr RitualPaused
      else if s = ''archived'' then Inr RitualArchived
      else Inl (InvalidData ''ritual status''))"

fun trigger_kind_name :: "trigger_kind \<Rightarrow> string" where
  "trigger_kind_name Manual = ''manual''"

definition parse_trigger_kind :: "string \<Rightarrow> storage_error + trigger_kind" where
  "parse_trigger_kind s =
     (if s = ''manual'' then Inr Manual
      else Inl (InvalidData ''trigger kind''))"

fun execution_status_name :: "execution_status \<Rightarrow> string" where
  "execution_status_name ExecPlanned = ''planned''"
| "execution_status_name ExecRunning = ''running''"
| "execution_status_name ExecSucceeded = ''succeeded''"
| "execution_status_name ExecFailed = ''failed''"
| "execution_status_name ExecPartial = ''partial''"
| "execution_status_name ExecAborted = ''aborted''"

definition parse_execution_status :: "string \<Rightarrow> storage_error + execution_status" where
  "parse_execution_status s =
     (if s = ''planned'' then Inr ExecPlanned
      else if s = ''running'' then Inr ExecRunning
      else if s = ''succeeded'' then Inr ExecSucceeded
      else if s = ''failed'' then Inr ExecFailed
      else if s = ''partial'' then Inr ExecPartial
      else if s = ''aborted'' then Inr ExecAborted
      else Inl (InvalidData ''execution status''))"

fun execution_step_status_name :: "execution_step_status \<Rightarrow> string" where
  "execution_step_status_name StepPending = ''pending''"
| "execution_step_status_name StepRunning = ''running''"
| "execution_step_status_name StepSucceeded = ''succeeded''"
| "execution_step_status_name StepSkipped = ''skipped''"
| "execution_step_status_name StepFailed = ''failed''"
| "execution_step_status_name StepAborted = ''aborted''"

definition parse_execution_step_status :: "string \<Rightarrow> storage_error + execution_step_status" where
  "parse_execution_step_status s =
     (if s = ''pending'' then Inr StepPending
      else if s = ''running'' then Inr StepRunning
      else if s = ''succeeded'' then Inr StepSucceeded
      else if s = ''skipped'' then Inr StepSkipped
      else if s = ''failed'' then Inr StepFailed
      else if s = ''aborted'' then Inr StepAborted
      else Inl (InvalidData ''execution step status''))"

fun actor_name :: "actor \<Rightarrow> string" where
  "actor_name User = ''user''"
| "actor_name Fubun = ''fubun''"
| "actor_name System = ''system''"
| "actor_name Imported = ''imported''"

fun privacy_name :: "privacy_class \<Rightarrow> string" where
  "privacy_name PrivacyNormal = ''normal''"
| "privacy_name PrivacySensitive = ''sensitive''"

fun event_type_name :: "event_type \<Rightarrow> string" where
  "event_type_name SyntheticV1 = ''dev.fubun.dev.synthetic.v1''"
| "event_type_name BrowserResourceOpenedV1 = ''dev.fubun.browser.resource.opened.v1''"
| "event_type_name VscodeWorkspaceOpenedV1 = ''dev.fubun.vscode.workspace.opened.v1''"

text \<open>Each pair satisfies the contract of a text encoding.\<close>

interpretation resource_kind_codec: text_codec resource_kind_name parse_resource_kind
proof
  show "parse_resource_kind (resource_kind_name a) = Inr a" for a by (cases a) (simp_all add: parse_resource_kind_def)
  show "parse_resource_kind s = Inr a \<Longrightarrow> s = resource_kind_name a" for s a
    by (auto simp: parse_resource_kind_def split: if_splits)
qed

interpretation observation_source_codec: text_codec observation_source_name parse_observation_source
proof
  show "parse_observation_source (observation_source_name a) = Inr a" for a by (cases a) (simp_all add: parse_observation_source_def)
  show "parse_observation_source s = Inr a \<Longrightarrow> s = observation_source_name a" for s a
    by (auto simp: parse_observation_source_def split: if_splits)
qed

interpretation observation_status_codec: text_codec observation_status_name parse_observation_status
proof
  show "parse_observation_status (observation_status_name a) = Inr a" for a by (cases a) (simp_all add: parse_observation_status_def)
  show "parse_observation_status s = Inr a \<Longrightarrow> s = observation_status_name a" for s a
    by (auto simp: parse_observation_status_def split: if_splits)
qed

interpretation sensitivity_codec: text_codec sensitivity_name parse_sensitivity
proof
  show "parse_sensitivity (sensitivity_name a) = Inr a" for a by (cases a) (simp_all add: parse_sensitivity_def)
  show "parse_sensitivity s = Inr a \<Longrightarrow> s = sensitivity_name a" for s a
    by (auto simp: parse_sensitivity_def split: if_splits)
qed

interpretation resource_scope_codec: text_codec resource_scope_name parse_resource_scope
proof
  show "parse_resource_scope (resource_scope_name a) = Inr a" for a by (cases a) (simp_all add: parse_resource_scope_def)
  show "parse_resource_scope s = Inr a \<Longrightarrow> s = resource_scope_name a" for s a
    by (auto simp: parse_resource_scope_def split: if_splits)
qed

interpretation ritual_status_codec: text_codec ritual_status_name parse_ritual_status
proof
  show "parse_ritual_status (ritual_status_name a) = Inr a" for a by (cases a) (simp_all add: parse_ritual_status_def)
  show "parse_ritual_status s = Inr a \<Longrightarrow> s = ritual_status_name a" for s a
    by (auto simp: parse_ritual_status_def split: if_splits)
qed

interpretation trigger_kind_codec: text_codec trigger_kind_name parse_trigger_kind
proof
  show "parse_trigger_kind (trigger_kind_name a) = Inr a" for a by (cases a) (simp_all add: parse_trigger_kind_def)
  show "parse_trigger_kind s = Inr a \<Longrightarrow> s = trigger_kind_name a" for s a
    by (auto simp: parse_trigger_kind_def split: if_splits)
qed

interpretation execution_status_codec: text_codec execution_status_name parse_execution_status
proof
  show "parse_execution_status (execution_status_name a) = Inr a" for a by (cases a) (simp_all add: parse_execution_status_def)
  show "parse_execution_status s = Inr a \<Longrightarrow> s = execution_status_name a" for s a
    by (auto simp: parse_execution_status_def split: if_splits)
qed

interpretation execution_step_status_codec: text_codec execution_step_status_name parse_execution_step_status
proof
  show "parse_execution_step_status (execution_step_status_name a) = Inr a" for a by (cases a) (simp_all add: parse_execution_step_status_def)
  show "parse_execution_step_status s = Inr a \<Longrightarrow> s = execution_step_status_name a" for s a
    by (auto simp: parse_execution_step_status_def split: if_splits)
qed

lemmas codec_names [codec_simps] =
  resource_kind_codec.dec_enc
  observation_source_codec.dec_enc
  observation_status_codec.dec_enc
  sensitivity_codec.dec_enc
  resource_scope_codec.dec_enc
  ritual_status_codec.dec_enc
  trigger_kind_codec.dec_enc
  execution_status_codec.dec_enc
  execution_step_status_codec.dec_enc

lemmas codec_injects =
  resource_kind_codec.enc_inject
  observation_source_codec.enc_inject
  observation_status_codec.enc_inject
  sensitivity_codec.enc_inject
  resource_scope_codec.enc_inject
  ritual_status_codec.enc_inject
  trigger_kind_codec.enc_inject
  execution_status_codec.enc_inject
  execution_step_status_codec.enc_inject

end
