(* ===== verification/Fubun_Tables.thy ===== *)
theory Fubun_Tables
  imports Fubun_Codec "HOL-Library.Product_Lexorder"
begin

text \<open>
  The database of \<open>crates/fubun-storage/src/lib.rs\<close>: the tables of the schema in \<open>migrate\<close> with
  their \<open>PRIMARY KEY\<close>, \<open>UNIQUE\<close>, \<open>CHECK\<close> and \<open>FOREIGN KEY\<close> constraints, and SQL statements and
  transactions as state-passing functions. A row holds the TEXT and INTEGER values SQLite holds.
\<close>

section \<open>Rows\<close>

record resource_row =
  tres_id :: string
  tres_kind :: string
  tres_label :: string
  tres_locator :: string
  tres_canonical_locator :: string
  tres_sensitivity :: string
  tres_scope :: string
  tres_created_at :: string
  tres_updated_at :: string

record ritual_row =
  trit_id :: string
  trit_name :: string
  trit_status :: string
  trit_current_version_id :: string
  trit_created_at :: string
  trit_updated_at :: string

record version_row =
  tver_id :: string
  tver_ritual_id :: string
  tver_version :: int
  tver_schema_version :: string
  tver_canonical_json :: string
  tver_content_hash :: string
  tver_created_at :: string

record approval_row =
  tapr_id :: string
  tapr_ritual_version_id :: string
  tapr_action_type :: string
  tapr_capability :: string
  tapr_resource_id :: "string option"
  tapr_app_id :: "string option"
  tapr_content_hash :: string
  tapr_approved_at :: string

record execution_row =
  texe_id :: string
  texe_ritual_id :: string
  texe_ritual_version_id :: string
  texe_status :: string
  texe_trigger_kind :: string
  texe_started_at :: string
  texe_finished_at :: "string option"
  texe_failure_code :: "string option"
  texe_created_at :: string

record step_row =
  tstp_id :: string
  tstp_execution_id :: string
  tstp_step_index :: int
  tstp_action_type :: string
  tstp_status :: string
  tstp_adapter_id :: "string option"
  tstp_adapter_instance_id :: "string option"
  tstp_started_at :: string
  tstp_finished_at :: "string option"
  tstp_result_code :: "string option"
  tstp_redacted_message :: "string option"

record lock_row =
  tlck_ritual_id :: string
  tlck_execution_id :: string

record scope_row =
  tobs_id :: string
  tobs_source :: string
  tobs_resource_id :: string
  tobs_status :: string
  tobs_created_at :: string
  tobs_updated_at :: string

record adapter_row =
  tadp_instance_id :: string
  tadp_adapter_id :: string
  tadp_adapter_version :: string
  tadp_last_sequence_no :: int
  tadp_created_at :: string
  tadp_updated_at :: string

record event_row =
  tevt_id :: string
  tevt_spec_version :: string
  tevt_event_type :: string
  tevt_source :: string
  tevt_occurred_at :: string
  tevt_received_at :: string
  tevt_actor :: string
  tevt_adapter_id :: string
  tevt_adapter_version :: string
  tevt_adapter_instance_id :: string
  tevt_sequence_no :: int
  tevt_context_json :: "string option"
  tevt_privacy :: string
  tevt_data_json :: string
  tevt_canonical_json :: string

text \<open>The tables; \<open>db_migrations\<close> is \<open>schema_migrations\<close> without the text of the time.\<close>

record db =
  db_migrations :: "u32 list"
  db_adapters :: "adapter_row list"
  db_events :: "event_row list"
  db_resources :: "resource_row list"
  db_rituals :: "ritual_row list"
  db_versions :: "version_row list"
  db_approvals :: "approval_row list"
  db_executions :: "execution_row list"
  db_steps :: "step_row list"
  db_locks :: "lock_row list"
  db_scopes :: "scope_row list"

definition empty_db :: db where
  "empty_db = \<lparr>db_migrations = [], db_adapters = [], db_events = [], db_resources = [],
     db_rituals = [], db_versions = [], db_approvals = [], db_executions = [], db_steps = [],
     db_locks = [], db_scopes = []\<rparr>"

section \<open>Statements\<close>

text \<open>
  A statement maps the tables to an error or to its result (for a write, the number of rows
  changed) and the new tables; a failed statement changes nothing.
\<close>

type_synonym 'a statement = "db \<Rightarrow> sqlite_error + 'a \<times> db"

definition guarded :: "bool \<Rightarrow> db \<Rightarrow> sqlite_error + nat \<times> db" where
  "guarded violated d = (if violated then Inl ConstraintViolation else Inr (1, d))"

definition insert_into_resources :: "resource_row \<Rightarrow> nat statement" where
  "insert_into_resources r d =
     guarded (has_key tres_id (tres_id r) (db_resources d) \<or>
              has_key tres_canonical_locator (tres_canonical_locator r) (db_resources d))
       (d\<lparr>db_resources := db_resources d @ [r]\<rparr>)"

text \<open>The foreign key on \<open>current_version_id\<close> is deferred to the commit.\<close>

definition insert_into_rituals :: "ritual_row \<Rightarrow> nat statement" where
  "insert_into_rituals r d =
     guarded (has_key trit_id (trit_id r) (db_rituals d)) (d\<lparr>db_rituals := db_rituals d @ [r]\<rparr>)"

definition insert_into_versions :: "version_row \<Rightarrow> nat statement" where
  "insert_into_versions r d =
     guarded (has_key tver_id (tver_id r) (db_versions d) \<or>
              has_key (\<lambda>v. (tver_ritual_id v, tver_version v)) (tver_ritual_id r, tver_version r)
                (db_versions d) \<or>
              \<not> has_key trit_id (tver_ritual_id r) (db_rituals d))
       (d\<lparr>db_versions := db_versions d @ [r]\<rparr>)"

definition insert_into_approvals :: "approval_row \<Rightarrow> nat statement" where
  "insert_into_approvals r d =
     guarded (has_key tapr_id (tapr_id r) (db_approvals d) \<or>
              \<not> has_key tver_id (tapr_ritual_version_id r) (db_versions d))
       (d\<lparr>db_approvals := db_approvals d @ [r]\<rparr>)"

definition insert_into_executions :: "execution_row \<Rightarrow> nat statement" where
  "insert_into_executions r d =
     guarded (has_key texe_id (texe_id r) (db_executions d) \<or>
              \<not> has_key trit_id (texe_ritual_id r) (db_rituals d) \<or>
              \<not> has_key tver_id (texe_ritual_version_id r) (db_versions d))
       (d\<lparr>db_executions := db_executions d @ [r]\<rparr>)"

definition insert_into_steps :: "step_row \<Rightarrow> nat statement" where
  "insert_into_steps r d =
     guarded (has_key tstp_id (tstp_id r) (db_steps d) \<or>
              has_key (\<lambda>s. (tstp_execution_id s, tstp_step_index s))
                (tstp_execution_id r, tstp_step_index r) (db_steps d) \<or>
              \<not> has_key texe_id (tstp_execution_id r) (db_executions d))
       (d\<lparr>db_steps := db_steps d @ [r]\<rparr>)"

definition insert_into_locks :: "lock_row \<Rightarrow> nat statement" where
  "insert_into_locks r d =
     guarded (has_key tlck_ritual_id (tlck_ritual_id r) (db_locks d) \<or>
              \<not> has_key trit_id (tlck_ritual_id r) (db_rituals d) \<or>
              \<not> has_key texe_id (tlck_execution_id r) (db_executions d))
       (d\<lparr>db_locks := db_locks d @ [r]\<rparr>)"

definition scope_check :: "scope_row \<Rightarrow> bool" where
  "scope_check r =
     (tobs_source r \<in> {''browser.chromium'', ''vscode.workspace''} \<and>
      tobs_status r \<in> {''active'', ''paused''})"

definition insert_into_scopes :: "scope_row \<Rightarrow> nat statement" where
  "insert_into_scopes r d =
     guarded (\<not> scope_check r \<or>
              has_key tobs_id (tobs_id r) (db_scopes d) \<or>
              has_key (\<lambda>s. (tobs_source s, tobs_resource_id s)) (tobs_source r, tobs_resource_id r)
                (db_scopes d) \<or>
              \<not> has_key tres_id (tobs_resource_id r) (db_resources d))
       (d\<lparr>db_scopes := db_scopes d @ [r]\<rparr>)"

text \<open>\<open>INSERT INTO adapters ... ON CONFLICT(instance_id) DO UPDATE\<close>.\<close>

definition upsert_into_adapters :: "adapter_row \<Rightarrow> nat statement" where
  "upsert_into_adapters r d =
     Inr (1, d\<lparr>db_adapters :=
       (if has_key tadp_instance_id (tadp_instance_id r) (db_adapters d)
        then row_update (\<lambda>a. tadp_instance_id a = tadp_instance_id r)
          (\<lambda>a. a\<lparr>tadp_adapter_id := tadp_adapter_id r, tadp_adapter_version := tadp_adapter_version r,
                 tadp_last_sequence_no := max (tadp_last_sequence_no a) (tadp_last_sequence_no r),
                 tadp_updated_at := tadp_updated_at r\<rparr>) (db_adapters d)
        else db_adapters d @ [r])\<rparr>)"

definition insert_into_events :: "event_row \<Rightarrow> nat statement" where
  "insert_into_events r d =
     guarded (has_key tevt_id (tevt_id r) (db_events d) \<or>
              tevt_sequence_no r < 0 \<or>
              has_key (\<lambda>e. (tevt_adapter_instance_id e, tevt_sequence_no e))
                (tevt_adapter_instance_id r, tevt_sequence_no r) (db_events d) \<or>
              \<not> has_key tadp_instance_id (tevt_adapter_instance_id r) (db_adapters d))
       (d\<lparr>db_events := db_events d @ [r]\<rparr>)"

text \<open>The deferred foreign key of \<open>rituals\<close>, checked at a commit.\<close>

definition deferred_ok :: "db \<Rightarrow> bool" where
  "deferred_ok d = list_all (\<lambda>r. has_key tver_id (trit_current_version_id r) (db_versions d)) (db_rituals d)"

section \<open>The connection\<close>

text \<open>
  The connection of the writer thread: the committed or pending tables, the tick of the
  environment, and whether the thread still takes commands. Every statement and every clock
  reading advances the tick.
\<close>

record conn =
  conn_db :: db
  conn_tick :: nat
  conn_open :: bool

type_synonym 'a sm = "conn \<Rightarrow> (storage_error + 'a) \<times> conn"

definition sret :: "'a \<Rightarrow> 'a sm" where
  "sret a c = (Inr a, c)"

definition slift :: "storage_error + 'a \<Rightarrow> 'a sm" where
  "slift r c = (r, c)"

definition sbind :: "'a sm \<Rightarrow> ('a \<Rightarrow> 'b sm) \<Rightarrow> 'b sm" where
  "sbind m f c = (case m c of (Inl e, c') \<Rightarrow> (Inl e, c') | (Inr a, c') \<Rightarrow> f a c')"

primrec sfor_each :: "('a \<Rightarrow> unit sm) \<Rightarrow> 'a list \<Rightarrow> unit sm" where
  "sfor_each f [] = sret ()"
| "sfor_each f (x # xs) = sbind (f x) (\<lambda>_. sfor_each f xs)"

definition sclock :: "'z store_env_scheme \<Rightarrow> timestamp sm" where
  "sclock E c = (Inr (se_now E (conn_tick c)), c\<lparr>conn_tick := conn_tick c + 1\<rparr>)"

definition sql :: "'z store_env_scheme \<Rightarrow> 'a statement \<Rightarrow> 'a sm" where
  "sql E s c =
     (let c' = c\<lparr>conn_tick := conn_tick c + 1\<rparr>
      in if se_sql_fault E (conn_tick c) then (Inl (Sqlite OtherFailure), c')
         else (case s (conn_db c) of
                 Inl e \<Rightarrow> (Inl (Sqlite e), c')
               | Inr (a, d) \<Rightarrow> (Inr a, c'\<lparr>conn_db := d\<rparr>)))"

text \<open>A read: the result of a function of the tables.\<close>

definition query :: "(db \<Rightarrow> 'a) \<Rightarrow> 'a statement" where
  "query f d = Inr (f d, d)"

definition commit_statement :: "unit statement" where
  "commit_statement d = (if deferred_ok d then Inr ((), d) else Inl ConstraintViolation)"

text \<open>
  \<open>connection.transaction()\<close>, the body, \<open>commit()\<close>. A transaction that is dropped before its
  commit succeeds is rolled back.
\<close>

definition transaction :: "'z store_env_scheme \<Rightarrow> 'a sm \<Rightarrow> 'a sm" where
  "transaction E body c =
     (case sql E (query (\<lambda>_. ())) c of
        (Inl e, c1) \<Rightarrow> (Inl e, c1)
      | (Inr _, c1) \<Rightarrow>
          (case sbind body (\<lambda>a. sbind (sql E commit_statement) (\<lambda>_. sret a)) c1 of
             (Inl e, c2) \<Rightarrow> (Inl e, c2\<lparr>conn_db := conn_db c1\<rparr>)
           | (Inr a, c2) \<Rightarrow> (Inr a, c2)))"

section \<open>The invariant of the schema\<close>

definition unique_keys :: "db \<Rightarrow> bool" where
  "unique_keys d \<longleftrightarrow>
     unique_on tadp_instance_id (db_adapters d) \<and>
     unique_on tevt_id (db_events d) \<and>
     unique_on (\<lambda>e. (tevt_adapter_instance_id e, tevt_sequence_no e)) (db_events d) \<and>
     unique_on tres_id (db_resources d) \<and> unique_on tres_canonical_locator (db_resources d) \<and>
     unique_on trit_id (db_rituals d) \<and>
     unique_on tver_id (db_versions d) \<and>
     unique_on (\<lambda>v. (tver_ritual_id v, tver_version v)) (db_versions d) \<and>
     unique_on tapr_id (db_approvals d) \<and>
     unique_on texe_id (db_executions d) \<and>
     unique_on tstp_id (db_steps d) \<and>
     unique_on (\<lambda>s. (tstp_execution_id s, tstp_step_index s)) (db_steps d) \<and>
     unique_on tlck_ritual_id (db_locks d) \<and>
     unique_on tobs_id (db_scopes d) \<and>
     unique_on (\<lambda>s. (tobs_source s, tobs_resource_id s)) (db_scopes d)"

definition foreign_keys :: "db \<Rightarrow> bool" where
  "foreign_keys d \<longleftrightarrow>
     (\<forall>e \<in> set (db_events d). has_key tadp_instance_id (tevt_adapter_instance_id e) (db_adapters d)) \<and>
     (\<forall>v \<in> set (db_versions d). has_key trit_id (tver_ritual_id v) (db_rituals d)) \<and>
     (\<forall>a \<in> set (db_approvals d). has_key tver_id (tapr_ritual_version_id a) (db_versions d)) \<and>
     (\<forall>x \<in> set (db_executions d). has_key trit_id (texe_ritual_id x) (db_rituals d) \<and>
        has_key tver_id (texe_ritual_version_id x) (db_versions d)) \<and>
     (\<forall>s \<in> set (db_steps d). has_key texe_id (tstp_execution_id s) (db_executions d)) \<and>
     (\<forall>l \<in> set (db_locks d). has_key trit_id (tlck_ritual_id l) (db_rituals d) \<and>
        has_key texe_id (tlck_execution_id l) (db_executions d)) \<and>
     (\<forall>s \<in> set (db_scopes d). scope_check s \<and> has_key tres_id (tobs_resource_id s) (db_resources d))"

text \<open>
  What the operations add to the constraints: a running execution holds the lock of its ritual,
  and an adapter's last sequence number bounds those of its events.
\<close>

definition running_locked :: "db \<Rightarrow> bool" where
  "running_locked d \<longleftrightarrow>
     (\<forall>x \<in> set (db_executions d). texe_status x = ''running'' \<longrightarrow>
        (\<exists>l \<in> set (db_locks d). tlck_execution_id l = texe_id x \<and> tlck_ritual_id l = texe_ritual_id x))"

definition sequences_bounded :: "db \<Rightarrow> bool" where
  "sequences_bounded d \<longleftrightarrow>
     (\<forall>e \<in> set (db_events d). \<forall>a \<in> set (db_adapters d).
        tadp_instance_id a = tevt_adapter_instance_id e \<longrightarrow>
        0 \<le> tevt_sequence_no e \<and> tevt_sequence_no e \<le> tadp_last_sequence_no a)"

text \<open>Inside a transaction the deferred key may be violated; \<open>db_ok\<close> holds between operations.\<close>

definition db_ok_deferred :: "db \<Rightarrow> bool" where
  "db_ok_deferred d \<longleftrightarrow> unique_keys d \<and> foreign_keys d \<and> sequences_bounded d"

definition db_ok :: "db \<Rightarrow> bool" where
  "db_ok d \<longleftrightarrow> db_ok_deferred d \<and> running_locked d \<and> deferred_ok d"

end
