(* ===== verification/Fubun_Store.thy ===== *)
theory Fubun_Store
  imports Fubun_Tables
begin

text \<open>
  The operations of \<open>crates/fubun-storage/src/lib.rs\<close> as the writer thread runs them: the row
  codecs, one definition per function or \<open>Operation\<close> arm, \<open>execute_operation\<close> and the
  command loop of \<open>writer_main\<close>.
\<close>

section \<open>Row codecs\<close>

definition resource_to_row :: "'z store_env_scheme \<Rightarrow> resource \<Rightarrow> storage_error + resource_row" where
  "resource_to_row E r =
     and_then (format_ts E (res_created_at r)) (\<lambda>created.
       Inr \<lparr>tres_id = se_uuid_text E (res_id r), tres_kind = resource_kind_name (res_kind r),
            tres_label = res_label r, tres_locator = res_locator r,
            tres_canonical_locator = res_canonical_locator r,
            tres_sensitivity = sensitivity_name (res_sensitivity r),
            tres_scope = resource_scope_name (res_scope r),
            tres_created_at = created, tres_updated_at = created\<rparr>)"

definition resource_from_row :: "'z store_env_scheme \<Rightarrow> resource_row \<Rightarrow> storage_error + resource" where
  "resource_from_row E row =
     and_then (parse_uuid E (tres_id row)) (\<lambda>rid.
     and_then (parse_resource_kind (tres_kind row)) (\<lambda>kind.
     and_then (parse_sensitivity (tres_sensitivity row)) (\<lambda>sens.
     and_then (parse_resource_scope (tres_scope row)) (\<lambda>scope.
     and_then (parse_ts E (tres_created_at row)) (\<lambda>created.
     and_then (parse_ts E (tres_updated_at row)) (\<lambda>updated.
       Inr \<lparr>res_id = rid, res_kind = kind, res_label = tres_label row,
            res_locator = tres_locator row, res_canonical_locator = tres_canonical_locator row,
            res_sensitivity = sens, res_scope = scope, res_created_at = created,
            res_updated_at = updated\<rparr>))))))"

text \<open>A ritual is written with the id of the version inserted beside it.\<close>

definition ritual_to_row ::
    "'z store_env_scheme \<Rightarrow> ritual \<Rightarrow> ritual_version \<Rightarrow> storage_error + ritual_row" where
  "ritual_to_row E r v =
     and_then (format_ts E (rit_created_at r)) (\<lambda>created.
     and_then (format_ts E (rit_updated_at r)) (\<lambda>updated.
       Inr \<lparr>trit_id = se_uuid_text E (rit_id r), trit_name = rit_name r,
            trit_status = ritual_status_name (rit_status r),
            trit_current_version_id = se_uuid_text E (ver_id v),
            trit_created_at = created, trit_updated_at = updated\<rparr>))"

definition ritual_from_row :: "'z store_env_scheme \<Rightarrow> ritual_row \<Rightarrow> storage_error + ritual" where
  "ritual_from_row E row =
     and_then (parse_uuid E (trit_id row)) (\<lambda>rid.
     and_then (parse_ritual_status (trit_status row)) (\<lambda>status.
     and_then (parse_uuid E (trit_current_version_id row)) (\<lambda>version.
     and_then (parse_ts E (trit_created_at row)) (\<lambda>created.
     and_then (parse_ts E (trit_updated_at row)) (\<lambda>updated.
       Inr \<lparr>rit_id = rid, rit_name = trit_name row, rit_status = status,
            rit_current_version_id = version, rit_created_at = created,
            rit_updated_at = updated\<rparr>)))))"

definition version_to_row :: "'z store_env_scheme \<Rightarrow> ritual_version \<Rightarrow> storage_error + version_row" where
  "version_to_row E v =
     and_then (format_ts E (ver_created_at v)) (\<lambda>created.
       Inr \<lparr>tver_id = se_uuid_text E (ver_id v), tver_ritual_id = se_uuid_text E (ver_ritual_id v),
            tver_version = uint (ver_version v), tver_schema_version = ver_schema_version v,
            tver_canonical_json = ver_canonical_json v, tver_content_hash = ver_content_hash v,
            tver_created_at = created\<rparr>)"

text \<open>\<open>u32::try_from\<close> on an \<open>i64\<close>.\<close>

definition u32_try_from :: "string \<Rightarrow> int \<Rightarrow> storage_error + u32" where
  "u32_try_from field n =
     (if 0 \<le> n \<and> n < 2 ^ 32 then Inr (word_of_int n) else Inl (InvalidData field))"

definition version_from_row :: "'z store_env_scheme \<Rightarrow> version_row \<Rightarrow> storage_error + ritual_version" where
  "version_from_row E row =
     and_then (parse_uuid E (tver_id row)) (\<lambda>vid.
     and_then (parse_uuid E (tver_ritual_id row)) (\<lambda>rid.
     and_then (u32_try_from ''version'' (tver_version row)) (\<lambda>version.
     and_then (parse_ts E (tver_created_at row)) (\<lambda>created.
       Inr \<lparr>ver_id = vid, ver_ritual_id = rid, ver_version = version,
            ver_schema_version = tver_schema_version row,
            ver_canonical_json = tver_canonical_json row,
            ver_content_hash = tver_content_hash row, ver_created_at = created\<rparr>))))"

definition approval_to_row :: "'z store_env_scheme \<Rightarrow> approval \<Rightarrow> storage_error + approval_row" where
  "approval_to_row E a =
     and_then (format_ts E (apr_approved_at a)) (\<lambda>approved.
       Inr \<lparr>tapr_id = se_uuid_text E (apr_id a),
            tapr_ritual_version_id = se_uuid_text E (apr_ritual_version_id a),
            tapr_action_type = apr_action_type a, tapr_capability = apr_capability a,
            tapr_resource_id = map_option (se_uuid_text E) (apr_resource_id a),
            tapr_app_id = apr_app_id a, tapr_content_hash = apr_content_hash a,
            tapr_approved_at = approved\<rparr>)"

definition approval_from_row :: "'z store_env_scheme \<Rightarrow> approval_row \<Rightarrow> storage_error + approval" where
  "approval_from_row E row =
     and_then (parse_uuid E (tapr_id row)) (\<lambda>aid.
     and_then (parse_uuid E (tapr_ritual_version_id row)) (\<lambda>vid.
     and_then (transpose_map (parse_uuid E) (tapr_resource_id row)) (\<lambda>rid.
     and_then (parse_ts E (tapr_approved_at row)) (\<lambda>approved.
       Inr \<lparr>apr_id = aid, apr_ritual_version_id = vid, apr_action_type = tapr_action_type row,
            apr_capability = tapr_capability row, apr_resource_id = rid,
            apr_app_id = tapr_app_id row, apr_content_hash = tapr_content_hash row,
            apr_approved_at = approved\<rparr>))))"

definition execution_to_row :: "'z store_env_scheme \<Rightarrow> execution \<Rightarrow> storage_error + execution_row" where
  "execution_to_row E x =
     and_then (format_ts E (exe_started_at x)) (\<lambda>started.
     and_then (transpose_map (format_ts E) (exe_finished_at x)) (\<lambda>finished.
     and_then (format_ts E (exe_created_at x)) (\<lambda>created.
       Inr \<lparr>texe_id = se_uuid_text E (exe_id x), texe_ritual_id = se_uuid_text E (exe_ritual_id x),
            texe_ritual_version_id = se_uuid_text E (exe_ritual_version_id x),
            texe_status = execution_status_name (exe_status x),
            texe_trigger_kind = trigger_kind_name (exe_trigger_kind x),
            texe_started_at = started, texe_finished_at = finished,
            texe_failure_code = exe_failure_code x, texe_created_at = created\<rparr>)))"

definition execution_from_row :: "'z store_env_scheme \<Rightarrow> execution_row \<Rightarrow> storage_error + execution" where
  "execution_from_row E row =
     and_then (parse_uuid E (texe_id row)) (\<lambda>xid.
     and_then (parse_uuid E (texe_ritual_id row)) (\<lambda>rid.
     and_then (parse_uuid E (texe_ritual_version_id row)) (\<lambda>vid.
     and_then (parse_execution_status (texe_status row)) (\<lambda>status.
     and_then (parse_trigger_kind (texe_trigger_kind row)) (\<lambda>trigger.
     and_then (parse_ts E (texe_started_at row)) (\<lambda>started.
     and_then (transpose_map (parse_ts E) (texe_finished_at row)) (\<lambda>finished.
     and_then (parse_ts E (texe_created_at row)) (\<lambda>created.
       Inr \<lparr>exe_id = xid, exe_ritual_id = rid, exe_ritual_version_id = vid, exe_status = status,
            exe_trigger_kind = trigger, exe_started_at = started, exe_finished_at = finished,
            exe_failure_code = texe_failure_code row, exe_created_at = created\<rparr>))))))))"

definition step_to_row :: "'z store_env_scheme \<Rightarrow> execution_step \<Rightarrow> storage_error + step_row" where
  "step_to_row E s =
     and_then (format_ts E (stp_started_at s)) (\<lambda>started.
     and_then (transpose_map (format_ts E) (stp_finished_at s)) (\<lambda>finished.
       Inr \<lparr>tstp_id = se_uuid_text E (stp_id s), tstp_execution_id = se_uuid_text E (stp_execution_id s),
            tstp_step_index = uint (stp_step_index s), tstp_action_type = stp_action_type s,
            tstp_status = execution_step_status_name (stp_status s),
            tstp_adapter_id = stp_adapter_id s,
            tstp_adapter_instance_id = map_option (se_uuid_text E) (stp_adapter_instance_id s),
            tstp_started_at = started, tstp_finished_at = finished,
            tstp_result_code = stp_result_code s, tstp_redacted_message = stp_redacted_message s\<rparr>))"

definition execution_step_from_row ::
    "'z store_env_scheme \<Rightarrow> step_row \<Rightarrow> storage_error + execution_step" where
  "execution_step_from_row E row =
     and_then (parse_uuid E (tstp_id row)) (\<lambda>sid.
     and_then (parse_uuid E (tstp_execution_id row)) (\<lambda>xid.
     and_then (u32_try_from ''step index'' (tstp_step_index row)) (\<lambda>idx.
     and_then (parse_execution_step_status (tstp_status row)) (\<lambda>status.
     and_then (transpose_map (parse_uuid E) (tstp_adapter_instance_id row)) (\<lambda>inst.
     and_then (parse_ts E (tstp_started_at row)) (\<lambda>started.
     and_then (transpose_map (parse_ts E) (tstp_finished_at row)) (\<lambda>finished.
       Inr \<lparr>stp_id = sid, stp_execution_id = xid, stp_step_index = idx,
            stp_action_type = tstp_action_type row, stp_status = status,
            stp_adapter_id = tstp_adapter_id row, stp_adapter_instance_id = inst,
            stp_started_at = started, stp_finished_at = finished,
            stp_result_code = tstp_result_code row,
            stp_redacted_message = tstp_redacted_message row\<rparr>)))))))"

definition scope_to_row :: "'z store_env_scheme \<Rightarrow> observation_scope \<Rightarrow> storage_error + scope_row" where
  "scope_to_row E s =
     and_then (format_ts E (obs_created_at s)) (\<lambda>created.
     and_then (format_ts E (obs_updated_at s)) (\<lambda>updated.
       Inr \<lparr>tobs_id = se_uuid_text E (obs_id s), tobs_source = observation_source_name (obs_source s),
            tobs_resource_id = se_uuid_text E (obs_resource_id s),
            tobs_status = observation_status_name (obs_status s),
            tobs_created_at = created, tobs_updated_at = updated\<rparr>))"

definition sql_parse :: "storage_error + 'a \<Rightarrow> sqlite_error + 'a" where
  "sql_parse r = map_err FromSqlConversionFailure r"

definition observation_scope_from_sql_row ::
    "'z store_env_scheme \<Rightarrow> scope_row \<Rightarrow> sqlite_error + observation_scope" where
  "observation_scope_from_sql_row E row =
     and_then (sql_parse (parse_uuid E (tobs_id row))) (\<lambda>sid.
     and_then (sql_parse (parse_observation_source (tobs_source row))) (\<lambda>source.
     and_then (sql_parse (parse_uuid E (tobs_resource_id row))) (\<lambda>rid.
     and_then (sql_parse (parse_observation_status (tobs_status row))) (\<lambda>status.
     and_then (sql_parse (parse_ts E (tobs_created_at row))) (\<lambda>created.
     and_then (sql_parse (parse_ts E (tobs_updated_at row))) (\<lambda>updated.
       Inr \<lparr>obs_id = sid, obs_source = source, obs_resource_id = rid, obs_status = status,
            obs_created_at = created, obs_updated_at = updated\<rparr>))))))"

section \<open>Resources\<close>

text \<open>The arm \<open>Err(error) if is_duplicate_constraint(&error)\<close>: such an error becomes \<open>x\<close>.\<close>

definition duplicate_as :: "storage_error \<Rightarrow> storage_error \<Rightarrow> storage_error" where
  "duplicate_as x err =
     (case err of Sqlite e \<Rightarrow> (if is_duplicate_constraint e then x else err) | _ \<Rightarrow> err)"

definition on_duplicate :: "storage_error \<Rightarrow> 'a sm \<Rightarrow> 'a sm" where
  "on_duplicate x m c = (case m c of (r, c') \<Rightarrow> (map_err (duplicate_as x) r, c'))"

definition create_resource :: "'z store_env_scheme \<Rightarrow> resource \<Rightarrow> resource sm" where
  "create_resource E r =
     sbind (slift (resource_to_row E r)) (\<lambda>row.
     sbind (on_duplicate DuplicateResource (sql E (insert_into_resources row))) (\<lambda>_.
       sret r))"

definition list_resources :: "'z store_env_scheme \<Rightarrow> resource list sm" where
  "list_resources E =
     sbind (sql E (query (\<lambda>d. sort_key (\<lambda>r. (tres_created_at r, tres_id r)) (db_resources d))))
       (\<lambda>rows. slift (collect_results (map (resource_from_row E) rows)))"

definition get_resource :: "'z store_env_scheme \<Rightarrow> uuid \<Rightarrow> resource sm" where
  "get_resource E i =
     sbind (sql E (query (\<lambda>d. row_find tres_id (se_uuid_text E i) (db_resources d)))) (\<lambda>found.
     sbind (slift (ok_or NotFound found)) (\<lambda>row.
       slift (resource_from_row E row)))"

section \<open>Rituals\<close>

definition insert_ritual_version :: "'z store_env_scheme \<Rightarrow> ritual_version \<Rightarrow> unit sm" where
  "insert_ritual_version E v =
     sbind (slift (version_to_row E v)) (\<lambda>row.
     sbind (sql E (insert_into_versions row)) (\<lambda>_. sret ()))"

definition create_ritual ::
    "'z store_env_scheme \<Rightarrow> ritual \<Rightarrow> ritual_version \<Rightarrow> ritual_definition \<Rightarrow>
     (ritual \<times> ritual_version \<times> ritual_definition) sm" where
  "create_ritual E r v d =
     transaction E
       (sbind (slift (ritual_to_row E r v)) (\<lambda>row.
        sbind (sql E (insert_into_rituals row)) (\<lambda>_.
        sbind (insert_ritual_version E v) (\<lambda>_.
          sret (r, v, d)))))"

text \<open>\<open>UPDATE rituals SET name, status, current_version_id, updated_at WHERE id\<close>.\<close>

definition update_rituals ::
    "string \<Rightarrow> string \<Rightarrow> string \<Rightarrow> string \<Rightarrow> string \<Rightarrow> nat statement" where
  "update_rituals i name status version updated d =
     Inr (length (filter (\<lambda>r. trit_id r = i) (db_rituals d)),
          d\<lparr>db_rituals := row_update (\<lambda>r. trit_id r = i)
             (\<lambda>r. r\<lparr>trit_name := name, trit_status := status, trit_current_version_id := version,
                    trit_updated_at := updated\<rparr>) (db_rituals d)\<rparr>)"

definition update_ritual ::
    "'z store_env_scheme \<Rightarrow> ritual \<Rightarrow> ritual_version \<Rightarrow> ritual_definition \<Rightarrow>
     (ritual \<times> ritual_version \<times> ritual_definition) sm" where
  "update_ritual E r v d =
     transaction E
       (sbind (slift (format_ts E (rit_updated_at r))) (\<lambda>updated.
        sbind (sql E (update_rituals (se_uuid_text E (rit_id r)) (rit_name r)
            (ritual_status_name (rit_status r)) (se_uuid_text E (ver_id v)) updated)) (\<lambda>changed.
        if changed = 0 then slift (Inl NotFound)
        else sbind (insert_ritual_version E v) (\<lambda>_. sret (r, v, d)))))"

definition list_rituals :: "'z store_env_scheme \<Rightarrow> ritual list sm" where
  "list_rituals E =
     sbind (sql E (query (\<lambda>d. sort_key (\<lambda>r. (trit_created_at r, trit_id r)) (db_rituals d))))
       (\<lambda>rows. slift (collect_results (map (ritual_from_row E) rows)))"

definition get_ritual ::
    "'z store_env_scheme \<Rightarrow> uuid \<Rightarrow> (ritual \<times> ritual_version \<times> ritual_definition) sm" where
  "get_ritual E i =
     sbind (sql E (query (\<lambda>d. row_find trit_id (se_uuid_text E i) (db_rituals d)))) (\<lambda>found.
     sbind (slift (ok_or NotFound found)) (\<lambda>row.
     sbind (slift (ritual_from_row E row)) (\<lambda>r.
     sbind (sql E (query (\<lambda>d.
        row_find tver_id (se_uuid_text E (rit_current_version_id r)) (db_versions d)))) (\<lambda>vfound.
     sbind (slift (ok_or (Sqlite QueryReturnedNoRows) vfound)) (\<lambda>vrow.
     sbind (slift (version_from_row E vrow)) (\<lambda>v.
     sbind (slift (ok_or Json (se_ritual_of_json E (ver_canonical_json v)))) (\<lambda>d.
       sret (r, v, d))))))))"

definition set_ritual_status :: "'z store_env_scheme \<Rightarrow> uuid \<Rightarrow> ritual_status \<Rightarrow> unit sm" where
  "set_ritual_status E i status =
     sbind (sclock E) (\<lambda>now.
     sbind (slift (format_ts E now)) (\<lambda>updated.
     sbind (sql E (\<lambda>d. Inr (length (filter (\<lambda>r. trit_id r = se_uuid_text E i) (db_rituals d)),
        d\<lparr>db_rituals := row_update (\<lambda>r. trit_id r = se_uuid_text E i)
           (\<lambda>r. r\<lparr>trit_status := ritual_status_name status, trit_updated_at := updated\<rparr>)
           (db_rituals d)\<rparr>))) (\<lambda>changed.
       if changed = 0 then slift (Inl NotFound) else sret ())))"

section \<open>Approvals\<close>

definition create_approvals :: "'z store_env_scheme \<Rightarrow> approval list \<Rightarrow> unit sm" where
  "create_approvals E approvals =
     transaction E (sfor_each (\<lambda>a.
       sbind (slift (approval_to_row E a)) (\<lambda>row.
       sbind (sql E (insert_into_approvals row)) (\<lambda>_. sret ()))) approvals)"

definition list_approvals :: "'z store_env_scheme \<Rightarrow> uuid \<Rightarrow> approval list sm" where
  "list_approvals E vid =
     sbind (sql E (query (\<lambda>d. sort_key tapr_id
         (filter (\<lambda>a. tapr_ritual_version_id a = se_uuid_text E vid) (db_approvals d)))))
       (\<lambda>rows. slift (collect_results (map (approval_from_row E) rows)))"

section \<open>Executions\<close>

definition insert_step :: "'z store_env_scheme \<Rightarrow> execution_step \<Rightarrow> unit sm" where
  "insert_step E s =
     sbind (slift (step_to_row E s)) (\<lambda>row.
     sbind (sql E (insert_into_steps row)) (\<lambda>_. sret ()))"

definition insert_lock :: "'z store_env_scheme \<Rightarrow> execution \<Rightarrow> unit sm" where
  "insert_lock E x =
     sbind (on_duplicate RitualAlreadyRunning
         (sql E (insert_into_locks \<lparr>tlck_ritual_id = se_uuid_text E (exe_ritual_id x),
                                   tlck_execution_id = se_uuid_text E (exe_id x)\<rparr>))) (\<lambda>_.
       sret ())"

definition start_execution :: "'z store_env_scheme \<Rightarrow> execution \<Rightarrow> execution_step list \<Rightarrow> unit sm" where
  "start_execution E x steps =
     transaction E
       (sbind (slift (execution_to_row E x)) (\<lambda>row.
        sbind (sql E (insert_into_executions row)) (\<lambda>_.
        sbind (insert_lock E x) (\<lambda>_.
          sfor_each (insert_step E) steps))))"

definition update_executions ::
    "string \<Rightarrow> string \<Rightarrow> string \<Rightarrow> string option \<Rightarrow> string option \<Rightarrow> nat statement" where
  "update_executions i status started finished failure d =
     Inr (length (filter (\<lambda>x. texe_id x = i) (db_executions d)),
          d\<lparr>db_executions := row_update (\<lambda>x. texe_id x = i)
             (\<lambda>x. x\<lparr>texe_status := status, texe_started_at := started,
                    texe_finished_at := finished, texe_failure_code := failure\<rparr>)
             (db_executions d)\<rparr>)"

definition delete_locks :: "string \<Rightarrow> nat statement" where
  "delete_locks xid d =
     Inr (length (filter (\<lambda>l. tlck_execution_id l = xid) (db_locks d)),
          d\<lparr>db_locks := filter (\<lambda>l. tlck_execution_id l \<noteq> xid) (db_locks d)\<rparr>)"

definition update_execution :: "'z store_env_scheme \<Rightarrow> execution \<Rightarrow> unit sm" where
  "update_execution E x =
     sbind (slift (format_ts E (exe_started_at x))) (\<lambda>started.
     sbind (slift (transpose_map (format_ts E) (exe_finished_at x))) (\<lambda>finished.
     sbind (sql E (update_executions (se_uuid_text E (exe_id x)) (execution_status_name (exe_status x))
        started finished (exe_failure_code x))) (\<lambda>changed.
     if changed = 0 then slift (Inl NotFound)
     else if exe_status x \<noteq> ExecRunning
     then sbind (sql E (delete_locks (se_uuid_text E (exe_id x)))) (\<lambda>_. sret ())
     else sret ())))"

definition update_steps :: "step_row \<Rightarrow> nat statement" where
  "update_steps row d =
     Inr (length (filter (\<lambda>s. tstp_id s = tstp_id row) (db_steps d)),
          d\<lparr>db_steps := row_update (\<lambda>s. tstp_id s = tstp_id row)
             (\<lambda>s. s\<lparr>tstp_status := tstp_status row, tstp_adapter_id := tstp_adapter_id row,
                    tstp_adapter_instance_id := tstp_adapter_instance_id row,
                    tstp_started_at := tstp_started_at row, tstp_finished_at := tstp_finished_at row,
                    tstp_result_code := tstp_result_code row,
                    tstp_redacted_message := tstp_redacted_message row\<rparr>) (db_steps d)\<rparr>)"

definition update_step :: "'z store_env_scheme \<Rightarrow> execution_step \<Rightarrow> unit sm" where
  "update_step E s =
     sbind (slift (step_to_row E s)) (\<lambda>row.
     sbind (sql E (update_steps row)) (\<lambda>changed.
       if changed = 0 then slift (Inl NotFound) else sret ()))"

definition list_executions :: "'z store_env_scheme \<Rightarrow> execution list sm" where
  "list_executions E =
     sbind (sql E (query (\<lambda>d. rev (sort_key (\<lambda>x. (texe_created_at x, texe_id x)) (db_executions d)))))
       (\<lambda>rows. slift (collect_results (map (execution_from_row E) rows)))"

definition get_execution ::
    "'z store_env_scheme \<Rightarrow> uuid \<Rightarrow> (execution \<times> execution_step list) sm" where
  "get_execution E i =
     sbind (sql E (query (\<lambda>d. row_find texe_id (se_uuid_text E i) (db_executions d)))) (\<lambda>found.
     sbind (slift (and_then (ok_or NotFound found) (execution_from_row E))) (\<lambda>x.
     sbind (sql E (query (\<lambda>d. sort_key tstp_step_index
         (filter (\<lambda>s. tstp_execution_id s = se_uuid_text E i) (db_steps d))))) (\<lambda>rows.
     sbind (slift (collect_results (map (execution_step_from_row E) rows))) (\<lambda>steps.
       sret (x, steps)))))"

text \<open>The three statements of \<open>abort_running_executions\<close>.\<close>

definition abort_executions :: "string \<Rightarrow> nat statement" where
  "abort_executions now d =
     Inr (length (filter (\<lambda>x. texe_status x = ''running'') (db_executions d)),
          d\<lparr>db_executions := row_update (\<lambda>x. texe_status x = ''running'')
             (\<lambda>x. x\<lparr>texe_status := ''aborted'', texe_finished_at := Some now,
                    texe_failure_code := Some ''daemon_restarted''\<rparr>) (db_executions d)\<rparr>)"

definition restart_aborted :: "db \<Rightarrow> string \<Rightarrow> bool" where
  "restart_aborted d xid =
     list_ex (\<lambda>x. texe_id x = xid \<and> texe_status x = ''aborted'' \<and>
                  texe_failure_code x = Some ''daemon_restarted'') (db_executions d)"

definition abort_step_row :: "db \<Rightarrow> step_row \<Rightarrow> bool" where
  "abort_step_row d s =
     (tstp_status s \<in> {''running'', ''pending''} \<and> restart_aborted d (tstp_execution_id s))"

definition abort_steps :: "string \<Rightarrow> nat statement" where
  "abort_steps now d =
     Inr (length (filter (abort_step_row d) (db_steps d)),
          d\<lparr>db_steps := row_update (abort_step_row d)
             (\<lambda>s. s\<lparr>tstp_status := ''aborted'', tstp_finished_at := Some now,
                    tstp_result_code := Some ''daemon_restarted'',
                    tstp_redacted_message := Some ''execution aborted because daemon restarted''\<rparr>)
             (db_steps d)\<rparr>)"

definition abort_running_executions :: "'z store_env_scheme \<Rightarrow> unit sm" where
  "abort_running_executions E =
     sbind (sclock E) (\<lambda>now.
     sbind (slift (format_ts E now)) (\<lambda>text.
     sbind (sql E (abort_executions text)) (\<lambda>_.
     sbind (sql E (abort_steps text)) (\<lambda>_.
     sbind (sql E (\<lambda>d. Inr (length (db_locks d), d\<lparr>db_locks := []\<rparr>))) (\<lambda>_.
       sret ())))))"

text \<open>The three calls of \<open>count_where\<close>: running executions, draft and active rituals.\<close>

definition counts :: "'z store_env_scheme \<Rightarrow> (nat \<times> nat \<times> nat) sm" where
  "counts E =
     sbind (sql E (query (\<lambda>d. length (filter (\<lambda>x. texe_status x = ''running'') (db_executions d))))) (\<lambda>running.
     sbind (sql E (query (\<lambda>d. length (filter (\<lambda>r. trit_status r = ''draft'') (db_rituals d))))) (\<lambda>draft.
     sbind (sql E (query (\<lambda>d. length (filter (\<lambda>r. trit_status r = ''active'') (db_rituals d))))) (\<lambda>active.
       sret (running, draft, active))))"

section \<open>Observation scopes\<close>

text \<open>A \<open>query_row\<close> with a row mapper that may fail, then \<open>optional()\<close>.\<close>

definition query_scope ::
    "'z store_env_scheme \<Rightarrow> (db \<Rightarrow> scope_row option) \<Rightarrow> observation_scope option sm" where
  "query_scope E f =
     sql E (\<lambda>d. case f d of None \<Rightarrow> Inr (None, d)
       | Some row \<Rightarrow> and_then (observation_scope_from_sql_row E row) (\<lambda>s. Inr (Some s, d)))"

definition set_scope_status :: "string \<Rightarrow> string \<Rightarrow> (scope_row \<Rightarrow> bool) \<Rightarrow> nat statement" where
  "set_scope_status status updated P d =
     Inr (length (filter P (db_scopes d)),
          d\<lparr>db_scopes := row_update P (\<lambda>s. s\<lparr>tobs_status := status, tobs_updated_at := updated\<rparr>)
             (db_scopes d)\<rparr>)"

definition ensure_observation_scope ::
    "'z store_env_scheme \<Rightarrow> observation_scope \<Rightarrow> observation_scope sm" where
  "ensure_observation_scope E scope =
     sbind (query_scope E (\<lambda>d. row_find (\<lambda>s. (tobs_source s, tobs_resource_id s))
         (observation_source_name (obs_source scope), se_uuid_text E (obs_resource_id scope))
         (db_scopes d))) (\<lambda>existing.
     case existing of
       Some old \<Rightarrow>
         (let new = old\<lparr>obs_status := ObsActive, obs_updated_at := obs_updated_at scope\<rparr>
          in sbind (slift (format_ts E (obs_updated_at new))) (\<lambda>updated.
             sbind (sql E (set_scope_status ''active'' updated
                (\<lambda>s. tobs_id s = se_uuid_text E (obs_id new)))) (\<lambda>_.
               sret new)))
     | None \<Rightarrow>
         sbind (slift (scope_to_row E scope)) (\<lambda>row.
         sbind (sql E (insert_into_scopes row)) (\<lambda>_.
           sret scope)))"

definition list_observation_scopes ::
    "'z store_env_scheme \<Rightarrow> observation_source option \<Rightarrow> observation_scope list sm" where
  "list_observation_scopes E source =
     sql E (\<lambda>d. and_then (collect_results (map (observation_scope_from_sql_row E)
         (sort_key (\<lambda>s. (tobs_created_at s, tobs_id s))
           (filter (\<lambda>s. case source of None \<Rightarrow> True | Some x \<Rightarrow> tobs_source s = observation_source_name x)
             (db_scopes d))))) (\<lambda>scopes. Inr (scopes, d)))"

definition pause_observation_scope ::
    "'z store_env_scheme \<Rightarrow> uuid \<Rightarrow> observation_scope sm" where
  "pause_observation_scope E i =
     sbind (query_scope E (\<lambda>d. row_find tobs_id (se_uuid_text E i) (db_scopes d))) (\<lambda>found.
     sbind (slift (ok_or NotFound found)) (\<lambda>scope.
     if obs_status scope = ObsActive
     then sbind (sclock E) (\<lambda>now.
          sbind (slift (format_ts E now)) (\<lambda>updated.
          sbind (sql E (set_scope_status ''paused'' updated
             (\<lambda>s. tobs_id s = se_uuid_text E i \<and> tobs_status s = ''active''))) (\<lambda>_.
            sret (scope\<lparr>obs_status := ObsPaused, obs_updated_at := now\<rparr>))))
     else sret scope))"

section \<open>Events\<close>

definition event_to_rows ::
    "'z store_env_scheme \<Rightarrow> event \<Rightarrow> storage_error + adapter_row \<times> event_row" where
  "event_to_rows E e =
     and_then (format_ts E (ev_occurred_at e)) (\<lambda>occurred.
     and_then (format_ts E (ev_received_at e)) (\<lambda>received.
     and_then (transpose_map (\<lambda>x. ok_or Json (se_context_json E x)) (ev_context e)) (\<lambda>ctx.
     and_then (ok_or Json (se_data_json E (ev_data e))) (\<lambda>data.
     and_then (ok_or Json (se_event_json E e)) (\<lambda>canonical.
     if I64_MAX < adp_sequence_no (ev_adapter e) then Inl (Validation SequenceOutOfRange)
     else let sequence = uint (adp_sequence_no (ev_adapter e));
              inst = se_uuid_text E (adp_instance_id (ev_adapter e))
       in Inr (\<lparr>tadp_instance_id = inst, tadp_adapter_id = adp_id (ev_adapter e),
                tadp_adapter_version = adp_version (ev_adapter e),
                tadp_last_sequence_no = sequence, tadp_created_at = received,
                tadp_updated_at = received\<rparr>,
               \<lparr>tevt_id = se_uuid_text E (ev_id e), tevt_spec_version = ev_spec_version e,
                tevt_event_type = event_type_name (ev_type e), tevt_source = ev_source e,
                tevt_occurred_at = occurred, tevt_received_at = received,
                tevt_actor = actor_name (ev_actor e), tevt_adapter_id = adp_id (ev_adapter e),
                tevt_adapter_version = adp_version (ev_adapter e),
                tevt_adapter_instance_id = inst, tevt_sequence_no = sequence,
                tevt_context_json = ctx, tevt_privacy = privacy_name (ev_privacy e),
                tevt_data_json = data, tevt_canonical_json = canonical\<rparr>))))))"

definition insert_event :: "'z store_env_scheme \<Rightarrow> event \<Rightarrow> unit sm" where
  "insert_event E e =
     sbind (slift (event_to_rows E e)) (\<lambda>(adapter, row).
       transaction E
         (sbind (sql E (upsert_into_adapters adapter)) (\<lambda>_.
          sbind (on_duplicate DuplicateEvent (sql E (insert_into_events row))) (\<lambda>_.
            sret ()))))"

text \<open>The \<open>SELECT\<close> of \<open>list_events\<close>: the comparison and the order are those of the texts.\<close>

definition select_events :: "string option \<Rightarrow> nat \<Rightarrow> db \<Rightarrow> string list" where
  "select_events since limit d =
     map tevt_canonical_json (take limit
       (sort_key (\<lambda>e. (tevt_received_at e, tevt_id e))
         (filter (\<lambda>e. case since of None \<Rightarrow> True | Some s \<Rightarrow> s \<le> tevt_received_at e) (db_events d))))"

definition list_events :: "'z store_env_scheme \<Rightarrow> timestamp option \<Rightarrow> u32 \<Rightarrow> event list sm" where
  "list_events E since limit =
     sbind (slift (transpose_map (format_ts E) since)) (\<lambda>text.
     sbind (sql E (query (select_events text (min (unat limit) 1000)))) (\<lambda>jsons.
       slift (collect_results (map (\<lambda>j. ok_or Json (se_event_of_json E j)) jsons))))"

definition current_schema_version :: "db \<Rightarrow> u32" where
  "current_schema_version d = (if db_migrations d = [] then 0 else Max (set (db_migrations d)))"

section \<open>Dispatch\<close>

datatype operation =
    InsertEvent event
  | ListEvents "timestamp option" u32
  | SchemaVersion
  | CreateResource resource
  | ListResources
  | GetResource uuid
  | CreateRitual ritual ritual_version ritual_definition
  | UpdateRitual ritual ritual_version ritual_definition
  | ListRituals
  | GetRitual uuid
  | SetRitualStatus uuid ritual_status
  | CreateApprovals "approval list"
  | ListApprovals uuid
  | StartExecution execution "execution_step list"
  | UpdateExecution execution
  | UpdateStep execution_step
  | ListExecutions
  | GetExecution uuid
  | AbortRunningExecutions
  | Counts
  | EnsureObservationScope observation_scope
  | ListObservationScopes "observation_source option"
  | PauseObservationScope uuid

datatype storage_response =
    SUnit
  | SEvents "event list"
  | SSchemaVersion u32
  | SResource resource
  | SResources "resource list"
  | SRitualRecord ritual ritual_version ritual_definition
  | SRituals "ritual list"
  | SApprovals "approval list"
  | SExecutionRecord execution "execution_step list"
  | SExecutions "execution list"
  | SCounts nat nat nat
  | SObservationScope observation_scope
  | SObservationScopes "observation_scope list"

definition smap :: "('a \<Rightarrow> 'b) \<Rightarrow> 'a sm \<Rightarrow> 'b sm" where
  "smap f m = sbind m (\<lambda>a. sret (f a))"

fun execute_operation :: "'z store_env_scheme \<Rightarrow> operation \<Rightarrow> storage_response sm" where
  "execute_operation E (InsertEvent e) = smap (\<lambda>_. SUnit) (insert_event E e)"
| "execute_operation E (ListEvents since limit) = smap SEvents (list_events E since limit)"
| "execute_operation E SchemaVersion = smap SSchemaVersion (sql E (query current_schema_version))"
| "execute_operation E (CreateResource r) = smap SResource (create_resource E r)"
| "execute_operation E ListResources = smap SResources (list_resources E)"
| "execute_operation E (GetResource i) = smap SResource (get_resource E i)"
| "execute_operation E (CreateRitual r v d) =
     smap (\<lambda>(r, v, d). SRitualRecord r v d) (create_ritual E r v d)"
| "execute_operation E (UpdateRitual r v d) =
     smap (\<lambda>(r, v, d). SRitualRecord r v d) (update_ritual E r v d)"
| "execute_operation E ListRituals = smap SRituals (list_rituals E)"
| "execute_operation E (GetRitual i) = smap (\<lambda>(r, v, d). SRitualRecord r v d) (get_ritual E i)"
| "execute_operation E (SetRitualStatus i s) = smap (\<lambda>_. SUnit) (set_ritual_status E i s)"
| "execute_operation E (CreateApprovals as) = smap (\<lambda>_. SUnit) (create_approvals E as)"
| "execute_operation E (ListApprovals v) = smap SApprovals (list_approvals E v)"
| "execute_operation E (StartExecution x ss) = smap (\<lambda>_. SUnit) (start_execution E x ss)"
| "execute_operation E (UpdateExecution x) = smap (\<lambda>_. SUnit) (update_execution E x)"
| "execute_operation E (UpdateStep s) = smap (\<lambda>_. SUnit) (update_step E s)"
| "execute_operation E ListExecutions = smap SExecutions (list_executions E)"
| "execute_operation E (GetExecution i) = smap (\<lambda>(x, ss). SExecutionRecord x ss) (get_execution E i)"
| "execute_operation E AbortRunningExecutions = smap (\<lambda>_. SUnit) (abort_running_executions E)"
| "execute_operation E Counts = smap (\<lambda>(a, b, c). SCounts a b c) (counts E)"
| "execute_operation E (EnsureObservationScope s) = smap SObservationScope (ensure_observation_scope E s)"
| "execute_operation E (ListObservationScopes s) = smap SObservationScopes (list_observation_scopes E s)"
| "execute_operation E (PauseObservationScope i) = smap SObservationScope (pause_observation_scope E i)"

text \<open>The loop of \<open>writer_main\<close> over the commands sent before the shutdown, and the replies.\<close>

fun writer_loop :: "'z store_env_scheme \<Rightarrow> operation list \<Rightarrow> conn \<Rightarrow> (storage_error + storage_response) list \<times> conn" where
  "writer_loop E [] c = ([], c)"
| "writer_loop E (op # ops) c =
     (let (r, c') = execute_operation E op c; (rs, c'') = writer_loop E ops c' in (r # rs, c''))"

end
