(* ===== verification/Fubun_Store_Inv.thy ===== *)
theory Fubun_Store_Inv
  imports Fubun_Store
begin

text \<open>
  The invariant of the database: a small Hoare logic for the storage functions, and the proof
  that every operation, successful or not, with SQLite faults at any statement, preserves the
  constraints of the schema, the locks of running executions and the bounds on sequence numbers.
\<close>

section \<open>A Hoare logic for storage functions\<close>

text \<open>
  From tables satisfying \<open>P\<close>, \<open>m\<close> ends in tables satisfying \<open>Q a\<close> when it returns \<open>a\<close>, and \<open>R\<close>
  when it fails.
\<close>

definition valid :: "(db \<Rightarrow> bool) \<Rightarrow> 'a sm \<Rightarrow> ('a \<Rightarrow> db \<Rightarrow> bool) \<Rightarrow> (db \<Rightarrow> bool) \<Rightarrow> bool" where
  "valid P m Q R \<longleftrightarrow>
     (\<forall>c. P (conn_db c) \<longrightarrow>
        (case m c of (Inl _, c') \<Rightarrow> R (conn_db c') | (Inr a, c') \<Rightarrow> Q a (conn_db c')))"

abbreviation keeps :: "(db \<Rightarrow> bool) \<Rightarrow> 'a sm \<Rightarrow> bool" where
  "keeps I m \<equiv> valid I m (\<lambda>_. I) I"

lemma validI:
  assumes "\<And>c e c'. P (conn_db c) \<Longrightarrow> m c = (Inl e, c') \<Longrightarrow> R (conn_db c')"
    and "\<And>c a c'. P (conn_db c) \<Longrightarrow> m c = (Inr a, c') \<Longrightarrow> Q a (conn_db c')"
  shows "valid P m Q R"
  using assms unfolding valid_def by (auto split: prod.split sum.split)

lemma valid_Inr: "valid P m Q R \<Longrightarrow> P (conn_db c) \<Longrightarrow> m c = (Inr a, c') \<Longrightarrow> Q a (conn_db c')"
  unfolding valid_def by fastforce

lemma valid_Inl: "valid P m Q R \<Longrightarrow> P (conn_db c) \<Longrightarrow> m c = (Inl e, c') \<Longrightarrow> R (conn_db c')"
  unfolding valid_def by fastforce

lemma keeps_snd: "keeps I m \<Longrightarrow> I (conn_db c) \<Longrightarrow> I (conn_db (snd (m c)))"
  by (cases "m c"; cases "fst (m c)") (auto dest: valid_Inl valid_Inr)

lemma valid_weaken:
  assumes "valid P m Q R" "\<And>d. P' d \<Longrightarrow> P d" "\<And>a d. Q a d \<Longrightarrow> Q' a d" "\<And>d. R d \<Longrightarrow> R' d"
  shows "valid P' m Q' R'"
  using assms unfolding valid_def by (fastforce split: prod.splits sum.splits)

lemma valid_sret [intro]: "(\<And>d. P d \<Longrightarrow> Q a d) \<Longrightarrow> valid P (sret a) Q R"
  by (simp add: valid_def sret_def)

lemma valid_slift [intro]:
  assumes "\<And>a d. r = Inr a \<Longrightarrow> P d \<Longrightarrow> Q a d" "\<And>d. P d \<Longrightarrow> R d"
  shows "valid P (slift r) Q R"
  using assms by (cases r) (auto simp: valid_def slift_def)

lemma valid_sclock [intro]: "(\<And>a d. P d \<Longrightarrow> Q a d) \<Longrightarrow> valid P (sclock E) Q R"
  by (simp add: valid_def sclock_def)

lemma valid_sql [intro]:
  assumes "\<And>a d d'. P d \<Longrightarrow> s d = Inr (a, d') \<Longrightarrow> Q a d'" "\<And>d. P d \<Longrightarrow> R d"
  shows "valid P (sql E s) Q R"
  using assms by (auto simp: valid_def sql_def Let_def split: sum.splits prod.splits)

lemma valid_sbind:
  assumes "valid P m B R" "\<And>a. valid (B a) (f a) Q R"
  shows "valid P (sbind m f) Q R"
  using assms unfolding valid_def sbind_def by (fastforce split: prod.splits sum.splits)

lemma valid_sfor_each:
  assumes "\<And>x. x \<in> set xs \<Longrightarrow> valid I (f x) (\<lambda>_. I) R" "\<And>d. I d \<Longrightarrow> R d"
  shows "valid I (sfor_each f xs) (\<lambda>_. I) R"
  using assms by (induction xs) (auto intro!: valid_sret valid_sbind)

lemma valid_smap: "valid P m Q R \<Longrightarrow> (\<And>a d. Q a d \<Longrightarrow> Q' (f a) d) \<Longrightarrow> valid P (smap f m) Q' R"
  unfolding smap_def by (rule valid_sbind) (auto intro: valid_sret)

lemma keeps_smap: "keeps I m \<Longrightarrow> keeps I (smap f m)"
  by (rule valid_smap)

lemma valid_on_duplicate: "valid P m Q R \<Longrightarrow> valid P (on_duplicate x m) Q R"
  unfolding valid_def on_duplicate_def map_err_def by (fastforce split: prod.splits sum.splits)

lemma valid_if:
  "(b \<Longrightarrow> valid P m Q R) \<Longrightarrow> (\<not> b \<Longrightarrow> valid P n Q R) \<Longrightarrow> valid P (if b then m else n) Q R"
  by simp

text \<open>
  A transaction restores the tables it started from when it fails, and ends with the deferred
  foreign keys checked when it succeeds.
\<close>

lemma valid_transaction:
  assumes "valid P body B (\<lambda>_. True)" "\<And>a d. B a d \<Longrightarrow> deferred_ok d \<Longrightarrow> Q a d" "\<And>d. P d \<Longrightarrow> R d"
  shows "valid P (transaction E body) Q R"
proof (rule validI)
  fix c e c' assume "P (conn_db c)" "transaction E body c = (Inl e, c')"
  then show "R (conn_db c')" using assms(3)
    by (auto simp: transaction_def sql_def Let_def query_def split: prod.splits sum.splits if_splits)
next
  fix c a c' assume P: "P (conn_db c)" and t: "transaction E body c = (Inr a, c')"
  have v: "valid P (sbind body (\<lambda>a. sbind (sql E commit_statement) (\<lambda>_. sret a))) Q (\<lambda>_. True)"
    by (rule valid_sbind [OF assms(1)], rule valid_sbind [where B = "\<lambda>_ d. Q _ d"])
       (auto simp: commit_statement_def intro!: assms(2) split: if_splits)
  have "sbind body (\<lambda>a. sbind (sql E commit_statement) (\<lambda>_. sret a))
      (c\<lparr>conn_tick := conn_tick c + 1\<rparr>) = (Inr a, c')"
    using t by (auto simp: transaction_def sql_def Let_def query_def split: prod.splits sum.splits if_splits)
  from valid_Inr [OF v _ this] P show "Q a (conn_db c')" by simp
qed

lemma transaction_Inl_db:
  "transaction E body c = (Inl e, c') \<Longrightarrow> conn_db c' = conn_db c"
  by (auto simp: transaction_def sql_def Let_def query_def split: prod.splits sum.splits if_splits)

section \<open>Statements and the invariant\<close>

text \<open>What holds inside a transaction.\<close>

definition db_inner :: "db \<Rightarrow> bool" where
  "db_inner d \<longleftrightarrow> db_ok_deferred d \<and> running_locked d"

lemma db_ok_inner: "db_ok d \<longleftrightarrow> db_inner d \<and> deferred_ok d"
  by (auto simp: db_ok_def db_inner_def)

lemma guarded_Inr [simp]: "guarded b d = Inr (n, d') \<longleftrightarrow> \<not> b \<and> n = 1 \<and> d' = d"
  by (auto simp: guarded_def)

lemmas invariant_defs =
  db_ok_def db_inner_def db_ok_deferred_def unique_keys_def foreign_keys_def running_locked_def
  sequences_bounded_def deferred_ok_def

lemma insert_resources_ok:
  "db_ok d \<Longrightarrow> insert_into_resources r d = Inr (n, d') \<Longrightarrow> db_ok d'"
  by (simp add: invariant_defs insert_into_resources_def)

lemma insert_rituals_inner:
  "db_inner d \<Longrightarrow> insert_into_rituals r d = Inr (n, d') \<Longrightarrow> db_inner d'"
  by (simp add: invariant_defs insert_into_rituals_def)

lemma insert_versions_inner:
  "db_inner d \<Longrightarrow> insert_into_versions r d = Inr (n, d') \<Longrightarrow> db_inner d'"
  by (simp add: invariant_defs insert_into_versions_def)

lemma insert_approvals_inner:
  "db_inner d \<Longrightarrow> insert_into_approvals r d = Inr (n, d') \<Longrightarrow> db_inner d'"
  by (simp add: invariant_defs insert_into_approvals_def)

lemma insert_steps_inner:
  "db_inner d \<Longrightarrow> insert_into_steps r d = Inr (n, d') \<Longrightarrow> db_inner d'"
  by (simp add: invariant_defs insert_into_steps_def)

lemma insert_scopes_ok:
  "db_ok d \<Longrightarrow> insert_into_scopes r d = Inr (n, d') \<Longrightarrow> db_ok d'"
  by (simp add: invariant_defs insert_into_scopes_def)

text \<open>Between the two inserts of \<open>start_execution\<close> only the new row may lack its lock.\<close>

definition db_started :: "execution_row \<Rightarrow> db \<Rightarrow> bool" where
  "db_started r d \<longleftrightarrow> db_ok_deferred d \<and> r \<in> set (db_executions d) \<and>
     (\<forall>x \<in> set (db_executions d). x \<noteq> r \<and> texe_status x = ''running'' \<longrightarrow>
        (\<exists>l \<in> set (db_locks d). tlck_execution_id l = texe_id x \<and> tlck_ritual_id l = texe_ritual_id x))"

lemma insert_executions_started:
  "db_inner d \<Longrightarrow> insert_into_executions r d = Inr (n, d') \<Longrightarrow> db_started r d'"
  by (auto simp: invariant_defs insert_into_executions_def db_started_def)

lemma insert_locks_inner:
  assumes "db_started r d" "insert_into_locks l d = Inr (n, d')"
    and "tlck_ritual_id l = texe_ritual_id r" "tlck_execution_id l = texe_id r"
  shows "db_inner d'"
proof -
  have d': "d' = d\<lparr>db_locks := db_locks d @ [l]\<rparr>" using assms(2) by (simp add: insert_into_locks_def)
  have "db_ok_deferred d'" using assms(1,2)
    by (simp add: invariant_defs insert_into_locks_def db_started_def)
  moreover have "running_locked d'"
    using assms(1,3,4) by (auto simp: running_locked_def d' db_started_def)
  ultimately show ?thesis by (simp add: db_inner_def)
qed

lemma ball_row_update:
  "(\<forall>r \<in> set (row_update P f t). Q r) \<longleftrightarrow> (\<forall>r \<in> set t. if P r then Q (f r) else Q r)"
  by (auto simp: row_update_def)

lemmas row_update_simps = has_key_row_update unique_on_row_update ball_row_update

text \<open>An update of \<open>rituals\<close> that leaves the ids alone.\<close>

lemma rituals_update_inner:
  assumes "db_inner d" "\<And>r. trit_id (f r) = trit_id r"
  shows "db_inner (d\<lparr>db_rituals := row_update P f (db_rituals d)\<rparr>)" (is "db_inner ?d")
proof -
  have "unique_keys ?d" "foreign_keys ?d" using assms
    by (simp_all add: db_inner_def db_ok_deferred_def unique_keys_def foreign_keys_def row_update_simps)
  moreover have "sequences_bounded ?d" "running_locked ?d" using assms(1)
    by (simp_all add: db_inner_def db_ok_deferred_def sequences_bounded_def running_locked_def)
  ultimately show ?thesis by (simp add: db_inner_def db_ok_deferred_def)
qed

lemma update_rituals_inner:
  assumes "db_inner d" "update_rituals i nm st v u d = Inr (n, d')"
  shows "db_inner d'"
proof -
  have d': "d' = d\<lparr>db_rituals := row_update (\<lambda>r. trit_id r = i)
      (\<lambda>r. r\<lparr>trit_name := nm, trit_status := st, trit_current_version_id := v,
             trit_updated_at := u\<rparr>) (db_rituals d)\<rparr>"
    using assms(2) by (simp add: update_rituals_def)
  show ?thesis unfolding d' by (rule rituals_update_inner [OF assms(1)]) simp
qed

lemma set_status_ok:
  assumes "db_ok d"
  shows "db_ok (d\<lparr>db_rituals := row_update P (\<lambda>r. r\<lparr>trit_status := st, trit_updated_at := u\<rparr>) (db_rituals d)\<rparr>)"
    (is "db_ok ?d")
proof -
  have "db_inner ?d" using assms by (intro rituals_update_inner) (simp_all add: db_ok_inner)
  moreover have "deferred_ok ?d"
    using assms by (simp add: db_ok_inner deferred_ok_def list_all_iff ball_row_update)
  ultimately show ?thesis by (simp add: db_ok_inner)
qed

text \<open>An update of \<open>executions\<close> that leaves the keys alone and leaves no row it touches running.\<close>

lemma executions_update_ok:
  assumes "db_ok d"
    and "\<And>x. texe_id (f x) = texe_id x" "\<And>x. texe_ritual_id (f x) = texe_ritual_id x"
      "\<And>x. texe_ritual_version_id (f x) = texe_ritual_version_id x"
      "\<And>x. texe_status (f x) \<noteq> ''running''"
  shows "db_ok (d\<lparr>db_executions := row_update P f (db_executions d)\<rparr>)" (is "db_ok ?d")
proof -
  have "unique_keys ?d" "foreign_keys ?d" using assms(1-4)
    by (simp_all add: db_ok_def db_ok_deferred_def unique_keys_def foreign_keys_def row_update_simps)
  moreover have "sequences_bounded ?d" "deferred_ok ?d" using assms(1)
    by (simp_all add: invariant_defs)
  moreover have "running_locked ?d" using assms(1,5)
    by (simp add: db_ok_def running_locked_def ball_row_update)
  ultimately show ?thesis by (simp add: db_ok_def db_ok_deferred_def)
qed

lemma update_executions_ok:
  assumes "db_ok d" "update_executions i st sa fi fa d = Inr (n, d')" "st \<noteq> ''running''"
  shows "db_ok d' \<and> (\<forall>x \<in> set (db_executions d'). texe_id x = i \<longrightarrow> texe_status x \<noteq> ''running'')"
proof -
  have d': "d' = d\<lparr>db_executions := row_update (\<lambda>x. texe_id x = i)
      (\<lambda>x. x\<lparr>texe_status := st, texe_started_at := sa, texe_finished_at := fi,
             texe_failure_code := fa\<rparr>) (db_executions d)\<rparr>"
    using assms(2) by (simp add: update_executions_def)
  show ?thesis unfolding d' using assms(3)
    by (intro conjI executions_update_ok [OF assms(1)]) (simp_all add: ball_row_update)
qed

lemma delete_locks_ok:
  assumes "db_ok d" "\<forall>x \<in> set (db_executions d). texe_id x = i \<longrightarrow> texe_status x \<noteq> ''running''"
    and "delete_locks i d = Inr (n, d')"
  shows "db_ok d'"
proof -
  have d': "d' = d\<lparr>db_locks := filter (\<lambda>l. tlck_execution_id l \<noteq> i) (db_locks d)\<rparr>"
    using assms(3) by (simp add: delete_locks_def)
  have "unique_keys d'" "foreign_keys d'" using assms(1)
    by (simp_all add: db_ok_def db_ok_deferred_def unique_keys_def foreign_keys_def d' unique_on_filter)
  moreover have "sequences_bounded d'" "deferred_ok d'" using assms(1)
    by (simp_all add: invariant_defs d')
  moreover have "running_locked d'" unfolding running_locked_def
  proof (intro ballI impI)
    fix x assume x: "x \<in> set (db_executions d')" "texe_status x = ''running''"
    then obtain l where l: "l \<in> set (db_locks d)" "tlck_execution_id l = texe_id x"
        "tlck_ritual_id l = texe_ritual_id x"
      using assms(1) by (auto simp: db_ok_def running_locked_def d')
    have "texe_id x \<noteq> i" using x assms(2) by (auto simp: d')
    with l show "\<exists>l \<in> set (db_locks d'). tlck_execution_id l = texe_id x \<and>
        tlck_ritual_id l = texe_ritual_id x" by (auto simp: d')
  qed
  ultimately show ?thesis by (simp add: db_ok_def db_ok_deferred_def)
qed

text \<open>An update of \<open>execution_steps\<close> that leaves the keys of the rows alone.\<close>

lemma steps_update_ok:
  assumes "db_ok d"
    and "\<And>s. tstp_id (f s) = tstp_id s" "\<And>s. tstp_execution_id (f s) = tstp_execution_id s"
      "\<And>s. tstp_step_index (f s) = tstp_step_index s"
  shows "db_ok (d\<lparr>db_steps := row_update P f (db_steps d)\<rparr>)" (is "db_ok ?d")
proof -
  have "unique_keys ?d" "foreign_keys ?d" using assms
    by (simp_all add: db_ok_def db_ok_deferred_def unique_keys_def foreign_keys_def row_update_simps)
  moreover have "sequences_bounded ?d" "running_locked ?d" "deferred_ok ?d" using assms(1)
    by (simp_all add: invariant_defs)
  ultimately show ?thesis by (simp add: db_ok_def db_ok_deferred_def)
qed

lemma update_steps_ok:
  assumes "db_ok d" "update_steps r d = Inr (n, d')"
  shows "db_ok d'"
  using assms(2) steps_update_ok [OF assms(1)] by (auto simp: update_steps_def)

lemma abort_steps_ok:
  assumes "db_ok d" "abort_steps now d = Inr (n, d')"
  shows "db_ok d'"
  using assms(2) steps_update_ok [OF assms(1)] by (auto simp: abort_steps_def)

lemma abort_executions_ok:
  assumes "db_ok d" "abort_executions now d = Inr (n, d')"
  shows "db_ok d' \<and> (\<forall>x \<in> set (db_executions d'). texe_status x \<noteq> ''running'')"
proof -
  have d': "d' = d\<lparr>db_executions := row_update (\<lambda>x. texe_status x = ''running'')
      (\<lambda>x. x\<lparr>texe_status := ''aborted'', texe_finished_at := Some now,
             texe_failure_code := Some ''daemon_restarted''\<rparr>) (db_executions d)\<rparr>"
    using assms(2) by (simp add: abort_executions_def)
  show ?thesis unfolding d'
    by (intro conjI executions_update_ok [OF assms(1)]) (simp_all add: ball_row_update)
qed

lemma set_scope_status_ok:
  assumes "db_ok d" "set_scope_status st u P d = Inr (n, d')" "st \<in> {''active'', ''paused''}"
  shows "db_ok d'"
proof -
  let ?f = "\<lambda>s. s\<lparr>tobs_status := st, tobs_updated_at := u\<rparr>"
  have d': "d' = d\<lparr>db_scopes := row_update P ?f (db_scopes d)\<rparr>"
    using assms(2) by (simp add: set_scope_status_def)
  have f: "scope_check s \<Longrightarrow> scope_check (?f s)" for s
    using assms(3) unfolding scope_check_def by simp
  have "foreign_keys d'" using assms(1) f
    by (simp add: db_ok_def db_ok_deferred_def foreign_keys_def d' row_update_simps)
  moreover have "unique_keys d'" using assms(1)
    by (simp add: db_ok_def db_ok_deferred_def unique_keys_def d' row_update_simps)
  moreover have "sequences_bounded d'" "running_locked d'" "deferred_ok d'" using assms(1)
    by (simp_all add: invariant_defs d')
  ultimately show ?thesis by (simp add: db_ok_def db_ok_deferred_def)
qed

section \<open>Every operation keeps the invariant\<close>

lemma keeps_query: "keeps I (sql E (query f))"
  by (rule valid_sql) (auto simp: query_def)

lemma keeps_sbind: "keeps I m \<Longrightarrow> (\<And>a. keeps I (f a)) \<Longrightarrow> keeps I (sbind m f)"
  by (rule valid_sbind)

lemma keeps_slift: "keeps I (slift r)"
  by (rule valid_slift)

lemma keeps_sret: "keeps I (sret a)"
  by (rule valid_sret)

lemma keeps_sclock: "keeps I (sclock E)"
  by (rule valid_sclock)

lemma keeps_sql: "(\<And>d a d'. I d \<Longrightarrow> s d = Inr (a, d') \<Longrightarrow> I d') \<Longrightarrow> keeps I (sql E s)"
  by (rule valid_sql) auto

lemma keeps_if: "keeps I m \<Longrightarrow> keeps I n \<Longrightarrow> keeps I (if b then m else n)"
  by simp

lemma keeps_for_each: "(\<And>x. keeps I (f x)) \<Longrightarrow> keeps I (sfor_each f xs)"
  by (rule valid_sfor_each) auto

lemmas keeps_rules = keeps_sbind keeps_slift keeps_sret keeps_sclock keeps_query keeps_if
  keeps_for_each keeps_smap

text \<open>Reads keep any predicate of the tables.\<close>

lemma keeps_list_resources: "keeps I (list_resources E)"
  unfolding list_resources_def by (intro keeps_rules)

lemma keeps_get_resource: "keeps I (get_resource E i)"
  unfolding get_resource_def by (intro keeps_rules)

lemma keeps_list_rituals: "keeps I (list_rituals E)"
  unfolding list_rituals_def by (intro keeps_rules)

lemma keeps_get_ritual: "keeps I (get_ritual E i)"
  unfolding get_ritual_def by (intro keeps_rules)

lemma keeps_list_approvals: "keeps I (list_approvals E i)"
  unfolding list_approvals_def by (intro keeps_rules)

lemma keeps_list_executions: "keeps I (list_executions E)"
  unfolding list_executions_def by (intro keeps_rules)

lemma keeps_get_execution: "keeps I (get_execution E i)"
  unfolding get_execution_def by (intro keeps_rules)

lemma keeps_counts: "keeps I (counts E)"
  unfolding counts_def by (intro keeps_rules)

lemma keeps_list_events: "keeps I (list_events E since limit)"
  unfolding list_events_def by (intro keeps_rules)

lemma keeps_query_scope: "keeps I (query_scope E f)"
  unfolding query_scope_def by (rule keeps_sql) (auto simp: and_then_Inr_iff split: option.splits)

lemma keeps_list_scopes: "keeps I (list_observation_scopes E s)"
  unfolding list_observation_scopes_def by (rule keeps_sql) (auto simp: and_then_Inr_iff)

lemmas keeps_reads = keeps_list_resources keeps_get_resource keeps_list_rituals keeps_get_ritual
  keeps_list_approvals keeps_list_executions keeps_get_execution keeps_counts keeps_list_events
  keeps_list_scopes

text \<open>Writes keep the invariant.\<close>

lemma keeps_create_resource: "keeps db_ok (create_resource E r)"
  unfolding create_resource_def
  by (intro keeps_rules valid_on_duplicate keeps_sql) (rule insert_resources_ok)

lemma keeps_insert_version: "keeps db_inner (insert_ritual_version E v)"
  unfolding insert_ritual_version_def
  by (intro keeps_rules keeps_sql) (rule insert_versions_inner)

lemma keeps_transaction:
  assumes "keeps db_inner body"
  shows "keeps db_ok (transaction E body)"
  by (rule valid_transaction [where B = "\<lambda>_. db_inner"], rule valid_weaken [OF assms])
     (auto simp: db_ok_inner)

lemma keeps_create_ritual: "keeps db_ok (create_ritual E r v d)"
  unfolding create_ritual_def
  by (intro keeps_transaction keeps_rules keeps_insert_version keeps_sql) (rule insert_rituals_inner)

lemma keeps_update_ritual: "keeps db_ok (update_ritual E r v d)"
  unfolding update_ritual_def
  by (intro keeps_transaction keeps_rules keeps_insert_version keeps_sql) (rule update_rituals_inner)

lemma keeps_set_ritual_status: "keeps db_ok (set_ritual_status E i s)"
  unfolding set_ritual_status_def by (intro keeps_rules keeps_sql) (auto intro: set_status_ok)

lemma keeps_create_approvals: "keeps db_ok (create_approvals E as)"
  unfolding create_approvals_def
  by (intro keeps_transaction keeps_rules keeps_sql) (rule insert_approvals_inner)

lemma keeps_insert_step: "keeps db_inner (insert_step E s)"
  unfolding insert_step_def by (intro keeps_rules keeps_sql) (rule insert_steps_inner)

lemma execution_row_ids:
  "execution_to_row E x = Inr row \<Longrightarrow>
     texe_id row = se_uuid_text E (exe_id x) \<and> texe_ritual_id row = se_uuid_text E (exe_ritual_id x)"
  by (auto simp: execution_to_row_def and_then_Inr_iff)

lemma valid_insert_lock:
  assumes "execution_to_row E x = Inr row"
  shows "valid (db_started row) (insert_lock E x) (\<lambda>_. db_inner) (\<lambda>_. True)"
  unfolding insert_lock_def
  by (rule valid_sbind [where B = "\<lambda>_. db_inner"], rule valid_on_duplicate, rule valid_sql,
      rule insert_locks_inner [of row]) (auto simp: execution_row_ids [OF assms])

lemma keeps_start_execution: "keeps db_ok (start_execution E x steps)"
  unfolding start_execution_def
proof (rule valid_transaction [where B = "\<lambda>_. db_inner"])
  show "valid db_ok (sbind (slift (execution_to_row E x)) (\<lambda>row.
        sbind (sql E (insert_into_executions row)) (\<lambda>_.
        sbind (insert_lock E x) (\<lambda>_. sfor_each (insert_step E) steps)))) (\<lambda>_. db_inner) (\<lambda>_. True)"
  proof (rule valid_sbind [where B = "\<lambda>row d. db_inner d \<and> execution_to_row E x = Inr row"])
    fix row
    show "valid (\<lambda>d. db_inner d \<and> execution_to_row E x = Inr row)
       (sbind (sql E (insert_into_executions row)) (\<lambda>_.
        sbind (insert_lock E x) (\<lambda>_. sfor_each (insert_step E) steps))) (\<lambda>_. db_inner) (\<lambda>_. True)"
    proof (cases "execution_to_row E x = Inr row")
      case True
      show ?thesis
        by (rule valid_sbind [where B = "\<lambda>_. db_started row"], rule valid_sql,
            use insert_executions_started in blast, simp,
            rule valid_sbind [OF valid_insert_lock [OF True]],
            rule valid_weaken [OF keeps_for_each [OF keeps_insert_step]]) auto
    qed (simp add: valid_def)
  qed (auto simp: db_ok_inner)
qed (auto simp: db_ok_inner)

lemma execution_status_running:
  "execution_status_name s = ''running'' \<longleftrightarrow> s = ExecRunning"
  using execution_status_codec.enc_inject [of s ExecRunning] by simp

lemma keeps_update_execution:
  assumes "exe_status x \<noteq> ExecRunning"
  shows "keeps db_ok (update_execution E x)"
proof -
  let ?i = "se_uuid_text E (exe_id x)"
  let ?J = "\<lambda>d. db_ok d \<and> (\<forall>x \<in> set (db_executions d). texe_id x = ?i \<longrightarrow> texe_status x \<noteq> ''running'')"
  have u: "valid db_ok (sql E (update_executions ?i (execution_status_name (exe_status x)) st fi fa))
      (\<lambda>_. ?J) db_ok" for st fi fa
    by (rule valid_sql) (use assms update_executions_ok execution_status_running in blast)+
  have l: "valid ?J (sql E (delete_locks ?i)) (\<lambda>_. db_ok) db_ok"
    by (rule valid_sql) (use delete_locks_ok in blast)+
  have f: "valid ?J (slift (Inl NotFound :: storage_error + unit)) (\<lambda>_. db_ok) db_ok"
    by (rule valid_slift) auto
  have "valid ?J (if n = 0 then slift (Inl NotFound)
      else if exe_status x \<noteq> ExecRunning
           then sbind (sql E (delete_locks ?i)) (\<lambda>_. sret ()) else sret ()) (\<lambda>_. db_ok) db_ok" for n :: nat
    using assms by (simp add: f valid_sbind [OF l] keeps_sret)
  then show ?thesis unfolding update_execution_def
    by (intro keeps_sbind keeps_slift valid_sbind [OF u])
qed

lemma keeps_update_step: "keeps db_ok (update_step E s)"
  unfolding update_step_def by (intro keeps_rules keeps_sql) (rule update_steps_ok)

lemma drop_locks_ok:
  assumes "db_ok d" "\<forall>x \<in> set (db_executions d). texe_status x \<noteq> ''running''"
  shows "db_ok (d\<lparr>db_locks := []\<rparr>)"
  using assms by (simp add: invariant_defs)

lemma keeps_abort_running: "keeps db_ok (abort_running_executions E)"
proof -
  let ?J = "\<lambda>d. db_ok d \<and> (\<forall>x \<in> set (db_executions d). texe_status x \<noteq> ''running'')"
  have a: "valid db_ok (sql E (abort_executions t)) (\<lambda>_. ?J) db_ok" for t
    by (rule valid_sql) (use abort_executions_ok in blast)+
  have "db_executions d' = db_executions d" if "abort_steps t d = Inr (n, d')" for t d n d'
    using that by (auto simp: abort_steps_def)
  then have s: "valid ?J (sql E (abort_steps t)) (\<lambda>_. ?J) db_ok" for t
    by (intro valid_sql) (use abort_steps_ok in fastforce)+
  have l: "valid ?J (sql E (\<lambda>d. Inr (length (db_locks d), d\<lparr>db_locks := []\<rparr>))) (\<lambda>_. db_ok) db_ok"
    by (rule valid_sql) (auto intro: drop_locks_ok)
  show ?thesis unfolding abort_running_executions_def
    by (intro keeps_sbind keeps_slift keeps_sclock valid_sbind [OF a] valid_sbind [OF s]
        valid_sbind [OF l] keeps_sret)
qed

lemma keeps_case_option:
  "keeps I m \<Longrightarrow> (\<And>a. keeps I (f a)) \<Longrightarrow> keeps I (case x of None \<Rightarrow> m | Some a \<Rightarrow> f a)"
  by (cases x) simp_all

lemma keeps_set_scope_status:
  "st \<in> {''active'', ''paused''} \<Longrightarrow> keeps db_ok (sql E (set_scope_status st u P))"
  by (rule keeps_sql, rule set_scope_status_ok)

lemma keeps_insert_scope: "keeps db_ok (sql E (insert_into_scopes row))"
  by (rule keeps_sql, rule insert_scopes_ok)

lemma keeps_ensure_scope: "keeps db_ok (ensure_observation_scope E s)"
  unfolding ensure_observation_scope_def Let_def
  by (intro keeps_sbind keeps_query_scope keeps_case_option keeps_slift keeps_sret
      keeps_insert_scope keeps_set_scope_status) simp

lemma keeps_pause_scope: "keeps db_ok (pause_observation_scope E i)"
  unfolding pause_observation_scope_def
  by (intro keeps_sbind keeps_query_scope keeps_if keeps_slift keeps_sret keeps_sclock
      keeps_set_scope_status) simp

text \<open>An event goes in after its adapter's row, whose last sequence number covers it.\<close>

definition adapter_covers :: "adapter_row \<Rightarrow> db \<Rightarrow> bool" where
  "adapter_covers r d \<longleftrightarrow>
     (\<forall>a \<in> set (db_adapters d). tadp_instance_id a = tadp_instance_id r \<longrightarrow>
        tadp_last_sequence_no r \<le> tadp_last_sequence_no a)"

lemma upsert_adapters_inner:
  assumes "db_inner d" "upsert_into_adapters r d = Inr (n, d')"
  shows "db_inner d' \<and> adapter_covers r d'"
proof (cases "has_key tadp_instance_id (tadp_instance_id r) (db_adapters d)")
  case True
  let ?f = "\<lambda>a. a\<lparr>tadp_adapter_id := tadp_adapter_id r, tadp_adapter_version := tadp_adapter_version r,
      tadp_last_sequence_no := max (tadp_last_sequence_no a) (tadp_last_sequence_no r),
      tadp_updated_at := tadp_updated_at r\<rparr>"
  have d': "d' = d\<lparr>db_adapters := row_update (\<lambda>a. tadp_instance_id a = tadp_instance_id r) ?f (db_adapters d)\<rparr>"
    using assms(2) True by (simp add: upsert_into_adapters_def)
  have "unique_keys d'" "foreign_keys d'" "running_locked d'" using assms(1)
    by (simp_all add: db_inner_def db_ok_deferred_def unique_keys_def foreign_keys_def
        running_locked_def d' row_update_simps)
  moreover have "sequences_bounded d'" using assms(1)
    by (auto simp: db_inner_def db_ok_deferred_def sequences_bounded_def d' ball_row_update
        intro: max.coboundedI1)
  moreover have "adapter_covers r d'" by (simp add: adapter_covers_def d' ball_row_update)
  ultimately show ?thesis by (simp add: db_inner_def db_ok_deferred_def)
next
  case False
  then have d': "d' = d\<lparr>db_adapters := db_adapters d @ [r]\<rparr>"
    using assms(2) by (simp add: upsert_into_adapters_def)
  have n: "tadp_instance_id a \<noteq> tadp_instance_id r" if "a \<in> set (db_adapters d)" for a
    using False that by (metis has_key_iff image_eqI)
  have "unique_keys d'" "foreign_keys d'" "running_locked d'" using assms(1) False
    by (simp_all add: db_inner_def db_ok_deferred_def unique_keys_def foreign_keys_def
        running_locked_def d')
  moreover have "sequences_bounded d'"
    using assms(1) False
    by (auto simp: db_inner_def db_ok_deferred_def sequences_bounded_def foreign_keys_def d')
  moreover have "adapter_covers r d'" by (auto simp: adapter_covers_def d' dest: n)
  ultimately show ?thesis by (simp add: db_inner_def db_ok_deferred_def)
qed

lemma insert_events_inner:
  assumes "db_inner d \<and> adapter_covers a d" "insert_into_events r d = Inr (n, d')"
    and "tevt_adapter_instance_id r = tadp_instance_id a"
    and "tevt_sequence_no r \<le> tadp_last_sequence_no a"
  shows "db_inner d'"
proof -
  have d': "d' = d\<lparr>db_events := db_events d @ [r]\<rparr>" and s: "0 \<le> tevt_sequence_no r"
    using assms(2) by (simp_all add: insert_into_events_def not_less)
  have "unique_keys d'" "foreign_keys d'" "running_locked d'" using assms(1,2)
    by (simp_all add: db_inner_def db_ok_deferred_def unique_keys_def foreign_keys_def
        running_locked_def insert_into_events_def)
  moreover have "sequences_bounded d'"
    using assms(1,3,4) s
    by (fastforce simp: db_inner_def db_ok_deferred_def sequences_bounded_def adapter_covers_def d')
  ultimately show ?thesis by (simp add: db_inner_def db_ok_deferred_def)
qed

lemma event_to_rows_linked:
  "event_to_rows E e = Inr (a, r) \<Longrightarrow>
     tevt_adapter_instance_id r = tadp_instance_id a \<and>
     tevt_sequence_no r = tadp_last_sequence_no a"
  by (auto simp: event_to_rows_def and_then_Inr_iff Let_def split: if_splits)

lemma keeps_insert_event: "keeps db_ok (insert_event E e)"
proof (cases "event_to_rows E e")
  case (Inl err)
  then show ?thesis by (simp add: insert_event_def valid_def sbind_def slift_def)
next
  case (Inr p)
  obtain a r where p: "p = (a, r)" by (cases p)
  note l = event_to_rows_linked [OF Inr [unfolded p]]
  have i: "valid (\<lambda>d. db_inner d \<and> adapter_covers a d) (sql E (insert_into_events r)) (\<lambda>_. db_inner) (\<lambda>_. True)"
    by (rule valid_sql, rule insert_events_inner) (auto simp: l)
  have u: "valid db_inner (sql E (upsert_into_adapters a)) (\<lambda>_ d. db_inner d \<and> adapter_covers a d) (\<lambda>_. True)"
    by (rule valid_sql, rule upsert_adapters_inner) auto
  have "valid db_ok (sbind (sql E (upsert_into_adapters a)) (\<lambda>_.
      sbind (on_duplicate DuplicateEvent (sql E (insert_into_events r))) (\<lambda>_. sret ()))) (\<lambda>_. db_inner) (\<lambda>_. True)"
    by (rule valid_sbind [where B = "\<lambda>_ d. db_inner d \<and> adapter_covers a d"],
        rule valid_weaken [OF u], simp_all add: db_ok_inner,
        rule valid_sbind [where B = "\<lambda>_. db_inner"], rule valid_on_duplicate [OF i], rule valid_sret)
  then have "keeps db_ok (transaction E (sbind (sql E (upsert_into_adapters a)) (\<lambda>_.
      sbind (on_duplicate DuplicateEvent (sql E (insert_into_events r))) (\<lambda>_. sret ()))))"
    by (rule valid_transaction) (auto simp: db_ok_inner)
  then show ?thesis
    unfolding insert_event_def valid_def sbind_def slift_def by (simp add: Inr p)
qed

text \<open>
  \<open>UpdateExecution\<close> must not put an execution back to running: it would run without a lock. The
  daemon only finishes executions with it.
\<close>

fun never_resumes :: "operation \<Rightarrow> bool" where
  "never_resumes (UpdateExecution x) = (exe_status x \<noteq> ExecRunning)"
| "never_resumes _ = True"

lemma keeps_execute_operation:
  assumes "never_resumes op"
  shows "keeps db_ok (execute_operation E op)"
  using assms
  by (cases op)
     (simp_all add: keeps_smap keeps_reads keeps_query keeps_create_resource keeps_create_ritual
       keeps_update_ritual keeps_set_ritual_status keeps_create_approvals keeps_start_execution
       keeps_update_execution keeps_update_step keeps_abort_running keeps_ensure_scope
       keeps_pause_scope keeps_insert_event)

lemma writer_loop_keeps:
  assumes "\<And>op. op \<in> set ops \<Longrightarrow> keeps I (execute_operation E op)" "I (conn_db c)"
  shows "I (conn_db (snd (writer_loop E ops c)))"
  using assms
proof (induction ops arbitrary: c)
  case (Cons op ops)
  have step: "I (conn_db (snd (execute_operation E op c)))"
    by (rule keeps_snd [OF Cons.prems(1) Cons.prems(2)]) simp
  show ?case
    unfolding writer_loop.simps Let_def case_prod_beta snd_conv
    by (rule Cons.IH [OF _ step], rule Cons.prems(1)) simp
qed simp

lemma empty_db_ok: "db_ok empty_db"
  by (simp add: invariant_defs empty_db_def)

lemma running_unique:
  assumes "db_ok d" "x \<in> set (db_executions d)" "y \<in> set (db_executions d)"
    and "texe_status x = ''running''" "texe_status y = ''running''"
    and "texe_ritual_id x = texe_ritual_id y"
  shows "x = y"
proof -
  have u: "unique_on tlck_ritual_id (db_locks d)" "unique_on texe_id (db_executions d)"
    and r: "running_locked d"
    using assms(1) by (simp_all add: db_ok_def db_ok_deferred_def unique_keys_def)
  obtain l where l: "l \<in> set (db_locks d)" "tlck_execution_id l = texe_id x"
      "tlck_ritual_id l = texe_ritual_id x"
    using r assms(2,4) by (auto simp: running_locked_def)
  obtain m where m: "m \<in> set (db_locks d)" "tlck_execution_id m = texe_id y"
      "tlck_ritual_id m = texe_ritual_id y"
    using r assms(3,5) by (auto simp: running_locked_def)
  have "l = m" using unique_onD [OF u(1) l(1) m(1)] l(3) m(3) assms(6) by simp
  then have "texe_id x = texe_id y" using l(2) m(2) by simp
  then show ?thesis using unique_onD [OF u(2) assms(2,3)] by simp
qed

end
