(* ===== verification/Fubun_Store_Props.thy ===== *)
theory Fubun_Store_Props
  imports Fubun_Store_Inv
begin

text \<open>
  What the storage operations do: the row codecs as instances of the locale \<open>keyed_rows\<close>, what a
  successful operation did to the tables, and the properties of \<open>crates/fubun-storage\<close>: round
  trips, duplicates, locks, restarts, atomicity and the append-only tables.
\<close>

section \<open>The contract of a row codec\<close>

text \<open>
  A record written to a row reads back as \<open>stored\<close> of it, and the row's key is the text of its id;
  \<open>lawful\<close> is what the codec relies on in its environment.
\<close>

locale keyed_rows =
  fixes lawful :: "'e \<Rightarrow> bool"
    and id_text :: "'e \<Rightarrow> uuid \<Rightarrow> string"
    and to_row :: "'e \<Rightarrow> 'a \<Rightarrow> 'f + 'r"
    and from_row :: "'e \<Rightarrow> 'r \<Rightarrow> 'g + 'b"
    and stored :: "'a \<Rightarrow> 'b"
    and key :: "'r \<Rightarrow> string"
    and ident :: "'a \<Rightarrow> uuid"
  assumes read_back: "lawful E \<Longrightarrow> to_row E a = Inr r \<Longrightarrow> from_row E r = Inr (stored a)"
    and key_of_row: "to_row E a = Inr r \<Longrightarrow> key r = id_text E (ident a)"
begin

lemma select_inserted:
  "to_row E a = Inr r \<Longrightarrow> \<not> has_key key (key r) t \<Longrightarrow>
     row_find key (id_text E (ident a)) (t @ [r]) = Some r"
  using key_of_row [of E a r]
  by (auto simp: row_find_append row_find_Cons row_find_None_iff [symmetric])

lemma read_rows:
  assumes "lawful E" "list_all2 (\<lambda>a r. to_row E a = Inr r) as rows"
  shows "collect_results (map (from_row E) rows) = Inr (map stored as)"
  using assms(2) unfolding collect_results_Inr_iff
  by (induction rule: list_all2_induct) (simp_all add: read_back [OF assms(1)])

lemma rows_inject:
  "lawful E \<Longrightarrow> to_row E a = Inr r \<Longrightarrow> to_row E b = Inr r \<Longrightarrow> stored a = stored b"
  using read_back [of E a r] read_back [of E b r] by simp

end

lemma u32_try_from_uint [simp]: "u32_try_from f (uint w) = Inr w" for w :: u32
  using uint_lt2p [of w] by (simp add: u32_try_from_def)

lemmas codec_unfold = and_then_Inr_iff parse_uuid_text parse_ts_format parse_ts_option_format
  parse_uuid_option_text codec_names sql_parse_def

interpretation resource_rows: keyed_rows store_env_laws se_uuid_text resource_to_row
  resource_from_row "\<lambda>r. r\<lparr>res_updated_at := res_created_at r\<rparr>" tres_id res_id
  by unfold_locales (auto simp: resource_to_row_def resource_from_row_def codec_unfold)

interpretation ritual_rows: keyed_rows store_env_laws se_uuid_text "\<lambda>E (r, v). ritual_to_row E r v"
  ritual_from_row "\<lambda>(r, v). r\<lparr>rit_current_version_id := ver_id v\<rparr>" trit_id "\<lambda>(r, v). rit_id r"
  by unfold_locales (auto simp: ritual_to_row_def ritual_from_row_def codec_unfold)

interpretation version_rows: keyed_rows store_env_laws se_uuid_text version_to_row
  version_from_row "\<lambda>v. v" tver_id ver_id
  by unfold_locales (auto simp: version_to_row_def version_from_row_def codec_unfold)

interpretation approval_rows: keyed_rows store_env_laws se_uuid_text approval_to_row
  approval_from_row "\<lambda>a. a" tapr_id apr_id
  by unfold_locales (auto simp: approval_to_row_def approval_from_row_def codec_unfold)

interpretation execution_rows: keyed_rows store_env_laws se_uuid_text execution_to_row
  execution_from_row "\<lambda>x. x" texe_id exe_id
  by unfold_locales (auto simp: execution_to_row_def execution_from_row_def codec_unfold)

interpretation step_rows: keyed_rows store_env_laws se_uuid_text step_to_row
  execution_step_from_row "\<lambda>s. s" tstp_id stp_id
  by unfold_locales (auto simp: step_to_row_def execution_step_from_row_def codec_unfold)

interpretation scope_rows: keyed_rows store_env_laws se_uuid_text scope_to_row
  observation_scope_from_sql_row "\<lambda>s. s" tobs_id obs_id
  by unfold_locales (auto simp: scope_to_row_def observation_scope_from_sql_row_def codec_unfold)

section \<open>Successful runs\<close>

lemma sbind_Inr_iff:
  "sbind m f c = (Inr b, c') \<longleftrightarrow> (\<exists>a c1. m c = (Inr a, c1) \<and> f a c1 = (Inr b, c'))"
  by (auto simp: sbind_def split: prod.splits sum.splits)

lemma slift_Inr_iff: "slift r c = (Inr a, c') \<longleftrightarrow> r = Inr a \<and> c' = c"
  by (auto simp: slift_def)

lemma sret_iff: "sret a c = (Inr b, c') \<longleftrightarrow> b = a \<and> c' = c"
  by (auto simp: sret_def)

lemma sclock_Inr_iff:
  "sclock E c = (Inr t, c') \<longleftrightarrow> t = se_now E (conn_tick c) \<and> c' = c\<lparr>conn_tick := conn_tick c + 1\<rparr>"
  by (auto simp: sclock_def)

lemma sql_Inr_iff:
  "sql E s c = (Inr a, c') \<longleftrightarrow>
     \<not> se_sql_fault E (conn_tick c) \<and>
     (\<exists>d. s (conn_db c) = Inr (a, d) \<and> c' = c\<lparr>conn_tick := conn_tick c + 1, conn_db := d\<rparr>)"
  by (auto simp: sql_def Let_def split: sum.splits)

lemma on_duplicate_Inr_iff [simp]: "on_duplicate x m c = (Inr a, c') \<longleftrightarrow> m c = (Inr a, c')"
  by (auto simp: on_duplicate_def split: prod.splits)

lemma transaction_InrD:
  assumes "transaction E body c = (Inr a, c')"
  obtains c2 where "body (c\<lparr>conn_tick := conn_tick c + 1\<rparr>) = (Inr a, c2)"
    "conn_db c' = conn_db c2" "deferred_ok (conn_db c2)"
  using assms
  by (auto simp: transaction_def sbind_Inr_iff sql_Inr_iff commit_statement_def query_def sret_def
      split: prod.splits sum.splits if_splits)

lemmas run_simps = sbind_Inr_iff slift_Inr_iff sret_iff sclock_Inr_iff sql_Inr_iff query_def

lemma create_resource_Inr:
  assumes "create_resource E r c = (Inr r', c')"
  obtains row where "r' = r" "resource_to_row E r = Inr row"
    "\<not> has_key tres_id (tres_id row) (db_resources (conn_db c))"
    "\<not> has_key tres_canonical_locator (res_canonical_locator r) (db_resources (conn_db c))"
    "conn_db c' = (conn_db c)\<lparr>db_resources := db_resources (conn_db c) @ [row]\<rparr>"
  using assms
  by (auto simp: create_resource_def run_simps insert_into_resources_def resource_to_row_def
      and_then_Inr_iff)

lemma get_resource_no_fault:
  assumes "\<not> se_sql_fault E (conn_tick c)"
  shows "fst (get_resource E i c) =
    and_then (ok_or NotFound (row_find tres_id (se_uuid_text E i) (db_resources (conn_db c))))
      (resource_from_row E)"
  using assms
  by (simp add: get_resource_def sbind_def sql_def query_def Let_def slift_def and_then_def
      split: sum.split)

lemma create_ritual_Inr:
  assumes "create_ritual E r v d c = (Inr x, c')"
  obtains row vrow where "x = (r, v, d)" "ritual_to_row E r v = Inr row" "version_to_row E v = Inr vrow"
    "\<not> has_key trit_id (trit_id row) (db_rituals (conn_db c))"
    "\<not> has_key tver_id (tver_id vrow) (db_versions (conn_db c))"
    "conn_db c' = (conn_db c)\<lparr>db_rituals := db_rituals (conn_db c) @ [row],
       db_versions := db_versions (conn_db c) @ [vrow]\<rparr>"
  using assms unfolding create_ritual_def
  by (elim transaction_InrD)
     (auto simp: insert_ritual_version_def run_simps insert_into_rituals_def insert_into_versions_def)

lemma filter_key_empty: "filter (\<lambda>r. key r = k) t = [] \<longleftrightarrow> \<not> has_key key k t"
  by (auto simp: has_key_iff filter_empty_conv)

lemma row_find_update_hit:
  assumes "has_key key k t" "\<And>r. key (f r) = key r"
  obtains old where "row_find key k t = Some old" "row_find key k (row_update (\<lambda>r. key r = k) f t) = Some (f old)"
proof -
  obtain old where o: "row_find key k t = Some old" using assms(1) row_find_None_iff [of key k t] by auto
  then have "key old = k" by (auto dest: row_find_SomeD)
  with o that show thesis by (simp add: row_find_row_update assms(2))
qed

lemma update_ritual_Inr:
  assumes "update_ritual E r v d c = (Inr x, c')"
  obtains u vrow where "x = (r, v, d)" "se_ts_format E (rit_updated_at r) = Some u"
    "version_to_row E v = Inr vrow"
    "has_key trit_id (se_uuid_text E (rit_id r)) (db_rituals (conn_db c))"
    "\<not> has_key tver_id (tver_id vrow) (db_versions (conn_db c))"
    "conn_db c' = (conn_db c)\<lparr>db_rituals := row_update (\<lambda>w. trit_id w = se_uuid_text E (rit_id r))
         (\<lambda>w. w\<lparr>trit_name := rit_name r, trit_status := ritual_status_name (rit_status r),
                trit_current_version_id := se_uuid_text E (ver_id v), trit_updated_at := u\<rparr>)
         (db_rituals (conn_db c)),
       db_versions := db_versions (conn_db c) @ [vrow]\<rparr>"
  using assms unfolding update_ritual_def
  by (elim transaction_InrD)
     (auto simp: insert_ritual_version_def run_simps update_rituals_def insert_into_versions_def
        filter_key_empty split: if_splits)

lemma insert_step_Inr:
  assumes "insert_step E s c = (Inr u, c')"
  obtains row where "step_to_row E s = Inr row"
    "conn_db c' = (conn_db c)\<lparr>db_steps := db_steps (conn_db c) @ [row]\<rparr>"
  using assms by (auto simp: insert_step_def run_simps insert_into_steps_def)

lemma insert_steps_Inr:
  assumes "sfor_each (insert_step E) steps c = (Inr (), c')"
  shows "\<exists>rows. list_all2 (\<lambda>s r. step_to_row E s = Inr r) steps rows \<and>
    conn_db c' = (conn_db c)\<lparr>db_steps := db_steps (conn_db c) @ rows\<rparr>"
  using assms
proof (induction steps arbitrary: c)
  case Nil
  then show ?case by (auto simp: sret_iff)
next
  case (Cons s steps)
  then obtain u c1 where i: "insert_step E s c = (Inr u, c1)"
      "sfor_each (insert_step E) steps c1 = (Inr (), c')"
    by (auto simp: sbind_Inr_iff)
  from i(1) obtain row where s: "step_to_row E s = Inr row"
      "conn_db c1 = (conn_db c)\<lparr>db_steps := db_steps (conn_db c) @ [row]\<rparr>"
    by (rule insert_step_Inr)
  from Cons.IH [OF i(2)] obtain rows where "list_all2 (\<lambda>s r. step_to_row E s = Inr r) steps rows"
      "conn_db c' = (conn_db c1)\<lparr>db_steps := db_steps (conn_db c1) @ rows\<rparr>" by auto
  with s show ?case by (intro exI [of _ "row # rows"]) simp
qed

lemma start_execution_Inr:
  assumes "start_execution E x steps c = (Inr (), c')"
  obtains row rows where "execution_to_row E x = Inr row"
    "list_all2 (\<lambda>s r. step_to_row E s = Inr r) steps rows"
    "\<not> has_key texe_id (texe_id row) (db_executions (conn_db c))"
    "\<not> has_key tlck_ritual_id (se_uuid_text E (exe_ritual_id x)) (db_locks (conn_db c))"
    "conn_db c' = (conn_db c)\<lparr>db_executions := db_executions (conn_db c) @ [row],
       db_locks := db_locks (conn_db c) @ [\<lparr>tlck_ritual_id = se_uuid_text E (exe_ritual_id x),
         tlck_execution_id = se_uuid_text E (exe_id x)\<rparr>],
       db_steps := db_steps (conn_db c) @ rows\<rparr>"
proof -
  obtain c2 where b: "sbind (slift (execution_to_row E x)) (\<lambda>row.
        sbind (sql E (insert_into_executions row)) (\<lambda>_.
        sbind (insert_lock E x) (\<lambda>_.
          sfor_each (insert_step E) steps))) (c\<lparr>conn_tick := conn_tick c + 1\<rparr>) = (Inr (), c2)"
      "conn_db c' = conn_db c2"
    using assms unfolding start_execution_def by (elim transaction_InrD) auto
  then obtain row c1 where row: "execution_to_row E x = Inr row"
      "\<not> has_key texe_id (texe_id row) (db_executions (conn_db c))"
      "\<not> has_key tlck_ritual_id (se_uuid_text E (exe_ritual_id x)) (db_locks (conn_db c))"
      "sfor_each (insert_step E) steps c1 = (Inr (), c2)"
      "conn_db c1 = (conn_db c)\<lparr>db_executions := db_executions (conn_db c) @ [row],
         db_locks := db_locks (conn_db c) @ [\<lparr>tlck_ritual_id = se_uuid_text E (exe_ritual_id x),
           tlck_execution_id = se_uuid_text E (exe_id x)\<rparr>]\<rparr>"
    by (auto simp: run_simps insert_lock_def insert_into_executions_def insert_into_locks_def)
  from insert_steps_Inr [OF row(4)] row b(2) that show thesis by auto
qed

lemma insert_event_Inr:
  assumes "insert_event E e c = (Inr (), c')"
  obtains a row where "event_to_rows E e = Inr (a, row)"
    "\<not> has_key (\<lambda>e. (tevt_adapter_instance_id e, tevt_sequence_no e))
        (tevt_adapter_instance_id row, tevt_sequence_no row) (db_events (conn_db c))"
    "db_events (conn_db c') = db_events (conn_db c) @ [row]"
    "db_resources (conn_db c') = db_resources (conn_db c)"
  using assms unfolding insert_event_def
  by (auto simp: sbind_Inr_iff slift_Inr_iff elim!: transaction_InrD)
     (auto simp: run_simps upsert_into_adapters_def insert_into_events_def)

section \<open>Predicates every operation keeps\<close>

text \<open>
  A predicate of the tables that survives the rows the encoders write and the updates with encoded
  values survives every operation.
\<close>

locale statement_invariant =
  fixes E :: "'z store_env_scheme"
    and I :: "db \<Rightarrow> bool"
  assumes ins_resources: "I d \<Longrightarrow> resource_to_row E r = Inr w1 \<Longrightarrow> I (d\<lparr>db_resources := db_resources d @ [w1]\<rparr>)"
    and ins_versions: "I d \<Longrightarrow> version_to_row E v = Inr w2 \<Longrightarrow> I (d\<lparr>db_versions := db_versions d @ [w2]\<rparr>)"
    and ins_approvals: "I d \<Longrightarrow> approval_to_row E a = Inr w3 \<Longrightarrow> I (d\<lparr>db_approvals := db_approvals d @ [w3]\<rparr>)"
    and ins_events: "I d \<Longrightarrow> event_to_rows E e = Inr (x, w4) \<Longrightarrow> I (d\<lparr>db_events := db_events d @ [w4]\<rparr>)"
    and ins_rituals: "I d \<Longrightarrow> ritual_to_row E ri v = Inr w5 \<Longrightarrow> I (d\<lparr>db_rituals := db_rituals d @ [w5]\<rparr>)"
    and upd_rituals: "I d \<Longrightarrow> format_ts E t = Inr u \<Longrightarrow>
      I (d\<lparr>db_rituals := row_update P5 (\<lambda>r. r\<lparr>trit_name := nm, trit_status := ritual_status_name rs,
         trit_current_version_id := se_uuid_text E i, trit_updated_at := u\<rparr>) (db_rituals d)\<rparr>)"
    and set_rituals: "I d \<Longrightarrow> format_ts E t = Inr u \<Longrightarrow>
      I (d\<lparr>db_rituals := row_update P5 (\<lambda>r. r\<lparr>trit_status := ritual_status_name rs,
         trit_updated_at := u\<rparr>) (db_rituals d)\<rparr>)"
    and ins_executions: "I d \<Longrightarrow> execution_to_row E ex = Inr w6 \<Longrightarrow> I (d\<lparr>db_executions := db_executions d @ [w6]\<rparr>)"
    and upd_executions: "I d \<Longrightarrow> format_ts E t = Inr u \<Longrightarrow> transpose_map (format_ts E) fin = Inr fi \<Longrightarrow>
      I (d\<lparr>db_executions := row_update P6 (\<lambda>x. x\<lparr>texe_status := execution_status_name es,
         texe_started_at := u, texe_finished_at := fi, texe_failure_code := fa\<rparr>) (db_executions d)\<rparr>)"
    and ab_executions: "I d \<Longrightarrow> format_ts E t = Inr u \<Longrightarrow>
      I (d\<lparr>db_executions := row_update P6 (\<lambda>x. x\<lparr>texe_status := ''aborted'',
         texe_finished_at := Some u, texe_failure_code := Some ''daemon_restarted''\<rparr>) (db_executions d)\<rparr>)"
    and ins_steps: "I d \<Longrightarrow> step_to_row E st = Inr w7 \<Longrightarrow> I (d\<lparr>db_steps := db_steps d @ [w7]\<rparr>)"
    and upd_steps: "I d \<Longrightarrow> step_to_row E st = Inr w7 \<Longrightarrow>
      I (d\<lparr>db_steps := row_update P7 (\<lambda>s. s\<lparr>tstp_status := tstp_status w7, tstp_adapter_id := tstp_adapter_id w7,
         tstp_adapter_instance_id := tstp_adapter_instance_id w7, tstp_started_at := tstp_started_at w7,
         tstp_finished_at := tstp_finished_at w7, tstp_result_code := tstp_result_code w7,
         tstp_redacted_message := tstp_redacted_message w7\<rparr>) (db_steps d)\<rparr>)"
    and ab_steps: "I d \<Longrightarrow> format_ts E t = Inr u \<Longrightarrow>
      I (d\<lparr>db_steps := row_update P7 (\<lambda>s. s\<lparr>tstp_status := ''aborted'', tstp_finished_at := Some u,
         tstp_result_code := Some ''daemon_restarted'',
         tstp_redacted_message := Some ''execution aborted because daemon restarted''\<rparr>) (db_steps d)\<rparr>)"
    and ins_scopes: "I d \<Longrightarrow> scope_to_row E sc = Inr w8 \<Longrightarrow> I (d\<lparr>db_scopes := db_scopes d @ [w8]\<rparr>)"
    and set_scopes: "I d \<Longrightarrow> format_ts E t = Inr u \<Longrightarrow> status \<in> {''active'', ''paused''} \<Longrightarrow>
      I (d\<lparr>db_scopes := row_update P8 (\<lambda>s. s\<lparr>tobs_status := status, tobs_updated_at := u\<rparr>) (db_scopes d)\<rparr>)"
    and any_locks: "I d \<Longrightarrow> I (d\<lparr>db_locks := t4\<rparr>)"
    and any_adapters: "I d \<Longrightarrow> I (d\<lparr>db_adapters := t6\<rparr>)"
begin

lemma encoded_inserts:
  "resource_to_row E r = Inr w1 \<Longrightarrow> keeps I (sql E (insert_into_resources w1))"
  "version_to_row E v = Inr w2 \<Longrightarrow> keeps I (sql E (insert_into_versions w2))"
  "approval_to_row E a = Inr w3 \<Longrightarrow> keeps I (sql E (insert_into_approvals w3))"
  "event_to_rows E e = Inr (x, w4) \<Longrightarrow> keeps I (sql E (insert_into_events w4))"
  "ritual_to_row E ri v = Inr w5 \<Longrightarrow> keeps I (sql E (insert_into_rituals w5))"
  "execution_to_row E ex = Inr w6 \<Longrightarrow> keeps I (sql E (insert_into_executions w6))"
  "step_to_row E st = Inr w7 \<Longrightarrow> keeps I (sql E (insert_into_steps w7))"
  "scope_to_row E sc = Inr w8 \<Longrightarrow> keeps I (sql E (insert_into_scopes w8))"
  "keeps I (sql E (insert_into_locks w9))"
  "keeps I (sql E (upsert_into_adapters w10))"
  by (rule keeps_sql; auto simp: insert_into_resources_def insert_into_versions_def
      insert_into_approvals_def insert_into_events_def insert_into_rituals_def
      insert_into_executions_def insert_into_steps_def insert_into_scopes_def
      insert_into_locks_def upsert_into_adapters_def
      intro: ins_resources ins_versions ins_approvals ins_events ins_rituals ins_executions
        ins_steps ins_scopes any_locks any_adapters)+

lemma encoded_updates:
  "format_ts E t = Inr u \<Longrightarrow>
     keeps I (sql E (update_rituals k nm (ritual_status_name rs) (se_uuid_text E i) u))"
  "format_ts E t = Inr u \<Longrightarrow> transpose_map (format_ts E) fin = Inr fi \<Longrightarrow>
     keeps I (sql E (update_executions k (execution_status_name es) u fi fa))"
  "step_to_row E st = Inr w7 \<Longrightarrow> keeps I (sql E (update_steps w7))"
  "keeps I (sql E (delete_locks k))"
  "format_ts E t = Inr u \<Longrightarrow> keeps I (sql E (abort_executions u))"
  "format_ts E t = Inr u \<Longrightarrow> keeps I (sql E (abort_steps u))"
  "format_ts E t = Inr u \<Longrightarrow> keeps I (sql E (set_scope_status ''active'' u P8))"
  "format_ts E t = Inr u \<Longrightarrow> keeps I (sql E (set_scope_status ''paused'' u P8))"
  "format_ts E t = Inr u \<Longrightarrow> keeps I (sql E (\<lambda>d. Inr (f d, d\<lparr>db_rituals := row_update P5
     (\<lambda>r. r\<lparr>trit_status := ritual_status_name rs, trit_updated_at := u\<rparr>) (db_rituals d)\<rparr>)))"
  "keeps I (sql E (\<lambda>d. Inr (f d, d\<lparr>db_locks := []\<rparr>)))"
  by (rule keeps_sql; simp only: update_rituals_def update_executions_def update_steps_def
        delete_locks_def abort_executions_def abort_steps_def set_scope_status_def
        sum.inject prod.inject;
      elim conjE; hypsubst;
      rule upd_rituals upd_executions upd_steps any_locks ab_executions ab_steps set_scopes
        set_rituals; (assumption | simp))+

lemma keeps_transaction_I: "keeps I body \<Longrightarrow> keeps I (transaction E body)"
  by (rule valid_transaction [where B = "\<lambda>_. I"], erule valid_weaken) auto

lemma keeps_bind_slift: "(\<And>a. r = Inr a \<Longrightarrow> keeps I (f a)) \<Longrightarrow> keeps I (sbind (slift r) f)"
  by (cases r) (auto simp: valid_def sbind_def slift_def)

lemmas keeps_any = keeps_bind_slift keeps_rules keeps_transaction_I keeps_case_option
  keeps_query_scope valid_on_duplicate encoded_inserts encoded_updates

lemma keeps_insert_event_I: "keeps I (insert_event E e)"
proof -
  have "keeps I (case p of (adapter, row) \<Rightarrow> transaction E
      (sbind (sql E (upsert_into_adapters adapter)) (\<lambda>_.
       sbind (on_duplicate DuplicateEvent (sql E (insert_into_events row))) (\<lambda>_. sret ()))))"
    if "event_to_rows E e = Inr p" for p
    using that by (cases p) (simp, intro keeps_any; assumption)
  then show ?thesis unfolding insert_event_def by (rule keeps_bind_slift)
qed

lemma keeps_writes:
  "keeps I (create_resource E r)" "keeps I (create_ritual E ri v d)"
  "keeps I (update_ritual E ri v d)" "keeps I (set_ritual_status E i s)"
  "keeps I (create_approvals E as)" "keeps I (start_execution E x steps)"
  "keeps I (update_execution E x)" "keeps I (update_step E st)"
  "keeps I (abort_running_executions E)" "keeps I (ensure_observation_scope E sc)"
  "keeps I (pause_observation_scope E i)"
  unfolding create_resource_def create_ritual_def update_ritual_def set_ritual_status_def
    create_approvals_def start_execution_def update_execution_def update_step_def
    abort_running_executions_def ensure_observation_scope_def pause_observation_scope_def
    insert_step_def insert_lock_def insert_ritual_version_def Let_def
  by (intro keeps_any; assumption)+

lemma keeps_operation: "keeps I (execute_operation E op)"
  by (cases op) (simp_all add: keeps_smap keeps_reads keeps_query keeps_writes keeps_insert_event_I)

lemma keeps_loop: "I (conn_db c) \<Longrightarrow> I (conn_db (snd (writer_loop E ops c)))"
  by (rule writer_loop_keeps [OF keeps_operation])

end

text \<open>Four tables only ever grow at the end.\<close>

definition extends :: "db \<Rightarrow> db \<Rightarrow> bool" where
  "extends h d \<longleftrightarrow> prefix (db_events h) (db_events d) \<and> prefix (db_resources h) (db_resources d) \<and>
     prefix (db_versions h) (db_versions d) \<and> prefix (db_approvals h) (db_approvals d)"

interpretation history: statement_invariant E "extends h" for E h
  by unfold_locales (auto simp: extends_def)

lemma extends_refl [simp]: "extends d d"
  by (simp add: extends_def)

text \<open>Every row is what the encoder of its table writes for some record.\<close>

definition encoded_rows :: "'z store_env_scheme \<Rightarrow> db \<Rightarrow> bool" where
  "encoded_rows E d \<longleftrightarrow>
     (\<forall>row \<in> set (db_resources d). \<exists>r. resource_to_row E r = Inr row) \<and>
     (\<forall>row \<in> set (db_versions d). \<exists>v. version_to_row E v = Inr row) \<and>
     (\<forall>row \<in> set (db_approvals d). \<exists>a. approval_to_row E a = Inr row) \<and>
     (\<forall>row \<in> set (db_events d). \<exists>e a. event_to_rows E e = Inr (a, row)) \<and>
     (\<forall>row \<in> set (db_rituals d). \<exists>r v. ritual_to_row E r v = Inr row) \<and>
     (\<forall>row \<in> set (db_executions d). \<exists>x. execution_to_row E x = Inr row) \<and>
     (\<forall>row \<in> set (db_steps d). \<exists>s. step_to_row E s = Inr row) \<and>
     (\<forall>row \<in> set (db_scopes d). \<exists>s. scope_to_row E s = Inr row)"

lemma encoded_ritual_update:
  assumes "ritual_to_row E r v = Inr row" "format_ts E t = Inr u"
  shows "\<exists>r v. ritual_to_row E r v = Inr (row\<lparr>trit_name := nm, trit_status := ritual_status_name rs,
      trit_current_version_id := se_uuid_text E i, trit_updated_at := u\<rparr>)"
  using assms
  by (intro exI [of _ "r\<lparr>rit_name := nm, rit_status := rs, rit_updated_at := t\<rparr>"]
      exI [of _ "v\<lparr>ver_id := i\<rparr>"]) (auto simp: ritual_to_row_def and_then_Inr_iff)

lemma encoded_ritual_status:
  assumes "ritual_to_row E r v = Inr row" "format_ts E t = Inr u"
  shows "\<exists>r v. ritual_to_row E r v = Inr (row\<lparr>trit_status := ritual_status_name rs, trit_updated_at := u\<rparr>)"
  using assms
  by (intro exI [of _ "r\<lparr>rit_status := rs, rit_updated_at := t\<rparr>"] exI [of _ v])
     (auto simp: ritual_to_row_def and_then_Inr_iff)

lemma encoded_execution_update:
  assumes "execution_to_row E x = Inr row" "format_ts E t = Inr u" "transpose_map (format_ts E) fin = Inr fi"
  shows "\<exists>x. execution_to_row E x = Inr (row\<lparr>texe_status := execution_status_name es,
      texe_started_at := u, texe_finished_at := fi, texe_failure_code := fa\<rparr>)"
  using assms
  by (intro exI [of _ "x\<lparr>exe_status := es, exe_started_at := t, exe_finished_at := fin,
      exe_failure_code := fa\<rparr>"]) (auto simp: execution_to_row_def and_then_Inr_iff)

lemma encoded_execution_abort:
  assumes "execution_to_row E x = Inr row" "format_ts E t = Inr u"
  shows "\<exists>x. execution_to_row E x = Inr (row\<lparr>texe_status := ''aborted'', texe_finished_at := Some u,
      texe_failure_code := Some fa\<rparr>)"
  using assms
  by (intro exI [of _ "x\<lparr>exe_status := ExecAborted, exe_finished_at := Some t,
      exe_failure_code := Some fa\<rparr>"]) (auto simp: execution_to_row_def and_then_Inr_iff)

lemma encoded_step_update:
  assumes "step_to_row E s = Inr row" "step_to_row E s' = Inr w"
  shows "\<exists>s. step_to_row E s = Inr (row\<lparr>tstp_status := tstp_status w, tstp_adapter_id := tstp_adapter_id w,
      tstp_adapter_instance_id := tstp_adapter_instance_id w, tstp_started_at := tstp_started_at w,
      tstp_finished_at := tstp_finished_at w, tstp_result_code := tstp_result_code w,
      tstp_redacted_message := tstp_redacted_message w\<rparr>)"
  using assms
  by (intro exI [of _ "s'\<lparr>stp_id := stp_id s, stp_execution_id := stp_execution_id s,
      stp_step_index := stp_step_index s, stp_action_type := stp_action_type s\<rparr>"])
     (auto simp: step_to_row_def and_then_Inr_iff)

lemma encoded_step_abort:
  assumes "step_to_row E s = Inr row" "format_ts E t = Inr u"
  shows "\<exists>s. step_to_row E s = Inr (row\<lparr>tstp_status := ''aborted'', tstp_finished_at := Some u,
      tstp_result_code := Some rc, tstp_redacted_message := Some m\<rparr>)"
  using assms
  by (intro exI [of _ "s\<lparr>stp_status := StepAborted, stp_finished_at := Some t,
      stp_result_code := Some rc, stp_redacted_message := Some m\<rparr>"])
     (auto simp: step_to_row_def and_then_Inr_iff)

lemma encoded_scope_update:
  assumes "scope_to_row E s = Inr row" "format_ts E t = Inr u" "st \<in> {''active'', ''paused''}"
  shows "\<exists>s. scope_to_row E s = Inr (row\<lparr>tobs_status := st, tobs_updated_at := u\<rparr>)"
  using assms
  by (intro exI [of _ "s\<lparr>obs_status := if st = ''active'' then ObsActive else ObsPaused,
      obs_updated_at := t\<rparr>"]) (auto simp: scope_to_row_def and_then_Inr_iff)

text \<open>An update whose function keeps the encoded rows of a table encoded.\<close>

lemma encoded_rows_update:
  "encoded_rows E d \<Longrightarrow> (\<And>r v row. ritual_to_row E r v = Inr row \<Longrightarrow> \<exists>r v. ritual_to_row E r v = Inr (f1 row)) \<Longrightarrow>
     encoded_rows E (d\<lparr>db_rituals := row_update P1 f1 (db_rituals d)\<rparr>)"
  "encoded_rows E d \<Longrightarrow> (\<And>x row. execution_to_row E x = Inr row \<Longrightarrow> \<exists>x. execution_to_row E x = Inr (f2 row)) \<Longrightarrow>
     encoded_rows E (d\<lparr>db_executions := row_update P2 f2 (db_executions d)\<rparr>)"
  "encoded_rows E d \<Longrightarrow> (\<And>s row. step_to_row E s = Inr row \<Longrightarrow> \<exists>s. step_to_row E s = Inr (f3 row)) \<Longrightarrow>
     encoded_rows E (d\<lparr>db_steps := row_update P3 f3 (db_steps d)\<rparr>)"
  "encoded_rows E d \<Longrightarrow> (\<And>s row. scope_to_row E s = Inr row \<Longrightarrow> \<exists>s. scope_to_row E s = Inr (f4 row)) \<Longrightarrow>
     encoded_rows E (d\<lparr>db_scopes := row_update P4 f4 (db_scopes d)\<rparr>)"
  unfolding encoded_rows_def by (simp_all add: ball_row_update) metis+

lemma encoded_rows_insert:
  "encoded_rows E d \<Longrightarrow> resource_to_row E r = Inr w1 \<Longrightarrow> encoded_rows E (d\<lparr>db_resources := db_resources d @ [w1]\<rparr>)"
  "encoded_rows E d \<Longrightarrow> version_to_row E v = Inr w2 \<Longrightarrow> encoded_rows E (d\<lparr>db_versions := db_versions d @ [w2]\<rparr>)"
  "encoded_rows E d \<Longrightarrow> approval_to_row E a = Inr w3 \<Longrightarrow> encoded_rows E (d\<lparr>db_approvals := db_approvals d @ [w3]\<rparr>)"
  "encoded_rows E d \<Longrightarrow> event_to_rows E e = Inr (y, w4) \<Longrightarrow> encoded_rows E (d\<lparr>db_events := db_events d @ [w4]\<rparr>)"
  "encoded_rows E d \<Longrightarrow> ritual_to_row E ri v = Inr w5 \<Longrightarrow> encoded_rows E (d\<lparr>db_rituals := db_rituals d @ [w5]\<rparr>)"
  "encoded_rows E d \<Longrightarrow> execution_to_row E x = Inr w6 \<Longrightarrow> encoded_rows E (d\<lparr>db_executions := db_executions d @ [w6]\<rparr>)"
  "encoded_rows E d \<Longrightarrow> step_to_row E s = Inr w7 \<Longrightarrow> encoded_rows E (d\<lparr>db_steps := db_steps d @ [w7]\<rparr>)"
  "encoded_rows E d \<Longrightarrow> scope_to_row E sc = Inr w8 \<Longrightarrow> encoded_rows E (d\<lparr>db_scopes := db_scopes d @ [w8]\<rparr>)"
  "encoded_rows E d \<Longrightarrow> encoded_rows E (d\<lparr>db_locks := ls\<rparr>)"
  "encoded_rows E d \<Longrightarrow> encoded_rows E (d\<lparr>db_adapters := ads\<rparr>)"
  by (auto simp: encoded_rows_def)

interpretation encoded: statement_invariant E "encoded_rows E" for E
proof unfold_locales
qed ((erule encoded_rows_insert; assumption)
  | (erule encoded_rows_update, rule encoded_ritual_update encoded_ritual_status
       encoded_execution_update encoded_execution_abort encoded_step_update encoded_step_abort
       encoded_scope_update; assumption))+

end
