(* ===== verification/Fubun_Samples.thy ===== *)
theory Fubun_Samples
  imports Fubun_Store_Inv
begin

text \<open>
  Concrete values for the instances of the properties: an environment that satisfies the laws of
  the crates, an empty database, and a few records.
\<close>

section \<open>A concrete environment\<close>

text \<open>
  Ids and times in unary, one ritual definition that serialises, a clock that counts ticks and a
  SQLite that never fails.
\<close>

definition sample_event :: "uuid \<Rightarrow> event" where
  "sample_event i = \<lparr>ev_spec_version = ''1.0'', ev_id = i, ev_type = SyntheticV1, ev_source = ''s'',
     ev_occurred_at = Timestamp 1 0, ev_received_at = Timestamp 2 0, ev_actor = User,
     ev_adapter = \<lparr>adp_id = ''a'', adp_version = ''1'', adp_instance_id = 1, adp_sequence_no = 4\<rparr>,
     ev_context = None, ev_privacy = PrivacyNormal, ev_data = Synthetic ''l'' 0\<rparr>"

definition sample_definition :: ritual_definition where
  "sample_definition = sample_ritual [LinuxPathOpen 7]"

definition sample_env :: store_env where
  "sample_env = \<lparr>
     se_uuid_text = (\<lambda>u. replicate (unat u) (CHR ''u'')),
     se_uuid_parse = (\<lambda>s. Some (word_of_nat (length s))),
     se_ts_format = (\<lambda>t. if offset_secs t = 0 \<and> 0 \<le> unix_ns t
                         then Some (replicate (nat (unix_ns t)) (CHR ''t'')) else None),
     se_ts_parse = (\<lambda>s. Some (Timestamp (int (length s)) 0)),
     se_ritual_json = (\<lambda>d. if d = sample_definition then Some ''d'' else None),
     se_ritual_of_json = (\<lambda>s. if s = ''d'' then Some sample_definition else None),
     se_event_json = (\<lambda>e. if e = sample_event (ev_id e)
                          then Some (replicate (unat (ev_id e)) (CHR ''e'')) else None),
     se_event_of_json = (\<lambda>s. Some (sample_event (word_of_nat (length s)))),
     se_context_json = (\<lambda>_. Some ''c''), se_data_json = (\<lambda>_. Some ''x''),
     se_now = (\<lambda>n. Timestamp (int n) 0), se_sql_fault = (\<lambda>_. False)\<rparr>"

lemma sample_env_laws: "store_env_laws sample_env"
  by (auto simp: store_env_laws_def sample_env_def timestamp.expand split: if_splits)

definition sample_conn :: conn where
  "sample_conn = \<lparr>conn_db = empty_db, conn_tick = 0, conn_open = True\<rparr>"

definition sample_resource :: "uuid \<Rightarrow> string \<Rightarrow> resource" where
  "sample_resource i loc = \<lparr>res_id = i, res_kind = Directory, res_label = ''r'', res_locator = loc,
     res_canonical_locator = loc, res_sensitivity = SensNormal, res_scope = Exact,
     res_created_at = Timestamp 1 0, res_updated_at = Timestamp 1 0\<rparr>"

definition sample_ritual_rec :: "ritual_status \<Rightarrow> ritual" where
  "sample_ritual_rec s = \<lparr>rit_id = 1, rit_name = ''x'', rit_status = s, rit_current_version_id = 2,
     rit_created_at = Timestamp 1 0, rit_updated_at = Timestamp 1 0\<rparr>"

definition sample_version :: ritual_version where
  "sample_version = \<lparr>ver_id = 2, ver_ritual_id = 1, ver_version = 1,
     ver_schema_version = ''dev.fubun.ritual/1'', ver_canonical_json = ''d'', ver_content_hash = ''h'',
     ver_created_at = Timestamp 1 0\<rparr>"

definition sample_execution :: "uuid \<Rightarrow> execution_status \<Rightarrow> execution" where
  "sample_execution i s = \<lparr>exe_id = i, exe_ritual_id = 1, exe_ritual_version_id = 2, exe_status = s,
     exe_trigger_kind = Manual, exe_started_at = Timestamp 1 0, exe_finished_at = None,
     exe_failure_code = None, exe_created_at = Timestamp 1 0\<rparr>"

definition sample_step :: "uuid \<Rightarrow> uuid \<Rightarrow> u32 \<Rightarrow> execution_step" where
  "sample_step i x n = \<lparr>stp_id = i, stp_execution_id = x, stp_step_index = n,
     stp_action_type = ''linux.path.open.v1'', stp_status = StepPending, stp_adapter_id = None,
     stp_adapter_instance_id = None, stp_started_at = Timestamp 1 0, stp_finished_at = None,
     stp_result_code = None, stp_redacted_message = None\<rparr>"

text \<open>A ritual is created and started once.\<close>

definition sample_ops :: "operation list" where
  "sample_ops = [CreateRitual (sample_ritual_rec RitualActive) sample_version sample_definition,
     StartExecution (sample_execution 3 ExecRunning) [sample_step 4 3 0]]"

lemma sample_conn_ok: "db_ok (conn_db sample_conn)"
  by (simp add: sample_conn_def empty_db_ok)

end
