(* ===== verification/Fubun_Store_Theorems.thy ===== *)
theory Fubun_Store_Theorems
  imports Fubun_Store_Props Fubun_Samples
begin

text \<open>
  The properties of the storage crate, each with a concrete instance.
\<close>

section \<open>Failures leave no trace\<close>

text \<open>A function is clean when a failure leaves the tables as they were.\<close>

abbreviation clean :: "'a sm \<Rightarrow> bool" where
  "clean m \<equiv> (\<forall>d0. valid (\<lambda>d. d = d0) m (\<lambda>_ _. True) (\<lambda>d. d = d0))"

lemma cleanD: "clean m \<Longrightarrow> m c = (Inl e, c') \<Longrightarrow> conn_db c' = conn_db c"
  by (rule valid_Inl [where P = "\<lambda>d. d = conn_db c" and m = m]) auto

lemma clean_unchanged:
  fixes m :: "unit sm"
  assumes "clean m" "fst (m c) \<noteq> Inr ()"
  shows "conn_db (snd (m c)) = conn_db c"
proof -
  obtain e where "fst (m c) = Inl e" using assms(2) by (cases "fst (m c)") auto
  then have "m c = (Inl e, snd (m c))" by (simp add: prod_eq_iff)
  then show ?thesis by (rule cleanD [OF assms(1)])
qed

lemma clean_read: "(\<And>I. keeps I m) \<Longrightarrow> clean m"
  by (intro allI) (rule valid_weaken, assumption, auto)

lemma clean_sql: "clean (sql E s)"
  by (intro allI valid_sql) auto

lemma clean_on_duplicate: "clean m \<Longrightarrow> clean (on_duplicate x m)"
  by (intro allI valid_on_duplicate) simp

lemma clean_bind: "(\<And>I. keeps I m) \<Longrightarrow> (\<And>a. clean (f a)) \<Longrightarrow> clean (sbind m f)"
  by (intro allI) (rule valid_sbind, assumption, blast)

lemma clean_last: "clean m \<Longrightarrow> clean (sbind m (\<lambda>a. sret (f a)))"
  by (intro allI) (rule valid_sbind [where B = "\<lambda>_ _. True"], auto)

lemma clean_smap: "clean m \<Longrightarrow> clean (smap f m)"
  unfolding smap_def by (rule clean_last)

lemma clean_counted:
  assumes "\<And>d d'. s d = Inr (0 :: nat, d') \<Longrightarrow> d' = d"
  shows "clean (sbind (sql E s) (\<lambda>n. if n = 0 then slift (Inl e) else sret ()))"
proof
  fix d0
  show "valid (\<lambda>d. d = d0) (sbind (sql E s) (\<lambda>n. if n = 0 then slift (Inl e) else sret ()))
      (\<lambda>_ _. True) (\<lambda>d. d = d0)"
    by (rule valid_sbind [where B = "\<lambda>n d. n = 0 \<longrightarrow> d = d0"], rule valid_sql)
       (auto dest: assms intro!: valid_if valid_slift valid_sret simp: valid_def sret_def slift_def)
qed

lemma clean_transaction: "clean (transaction E body)"
  by (auto simp: valid_def dest: transaction_Inl_db split: prod.split sum.split)

lemma row_update_untouched: "filter P t = [] \<Longrightarrow> row_update P f t = t"
  by (induction t) (auto simp: row_update_def split: if_splits)

lemmas clean_rules = clean_sql clean_on_duplicate clean_transaction clean_last

lemma clean_set_ritual_status: "clean (set_ritual_status E i s)"
  unfolding set_ritual_status_def
  by (rule clean_bind [OF keeps_sclock], rule clean_bind [OF keeps_slift], rule clean_counted)
     (auto simp: row_update_untouched)

lemma clean_update_step: "clean (update_step E s)"
  unfolding update_step_def
  by (rule clean_bind [OF keeps_slift], rule clean_counted)
     (auto simp: update_steps_def row_update_untouched)

lemma clean_create_resource: "clean (create_resource E r)"
  unfolding create_resource_def
  by (rule clean_bind [OF keeps_slift], intro clean_rules)

lemma clean_insert_event: "clean (insert_event E e)"
  unfolding insert_event_def
  by (rule clean_bind [OF keeps_slift]) (simp only: case_prod_beta, rule clean_transaction)

lemma clean_case_option:
  "clean m \<Longrightarrow> (\<And>a. clean (f a)) \<Longrightarrow> clean (case x of None \<Rightarrow> m | Some a \<Rightarrow> f a)"
  by (cases x) simp_all

lemma clean_ensure_scope: "clean (ensure_observation_scope E s)"
  unfolding ensure_observation_scope_def Let_def
  by (rule clean_bind [OF keeps_query_scope], rule clean_case_option;
      rule clean_bind [OF keeps_slift], intro clean_rules)

lemma clean_pause_scope: "clean (pause_observation_scope E i)"
proof -
  have s: "clean (sret x)" for x :: observation_scope by (auto simp: valid_def sret_def)
  have p: "clean (sbind (sclock E) (\<lambda>now. sbind (slift (format_ts E now)) (\<lambda>u.
      sbind (sql E (q u)) (\<lambda>_. sret (g now)))))" for q :: "string \<Rightarrow> nat statement" and g :: "timestamp \<Rightarrow> observation_scope"
    by (rule clean_bind [OF keeps_sclock], rule clean_bind [OF keeps_slift], intro clean_rules)
  have c: "clean m \<Longrightarrow> clean n \<Longrightarrow> clean (if b then m else n)" for b and m n :: "observation_scope sm"
    by (cases b) simp_all
  show ?thesis unfolding pause_observation_scope_def
    by (rule clean_bind [OF keeps_query_scope], rule clean_bind [OF keeps_slift], rule c [OF p s])
qed

lemma clean_transactions:
  "clean (create_ritual E ri v d)" "clean (update_ritual E ri v d)"
  "clean (create_approvals E as)" "clean (start_execution E x steps)"
  unfolding create_ritual_def update_ritual_def create_approvals_def start_execution_def
  by (rule clean_transaction)+

fun multi_statement :: "operation \<Rightarrow> bool" where
  "multi_statement (UpdateExecution _) = True"
| "multi_statement AbortRunningExecutions = True"
| "multi_statement _ = False"

lemma clean_operation:
  assumes "\<not> multi_statement op"
  shows "clean (execute_operation E op)"
  using assms
  by (cases op; simp only: execute_operation.simps multi_statement.simps simp_thms)
     (rule clean_smap, rule clean_read, rule keeps_reads keeps_query |
      rule clean_smap, rule clean_set_ritual_status clean_update_step clean_create_resource
        clean_insert_event clean_ensure_scope clean_pause_scope clean_transactions)+

section \<open>Properties\<close>





text \<open>C28: a failed command leaves the tables as they were, whatever failed and wherever. The two
  commands that run several statements outside a transaction, \<open>UpdateExecution\<close> and
  \<open>AbortRunningExecutions\<close>, are excepted.\<close>

theorem failed_operation_changes_nothing:
  assumes "execute_operation E op c = (Inl e, c')" and "\<not> multi_statement op"
  shows "conn_db c' = conn_db c"
  by (rule cleanD [OF clean_operation [OF assms(2)] assms(1)])

theorem failed_operation_changes_nothing_witness:
  "\<exists>e c'. execute_operation sample_env (GetResource 5) sample_conn = (Inl e, c') \<and>
     conn_db c' = conn_db sample_conn"
proof -
  have e: "execute_operation sample_env (GetResource 5) sample_conn =
      (Inl NotFound, sample_conn\<lparr>conn_tick := 1\<rparr>)"
    by (simp add: smap_def get_resource_def sbind_def sql_def sample_env_def query_def sample_conn_def
        empty_db_def slift_def)
  from failed_operation_changes_nothing [OF e] e show ?thesis by (metis multi_statement.simps(8))
qed

text \<open>the tables of events, resources, ritual versions and approvals are append-only: no
  command changes or removes a row of them.\<close>

lemma history_is_append_only:
  "extends (conn_db c) (conn_db (snd (writer_loop E ops c)))"
  by (rule history.keeps_loop) simp

section \<open>Locks\<close>

lemma start_execution_unchanged:
  "fst (start_execution E x steps c) \<noteq> Inr () \<Longrightarrow>
     conn_db (snd (start_execution E x steps c)) = conn_db c"
  by (rule clean_unchanged [OF clean_transactions(4)])

lemma sql_run:
  "\<not> se_sql_fault E (conn_tick c) \<Longrightarrow> sql E s c =
     (case s (conn_db c) of Inl e \<Rightarrow> (Inl (Sqlite e), c\<lparr>conn_tick := conn_tick c + 1\<rparr>)
      | Inr (a, d) \<Rightarrow> (Inr a, c\<lparr>conn_tick := conn_tick c + 1, conn_db := d\<rparr>))"
  by (simp add: sql_def Let_def split: sum.split)

lemma guarded_Inl: "b \<Longrightarrow> guarded b d = Inl ConstraintViolation"
  by (simp add: guarded_def)

lemma guarded_ok: "\<not> b \<Longrightarrow> guarded b d = Inr (1, d)"
  by (simp add: guarded_def)

lemma on_duplicate_Inl: "m c = (Inl (Sqlite ConstraintViolation), c') \<Longrightarrow> on_duplicate x m c = (Inl x, c')"
  by (simp add: on_duplicate_def duplicate_as_def)

lemma locked_start_refused:
  assumes no_fault: "\<forall>n. \<not> se_sql_fault E n"
    and row: "execution_to_row E x = Inr row"
    and fresh: "\<not> has_key texe_id (texe_id row) (db_executions (conn_db c))"
    and keys: "has_key trit_id (texe_ritual_id row) (db_rituals (conn_db c))"
      "has_key tver_id (texe_ritual_version_id row) (db_versions (conn_db c))"
    and lock: "has_key tlck_ritual_id (se_uuid_text E (exe_ritual_id x)) (db_locks (conn_db c))"
  shows "fst (start_execution E x steps c) = Inl RitualAlreadyRunning"
proof -
  have i: "insert_into_executions row d =
      Inr (1, d\<lparr>db_executions := db_executions d @ [row]\<rparr>)" if "d = conn_db c" for d
    unfolding insert_into_executions_def that by (rule guarded_ok) (use fresh keys in simp)
  have l: "insert_into_locks l d = Inl ConstraintViolation"
    if "has_key tlck_ritual_id (tlck_ritual_id l) (db_locks d)" for l d
    unfolding insert_into_locks_def by (rule guarded_Inl) (use that in simp)
  show ?thesis
    by (simp add: start_execution_def transaction_def sbind_def slift_def row query_def
        sql_run [OF no_fault [rule_format]] i insert_lock_def on_duplicate_def duplicate_as_def l lock)
qed

text \<open>a ritual that has a running execution is not started a second time: the command fails
  and changes nothing, and without an SQLite fault the error for a fresh execution of an existing
  version is \<open>RitualAlreadyRunning\<close>.\<close>

lemma running_ritual_not_started_again:
  assumes "db_ok (conn_db c)" and "y \<in> set (db_executions (conn_db c))"
    and "texe_status y = ''running''" and "texe_ritual_id y = se_uuid_text E (exe_ritual_id x)"
  shows "fst (start_execution E x steps c) \<noteq> Inr () \<and>
    conn_db (snd (start_execution E x steps c)) = conn_db c \<and>
    ((\<forall>n. \<not> se_sql_fault E n) \<and> execution_to_row E x = Inr row \<and>
       \<not> has_key texe_id (texe_id row) (db_executions (conn_db c)) \<and>
       has_key tver_id (texe_ritual_version_id row) (db_versions (conn_db c)) \<longrightarrow>
     fst (start_execution E x steps c) = Inl RitualAlreadyRunning)"
proof -
  have lock: "has_key tlck_ritual_id (se_uuid_text E (exe_ritual_id x)) (db_locks (conn_db c))"
    using assms unfolding db_ok_def running_locked_def has_key_iff by force
  have rit: "has_key trit_id (se_uuid_text E (exe_ritual_id x)) (db_rituals (conn_db c))"
    using assms unfolding db_ok_def db_ok_deferred_def foreign_keys_def by metis
  have n: "fst (start_execution E x steps c) \<noteq> Inr ()"
  proof
    assume "fst (start_execution E x steps c) = Inr ()"
    then have "start_execution E x steps c = (Inr (), snd (start_execution E x steps c))"
      by (simp add: prod_eq_iff)
    then show False using lock by (elim start_execution_Inr) simp
  qed
  have "has_key trit_id (texe_ritual_id row) (db_rituals (conn_db c))"
    if "execution_to_row E x = Inr row"
    using rit execution_row_ids [OF that] by simp
  then show ?thesis using n start_execution_unchanged [OF n] lock
    by (blast intro: locked_start_refused)
qed

definition sample_running :: conn where
  "sample_running = snd (writer_loop sample_env sample_ops sample_conn)"

lemma sample_running_ok: "db_ok (conn_db sample_running)"
  unfolding sample_running_def
  by (rule writer_loop_keeps [OF keeps_execute_operation sample_conn_ok])
     (auto simp: sample_ops_def)

lemma sample_running_executions:
  "map texe_status (db_executions (conn_db sample_running)) = [''running''] \<and>
   map texe_ritual_id (db_executions (conn_db sample_running)) = [''u'']"
  by code_simp

lemma running_ritual_not_started_again_witness:
  "fst (start_execution sample_env (sample_execution 5 ExecRunning) [] sample_running) \<noteq> Inr ()"
proof -
  obtain y where "y \<in> set (db_executions (conn_db sample_running))" "texe_status y = ''running''"
      "texe_ritual_id y = ''u''"
    using sample_running_executions by (cases "db_executions (conn_db sample_running)") auto
  moreover have "se_uuid_text sample_env (exe_ritual_id (sample_execution 5 ExecRunning)) = ''u''"
    by (simp add: sample_env_def sample_execution_def)
  ultimately show ?thesis
    using running_ritual_not_started_again [OF sample_running_ok, of y sample_env
        "sample_execution 5 ExecRunning"] by simp
qed

section \<open>Events\<close>

lemma event_rows_sequence:
  assumes "event_to_rows E e = Inr (a, row)" "event_to_rows E e' = Inr (a', row')"
    and "adp_instance_id (ev_adapter e') = adp_instance_id (ev_adapter e)"
    and "adp_sequence_no (ev_adapter e') = adp_sequence_no (ev_adapter e)"
  shows "tevt_adapter_instance_id row' = tevt_adapter_instance_id row"
    "tevt_sequence_no row' = tevt_sequence_no row"
  using assms by (auto simp: event_to_rows_def and_then_Inr_iff Let_def split: if_splits)

lemma insert_event_unchanged:
  "fst (insert_event E e c) \<noteq> Inr () \<Longrightarrow> conn_db (snd (insert_event E e c)) = conn_db c"
  by (rule clean_unchanged [OF clean_insert_event])

lemma upsert_adapters_events:
  "upsert_into_adapters a d = Inr (n, d') \<Longrightarrow> db_events d' = db_events d"
  by (auto simp: upsert_into_adapters_def)

lemma duplicate_event_error:
  assumes no_fault: "\<forall>n. \<not> se_sql_fault E n"
    and rows: "event_to_rows E e = Inr (a, row)"
    and dup: "has_key (\<lambda>e. (tevt_adapter_instance_id e, tevt_sequence_no e))
      (tevt_adapter_instance_id row, tevt_sequence_no row) (db_events (conn_db c))"
  shows "fst (insert_event E e c) = Inl DuplicateEvent"
proof -
  obtain d where u: "upsert_into_adapters a (conn_db c) = Inr (1, d)" "db_events d = db_events (conn_db c)"
    by (simp add: upsert_into_adapters_def)
  have i: "insert_into_events row d = Inl ConstraintViolation"
    unfolding insert_into_events_def by (rule guarded_Inl) (use dup u(2) in simp)
  show ?thesis
    by (simp add: insert_event_def transaction_def sbind_def slift_def rows query_def
        sql_run [OF no_fault [rule_format]] u i on_duplicate_def duplicate_as_def)
qed

text \<open>C19: an event's adapter instance and sequence number are accepted once: after an insert that
  succeeded, and any further commands, inserting an event with the same pair fails and changes
  nothing; without an SQLite fault the error is \<open>DuplicateEvent\<close>.\<close>

theorem duplicate_event_rejected:
  assumes "insert_event E e c = (Inr (), c1)"
    and "adp_instance_id (ev_adapter e') = adp_instance_id (ev_adapter e)"
    and "adp_sequence_no (ev_adapter e') = adp_sequence_no (ev_adapter e)"
    and "c2 = snd (writer_loop E ops c1)"
  shows "fst (insert_event E e' c2) \<noteq> Inr () \<and>
    conn_db (snd (insert_event E e' c2)) = conn_db c2 \<and>
    ((\<forall>n. \<not> se_sql_fault E n) \<and> is_ok (event_to_rows E e') \<longrightarrow>
      fst (insert_event E e' c2) = Inl DuplicateEvent)"
proof -
  let ?key = "\<lambda>e. (tevt_adapter_instance_id e, tevt_sequence_no e)"
  obtain a row where row: "event_to_rows E e = Inr (a, row)" "row \<in> set (db_events (conn_db c1))"
    using assms(1) by (elim insert_event_Inr) simp
  have "prefix (db_events (conn_db c1)) (db_events (conn_db c2))"
    using history.keeps_loop [where h = "conn_db c1" and c = c1 and E = E and ops = ops] by (simp add: assms(4) extends_def)
  then have row2: "row \<in> set (db_events (conn_db c2))" using row(2) by (auto simp: prefix_def)
  have dup: "has_key ?key (?key row') (db_events (conn_db c2))"
    if "event_to_rows E e' = Inr (a', row')" for a' row'
    unfolding has_key_iff using row2 event_rows_sequence [OF row(1) that assms(2,3)]
    by (metis (no_types, lifting) image_eqI)
  have n: "fst (insert_event E e' c2) \<noteq> Inr ()"
  proof
    assume "fst (insert_event E e' c2) = Inr ()"
    then have "insert_event E e' c2 = (Inr (), snd (insert_event E e' c2))" by (simp add: prod_eq_iff)
    then show False using dup by (elim insert_event_Inr) blast
  qed
  moreover have "fst (insert_event E e' c2) = Inl DuplicateEvent"
    if nf: "\<forall>n. \<not> se_sql_fault E n" and ok: "is_ok (event_to_rows E e')"
  proof -
    obtain a' row' where r: "event_to_rows E e' = Inr (a', row')" using ok by (auto simp: is_ok_iff)
    show ?thesis by (rule duplicate_event_error [OF nf r dup [OF r]])
  qed
  ultimately show ?thesis using insert_event_unchanged by blast
qed

lemma sample_event_inserted:
  "fst (insert_event sample_env (sample_event 6) sample_conn) = Inr ()"
  by code_simp

theorem duplicate_event_rejected_witness:
  "fst (insert_event sample_env (sample_event 8)
     (snd (writer_loop sample_env sample_ops (snd (insert_event sample_env (sample_event 6) sample_conn)))))
   = Inl DuplicateEvent"
proof -
  have i: "insert_event sample_env (sample_event 6) sample_conn =
      (Inr (), snd (insert_event sample_env (sample_event 6) sample_conn))"
    using sample_event_inserted by (simp add: prod_eq_iff)
  have a: "adp_instance_id (ev_adapter (sample_event 8)) = adp_instance_id (ev_adapter (sample_event 6))"
    "adp_sequence_no (ev_adapter (sample_event 8)) = adp_sequence_no (ev_adapter (sample_event 6))"
    by (simp_all add: sample_event_def)
  have "is_ok (event_to_rows sample_env (sample_event 8))" by code_simp
  moreover have "\<forall>n. \<not> se_sql_fault sample_env n" by (simp add: sample_env_def)
  ultimately show ?thesis using duplicate_event_rejected [OF i a refl] by blast
qed

lemma event_row_json:
  "event_to_rows E e = Inr (a, row) \<Longrightarrow> se_event_json E e = Some (tevt_canonical_json row)"
  by (auto simp: event_to_rows_def and_then_Inr_iff Let_def split: if_splits)

lemma list_events_no_fault:
  assumes "\<not> se_sql_fault E (conn_tick c)"
  shows "fst (list_events E since limit c) = and_then (transpose_map (format_ts E) since) (\<lambda>t.
    collect_results (map (\<lambda>j. ok_or Json (se_event_of_json E j))
      (select_events t (min (unat limit) 1000) (conn_db c))))"
  using assms
  by (simp add: list_events_def sbind_def slift_def sql_def query_def Let_def and_then_def
      split: sum.split)

text \<open>C35: the event log reads back: from an empty database and after any commands, without an
  SQLite fault, \<open>list_events\<close> without a lower bound returns at most \<open>min limit 1000\<close> events and
  never fails; each returned event is one whose row the log holds, in the order of the received
  times as texts.\<close>

theorem event_log_reads_back:
  assumes "store_env_laws E" and "encoded_rows E (conn_db c)"
    and "c' = snd (writer_loop E ops c)" and "\<not> se_sql_fault E (conn_tick c')"
  shows "\<exists>es. fst (list_events E None limit c') = Inr es \<and> length es \<le> min (unat limit) 1000 \<and>
    map (se_event_json E) es = map (\<lambda>r. Some (tevt_canonical_json r))
      (take (min (unat limit) 1000)
        (sort_key (\<lambda>r. (tevt_received_at r, tevt_id r)) (db_events (conn_db c'))))"
proof -
  let ?rows = "take (min (unat limit) 1000)
      (sort_key (\<lambda>r. (tevt_received_at r, tevt_id r)) (db_events (conn_db c')))"
  have enc: "encoded_rows E (conn_db c')"
    unfolding assms(3) by (rule encoded.keeps_loop [OF assms(2)])
  define ev where "ev r = (SOME e. se_event_json E e = Some (tevt_canonical_json r))"
    for r :: event_row
  have ev: "se_event_json E (ev r) = Some (tevt_canonical_json r)" if "r \<in> set ?rows" for r
  proof -
    have "r \<in> set (db_events (conn_db c'))" using that by (auto dest: in_set_takeD)
    then obtain e a where "event_to_rows E e = Inr (a, r)" using enc by (auto simp: encoded_rows_def)
    from event_row_json [OF this] show ?thesis unfolding ev_def by (rule someI)
  qed
  have "collect_results (map (\<lambda>j. ok_or Json (se_event_of_json E j)) (map tevt_canonical_json ?rows))
      = Inr (map ev ?rows)"
    unfolding collect_results_Inr_iff using ev assms(1) by (simp add: store_env_laws_def)
  then have "fst (list_events E None limit c') = Inr (map ev ?rows)"
    using assms(4) by (simp add: list_events_no_fault select_events_def)
  then show ?thesis using ev by (intro exI [of _ "map ev ?rows"]) auto
qed

theorem event_log_reads_back_witness:
  "\<exists>es. fst (list_events sample_env None 10
     (snd (writer_loop sample_env [InsertEvent (sample_event 6)] sample_conn))) = Inr es \<and> length es \<le> 10"
proof -
  have e: "encoded_rows sample_env (conn_db sample_conn)"
    by (simp add: encoded_rows_def sample_conn_def empty_db_def)
  from event_log_reads_back [OF sample_env_laws e refl, of "[InsertEvent (sample_event 6)]" 10]
  show ?thesis by (auto simp: sample_env_def)
qed

section \<open>Restart\<close>

lemma abort_running_Inr:
  assumes "abort_running_executions E c = (Inr (), c')"
  obtains t d1 d2 n1 n2 where
    "abort_executions t (conn_db c) = Inr (n1, d1)" "abort_steps t d1 = Inr (n2, d2)"
    "conn_db c' = d2\<lparr>db_locks := []\<rparr>"
  using assms by (auto simp: abort_running_executions_def run_simps)

text \<open>C20: after a restart nothing looks as if it were still running: when
  \<open>abort_running_executions\<close> succeeds no execution is running, no lock is left, every step of an
  execution that was running is terminal, finished executions are untouched, and executions keep
  their identity and order.\<close>

theorem restart_aborts_running_executions:
  assumes "abort_running_executions E c = (Inr (), c')"
  shows "(\<forall>x \<in> set (db_executions (conn_db c')). texe_status x \<noteq> ''running'') \<and>
    db_locks (conn_db c') = [] \<and>
    (\<forall>s \<in> set (db_steps (conn_db c')).
       (\<exists>x \<in> set (db_executions (conn_db c)). texe_status x = ''running'' \<and> texe_id x = tstp_execution_id s)
       \<longrightarrow> tstp_status s \<notin> {''running'', ''pending''}) \<and>
    (\<forall>x \<in> set (db_executions (conn_db c)). texe_status x \<noteq> ''running'' \<longrightarrow>
       x \<in> set (db_executions (conn_db c'))) \<and>
    map texe_id (db_executions (conn_db c')) = map texe_id (db_executions (conn_db c))"
proof -
  obtain t d1 d2 n1 n2 where a: "abort_executions t (conn_db c) = Inr (n1, d1)"
      "abort_steps t d1 = Inr (n2, d2)" "conn_db c' = d2\<lparr>db_locks := []\<rparr>"
    using assms by (rule abort_running_Inr)
  let ?f = "\<lambda>x. x\<lparr>texe_status := ''aborted'', texe_finished_at := Some t,
      texe_failure_code := Some ''daemon_restarted''\<rparr>"
  have ex: "db_executions (conn_db c') =
      row_update (\<lambda>x. texe_status x = ''running'') ?f (db_executions (conn_db c))"
    and d1: "db_executions d1 = db_executions (conn_db c')"
    using a by (auto simp: abort_executions_def abort_steps_def)
  have steps: "db_steps (conn_db c') = row_update (abort_step_row d1)
      (\<lambda>s. s\<lparr>tstp_status := ''aborted'', tstp_finished_at := Some t,
             tstp_result_code := Some ''daemon_restarted'',
             tstp_redacted_message := Some ''execution aborted because daemon restarted''\<rparr>) (db_steps d1)"
    using a by (auto simp: abort_steps_def)
  have hit: "restart_aborted d1 (texe_id x)"
    if "x \<in> set (db_executions (conn_db c))" "texe_status x = ''running''" for x
  proof -
    have "?f x \<in> set (db_executions d1)" unfolding d1 ex set_row_update using that by auto
    then show ?thesis unfolding restart_aborted_def list_ex_iff by (intro bexI [of _ "?f x"]) simp_all
  qed
  have "tstp_status s \<notin> {''running'', ''pending''}"
    if "s \<in> set (db_steps (conn_db c'))" "x \<in> set (db_executions (conn_db c))"
      "texe_status x = ''running''" "texe_id x = tstp_execution_id s" for s x
    using that(1) hit [OF that(2,3)] that(4)
    unfolding steps set_row_update by (auto simp: abort_step_row_def split: if_splits)
  moreover have "map texe_id (db_executions (conn_db c')) = map texe_id (db_executions (conn_db c))"
    unfolding ex by (rule map_key_row_update) simp
  moreover have "x \<in> set (db_executions (conn_db c'))"
    if "x \<in> set (db_executions (conn_db c))" "texe_status x \<noteq> ''running''" for x
    unfolding ex set_row_update using that by force
  moreover have "\<forall>x \<in> set (db_executions (conn_db c')). texe_status x \<noteq> ''running''"
    unfolding ex ball_row_update by simp
  ultimately show ?thesis using a(3) by auto
qed

theorem restart_aborts_running_executions_witness:
  "db_locks (conn_db (snd (abort_running_executions sample_env sample_running))) = [] \<and>
   db_locks (conn_db sample_running) \<noteq> []"
proof -
  have "fst (abort_running_executions sample_env sample_running) = Inr ()"
    by (simp add: abort_running_executions_def sbind_def sclock_def slift_def sql_def sample_env_def
        format_ts_def abort_executions_def abort_steps_def sret_def)
  then have "abort_running_executions sample_env sample_running =
      (Inr (), snd (abort_running_executions sample_env sample_running))" by (simp add: prod_eq_iff)
  from restart_aborts_running_executions [OF this]
  have "db_locks (conn_db (snd (abort_running_executions sample_env sample_running))) = []" by simp
  moreover have "db_locks (conn_db sample_running) \<noteq> []" by code_simp
  ultimately show ?thesis by simp
qed

section \<open>Round trips\<close>

text \<open>a resource that was created reads back for ever: after any further commands, and without
  a fault at the read, \<open>get_resource\<close> returns it, with the creation time as time of update.\<close>

lemma resource_reads_back:
  assumes "store_env_laws E" and "create_resource E r c = (Inr r', c1)"
    and "c2 = snd (writer_loop E ops c1)" and "\<not> se_sql_fault E (conn_tick c2)"
  shows "fst (get_resource E (res_id r) c2) = Inr (r\<lparr>res_updated_at := res_created_at r\<rparr>)"
proof -
  obtain row where row: "resource_to_row E r = Inr row"
      "\<not> has_key tres_id (tres_id row) (db_resources (conn_db c))"
      "db_resources (conn_db c1) = db_resources (conn_db c) @ [row]"
    using assms(2) by (elim create_resource_Inr) simp
  have "prefix (db_resources (conn_db c1)) (db_resources (conn_db c2))"
    using history.keeps_loop [where h = "conn_db c1" and c = c1 and E = E and ops = ops]
    by (simp add: assms(3) extends_def)
  then obtain more where more: "db_resources (conn_db c2) = (db_resources (conn_db c) @ [row]) @ more"
    by (auto simp: prefix_def row(3))
  have "row_find tres_id (se_uuid_text E (res_id r)) (db_resources (conn_db c2)) = Some row"
    unfolding more row_find_append [of _ _ "_ @ [row]"]
    by (simp add: resource_rows.select_inserted [OF row(1,2)])
  then show ?thesis
    by (simp add: get_resource_no_fault [OF assms(4)] resource_rows.read_back [OF assms(1) row(1)])
qed

lemma resource_reads_back_witness:
  "fst (get_resource sample_env 3 (snd (writer_loop sample_env sample_ops
     (snd (create_resource sample_env (sample_resource 3 ''/p'') sample_conn))))) =
   Inr (sample_resource 3 ''/p'')"
proof -
  have "fst (create_resource sample_env (sample_resource 3 ''/p'') sample_conn) =
      Inr (sample_resource 3 ''/p'')" by code_simp
  then have c: "create_resource sample_env (sample_resource 3 ''/p'') sample_conn =
      (Inr (sample_resource 3 ''/p''), snd (create_resource sample_env (sample_resource 3 ''/p'') sample_conn))"
    by (simp add: prod_eq_iff)
  from resource_reads_back [OF sample_env_laws c refl]
  show ?thesis by (simp add: sample_env_def sample_resource_def)
qed

lemma get_ritual_no_fault:
  assumes "\<forall>n. \<not> se_sql_fault E n"
  shows "fst (get_ritual E i c) =
    and_then (ok_or NotFound (row_find trit_id (se_uuid_text E i) (db_rituals (conn_db c)))) (\<lambda>row.
    and_then (ritual_from_row E row) (\<lambda>r.
    and_then (ok_or (Sqlite QueryReturnedNoRows)
      (row_find tver_id (se_uuid_text E (rit_current_version_id r)) (db_versions (conn_db c)))) (\<lambda>vrow.
    and_then (version_from_row E vrow) (\<lambda>v.
    and_then (ok_or Json (se_ritual_of_json E (ver_canonical_json v))) (\<lambda>d. Inr (r, v, d))))))"
  using assms
  by (simp add: get_ritual_def sbind_def sql_def query_def Let_def slift_def sret_def and_then_def
      split: sum.split)

text \<open>C34: a ritual that was created reads back as the record, version and definition it was created
  with, when the version holds the JSON text of the definition and the ritual names the version.\<close>

theorem created_ritual_reads_back:
  assumes "store_env_laws E" and "create_ritual E r v d c = (Inr x, c')"
    and "se_ritual_json E d = Some (ver_canonical_json v)" and "rit_current_version_id r = ver_id v"
    and "\<forall>n. \<not> se_sql_fault E n"
  shows "fst (get_ritual E (rit_id r) c') = Inr (r, v, d)"
proof -
  obtain row vrow where r: "ritual_to_row E r v = Inr row" "version_to_row E v = Inr vrow"
      "\<not> has_key trit_id (trit_id row) (db_rituals (conn_db c))"
      "\<not> has_key tver_id (tver_id vrow) (db_versions (conn_db c))"
      "db_rituals (conn_db c') = db_rituals (conn_db c) @ [row]"
      "db_versions (conn_db c') = db_versions (conn_db c) @ [vrow]"
    using assms(2) by (elim create_ritual_Inr) simp
  have "r\<lparr>rit_current_version_id := ver_id v\<rparr> = r" using assms(4) by simp
  then show ?thesis
    using assms(1,3,4) r(3,4) ritual_rows.select_inserted [of E "(r, v)" row] r(1)
      version_rows.select_inserted [OF r(2)] ritual_rows.read_back [of E "(r, v)" row]
      version_rows.read_back [OF assms(1) r(2)]
    by (simp add: get_ritual_no_fault [OF assms(5)] r(5,6) store_env_laws_def)
qed

theorem created_ritual_reads_back_witness:
  "fst (get_ritual sample_env 1 (snd (create_ritual sample_env (sample_ritual_rec RitualDraft)
     sample_version sample_definition sample_conn))) =
   Inr (sample_ritual_rec RitualDraft, sample_version, sample_definition)"
proof -
  let ?m = "create_ritual sample_env (sample_ritual_rec RitualDraft) sample_version sample_definition sample_conn"
  have "is_ok (fst ?m)" by code_simp
  then obtain x where c: "?m = (Inr x, snd ?m)" by (metis is_ok_iff prod.collapse)
  have j: "se_ritual_json sample_env sample_definition = Some (ver_canonical_json sample_version)"
    "rit_current_version_id (sample_ritual_rec RitualDraft) = ver_id sample_version"
    "\<forall>n. \<not> se_sql_fault sample_env n"
    by (simp_all add: sample_env_def sample_version_def sample_ritual_rec_def)
  from created_ritual_reads_back [OF sample_env_laws c j]
  show ?thesis by (simp add: sample_ritual_rec_def)
qed

text \<open>after an update that succeeded, reading a ritual that was readable before gives the new
  name, status, version and definition, with the creation time it had.\<close>

lemma updated_ritual_reads_back:
  assumes "store_env_laws E" and "fst (get_ritual E (rit_id r) c) = Inr (r0, v0, d0)"
    and "update_ritual E r v d c = (Inr x, c')"
    and "se_ritual_json E d = Some (ver_canonical_json v)" and "rit_current_version_id r = ver_id v"
    and "\<forall>n. \<not> se_sql_fault E n"
  shows "fst (get_ritual E (rit_id r) c') = Inr (r\<lparr>rit_created_at := rit_created_at r0\<rparr>, v, d)"
proof -
  let ?id = "se_uuid_text E (rit_id r)"
  obtain u vrow where u: "se_ts_format E (rit_updated_at r) = Some u" "version_to_row E v = Inr vrow"
      "has_key trit_id ?id (db_rituals (conn_db c))"
      "\<not> has_key tver_id (tver_id vrow) (db_versions (conn_db c))"
      "db_rituals (conn_db c') = row_update (\<lambda>w. trit_id w = ?id)
         (\<lambda>w. w\<lparr>trit_name := rit_name r, trit_status := ritual_status_name (rit_status r),
                trit_current_version_id := se_uuid_text E (ver_id v), trit_updated_at := u\<rparr>)
         (db_rituals (conn_db c))"
      "db_versions (conn_db c') = db_versions (conn_db c) @ [vrow]"
    using assms(3) by (elim update_ritual_Inr) simp
  obtain old where old: "row_find trit_id ?id (db_rituals (conn_db c)) = Some old"
    and new: "row_find trit_id ?id (db_rituals (conn_db c')) = Some (old\<lparr>trit_name := rit_name r,
        trit_status := ritual_status_name (rit_status r),
        trit_current_version_id := se_uuid_text E (ver_id v), trit_updated_at := u\<rparr>)"
    unfolding u(5)
    by (rule row_find_update_hit [OF u(3), where f = "\<lambda>w. w\<lparr>trit_name := rit_name r,
        trit_status := ritual_status_name (rit_status r),
        trit_current_version_id := se_uuid_text E (ver_id v), trit_updated_at := u\<rparr>"]) simp_all
  have "ritual_from_row E old = Inr r0"
    using assms(2) old by (auto simp: get_ritual_no_fault [OF assms(6)] and_then_Inr_iff)
  then have t: "parse_ts E (trit_created_at old) = Inr (rit_created_at r0)"
    by (auto simp: ritual_from_row_def and_then_Inr_iff)
  have "trit_id old = ?id" using old by (auto dest: row_find_SomeD)
  then have "ritual_from_row E (old\<lparr>trit_name := rit_name r,
        trit_status := ritual_status_name (rit_status r),
        trit_current_version_id := se_uuid_text E (ver_id v), trit_updated_at := u\<rparr>) =
      Inr (r\<lparr>rit_created_at := rit_created_at r0\<rparr>)"
    using assms(1,5) u(1) t
    by (simp add: ritual_from_row_def parse_uuid_text parse_ts_format codec_names)
  then show ?thesis
    using assms(1,4,5) version_rows.select_inserted [OF u(2,4)] version_rows.read_back [OF assms(1) u(2)]
    by (simp add: get_ritual_no_fault [OF assms(6)] new u(6) store_env_laws_def)
qed

lemma updated_ritual_reads_back_witness:
  "fst (get_ritual sample_env 1 (snd (update_ritual sample_env
      ((sample_ritual_rec RitualPaused)\<lparr>rit_current_version_id := 5\<rparr>)
      (sample_version\<lparr>ver_id := 5, ver_version := 2\<rparr>) sample_definition
      (snd (create_ritual sample_env (sample_ritual_rec RitualDraft) sample_version
        sample_definition sample_conn))))) =
   Inr ((sample_ritual_rec RitualPaused)\<lparr>rit_current_version_id := 5\<rparr>,
        sample_version\<lparr>ver_id := 5, ver_version := 2\<rparr>, sample_definition)"
proof -
  let ?c = "snd (create_ritual sample_env (sample_ritual_rec RitualDraft) sample_version
      sample_definition sample_conn)"
  let ?v = "sample_version\<lparr>ver_id := 5, ver_version := 2\<rparr>"
  let ?r = "(sample_ritual_rec RitualPaused)\<lparr>rit_current_version_id := 5\<rparr>"
  let ?m = "update_ritual sample_env ?r ?v sample_definition ?c"
  have g: "fst (get_ritual sample_env (rit_id ?r) ?c) =
      Inr (sample_ritual_rec RitualDraft, sample_version, sample_definition)"
    by code_simp
  have "is_ok (fst ?m)" by code_simp
  then obtain x where c: "?m = (Inr x, snd ?m)" by (metis is_ok_iff prod.collapse)
  have j: "se_ritual_json sample_env sample_definition = Some (ver_canonical_json ?v)"
    "rit_current_version_id ?r = ver_id ?v" "\<forall>n. \<not> se_sql_fault sample_env n"
    by (simp_all add: sample_env_def sample_version_def)
  from updated_ritual_reads_back [OF sample_env_laws g c j] show ?thesis
    by (simp add: sample_ritual_rec_def)
qed

section \<open>Executions\<close>

lemma get_execution_no_fault:
  assumes "\<forall>n. \<not> se_sql_fault E n"
  shows "fst (get_execution E i c) =
    and_then (ok_or NotFound (row_find texe_id (se_uuid_text E i) (db_executions (conn_db c)))) (\<lambda>row.
    and_then (execution_from_row E row) (\<lambda>x.
    and_then (collect_results (map (execution_step_from_row E) (sort_key tstp_step_index
       (filter (\<lambda>s. tstp_execution_id s = se_uuid_text E i) (db_steps (conn_db c)))))) (\<lambda>steps.
      Inr (x, steps))))"
  using assms
  by (simp add: get_execution_def sbind_def sql_def query_def Let_def slift_def sret_def and_then_def
      split: sum.split)

lemma step_row_keys:
  assumes "list_all2 (\<lambda>s r. step_to_row E s = Inr r) steps rows"
  shows "map tstp_step_index rows = map (\<lambda>s. uint (stp_step_index s)) steps \<and>
    map tstp_execution_id rows = map (\<lambda>s. se_uuid_text E (stp_execution_id s)) steps"
  using assms
  by (induction rule: list_all2_induct) (auto simp: step_to_row_def and_then_Inr_iff)

text \<open>an execution that was started reads back with its steps in the order of their index.\<close>

lemma started_execution_reads_back:
  assumes "store_env_laws E" and "db_ok (conn_db c)" and "start_execution E x steps c = (Inr (), c')"
    and "\<forall>s \<in> set steps. stp_execution_id s = exe_id x"
    and "sorted (map (\<lambda>s. uint (stp_step_index s)) steps)" and "\<forall>n. \<not> se_sql_fault E n"
  shows "fst (get_execution E (exe_id x) c') = Inr (x, steps)"
proof -
  let ?id = "se_uuid_text E (exe_id x)"
  obtain row rows where r: "execution_to_row E x = Inr row"
      "list_all2 (\<lambda>s r. step_to_row E s = Inr r) steps rows"
      "\<not> has_key texe_id (texe_id row) (db_executions (conn_db c))"
      "db_executions (conn_db c') = db_executions (conn_db c) @ [row]"
      "db_steps (conn_db c') = db_steps (conn_db c) @ rows"
    using assms(3) by (elim start_execution_Inr) simp
  note keys = step_row_keys [OF r(2)]
  have "filter (\<lambda>s. tstp_execution_id s = ?id) (db_steps (conn_db c)) = []"
    using assms(2) r(3) execution_rows.key_of_row [OF r(1)]
    by (auto simp: filter_empty_conv db_ok_def db_ok_deferred_def foreign_keys_def)
  moreover have "\<forall>r \<in> set rows. tstp_execution_id r = ?id"
    using keys assms(4) by (metis (mono_tags, lifting) image_iff list.set_map)
  then have "filter (\<lambda>s. tstp_execution_id s = ?id) rows = rows" by simp
  moreover have "sort_key tstp_step_index rows = rows"
    by (rule sort_key_id_if_sorted) (simp add: keys assms(5))
  ultimately show ?thesis
    using execution_rows.select_inserted [OF r(1,3)] execution_rows.read_back [OF assms(1) r(1)]
      step_rows.read_rows [OF assms(1) r(2)]
    by (simp add: get_execution_no_fault [OF assms(6)] r(4,5))
qed

lemma started_execution_reads_back_witness:
  "fst (get_execution sample_env 3 (snd (start_execution sample_env (sample_execution 3 ExecRunning)
      [sample_step 4 3 0, sample_step 5 3 1]
      (snd (writer_loop sample_env [hd sample_ops] sample_conn))))) =
   Inr (sample_execution 3 ExecRunning, [sample_step 4 3 0, sample_step 5 3 1])"
proof -
  let ?c = "snd (writer_loop sample_env [hd sample_ops] sample_conn)"
  let ?m = "start_execution sample_env (sample_execution 3 ExecRunning)
      [sample_step 4 3 0, sample_step 5 3 1] ?c"
  have ok: "db_ok (conn_db ?c)"
    by (rule writer_loop_keeps [OF keeps_execute_operation sample_conn_ok]) (auto simp: sample_ops_def)
  have "fst ?m = Inr ()" by code_simp
  then have c: "?m = (Inr (), snd ?m)" by (simp add: prod_eq_iff)
  have j: "\<forall>s \<in> set [sample_step 4 3 0, sample_step 5 3 1]. stp_execution_id s = exe_id (sample_execution 3 ExecRunning)"
    "sorted (map (\<lambda>s. uint (stp_step_index s)) [sample_step 4 3 0, sample_step 5 3 1])"
    "\<forall>n. \<not> se_sql_fault sample_env n"
    by (simp_all add: sample_env_def sample_step_def sample_execution_def)
  from started_execution_reads_back [OF sample_env_laws ok c j] show ?thesis
    by (simp add: sample_execution_def)
qed

section \<open>Observation scopes\<close>

lemma query_scope_Inr:
  "query_scope E f c = (Inr x, c') \<longleftrightarrow>
     \<not> se_sql_fault E (conn_tick c) \<and> c' = c\<lparr>conn_tick := conn_tick c + 1\<rparr> \<and>
     (case f (conn_db c) of None \<Rightarrow> x = None
      | Some row \<Rightarrow> (\<exists>s. observation_scope_from_sql_row E row = Inr s \<and> x = Some s))"
  by (cases "f (conn_db c)") (auto simp: query_scope_def sql_Inr_iff and_then_Inr_iff)

abbreviation scope_key :: "scope_row \<Rightarrow> string \<times> string" where
  "scope_key \<equiv> (\<lambda>r. (tobs_source r, tobs_resource_id r))"

abbreviation scope_target :: "'z store_env_scheme \<Rightarrow> observation_scope \<Rightarrow> string \<times> string" where
  "scope_target E s \<equiv> (observation_source_name (obs_source s), se_uuid_text E (obs_resource_id s))"

lemma unique_count:
  "unique_on key t \<Longrightarrow> has_key key k t \<Longrightarrow> length (filter (\<lambda>r. key r = k) t) = 1"
proof (induction t)
  case (Cons r t)
  then have t: "unique_on key t" and r: "\<not> has_key key (key r) t"
    by (auto simp: unique_on_def has_key_iff)
  show ?case
  proof (cases "key r = k")
    case True
    with r have "filter (\<lambda>r. key r = k) t = []" by (simp add: filter_key_empty)
    with True show ?thesis by simp
  next
    case False
    then show ?thesis using Cons t by (simp add: has_key_def)
  qed
qed simp

lemma scope_key_of_row:
  "scope_to_row E s = Inr row \<Longrightarrow> scope_key row = scope_target E s"
  by (auto simp: scope_to_row_def and_then_Inr_iff)

lemma ensure_scope_cases:
  assumes "store_env_laws E" "encoded_rows E (conn_db c)"
    and "ensure_observation_scope E s c = (Inr s', c')"
  obtains (renewed) old row u where
      "row_find scope_key (scope_target E s) (db_scopes (conn_db c)) = Some row"
      "scope_to_row E old = Inr row" "s' = old\<lparr>obs_status := ObsActive, obs_updated_at := obs_updated_at s\<rparr>"
      "scope_to_row E s' = Inr (row\<lparr>tobs_status := ''active'', tobs_updated_at := u\<rparr>)"
      "db_scopes (conn_db c') = row_update (\<lambda>r. tobs_id r = tobs_id row)
         (\<lambda>r. r\<lparr>tobs_status := ''active'', tobs_updated_at := u\<rparr>) (db_scopes (conn_db c))"
  | (created) row where
      "row_find scope_key (scope_target E s) (db_scopes (conn_db c)) = None"
      "s' = s" "scope_to_row E s = Inr row"
      "db_scopes (conn_db c') = db_scopes (conn_db c) @ [row]"
proof (cases "row_find scope_key (scope_target E s) (db_scopes (conn_db c))")
  case None
  then obtain row where "s' = s" "scope_to_row E s = Inr row"
      "db_scopes (conn_db c') = db_scopes (conn_db c) @ [row]"
    using assms(3)
    by (auto simp: ensure_observation_scope_def query_scope_Inr run_simps insert_into_scopes_def)
  then show thesis by (rule created [OF None])
next
  case (Some row)
  then have "row \<in> set (db_scopes (conn_db c))" by (auto dest: row_find_SomeD)
  then obtain old where old: "scope_to_row E old = Inr row"
    using assms(2) by (auto simp: encoded_rows_def)
  note dec = scope_rows.read_back [OF assms(1) old] scope_rows.key_of_row [OF old]
  let ?new = "old\<lparr>obs_status := ObsActive, obs_updated_at := obs_updated_at s\<rparr>"
  obtain u where u: "se_ts_format E (obs_updated_at s) = Some u" "s' = ?new"
      "db_scopes (conn_db c') = row_update (\<lambda>r. tobs_id r = tobs_id row)
         (\<lambda>r. r\<lparr>tobs_status := ''active'', tobs_updated_at := u\<rparr>) (db_scopes (conn_db c))"
    using assms(3) Some dec
    by (auto simp: ensure_observation_scope_def query_scope_Inr Let_def run_simps set_scope_status_def)
  have "scope_to_row E ?new = Inr (row\<lparr>tobs_status := ''active'', tobs_updated_at := u\<rparr>)"
    using old u(1) by (auto simp: scope_to_row_def and_then_Inr_iff)
  then show thesis using renewed [OF Some old u(2) _ u(3)] u(2) by simp
qed

text \<open>enabling an observation leaves exactly one scope for its source and resource, active and
  readable as the scope returned; a scope that existed keeps its id and the table its size.\<close>

lemma observation_scope_unique:
  assumes "store_env_laws E" and "db_ok (conn_db c)" and "encoded_rows E (conn_db c)"
    and "ensure_observation_scope E s c = (Inr s', c')" and "obs_status s = ObsActive"
  shows "obs_source s' = obs_source s \<and> obs_resource_id s' = obs_resource_id s \<and>
    obs_status s' = ObsActive \<and>
    length (filter (\<lambda>r. scope_key r = scope_target E s) (db_scopes (conn_db c'))) = 1 \<and>
    (\<exists>row \<in> set (db_scopes (conn_db c')). observation_scope_from_sql_row E row = Inr s') \<and>
    (has_key scope_key (scope_target E s) (db_scopes (conn_db c)) \<longrightarrow>
       length (db_scopes (conn_db c')) = length (db_scopes (conn_db c)) \<and>
       has_key tobs_id (se_uuid_text E (obs_id s')) (db_scopes (conn_db c)))"
  using assms(1,3,4)
proof (cases rule: ensure_scope_cases)
  case (renewed old row u)
  have row: "row \<in> set (db_scopes (conn_db c))" "scope_key row = scope_target E s"
    using renewed(1) by (auto dest: row_find_SomeD)
  have t: "obs_source s' = obs_source s" "obs_resource_id s' = obs_resource_id s"
    using row(2) scope_key_of_row [OF renewed(2)] uuid_text_inject [OF assms(1)] renewed(3)
      observation_source_codec.enc_inject by auto
  have "db_ok (conn_db c')" using valid_Inr [OF keeps_ensure_scope assms(2,4)] .
  then have "unique_on scope_key (db_scopes (conn_db c'))"
    by (simp add: db_ok_def db_ok_deferred_def unique_keys_def)
  moreover have "has_key scope_key (scope_target E s) (db_scopes (conn_db c'))"
    unfolding renewed(5)
    by (subst has_key_row_update, simp, unfold has_key_iff)
       (rule image_eqI [where f = scope_key, OF row(2) [symmetric] row(1)])
  ultimately have one: "length (filter (\<lambda>r. scope_key r = scope_target E s) (db_scopes (conn_db c'))) = 1"
    by (rule unique_count)
  have "row\<lparr>tobs_status := ''active'', tobs_updated_at := u\<rparr> \<in> set (db_scopes (conn_db c'))"
    unfolding renewed(5) set_row_update using row(1) by (intro image_eqI [of _ _ row]) simp_all
  then have reads: "\<exists>row \<in> set (db_scopes (conn_db c')). observation_scope_from_sql_row E row = Inr s'"
    using scope_rows.read_back [OF assms(1) renewed(4)] by blast
  have "has_key tobs_id (se_uuid_text E (obs_id s')) (db_scopes (conn_db c))"
    using row(1) scope_rows.key_of_row [OF renewed(2)] renewed(3) by (force simp: has_key_iff)
  with t one reads show ?thesis by (simp add: renewed(3,5))
next
  case (created row)
  have none: "\<not> has_key scope_key (scope_target E s) (db_scopes (conn_db c))"
    using created(1) by (simp only: row_find_None_iff not_False_eq_True)
  then have "filter (\<lambda>r. scope_key r = scope_target E s) (db_scopes (conn_db c)) = []"
    by (simp only: filter_key_empty not_False_eq_True)
  with none show ?thesis using created(2,4) assms(5) scope_key_of_row [OF created(3)]
      scope_rows.read_back [OF assms(1) created(3)] by simp
qed

definition sample_scope :: "uuid \<Rightarrow> observation_scope" where
  "sample_scope i = \<lparr>obs_id = i, obs_source = VscodeWorkspace, obs_resource_id = 3, obs_status = ObsActive,
     obs_created_at = Timestamp 1 0, obs_updated_at = Timestamp 2 0\<rparr>"

definition sample_observed :: conn where
  "sample_observed = snd (writer_loop sample_env
     [CreateResource (sample_resource 3 ''/p''), EnsureObservationScope (sample_scope 4)] sample_conn)"

lemma observation_scope_unique_witness:
  "length (db_scopes (conn_db (snd (ensure_observation_scope sample_env (sample_scope 5) sample_observed)))) =
   length (db_scopes (conn_db sample_observed))"
proof -
  let ?m = "ensure_observation_scope sample_env (sample_scope 5) sample_observed"
  have ok: "db_ok (conn_db sample_observed)" unfolding sample_observed_def
    by (rule writer_loop_keeps [OF keeps_execute_operation sample_conn_ok]) auto
  have enc: "encoded_rows sample_env (conn_db sample_observed)" unfolding sample_observed_def
    by (rule encoded.keeps_loop) (simp add: encoded_rows_def sample_conn_def empty_db_def)
  have "is_ok (fst ?m)" by code_simp
  then obtain s' where m: "?m = (Inr s', snd ?m)" by (metis is_ok_iff prod.collapse)
  have a: "obs_status (sample_scope 5) = ObsActive" by (simp add: sample_scope_def)
  have "has_key scope_key (scope_target sample_env (sample_scope 5)) (db_scopes (conn_db sample_observed))"
    by code_simp
  with observation_scope_unique [OF sample_env_laws ok enc m a] show ?thesis by blast
qed

lemma pause_scope_Inr:
  assumes "pause_observation_scope E i c = (Inr s, c')"
  obtains row s0 where "row_find tobs_id (se_uuid_text E i) (db_scopes (conn_db c)) = Some row"
    "observation_scope_from_sql_row E row = Inr s0"
    "obs_status s0 = ObsPaused \<Longrightarrow> s = s0 \<and> conn_db c' = conn_db c"
    "obs_status s0 = ObsActive \<Longrightarrow> \<exists>now u. se_ts_format E now = Some u \<and>
       s = s0\<lparr>obs_status := ObsPaused, obs_updated_at := now\<rparr> \<and>
       db_scopes (conn_db c') = row_update (\<lambda>r. tobs_id r = se_uuid_text E i \<and> tobs_status r = ''active'')
         (\<lambda>r. r\<lparr>tobs_status := ''paused'', tobs_updated_at := u\<rparr>) (db_scopes (conn_db c))"
proof -
  let ?c0 = "c\<lparr>conn_tick := Suc (conn_tick c)\<rparr>"
  obtain row s0 where f: "row_find tobs_id (se_uuid_text E i) (db_scopes (conn_db c)) = Some row"
      "observation_scope_from_sql_row E row = Inr s0" "conn_db ?c0 = conn_db c"
      "(if obs_status s0 = ObsActive
        then sbind (sclock E) (\<lambda>now.
          sbind (slift (format_ts E now)) (\<lambda>updated.
          sbind (sql E (set_scope_status ''paused'' updated
             (\<lambda>s. tobs_id s = se_uuid_text E i \<and> tobs_status s = ''active''))) (\<lambda>_.
            sret (s0\<lparr>obs_status := ObsPaused, obs_updated_at := now\<rparr>))))
        else sret s0) ?c0 = (Inr s, c')"
    using assms
    by (auto simp: pause_observation_scope_def sbind_Inr_iff query_scope_Inr slift_Inr_iff
        split: option.splits)
  show thesis
  proof (rule that [OF f(1,2)])
    assume "obs_status s0 = ObsPaused"
    then show "s = s0 \<and> conn_db c' = conn_db c" using f(3,4) by (auto simp: sret_iff)
  next
    assume "obs_status s0 = ObsActive"
    then show "\<exists>now u. se_ts_format E now = Some u \<and>
       s = s0\<lparr>obs_status := ObsPaused, obs_updated_at := now\<rparr> \<and>
       db_scopes (conn_db c') = row_update (\<lambda>r. tobs_id r = se_uuid_text E i \<and> tobs_status r = ''active'')
         (\<lambda>r. r\<lparr>tobs_status := ''paused'', tobs_updated_at := u\<rparr>) (db_scopes (conn_db c))"
      using f(3,4)
      by (auto simp: run_simps set_scope_status_def intro!: exI [of _ "se_now E (Suc (conn_tick c))"])
  qed
qed

text \<open>pausing an observation is idempotent: the scope returned is paused, and pausing again
  returns the same scope and changes nothing.\<close>

lemma pause_idempotent:
  assumes "store_env_laws E" and "pause_observation_scope E i c = (Inr s, c1)"
    and "pause_observation_scope E i c1 = (Inr s', c2)"
  shows "obs_status s = ObsPaused \<and> s' = s \<and> conn_db c2 = conn_db c1"
proof -
  obtain row s0 where r: "row_find tobs_id (se_uuid_text E i) (db_scopes (conn_db c)) = Some row"
      "observation_scope_from_sql_row E row = Inr s0"
      "obs_status s0 = ObsPaused \<Longrightarrow> s = s0 \<and> conn_db c1 = conn_db c"
      "obs_status s0 = ObsActive \<Longrightarrow> \<exists>now u. se_ts_format E now = Some u \<and>
         s = s0\<lparr>obs_status := ObsPaused, obs_updated_at := now\<rparr> \<and>
         db_scopes (conn_db c1) = row_update (\<lambda>r. tobs_id r = se_uuid_text E i \<and> tobs_status r = ''active'')
           (\<lambda>r. r\<lparr>tobs_status := ''paused'', tobs_updated_at := u\<rparr>) (db_scopes (conn_db c))"
    by (rule pause_scope_Inr [OF assms(2)]) blast
  have found: "\<exists>row1. row_find tobs_id (se_uuid_text E i) (db_scopes (conn_db c1)) = Some row1 \<and>
      observation_scope_from_sql_row E row1 = Inr s \<and> obs_status s = ObsPaused"
  proof (cases "obs_status s0")
    case ObsActive
    then obtain now u where n: "se_ts_format E now = Some u"
        "s = s0\<lparr>obs_status := ObsPaused, obs_updated_at := now\<rparr>"
        "db_scopes (conn_db c1) = row_update (\<lambda>r. tobs_id r = se_uuid_text E i \<and> tobs_status r = ''active'')
           (\<lambda>r. r\<lparr>tobs_status := ''paused'', tobs_updated_at := u\<rparr>) (db_scopes (conn_db c))"
      using r(4) by blast
    have "tobs_status row = ''active''" "tobs_id row = se_uuid_text E i"
      using r(1,2) ObsActive observation_status_codec.dec_Inr_iff
      by (auto simp: observation_scope_from_sql_row_def and_then_Inr_iff sql_parse_def dest: row_find_SomeD)
    then have "row_find tobs_id (se_uuid_text E i) (db_scopes (conn_db c1)) =
        Some (row\<lparr>tobs_status := ''paused'', tobs_updated_at := u\<rparr>)"
      unfolding n(3) by (subst row_find_row_update) (simp_all add: r(1))
    moreover have "observation_scope_from_sql_row E (row\<lparr>tobs_status := ''paused'', tobs_updated_at := u\<rparr>) = Inr s"
      using r(2) n(2) parse_ts_format [OF assms(1) n(1)] observation_status_codec.dec_enc [of ObsPaused]
      by (auto simp: observation_scope_from_sql_row_def and_then_Inr_iff sql_parse_def)
    ultimately show ?thesis using n(2) by auto
  next
    case ObsPaused
    then show ?thesis using r(1-3) by auto
  qed
  then show ?thesis
    by (metis assms(3) observation_status.distinct(1) option.inject pause_scope_Inr sum.inject(2))
qed

lemma pause_idempotent_witness:
  "fst (pause_observation_scope sample_env 4 (snd (pause_observation_scope sample_env 4 sample_observed))) =
   fst (pause_observation_scope sample_env 4 sample_observed)"
proof -
  let ?a = "pause_observation_scope sample_env 4 sample_observed"
  let ?b = "pause_observation_scope sample_env 4 (snd ?a)"
  have "is_ok (fst ?a)" "is_ok (fst ?b)" by code_simp+
  then obtain s s' where a: "?a = (Inr s, snd ?a)" and b: "?b = (Inr s', snd ?b)"
    by (metis is_ok_iff prod.collapse)
  from pause_idempotent [OF sample_env_laws a b] have "s' = s" by simp
  then show ?thesis using a b by (metis fst_conv)
qed

end
