(* ===== verification/Fubun_Protocol.thy ===== *)
theory Fubun_Protocol
  imports Fubun_Policy
begin

text \<open>
  Model of \<open>crates/fubun-protocol/src/lib.rs\<close>: the messages of the three envelope families and
  the bounded length-prefixed framing. A struct with a single field is written as the argument of
  the constructor that carries it. A byte stream is the list of the bytes still to be read; it
  ends with end of file. \<open>serde_json\<close> is a parameter of the framing functions.
\<close>

section \<open>Messages\<close>

record protocol_version =
  pv_major :: u16
  pv_minor :: u16

definition CURRENT_PROTOCOL_VERSION :: protocol_version where
  "CURRENT_PROTOCOL_VERSION = \<lparr>pv_major = 1, pv_minor = 0\<rparr>"

definition MAX_MESSAGE_SIZE :: nat where
  "MAX_MESSAGE_SIZE = 256 * 1024"

record client_hello =
  ch_client_name :: string
  ch_client_version :: string
  ch_protocol_version :: protocol_version

record client_hello_ack =
  cha_server_name :: string
  cha_server_version :: string
  cha_protocol_version :: protocol_version

record adapter_event_emit_request =
  emit_sequence_no :: u64
  emit_occurred_at :: timestamp
  emit_event_type :: event_type
  emit_resource_id :: uuid

record adapter_tool_status =
  tool_name :: string
  tool_available :: bool

record adapter_status_snapshot =
  snap_tools :: "adapter_tool_status list"
  snap_desktop_entry_ids :: "string list"
  snap_permitted_resource_ids :: "uuid list"

record adapter_hello =
  ah_adapter_id :: string
  ah_adapter_version :: string
  ah_instance_id :: uuid
  ah_action_capabilities :: "string list"
  ah_event_capabilities :: "string list"
  ah_status :: adapter_status_snapshot

record resource_create_request =
  rc_label :: string
  rc_path :: string
  rc_sensitivity :: sensitivity

record resolved_resource =
  rr_resource_id :: uuid
  rr_kind :: resource_kind
  rr_canonical_locator :: string

record action_execute_request =
  aer_action :: action_spec
  aer_resolved_resource :: "resolved_resource option"

record event_ack =
  ack_event_id :: uuid
  ack_stored :: bool
  ack_duplicate :: bool

datatype adapter_request_body =
    ActionExecute action_execute_request
  | AdapterStatusRequest
  | AdapterEventAckBody event_ack

record adapter_request_envelope =
  arq_protocol_version :: protocol_version
  arq_request_id :: uuid
  arq_action_execution_id :: uuid
  arq_body :: adapter_request_body

datatype adapter_action_status = AdapterSucceeded | AdapterSkipped | AdapterFailed

record action_result =
  ar_status :: adapter_action_status
  ar_result_code :: string
  ar_redacted_message :: string

datatype adapter_response_body =
    ActionResultBody action_result
  | StatusBody adapter_status_snapshot
  | EventEmit adapter_event_emit_request

record adapter_response_envelope =
  ars_protocol_version :: protocol_version
  ars_request_id :: uuid
  ars_action_execution_id :: uuid
  ars_body :: adapter_response_body

datatype request_body =
    ClientHello client_hello
  | EventIngest event
  | BrowserObservationEnable string string      \<comment> \<open>label, url\<close>
  | VscodeObservationEnable string string       \<comment> \<open>label, absolute\_path\<close>
  | ObservationPause uuid
  | ObservationsList "observation_source option"
  | EventsList "timestamp option" u32           \<comment> \<open>since, limit\<close>
  | SystemStatus
  | SystemDoctor
  | AdapterHello adapter_hello
  | ResourceCreate resource_create_request
  | ResourceListReq
  | ResourceShow uuid
  | RitualCreate ritual_definition
  | RitualUpdate uuid ritual_definition
  | RitualListReq
  | RitualShow uuid
  | RitualPreviewReq uuid
  | RitualActivate uuid bool                    \<comment> \<open>ritual\_id, approve\<close>
  | RitualPause uuid
  | RitualRun uuid
  | AdapterListReq
  | AdapterStatusReq
  | ExecutionListReq
  | ExecutionShow uuid
  | IntegrationsStatusReq

record request_envelope =
  req_protocol_version :: protocol_version
  req_request_id :: uuid
  req_body :: request_body

record ritual_record =
  rec_ritual :: ritual
  rec_version :: ritual_version
  rec_definition :: ritual_definition

record preview_action =
  pa_step_index :: u32
  pa_action_type :: string
  pa_risk_level :: string
  pa_idempotency :: string
  pa_revertability :: string
  pa_required_capability :: string
  pa_adapter_connected :: bool
  pa_required_tool_available :: "bool option"
  pa_resource_exists :: "bool option"
  pa_resource_path_matches :: "bool option"
  pa_resource_kind_matches :: "bool option"
  pa_desktop_entry_exists :: "bool option"
  pa_warning :: "string option"

record ritual_preview =
  prv_ritual_id :: uuid
  prv_ritual_version_id :: uuid
  prv_actions :: "preview_action list"
  prv_timeout_seconds :: u32
  prv_warnings :: "string list"
  prv_executable :: bool

record execution_record =
  er_execution :: execution
  er_steps :: "execution_step list"

record browser_observation_enabled =
  boe_resource :: resource
  boe_scope :: observation_scope
  boe_canonical_url_hash :: string
  boe_origin_pattern :: string

record vscode_observation_enabled =
  voe_resource :: resource
  voe_scope :: observation_scope
  voe_canonical_path_hash :: string

record adapter_report =
  rep_adapter_id :: string
  rep_version :: string
  rep_instance_id :: uuid
  rep_connected :: bool
  rep_capabilities :: "string list"
  rep_event_capabilities :: "string list"
  rep_permitted_resource_ids :: "uuid list"
  rep_connected_at :: string
  rep_last_seen_at :: string

record status_report =
  sr_daemon :: string
  sr_protocol_version :: protocol_version
  sr_database_status :: string
  sr_schema_version :: u32

record doctor_report =
  dr_database_path :: string
  dr_database_status :: string
  dr_schema_version :: u32
  dr_gtk_launch_available :: bool
  dr_xdg_open_available :: bool
  dr_notify_send_available :: bool
  dr_connected_adapters :: nat
  dr_action_registry_version :: string
  dr_ritual_schema_version :: string
  dr_running_executions :: nat
  dr_draft_rituals :: nat
  dr_active_rituals :: nat
  dr_browser_adapters :: nat
  dr_vscode_adapters :: nat
  dr_active_browser_scopes :: nat
  dr_active_vscode_scopes :: nat

record integration_report =
  ir_core_connected :: bool
  ir_linux_adapters :: nat
  ir_browser_adapters :: nat
  ir_vscode_adapters :: nat
  ir_native_host_manifest :: string
  ir_permitted_browser_resources :: nat
  ir_active_browser_scopes :: nat
  ir_active_vscode_scopes :: nat
  ir_protocol_version :: protocol_version
  ir_database_version :: u32

datatype response_payload =
    ClientHelloAck client_hello_ack
  | EventIngested event_ack
  | EventAckPayload event_ack
  | EventList "event list"
  | StatusPayload status_report
  | DoctorPayload doctor_report
  | AdapterHelloAck client_hello_ack
  | ResourceCreated resource
  | ResourceList "resource list"
  | ResourceShown resource
  | RitualCreated ritual_record
  | RitualUpdated ritual_record
  | RitualList "ritual list"
  | RitualShown ritual_record
  | RitualPreviewed ritual_preview
  | RitualActivated ritual
  | RitualPausedPayload ritual
  | RitualRunPayload execution_record
  | AdapterList "adapter_report list"
  | ExecutionList "execution list"
  | ExecutionShown execution_record
  | BrowserObservationEnabled browser_observation_enabled
  | VscodeObservationEnabled vscode_observation_enabled
  | ObservationPausedPayload observation_scope
  | ObservationList "observation_scope list"
  | IntegrationsStatus integration_report

record error_body =
  err_code :: string
  err_message :: string

datatype response_body = Ok response_payload | Error error_body

record response_envelope =
  rsp_protocol_version :: protocol_version
  rsp_request_id :: uuid
  rsp_body :: response_body

definition response_ok :: "uuid \<Rightarrow> response_payload \<Rightarrow> response_envelope" where
  "response_ok request_id payload =
     \<lparr>rsp_protocol_version = CURRENT_PROTOCOL_VERSION, rsp_request_id = request_id,
      rsp_body = Ok payload\<rparr>"

definition response_error :: "uuid \<Rightarrow> string \<Rightarrow> string \<Rightarrow> response_envelope" where
  "response_error request_id code message =
     \<lparr>rsp_protocol_version = CURRENT_PROTOCOL_VERSION, rsp_request_id = request_id,
      rsp_body = Error \<lparr>err_code = code, err_message = message\<rparr>\<rparr>"

lemma response_simps [simp]:
  "rsp_request_id (response_ok i p) = i" "rsp_body (response_ok i p) = Ok p"
  "rsp_request_id (response_error i c m) = i"
  "rsp_body (response_error i c m) = Error \<lparr>err_code = c, err_message = m\<rparr>"
  "rsp_protocol_version (response_ok i p) = CURRENT_PROTOCOL_VERSION"
  "rsp_protocol_version (response_error i c m) = CURRENT_PROTOCOL_VERSION"
  by (simp_all add: response_ok_def response_error_def)

section \<open>Framing\<close>

datatype frame_error = FrameIo | Oversized nat nat | FrameJson

text \<open>\<open>u32::to_le_bytes\<close> and \<open>u32::from_le_bytes\<close>.\<close>

definition to_le_bytes :: "u32 \<Rightarrow> string" where
  "to_le_bytes w =
     (let n = unat w
      in [char_of n, char_of (n div 256), char_of (n div 65536), char_of (n div 16777216)])"

definition from_le_bytes :: "char \<Rightarrow> char \<Rightarrow> char \<Rightarrow> char \<Rightarrow> u32" where
  "from_le_bytes a b c d =
     word_of_nat (byte_val a + 256 * byte_val b + 65536 * byte_val c + 16777216 * byte_val d)"

definition encode_json_frame :: "('a \<Rightarrow> string option) \<Rightarrow> 'a \<Rightarrow> frame_error + string" where
  "encode_json_frame to_vec value =
     and_then (ok_or FrameJson (to_vec value)) (\<lambda>payload.
       if MAX_MESSAGE_SIZE < length payload
       then Inl (Oversized (length payload) MAX_MESSAGE_SIZE)
       else Inr (to_le_bytes (word_of_nat (length payload)) @ payload))"

text \<open>\<open>read_exact\<close> of \<open>n\<close> bytes: an error when the stream ends first.\<close>

definition read_exact :: "nat \<Rightarrow> string \<Rightarrow> (frame_error + string) \<times> string" where
  "read_exact n stream =
     (if length stream < n then (Inl FrameIo, []) else (Inr (take n stream), drop n stream))"

text \<open>
  \<open>read_frame\<close>: the result and the rest of the stream. End of file before the first byte is
  \<open>None\<close>; the length is checked before the payload is read.
\<close>

definition read_frame :: "string \<Rightarrow> (frame_error + string option) \<times> string" where
  "read_frame stream =
     (case stream of [] \<Rightarrow> (Inr None, [])
      | h # rest \<Rightarrow>
        (case read_exact 3 rest of
           (Inr [b, c, d], rest') \<Rightarrow>
             (let len = unat (from_le_bytes h b c d)
              in if MAX_MESSAGE_SIZE < len then (Inl (Oversized len MAX_MESSAGE_SIZE), rest')
                 else (case read_exact len rest' of
                         (Inr payload, rest'') \<Rightarrow> (Inr (Some payload), rest'')
                       | (Inl e, rest'') \<Rightarrow> (Inl e, rest'')))
         | (Inr _, rest') \<Rightarrow> (Inl FrameIo, rest')
         | (Inl e, rest') \<Rightarrow> (Inl e, rest')))"

definition read_json_frame ::
    "(string \<Rightarrow> 'a option) \<Rightarrow> string \<Rightarrow> (frame_error + 'a option) \<times> string" where
  "read_json_frame from_slice stream =
     (case read_frame stream of
        (Inl e, rest) \<Rightarrow> (Inl e, rest)
      | (Inr None, rest) \<Rightarrow> (Inr None, rest)
      | (Inr (Some bytes), rest) \<Rightarrow>
          (case from_slice bytes of None \<Rightarrow> (Inl FrameJson, rest) | Some v \<Rightarrow> (Inr (Some v), rest)))"

lemma byte_val_char_of: "byte_val (char_of n) = n mod 256"
  by (simp add: byte_val_def)

lemma byte_val_less [simp]: "byte_val c < 256"
  by (cases c) (auto simp: byte_val_def)

lemma base256:
  "n mod 256 + 256 * (n div 256 mod 256) + 65536 * (n div 65536 mod 256) +
     16777216 * (n div 16777216) = (n :: nat)"
proof -
  have "n div 65536 = n div 256 div 256" "n div 16777216 = n div 65536 div 256"
    by (simp_all flip: div_mult2_eq)
  then show ?thesis
    using mult_div_mod_eq [of 256 n] mult_div_mod_eq [of 256 "n div 256"]
      mult_div_mod_eq [of 256 "n div 65536"]
    by linarith
qed

lemma le_bytes_roundtrip:
  "case to_le_bytes w of [a, b, c, d] \<Rightarrow> from_le_bytes a b c d = w | _ \<Rightarrow> False"
proof -
  define n where "n = unat w"
  have n: "n < 4294967296" using unsigned_less [of w, where ?'a = nat] by (simp add: n_def)
  then have d: "n div 16777216 mod 256 = n div 16777216"
    by (simp add: div_less_iff_less_mult)
  have "n mod 256 + 256 * (n div 256 mod 256) + 65536 * (n div 65536 mod 256) +
      16777216 * (n div 16777216 mod 256) = n"
    unfolding d by (rule base256)
  then show ?thesis
    by (simp only: to_le_bytes_def from_le_bytes_def Let_def byte_val_char_of n_def [symmetric]
        list.case) (simp only: n_def of_nat_unat ucast_id)
qed

lemma to_le_bytes_obtain:
  obtains a b c d where "to_le_bytes w = [a, b, c, d]" "from_le_bytes a b c d = w"
  using le_bytes_roundtrip [of w] by (auto simp: to_le_bytes_def Let_def)

lemma length_to_le_bytes [simp]: "length (to_le_bytes w) = 4"
  by (simp add: to_le_bytes_def Let_def)

lemma unat_frame_length:
  "n \<le> MAX_MESSAGE_SIZE \<Longrightarrow> unat (word_of_nat n :: u32) = n"
  by (simp add: MAX_MESSAGE_SIZE_def unat_of_nat)

lemma read_frame_encoded:
  assumes "length payload \<le> MAX_MESSAGE_SIZE"
  shows "read_frame (to_le_bytes (word_of_nat (length payload)) @ payload @ rest) =
    (Inr (Some payload), rest)"
proof -
  obtain a b c d where le: "to_le_bytes (word_of_nat (length payload)) = [a, b, c, d]"
    and w: "from_le_bytes a b c d = word_of_nat (length payload)"
    by (rule to_le_bytes_obtain)
  have "unat (from_le_bytes a b c d) = length payload"
    using assms w by (simp add: unat_frame_length)
  then show ?thesis
    using assms by (simp add: read_frame_def le read_exact_def Let_def)
qed

lemma encode_json_frame_Inr:
  "encode_json_frame to_vec v = Inr frame \<longleftrightarrow>
     (\<exists>p. to_vec v = Some p \<and> length p \<le> MAX_MESSAGE_SIZE \<and>
          frame = to_le_bytes (word_of_nat (length p)) @ p)"
  by (auto simp: encode_json_frame_def and_then_Inr_iff not_less)

lemma read_json_frame_encoded:
  assumes "encode_json_frame to_vec v = Inr frame"
    and "\<And>p. to_vec v = Some p \<Longrightarrow> from_slice p = Some v"
  shows "read_json_frame from_slice (frame @ rest) = (Inr (Some v), rest)"
  using assms by (auto simp: encode_json_frame_Inr read_json_frame_def read_frame_encoded)

lemma read_frame_Some:
  assumes "read_frame stream = (Inr (Some payload), rest)"
  shows "length payload \<le> MAX_MESSAGE_SIZE \<and>
    (\<exists>h. length h = 4 \<and> stream = h @ payload @ rest)"
proof -
  from assms obtain x xs where "stream = x # xs" by (cases stream) (simp_all add: read_frame_def)
  moreover obtain b c d ys where "xs = b # c # d # ys"
    using assms calculation
    by (auto simp: read_frame_def read_exact_def split: if_splits)
       (metis Suc_le_length_iff numeral_3_eq_3 not_less)
  ultimately have s: "stream = [x, b, c, d] @ ys" by simp
  with assms have "length payload \<le> MAX_MESSAGE_SIZE \<and> ys = payload @ rest"
    by (auto simp: read_frame_def read_exact_def Let_def not_less split: if_splits)
  with s show ?thesis by (intro conjI exI [of _ "[x, b, c, d]"]) auto
qed

text \<open>Reading until end of file: the connection loops of the daemon and the adapters.\<close>

function read_all :: "(string \<Rightarrow> 'a option) \<Rightarrow> string \<Rightarrow> 'a list \<times> frame_error option" where
  "read_all from_slice stream =
     (case read_json_frame from_slice stream of
        (Inl e, _) \<Rightarrow> ([], Some e)
      | (Inr None, _) \<Rightarrow> ([], None)
      | (Inr (Some v), rest) \<Rightarrow> (let (vs, e) = read_all from_slice rest in (v # vs, e)))"
  by pat_completeness auto
termination
proof (relation "measure (\<lambda>(_, s). length s)", goal_cases)
  case (2 from_slice stream r rest o v)
  then obtain p where "read_frame stream = (Inr (Some p), rest)"
    by (auto simp: read_json_frame_def split: prod.splits sum.splits option.splits)
  from read_frame_Some [OF this] show ?case by auto
qed simp

declare read_all.simps [simp del]

lemma read_all_Nil [simp]: "read_all from_slice [] = ([], None)"
  by (simp add: read_all.simps read_json_frame_def read_frame_def)

lemma read_all_frame:
  assumes "encode_json_frame to_vec v = Inr frame"
    and "\<And>p. to_vec v = Some p \<Longrightarrow> from_slice p = Some v"
  shows "read_all from_slice (frame @ rest) = (let (vs, e) = read_all from_slice rest in (v # vs, e))"
  by (subst read_all.simps) (simp add: read_json_frame_encoded [OF assms])

lemma read_frame_oversized:
  assumes "MAX_MESSAGE_SIZE < unat (from_le_bytes a b c d)"
  shows "read_frame (a # b # c # d # rest) =
    (Inl (Oversized (unat (from_le_bytes a b c d)) MAX_MESSAGE_SIZE), rest)"
  using assms by (simp add: read_frame_def read_exact_def Let_def)

lemma read_frame_truncated:
  assumes "length p \<le> MAX_MESSAGE_SIZE"
    and "strict_prefix s (to_le_bytes (word_of_nat (length p)) @ p)" and "s \<noteq> []"
  shows "fst (read_frame s) = Inl FrameIo"
proof -
  obtain a b c d where le: "to_le_bytes (word_of_nat (length p)) = [a, b, c, d]"
    and w: "from_le_bytes a b c d = word_of_nat (length p)"
    by (rule to_le_bytes_obtain)
  obtain ys where ys: "a # b # c # d # p = s @ ys" "ys \<noteq> []"
    using assms(2) le by (auto elim!: strict_prefixE')
  have n: "unat (from_le_bytes a b c d) = length p"
    using assms(1) w by (simp add: unat_frame_length)
  show ?thesis
  proof (cases "length s < 4")
    case True
    then show ?thesis using assms(3)
      by (cases s) (auto simp: read_frame_def read_exact_def)
  next
    case False
    then obtain q where s: "s = a # b # c # d # q" "p = q @ ys"
      using ys(1) assms(3) by (auto simp: Cons_eq_append_conv)
    then have "length q < length p" using ys(2) by simp
    then show ?thesis
      using n assms(1) by (simp add: s read_frame_def read_exact_def Let_def del: append_Cons)
  qed
qed

lemma read_all_frames:
  assumes "list_all2 (\<lambda>v f. encode_json_frame to_vec v = Inr f) vs frames"
    and "\<And>v p. to_vec v = Some p \<Longrightarrow> from_slice p = Some v"
  shows "read_all from_slice (concat frames @ tail) =
    (vs @ fst (read_all from_slice tail), snd (read_all from_slice tail))"
  using assms(1)
proof (induction rule: list_all2_induct)
  case (Cons v vs f fs)
  then show ?case
    using read_all_frame [of to_vec v f from_slice, OF _ assms(2)] by (simp add: Let_def)
qed simp

section \<open>Properties\<close>

text \<open>C39: a peer that reads until end of file gets back exactly the values whose frames were
  written, in order and without an error, provided \<open>from_slice\<close> reads back what \<open>to_vec\<close>
  writes; bytes after the frames are read as if they stood alone.\<close>

theorem frames_roundtrip:
  assumes "list_all2 (\<lambda>v f. encode_json_frame to_vec v = Inr f) vs frames"
    and "\<And>v p. to_vec v = Some p \<Longrightarrow> from_slice p = Some v"
  shows "read_all from_slice (concat frames) = (vs, None) \<and>
    read_all from_slice (concat frames @ tail) =
      (vs @ fst (read_all from_slice tail), snd (read_all from_slice tail))"
  using read_all_frames [OF assms, where tail = "[]"] read_all_frames [OF assms, where tail = tail]
  by simp

theorem frames_roundtrip_witness:
  "read_all Some (concat [[CHR 0x01, CHR 0x00, CHR 0x00, CHR 0x00, CHR ''7''],
                          [CHR 0x02, CHR 0x00, CHR 0x00, CHR 0x00, CHR ''4'', CHR ''2'']])
     = ([''7'', ''42''], None)"
proof -
  let ?f1 = "[CHR 0x01, CHR 0x00, CHR 0x00, CHR 0x00, CHR ''7'']"
  let ?f2 = "[CHR 0x02, CHR 0x00, CHR 0x00, CHR 0x00, CHR ''4'', CHR ''2'']"
  have e: "list_all2 (\<lambda>v f. encode_json_frame Some v = Inr f) [''7'', ''42''] [?f1, ?f2]"
    by (simp add: encode_json_frame_def to_le_bytes_def Let_def MAX_MESSAGE_SIZE_def char_of_def bit_0)
  show ?thesis
    using frames_roundtrip [where to_vec = Some and from_slice = Some, OF e] by simp
qed

text \<open>a payload is never larger than 262144 bytes: the encoder refuses a larger value, the
  reader returns only payloads within the bound, and a header that announces more is refused
  before any byte of the payload is read.\<close>

lemma frame_payload_bounded:
  assumes "to_vec v = Some p"
  shows "(encode_json_frame to_vec v = Inl (Oversized (length p) 262144) \<longleftrightarrow> 262144 < length p) \<and>
    (fst (read_frame stream) = Inr (Some q) \<longrightarrow> length q \<le> 262144) \<and>
    (262144 < unat (from_le_bytes a b c d) \<longrightarrow>
      read_frame (a # b # c # d # rest) = (Inl (Oversized (unat (from_le_bytes a b c d)) 262144), rest))"
proof (intro conjI impI)
  show "encode_json_frame to_vec v = Inl (Oversized (length p) 262144) \<longleftrightarrow> 262144 < length p"
    using assms by (simp add: encode_json_frame_def MAX_MESSAGE_SIZE_def)
next
  assume "fst (read_frame stream) = Inr (Some q)"
  then have "read_frame stream = (Inr (Some q), snd (read_frame stream))" by (simp add: prod_eq_iff)
  from read_frame_Some [OF this] show "length q \<le> 262144" by (simp add: MAX_MESSAGE_SIZE_def)
next
  assume "262144 < unat (from_le_bytes a b c d)"
  then show "read_frame (a # b # c # d # rest) =
      (Inl (Oversized (unat (from_le_bytes a b c d)) 262144), rest)"
    using read_frame_oversized [of a b c d rest] by (simp add: MAX_MESSAGE_SIZE_def)
qed

lemma frame_payload_bounded_witness:
  "read_frame (CHR 0x00 # CHR 0x00 # CHR 0x05 # CHR 0x00 # ''abc'') = (Inl (Oversized 327680 262144), ''abc'') \<and>
   (encode_json_frame Some ''x'' = Inl (Oversized 1 262144)) = False"
proof -
  have n: "unat (from_le_bytes (CHR 0x00) (CHR 0x00) (CHR 0x05) (CHR 0x00)) = 327680"
    by (simp add: from_le_bytes_def byte_val_def)
  show ?thesis
    using frame_payload_bounded [where to_vec = Some and v = "''x''" and p = "''x''"
        and a = "CHR 0x00" and b = "CHR 0x00" and c = "CHR 0x05" and d = "CHR 0x00"
        and rest = "''abc''"] n
    by simp
qed

text \<open>a frame cut short is an error, never a value and never a clean end of file: every
  non-empty proper prefix of an encoded frame makes the reader fail.\<close>

lemma truncated_frame_rejected:
  assumes "encode_json_frame to_vec v = Inr frame" and "strict_prefix s frame" and "s \<noteq> []"
  shows "fst (read_json_frame from_slice s) = Inl FrameIo"
proof -
  obtain p where p: "length p \<le> MAX_MESSAGE_SIZE"
      "frame = to_le_bytes (word_of_nat (length p)) @ p"
    using assms(1) by (auto simp: encode_json_frame_Inr)
  from read_frame_truncated [OF p(1) _ assms(3)] assms(2) p(2)
  have "fst (read_frame s) = Inl FrameIo" by simp
  then show ?thesis by (cases "read_frame s") (simp add: read_json_frame_def)
qed

lemma truncated_frame_rejected_witness:
  "fst (read_json_frame Some [CHR 0x02, CHR 0x00, CHR 0x00, CHR 0x00, CHR ''4'']) = Inl FrameIo"
proof -
  have e: "encode_json_frame Some ''42'' =
      Inr [CHR 0x02, CHR 0x00, CHR 0x00, CHR 0x00, CHR ''4'', CHR ''2'']"
    by (simp add: encode_json_frame_def to_le_bytes_def Let_def MAX_MESSAGE_SIZE_def char_of_def bit_0)
  show ?thesis by (rule truncated_frame_rejected [OF e]) (simp_all add: strict_prefix_def)
qed

end
