(* ===== verification/Fubun_Handle.thy ===== *)
theory Fubun_Handle
  imports Fubun_Store_Props Fubun_Samples
begin

text \<open>
  \<open>StorageHandle\<close> of \<open>crates/fubun-storage/src/lib.rs\<close>: the asynchronous side of the writer
  thread. A request is answered after the commands that other tasks sent before it; those commands
  are an input of the model (\<open>he_others\<close>), so that every statement about a handler holds however
  the handlers interleave.
\<close>

section \<open>Requests\<close>

record handle_env = store_env +
  he_others :: "nat \<Rightarrow> operation list"

definition others :: "'z handle_env_scheme \<Rightarrow> conn \<Rightarrow> conn" where
  "others E c = snd (writer_loop E (he_others E (conn_tick c)) c)"

text \<open>
  \<open>StorageHandle::request\<close>: an error when the writer thread is gone, its reply otherwise.
\<close>

definition handle_request :: "'z handle_env_scheme \<Rightarrow> operation \<Rightarrow> storage_response sm" where
  "handle_request E op c =
     (let c' = others E c
      in if conn_open c' then execute_operation E op c' else (Inl QueueClosed, c'))"

text \<open>\<open>Storage::shutdown\<close>: the thread answers and stops taking commands.\<close>

definition storage_shutdown :: "unit sm" where
  "storage_shutdown c =
     (if conn_open c then (Inr (), c\<lparr>conn_open := False\<rparr>) else (Inl QueueClosed, c))"

text \<open>The \<open>match\<close> every method makes on the reply.\<close>

definition expect_response ::
    "string \<Rightarrow> (storage_response \<Rightarrow> 'a option) \<Rightarrow> storage_response \<Rightarrow> storage_error + 'a" where
  "expect_response message f r = ok_or (InvalidData message) (f r)"

definition handle_call ::
    "'z handle_env_scheme \<Rightarrow> operation \<Rightarrow> string \<Rightarrow> (storage_response \<Rightarrow> 'a option) \<Rightarrow> 'a sm" where
  "handle_call E op message f =
     sbind (handle_request E op) (\<lambda>r. slift (expect_response message f r))"

text \<open>The variants of a reply.\<close>

fun of_SUnit :: "storage_response \<Rightarrow> (unit) option" where
  "of_SUnit SUnit = Some ()"
| "of_SUnit _ = None"

fun of_SEvents :: "storage_response \<Rightarrow> (event list) option" where
  "of_SEvents (SEvents es) = Some es"
| "of_SEvents _ = None"

fun of_SSchemaVersion :: "storage_response \<Rightarrow> (u32) option" where
  "of_SSchemaVersion (SSchemaVersion v) = Some v"
| "of_SSchemaVersion _ = None"

fun of_SResource :: "storage_response \<Rightarrow> (resource) option" where
  "of_SResource (SResource r) = Some r"
| "of_SResource _ = None"

fun of_SResources :: "storage_response \<Rightarrow> (resource list) option" where
  "of_SResources (SResources rs) = Some rs"
| "of_SResources _ = None"

fun of_SRitualRecord :: "storage_response \<Rightarrow> (ritual \<times> ritual_version \<times> ritual_definition) option" where
  "of_SRitualRecord (SRitualRecord r v d) = Some (r, v, d)"
| "of_SRitualRecord _ = None"

fun of_SRituals :: "storage_response \<Rightarrow> (ritual list) option" where
  "of_SRituals (SRituals rs) = Some rs"
| "of_SRituals _ = None"

fun of_SApprovals :: "storage_response \<Rightarrow> (approval list) option" where
  "of_SApprovals (SApprovals as) = Some as"
| "of_SApprovals _ = None"

fun of_SExecutionRecord :: "storage_response \<Rightarrow> (execution \<times> execution_step list) option" where
  "of_SExecutionRecord (SExecutionRecord x ss) = Some (x, ss)"
| "of_SExecutionRecord _ = None"

fun of_SExecutions :: "storage_response \<Rightarrow> (execution list) option" where
  "of_SExecutions (SExecutions xs) = Some xs"
| "of_SExecutions _ = None"

fun of_SCounts :: "storage_response \<Rightarrow> (nat \<times> nat \<times> nat) option" where
  "of_SCounts (SCounts a b c) = Some (a, b, c)"
| "of_SCounts _ = None"

fun of_SObservationScope :: "storage_response \<Rightarrow> (observation_scope) option" where
  "of_SObservationScope (SObservationScope s) = Some s"
| "of_SObservationScope _ = None"

fun of_SObservationScopes :: "storage_response \<Rightarrow> (observation_scope list) option" where
  "of_SObservationScopes (SObservationScopes ss) = Some ss"
| "of_SObservationScopes _ = None"

section \<open>The methods\<close>

text \<open>\<open>insert_event\<close> validates the event before it sends the request.\<close>

definition handle_insert_event :: "'z handle_env_scheme \<Rightarrow> event \<Rightarrow> unit sm" where
  "handle_insert_event E e =
     sbind (slift (map_err Validation (event_validate e))) (\<lambda>_.
       handle_call E (InsertEvent e) ''unexpected insert response'' of_SUnit)"

definition handle_list_events ::
    "'z handle_env_scheme \<Rightarrow> timestamp option \<Rightarrow> u32 \<Rightarrow> event list sm" where
  "handle_list_events E since limit =
     handle_call E (ListEvents since limit) ''unexpected event list response'' of_SEvents"

definition handle_schema_version ::
    "'z handle_env_scheme \<Rightarrow> u32 sm" where
  "handle_schema_version E =
     handle_call E (SchemaVersion) ''unexpected schema response'' of_SSchemaVersion"

definition handle_create_resource ::
    "'z handle_env_scheme \<Rightarrow> resource \<Rightarrow> resource sm" where
  "handle_create_resource E r =
     handle_call E (CreateResource r) ''unexpected resource response'' of_SResource"

definition handle_list_resources ::
    "'z handle_env_scheme \<Rightarrow> resource list sm" where
  "handle_list_resources E =
     handle_call E (ListResources) ''unexpected resource list response'' of_SResources"

definition handle_get_resource ::
    "'z handle_env_scheme \<Rightarrow> uuid \<Rightarrow> resource sm" where
  "handle_get_resource E i =
     handle_call E (GetResource i) ''unexpected resource response'' of_SResource"

definition handle_create_ritual ::
    "'z handle_env_scheme \<Rightarrow> ritual \<Rightarrow> ritual_version \<Rightarrow> ritual_definition \<Rightarrow> (ritual \<times> ritual_version \<times> ritual_definition) sm" where
  "handle_create_ritual E r v d =
     handle_call E (CreateRitual r v d) ''unexpected ritual response'' of_SRitualRecord"

definition handle_update_ritual ::
    "'z handle_env_scheme \<Rightarrow> ritual \<Rightarrow> ritual_version \<Rightarrow> ritual_definition \<Rightarrow> (ritual \<times> ritual_version \<times> ritual_definition) sm" where
  "handle_update_ritual E r v d =
     handle_call E (UpdateRitual r v d) ''unexpected ritual response'' of_SRitualRecord"

definition handle_list_rituals ::
    "'z handle_env_scheme \<Rightarrow> ritual list sm" where
  "handle_list_rituals E =
     handle_call E (ListRituals) ''unexpected ritual list response'' of_SRituals"

definition handle_get_ritual ::
    "'z handle_env_scheme \<Rightarrow> uuid \<Rightarrow> (ritual \<times> ritual_version \<times> ritual_definition) sm" where
  "handle_get_ritual E i =
     handle_call E (GetRitual i) ''unexpected ritual response'' of_SRitualRecord"

definition handle_set_ritual_status ::
    "'z handle_env_scheme \<Rightarrow> uuid \<Rightarrow> ritual_status \<Rightarrow> unit sm" where
  "handle_set_ritual_status E i s =
     handle_call E (SetRitualStatus i s) ''unexpected status response'' of_SUnit"

definition handle_create_approvals ::
    "'z handle_env_scheme \<Rightarrow> approval list \<Rightarrow> unit sm" where
  "handle_create_approvals E as =
     handle_call E (CreateApprovals as) ''unexpected approval response'' of_SUnit"

definition handle_list_approvals ::
    "'z handle_env_scheme \<Rightarrow> uuid \<Rightarrow> approval list sm" where
  "handle_list_approvals E v =
     handle_call E (ListApprovals v) ''unexpected approval list response'' of_SApprovals"

definition handle_start_execution ::
    "'z handle_env_scheme \<Rightarrow> execution \<Rightarrow> execution_step list \<Rightarrow> unit sm" where
  "handle_start_execution E x ss =
     handle_call E (StartExecution x ss) ''unexpected execution response'' of_SUnit"

definition handle_update_execution ::
    "'z handle_env_scheme \<Rightarrow> execution \<Rightarrow> unit sm" where
  "handle_update_execution E x =
     handle_call E (UpdateExecution x) ''unexpected execution response'' of_SUnit"

definition handle_update_step ::
    "'z handle_env_scheme \<Rightarrow> execution_step \<Rightarrow> unit sm" where
  "handle_update_step E s =
     handle_call E (UpdateStep s) ''unexpected step response'' of_SUnit"

definition handle_list_executions ::
    "'z handle_env_scheme \<Rightarrow> execution list sm" where
  "handle_list_executions E =
     handle_call E (ListExecutions) ''unexpected execution list response'' of_SExecutions"

definition handle_get_execution ::
    "'z handle_env_scheme \<Rightarrow> uuid \<Rightarrow> (execution \<times> execution_step list) sm" where
  "handle_get_execution E i =
     handle_call E (GetExecution i) ''unexpected execution response'' of_SExecutionRecord"

definition handle_abort_running_executions ::
    "'z handle_env_scheme \<Rightarrow> unit sm" where
  "handle_abort_running_executions E =
     handle_call E (AbortRunningExecutions) ''unexpected abort response'' of_SUnit"

definition handle_counts ::
    "'z handle_env_scheme \<Rightarrow> (nat \<times> nat \<times> nat) sm" where
  "handle_counts E =
     handle_call E (Counts) ''unexpected counts response'' of_SCounts"

definition handle_ensure_observation_scope ::
    "'z handle_env_scheme \<Rightarrow> observation_scope \<Rightarrow> observation_scope sm" where
  "handle_ensure_observation_scope E s =
     handle_call E (EnsureObservationScope s) ''unexpected observation scope response'' of_SObservationScope"

definition handle_list_observation_scopes ::
    "'z handle_env_scheme \<Rightarrow> observation_source option \<Rightarrow> observation_scope list sm" where
  "handle_list_observation_scopes E src =
     handle_call E (ListObservationScopes src) ''unexpected observation scope list response'' of_SObservationScopes"

definition handle_pause_observation_scope ::
    "'z handle_env_scheme \<Rightarrow> uuid \<Rightarrow> observation_scope sm" where
  "handle_pause_observation_scope E i =
     handle_call E (PauseObservationScope i) ''unexpected observation pause response'' of_SObservationScope"

section \<open>Every reply is the one expected\<close>

lemma handle_call_eq:
  assumes "execute_operation E op = smap g m" "\<And>a. f (g a) = Some (h a)"
  shows "handle_call E op message f c =
    (let c' = others E c in if conn_open c' then smap h m c' else (Inl QueueClosed, c'))"
  by (simp add: handle_call_def handle_request_def sbind_def slift_def expect_response_def assms
      smap_def sret_def Let_def split: prod.split sum.split)

text \<open>What a method does: the storage function, after the commands of others.\<close>

definition handled :: "'z handle_env_scheme \<Rightarrow> 'a sm \<Rightarrow> 'a sm" where
  "handled E m c = (let c' = others E c in if conn_open c' then m c' else (Inl QueueClosed, c'))"

lemma smap_ident: "smap (\<lambda>x. x) m = m"
  by (rule ext) (auto simp: smap_def sbind_def sret_def split: prod.split sum.split)

lemma smap_unit: "smap (\<lambda>_. ()) m = m"
  by (rule ext) (auto simp: smap_def sbind_def sret_def split: prod.split sum.split)

lemma handle_call_handled:
  assumes "execute_operation E op = smap g m" "\<And>a. f (g a) = Some a"
  shows "handle_call E op message f = handled E m"
  using handle_call_eq [OF assms(1), where h = "\<lambda>x. x"] assms(2)
  by (intro ext) (simp add: handled_def smap_ident Let_def)

lemma handle_list_events_eq: "handle_list_events E since limit = handled E (list_events E since limit)"
  unfolding handle_list_events_def
  by (rule handle_call_handled [OF execute_operation.simps(2)]) auto

lemma handle_schema_version_eq: "handle_schema_version E = handled E (sql E (query current_schema_version))"
  unfolding handle_schema_version_def
  by (rule handle_call_handled [OF execute_operation.simps(3)]) auto

lemma handle_create_resource_eq: "handle_create_resource E r = handled E (create_resource E r)"
  unfolding handle_create_resource_def
  by (rule handle_call_handled [OF execute_operation.simps(4)]) auto

lemma handle_list_resources_eq: "handle_list_resources E = handled E (list_resources E)"
  unfolding handle_list_resources_def
  by (rule handle_call_handled [OF execute_operation.simps(5)]) auto

lemma handle_get_resource_eq: "handle_get_resource E i = handled E (get_resource E i)"
  unfolding handle_get_resource_def
  by (rule handle_call_handled [OF execute_operation.simps(6)]) auto

lemma handle_create_ritual_eq: "handle_create_ritual E r v d = handled E (create_ritual E r v d)"
  unfolding handle_create_ritual_def
  by (rule handle_call_handled [OF execute_operation.simps(7)]) auto

lemma handle_update_ritual_eq: "handle_update_ritual E r v d = handled E (update_ritual E r v d)"
  unfolding handle_update_ritual_def
  by (rule handle_call_handled [OF execute_operation.simps(8)]) auto

lemma handle_list_rituals_eq: "handle_list_rituals E = handled E (list_rituals E)"
  unfolding handle_list_rituals_def
  by (rule handle_call_handled [OF execute_operation.simps(9)]) auto

lemma handle_get_ritual_eq: "handle_get_ritual E i = handled E (get_ritual E i)"
  unfolding handle_get_ritual_def
  by (rule handle_call_handled [OF execute_operation.simps(10)]) auto

lemma handle_set_ritual_status_eq: "handle_set_ritual_status E i s = handled E (set_ritual_status E i s)"
  unfolding handle_set_ritual_status_def
  by (rule handle_call_handled [OF execute_operation.simps(11)]) auto

lemma handle_create_approvals_eq: "handle_create_approvals E as = handled E (create_approvals E as)"
  unfolding handle_create_approvals_def
  by (rule handle_call_handled [OF execute_operation.simps(12)]) auto

lemma handle_list_approvals_eq: "handle_list_approvals E v = handled E (list_approvals E v)"
  unfolding handle_list_approvals_def
  by (rule handle_call_handled [OF execute_operation.simps(13)]) auto

lemma handle_start_execution_eq: "handle_start_execution E x ss = handled E (start_execution E x ss)"
  unfolding handle_start_execution_def
  by (rule handle_call_handled [OF execute_operation.simps(14)]) auto

lemma handle_update_execution_eq: "handle_update_execution E x = handled E (update_execution E x)"
  unfolding handle_update_execution_def
  by (rule handle_call_handled [OF execute_operation.simps(15)]) auto

lemma handle_update_step_eq: "handle_update_step E s = handled E (update_step E s)"
  unfolding handle_update_step_def
  by (rule handle_call_handled [OF execute_operation.simps(16)]) auto

lemma handle_list_executions_eq: "handle_list_executions E = handled E (list_executions E)"
  unfolding handle_list_executions_def
  by (rule handle_call_handled [OF execute_operation.simps(17)]) auto

lemma handle_get_execution_eq: "handle_get_execution E i = handled E (get_execution E i)"
  unfolding handle_get_execution_def
  by (rule handle_call_handled [OF execute_operation.simps(18)]) auto

lemma handle_abort_running_executions_eq: "handle_abort_running_executions E = handled E (abort_running_executions E)"
  unfolding handle_abort_running_executions_def
  by (rule handle_call_handled [OF execute_operation.simps(19)]) auto

lemma handle_counts_eq: "handle_counts E = handled E (counts E)"
  unfolding handle_counts_def
  by (rule handle_call_handled [OF execute_operation.simps(20)]) auto

lemma handle_ensure_observation_scope_eq: "handle_ensure_observation_scope E s = handled E (ensure_observation_scope E s)"
  unfolding handle_ensure_observation_scope_def
  by (rule handle_call_handled [OF execute_operation.simps(21)]) auto

lemma handle_list_observation_scopes_eq: "handle_list_observation_scopes E src = handled E (list_observation_scopes E src)"
  unfolding handle_list_observation_scopes_def
  by (rule handle_call_handled [OF execute_operation.simps(22)]) auto

lemma handle_pause_observation_scope_eq: "handle_pause_observation_scope E i = handled E (pause_observation_scope E i)"
  unfolding handle_pause_observation_scope_def
  by (rule handle_call_handled [OF execute_operation.simps(23)]) auto

lemmas handle_methods =
  handle_list_events_eq
  handle_schema_version_eq
  handle_create_resource_eq
  handle_list_resources_eq
  handle_get_resource_eq
  handle_create_ritual_eq
  handle_update_ritual_eq
  handle_list_rituals_eq
  handle_get_ritual_eq
  handle_set_ritual_status_eq
  handle_create_approvals_eq
  handle_list_approvals_eq
  handle_start_execution_eq
  handle_update_execution_eq
  handle_update_step_eq
  handle_list_executions_eq
  handle_get_execution_eq
  handle_abort_running_executions_eq
  handle_counts_eq
  handle_ensure_observation_scope_eq
  handle_list_observation_scopes_eq
  handle_pause_observation_scope_eq

lemma handle_insert_event_eq:
  "handle_insert_event E e =
     sbind (slift (map_err Validation (event_validate e))) (\<lambda>_. handled E (insert_event E e))"
proof -
  have "handle_call E (InsertEvent e) ''unexpected insert response'' of_SUnit = handled E (insert_event E e)"
    by (rule handle_call_handled [OF execute_operation.simps(1)]) auto
  then show ?thesis by (simp only: handle_insert_event_def)
qed

section \<open>Property\<close>

text \<open>C29: Refinement of the asynchronous interface. Every method of \<open>StorageHandle\<close> behaves as the
  storage function it names, run after the commands that other tasks sent before it, and it fails as
  \<open>QueueClosed\<close> when the writer thread has shut down by then. In particular the reply always has the
  variant the method expects, so that none of the messages ``unexpected ... response'' is ever
  produced by a reply of the writer. An event is validated before it is sent.\<close>

theorem handle_methods_refine_storage:
  "handle_list_events E since limit = handled E (list_events E since limit) \<and>
     handle_create_resource E r = handled E (create_resource E r) \<and>
     handle_list_resources E = handled E (list_resources E) \<and>
     handle_get_resource E i = handled E (get_resource E i) \<and>
     handle_create_ritual E rit ver def = handled E (create_ritual E rit ver def) \<and>
     handle_update_ritual E rit ver def = handled E (update_ritual E rit ver def) \<and>
     handle_list_rituals E = handled E (list_rituals E) \<and>
     handle_get_ritual E i = handled E (get_ritual E i) \<and>
     handle_set_ritual_status E i st = handled E (set_ritual_status E i st) \<and>
     handle_create_approvals E as = handled E (create_approvals E as) \<and>
     handle_list_approvals E i = handled E (list_approvals E i) \<and>
     handle_start_execution E x ss = handled E (start_execution E x ss) \<and>
     handle_update_execution E x = handled E (update_execution E x) \<and>
     handle_update_step E s = handled E (update_step E s) \<and>
     handle_list_executions E = handled E (list_executions E) \<and>
     handle_get_execution E i = handled E (get_execution E i) \<and>
     handle_abort_running_executions E = handled E (abort_running_executions E) \<and>
     handle_counts E = handled E (counts E) \<and>
     handle_ensure_observation_scope E sc = handled E (ensure_observation_scope E sc) \<and>
     handle_list_observation_scopes E src = handled E (list_observation_scopes E src) \<and>
     handle_pause_observation_scope E i = handled E (pause_observation_scope E i) \<and>
     handle_insert_event E e =
       (case event_validate e of Inl err \<Rightarrow> (\<lambda>c. (Inl (Validation err), c))
        | Inr _ \<Rightarrow> handled E (insert_event E e)) \<and>
     handled E m c = (let c' = others E c in if conn_open c' then m c' else (Inl QueueClosed, c'))"
  unfolding handle_methods handle_insert_event_eq
  by (auto simp: handled_def sbind_def slift_def split: sum.split intro!: ext)

end
