(* ===== verification/Fubun_Adapter.thy ===== *)
theory Fubun_Adapter
  imports Fubun_Protocol Fubun_Handle
begin

text \<open>
  The registry half of \<open>crates/fubun-core/src/adapter.rs\<close>: what an action requires, which hello an
  adapter may register with, and the choice of an adapter for a dispatch. The map of connections is
  an association list from instance id to connection; its order is the iteration order of the hash
  map, which the code does not control.
\<close>

section \<open>Types\<close>

datatype dispatch_error_kind = Unavailable | CapabilityUnavailable | Timeout | Disconnected | Protocol

record adapter_requirements =
  req_capability :: string
  req_required_tool :: "string option"
  req_desktop_entry_id :: "string option"
  req_browser_resource_id :: "uuid option"

fun requirements_from_action :: "action_spec \<Rightarrow> adapter_requirements" where
  "requirements_from_action (LinuxAppEnsureRunning app) =
     \<lparr>req_capability = ''linux.app.ensure_running.v1'', req_required_tool = Some ''gtk-launch'',
      req_desktop_entry_id = Some app, req_browser_resource_id = None\<rparr>"
| "requirements_from_action (LinuxPathOpen _) =
     \<lparr>req_capability = ''linux.path.open.v1'', req_required_tool = Some ''xdg-open'',
      req_desktop_entry_id = None, req_browser_resource_id = None\<rparr>"
| "requirements_from_action (DesktopNotificationShow _ _) =
     \<lparr>req_capability = ''desktop.notification.show.v1'', req_required_tool = Some ''notify-send'',
      req_desktop_entry_id = None, req_browser_resource_id = None\<rparr>"
| "requirements_from_action (BrowserTabEnsureOpen rid) =
     \<lparr>req_capability = ''browser.tab.ensure_open.v1'', req_required_tool = None,
      req_desktop_entry_id = None, req_browser_resource_id = Some rid\<rparr>"

record eligible_adapter =
  ea_adapter_id :: string
  ea_instance_id :: uuid

datatype eligibility_error = EligUnavailable | Ineligible

datatype registration_error =
    UnknownAdapter | InvalidVersion | InvalidCapabilityCount | InvalidCapability
  | UnknownCapability | DuplicateCapability

definition LINUX_ADAPTER_ID :: string where
  "LINUX_ADAPTER_ID = ''dev.fubun.linux''"

definition BROWSER_ADAPTER_ID :: string where
  "BROWSER_ADAPTER_ID = ''dev.fubun.browser.chromium''"

definition VSCODE_ADAPTER_ID :: string where
  "VSCODE_ADAPTER_ID = ''dev.fubun.vscode''"

definition EVENT_CAPABILITIES :: "string list" where
  "EVENT_CAPABILITIES =
     [''dev.fubun.browser.resource.opened.v1'', ''dev.fubun.vscode.workspace.opened.v1'']"

lemmas adapter_ids = LINUX_ADAPTER_ID_def BROWSER_ADAPTER_ID_def VSCODE_ADAPTER_ID_def

text \<open>
  A connection: the token of its socket, what the adapter said of itself, and the two times. The
  sender of its queue is the queue of that token.
\<close>

record adapter_connection =
  ac_token :: uuid
  ac_hello :: adapter_hello
  ac_connected_at :: timestamp
  ac_last_seen_at :: timestamp

type_synonym connections = "(uuid \<times> adapter_connection) list"

section \<open>Validation of a hello\<close>

text \<open>The body of the loop over the capabilities, for one of them.\<close>

definition check_capability :: "string \<Rightarrow> string list \<Rightarrow> string \<Rightarrow> registration_error + unit" where
  "check_capability adapter_id seen cap =
     (if cap = [] \<or> 128 < length cap \<or>
         list_ex (\<lambda>c. char_is_control c \<or> char_is_whitespace c) (chars cap)
      then Inl InvalidCapability
      else if descriptor_by_type cap = None \<and> cap \<notin> set EVENT_CAPABILITIES then Inl UnknownCapability
      else if adapter_id = VSCODE_ADAPTER_ID \<and> descriptor_by_type cap \<noteq> None then Inl UnknownCapability
      else if adapter_id = BROWSER_ADAPTER_ID \<and> prefix ''dev.fubun.vscode.'' cap then Inl UnknownCapability
      else if cap = ''browser.tab.ensure_open.v1'' \<and> adapter_id \<noteq> BROWSER_ADAPTER_ID
      then Inl UnknownCapability
      else if cap \<in> {''linux.app.ensure_running.v1'', ''linux.path.open.v1'', ''desktop.notification.show.v1''} \<and>
              adapter_id \<noteq> LINUX_ADAPTER_ID
      then Inl UnknownCapability
      else if cap = ''dev.fubun.browser.resource.opened.v1'' \<and> adapter_id \<noteq> BROWSER_ADAPTER_ID
      then Inl UnknownCapability
      else if cap = ''dev.fubun.vscode.workspace.opened.v1'' \<and> adapter_id \<noteq> VSCODE_ADAPTER_ID
      then Inl UnknownCapability
      else if cap \<in> set seen then Inl DuplicateCapability
      else Inr ())"

fun check_capabilities :: "string \<Rightarrow> string list \<Rightarrow> string list \<Rightarrow> registration_error + unit" where
  "check_capabilities adapter_id seen [] = Inr ()"
| "check_capabilities adapter_id seen (cap # caps) =
     and_then (check_capability adapter_id seen cap) (\<lambda>_.
       check_capabilities adapter_id (cap # seen) caps)"

definition validate_hello :: "adapter_hello \<Rightarrow> registration_error + unit" where
  "validate_hello h =
     (if ah_adapter_id h \<notin> {LINUX_ADAPTER_ID, BROWSER_ADAPTER_ID, VSCODE_ADAPTER_ID}
      then Inl UnknownAdapter
      else if ah_adapter_version h = [] \<or> 128 < length (ah_adapter_version h) \<or>
              has_control (ah_adapter_version h)
      then Inl InvalidVersion
      else if 16 < length (ah_action_capabilities h) + length (ah_event_capabilities h) \<or>
              (ah_action_capabilities h = [] \<and> ah_event_capabilities h = [])
      then Inl InvalidCapabilityCount
      else check_capabilities (ah_adapter_id h) [] (ah_action_capabilities h @ ah_event_capabilities h))"

text \<open>What each adapter may announce.\<close>

definition capabilities_of :: "string \<Rightarrow> string set" where
  "capabilities_of adapter_id =
     (if adapter_id = LINUX_ADAPTER_ID
      then {''linux.app.ensure_running.v1'', ''linux.path.open.v1'', ''desktop.notification.show.v1''}
      else if adapter_id = BROWSER_ADAPTER_ID
      then {''browser.tab.ensure_open.v1'', ''dev.fubun.browser.resource.opened.v1''}
      else if adapter_id = VSCODE_ADAPTER_ID then {''dev.fubun.vscode.workspace.opened.v1''}
      else {})"

section \<open>Eligibility\<close>

definition adapter_id_allowed_for_capability :: "string \<Rightarrow> string \<Rightarrow> bool" where
  "adapter_id_allowed_for_capability adapter_id cap =
     (if cap = ''browser.tab.ensure_open.v1'' then adapter_id = BROWSER_ADAPTER_ID
      else if cap \<in> {''linux.app.ensure_running.v1'', ''linux.path.open.v1'', ''desktop.notification.show.v1''}
      then adapter_id = LINUX_ADAPTER_ID
      else False)"

definition connection_satisfies :: "adapter_connection \<Rightarrow> adapter_requirements \<Rightarrow> bool" where
  "connection_satisfies conn req =
     (let h = ac_hello conn; st = ah_status h
      in adapter_id_allowed_for_capability (ah_adapter_id h) (req_capability req) \<and>
         req_capability req \<in> set (ah_action_capabilities h) \<and>
         (case req_required_tool req of None \<Rightarrow> True
          | Some tool \<Rightarrow> list_ex (\<lambda>t. tool_name t = tool \<and> tool_available t) (snap_tools st)) \<and>
         (case req_desktop_entry_id req of None \<Rightarrow> True
          | Some entry \<Rightarrow> entry \<in> set (snap_desktop_entry_ids st)) \<and>
         (case req_browser_resource_id req of None \<Rightarrow> True
          | Some rid \<Rightarrow> ah_adapter_id h = BROWSER_ADAPTER_ID \<and> rid \<in> set (snap_permitted_resource_ids st)))"

text \<open>\<open>select_eligible\<close>: the first candidate in the order of the texts of the instance ids.\<close>

definition select_eligible ::
    "'z store_env_scheme \<Rightarrow> connections \<Rightarrow> adapter_requirements \<Rightarrow> eligibility_error + eligible_adapter \<times> uuid" where
  "select_eligible E conns req =
     (if conns = [] then Inl EligUnavailable
      else let candidates = map (\<lambda>(i, c). (\<lparr>ea_adapter_id = ah_adapter_id (ac_hello c), ea_instance_id = i\<rparr>, ac_token c))
                 (filter (\<lambda>(i, c). connection_satisfies c req) conns)
           in case sort_key (\<lambda>(a, t). se_uuid_text E (ea_instance_id a)) candidates of
                [] \<Rightarrow> Inl Ineligible
              | x # _ \<Rightarrow> Inr x)"

definition find_eligible ::
    "'z store_env_scheme \<Rightarrow> connections \<Rightarrow> adapter_requirements \<Rightarrow> eligibility_error + eligible_adapter" where
  "find_eligible E conns req = and_then (select_eligible E conns req) (\<lambda>(a, t). Inr a)"

section \<open>Reports\<close>

definition report_of :: "'z store_env_scheme \<Rightarrow> adapter_connection \<Rightarrow> adapter_report" where
  "report_of E c =
     \<lparr>rep_adapter_id = ah_adapter_id (ac_hello c), rep_version = ah_adapter_version (ac_hello c),
      rep_instance_id = ah_instance_id (ac_hello c), rep_connected = True,
      rep_capabilities = ah_action_capabilities (ac_hello c),
      rep_event_capabilities = ah_event_capabilities (ac_hello c),
      rep_permitted_resource_ids = snap_permitted_resource_ids (ah_status (ac_hello c)),
      rep_connected_at = (case se_ts_format E (ac_connected_at c) of None \<Rightarrow> [] | Some s \<Rightarrow> s),
      rep_last_seen_at = (case se_ts_format E (ac_last_seen_at c) of None \<Rightarrow> [] | Some s \<Rightarrow> s)\<rparr>"

definition reports :: "'z store_env_scheme \<Rightarrow> connections \<Rightarrow> adapter_report list" where
  "reports E conns =
     sort_key (\<lambda>r. se_uuid_text E (rep_instance_id r)) (map (\<lambda>(i, c). report_of E c) conns)"

definition connected_count :: "connections \<Rightarrow> nat" where
  "connected_count conns = length conns"

definition connected_count_by_id :: "string \<Rightarrow> connections \<Rightarrow> nat" where
  "connected_count_by_id adapter_id conns =
     length (filter (\<lambda>(i, c). ah_adapter_id (ac_hello c) = adapter_id) conns)"

definition tool_is_available :: "string \<Rightarrow> connections \<Rightarrow> bool" where
  "tool_is_available tool conns =
     list_ex (\<lambda>(i, c). list_ex (\<lambda>t. tool_name t = tool \<and> tool_available t)
       (snap_tools (ah_status (ac_hello c)))) conns"

section \<open>Lemmas\<close>

lemma known_capability_plain:
  assumes "cap \<in> capabilities_of adapter_id"
  shows "cap \<noteq> [] \<and> length cap \<le> 128 \<and>
    \<not> list_ex (\<lambda>c. char_is_control c \<or> char_is_whitespace c) (chars cap)"
proof -
  have plain: "\<not> list_ex (\<lambda>c. char_is_control c \<or> char_is_whitespace c) (chars s)"
    if "list_all (\<lambda>c. 33 \<le> byte_val c \<and> byte_val c < 127) s" for s
    using that by (subst chars_ascii) (auto simp: list_all_iff list_ex_iff)
  show ?thesis using assms
    by (auto simp: capabilities_of_def byte_val_def intro!: plain split: if_splits)
qed

lemma descriptor_by_type_None:
  "descriptor_by_type cap = None \<longleftrightarrow> cap \<notin> {''linux.app.ensure_running.v1'', ''linux.path.open.v1'',
     ''desktop.notification.show.v1'', ''browser.tab.ensure_open.v1''}"
  by (simp add: descriptor_by_type_def)

lemma four_or_two:
  "\<not> (x \<notin> {a, b, c, d} \<and> x \<notin> set [e, f]) \<Longrightarrow> x \<in> {a, b, c} \<or> x = d \<or> x = e \<or> x = f"
  by auto

lemma check_capability_iff:
  assumes "adapter_id \<in> {LINUX_ADAPTER_ID, BROWSER_ADAPTER_ID, VSCODE_ADAPTER_ID}"
  shows "check_capability adapter_id seen cap = Inr () \<longleftrightarrow>
    cap \<in> capabilities_of adapter_id \<and> cap \<notin> set seen"
proof
  assume c: "check_capability adapter_id seen cap = Inr ()"
  note f = c [unfolded check_capability_def guard_Inr_iff]
  note registered = f [THEN conjunct2, THEN conjunct1]
  note g = f [THEN conjunct2, THEN conjunct2, THEN conjunct2, THEN conjunct2]
  note owners = g [THEN conjunct1, THEN not_both]
    g [THEN conjunct2, THEN conjunct1, THEN not_both]
    g [THEN conjunct2, THEN conjunct2, THEN conjunct1, THEN not_both]
    g [THEN conjunct2, THEN conjunct2, THEN conjunct2, THEN conjunct1, THEN not_both]
  have fresh: "cap \<notin> set seen"
    by (rule g [THEN conjunct2, THEN conjunct2, THEN conjunct2, THEN conjunct2, THEN conjunct1])
  from four_or_two [OF registered [unfolded descriptor_by_type_None EVENT_CAPABILITIES_def]]
  have "cap \<in> capabilities_of adapter_id"
  proof (elim disjE)
    assume linux: "cap \<in> {''linux.app.ensure_running.v1'', ''linux.path.open.v1'', ''desktop.notification.show.v1''}"
    show ?thesis unfolding owners(2) [OF linux] capabilities_of_def if_P [OF refl] by (rule linux)
  next
    assume tab: "cap = ''browser.tab.ensure_open.v1''"
    show ?thesis unfolding owners(1) [OF tab] tab by (simp add: capabilities_of_def adapter_ids)
  next
    assume opened: "cap = ''dev.fubun.browser.resource.opened.v1''"
    show ?thesis unfolding owners(3) [OF opened] opened by (simp add: capabilities_of_def adapter_ids)
  next
    assume workspace: "cap = ''dev.fubun.vscode.workspace.opened.v1''"
    show ?thesis unfolding owners(4) [OF workspace] workspace by (simp add: capabilities_of_def adapter_ids)
  qed
  with fresh show "cap \<in> capabilities_of adapter_id \<and> cap \<notin> set seen" by blast
next
  assume c: "cap \<in> capabilities_of adapter_id \<and> cap \<notin> set seen"
  have p: "cap \<noteq> [] \<and> length cap \<le> 128 \<and>
      \<not> list_ex (\<lambda>c. char_is_control c \<or> char_is_whitespace c) (chars cap)"
    using known_capability_plain c by blast
  have "(adapter_id = LINUX_ADAPTER_ID \<and> cap \<in> {''linux.app.ensure_running.v1'', ''linux.path.open.v1'', ''desktop.notification.show.v1''}) \<or>
      (adapter_id = BROWSER_ADAPTER_ID \<and> cap \<in> {''browser.tab.ensure_open.v1'', ''dev.fubun.browser.resource.opened.v1''}) \<or>
      (adapter_id = VSCODE_ADAPTER_ID \<and> cap = ''dev.fubun.vscode.workspace.opened.v1'')"
    using c by (auto simp: capabilities_of_def split: if_splits)
  then have "((descriptor_by_type cap = None \<and> cap \<notin> set EVENT_CAPABILITIES) = False) \<and>
      ((adapter_id = VSCODE_ADAPTER_ID \<and> descriptor_by_type cap \<noteq> None) = False) \<and>
      ((adapter_id = BROWSER_ADAPTER_ID \<and> prefix ''dev.fubun.vscode.'' cap) = False) \<and>
      ((cap = ''browser.tab.ensure_open.v1'' \<and> adapter_id \<noteq> BROWSER_ADAPTER_ID) = False) \<and>
      ((cap \<in> {''linux.app.ensure_running.v1'', ''linux.path.open.v1'', ''desktop.notification.show.v1''} \<and>
         adapter_id \<noteq> LINUX_ADAPTER_ID) = False) \<and>
      ((cap = ''dev.fubun.browser.resource.opened.v1'' \<and> adapter_id \<noteq> BROWSER_ADAPTER_ID) = False) \<and>
      ((cap = ''dev.fubun.vscode.workspace.opened.v1'' \<and> adapter_id \<noteq> VSCODE_ADAPTER_ID) = False)"
    by (elim disjE conjE insertE emptyE; hypsubst)
       (simp_all add: descriptor_by_type_None EVENT_CAPABILITIES_def adapter_ids)
  then have k:
      "(descriptor_by_type cap = None \<and> cap \<notin> set EVENT_CAPABILITIES) = False"
      "(adapter_id = VSCODE_ADAPTER_ID \<and> descriptor_by_type cap \<noteq> None) = False"
      "(adapter_id = BROWSER_ADAPTER_ID \<and> prefix ''dev.fubun.vscode.'' cap) = False"
      "(cap = ''browser.tab.ensure_open.v1'' \<and> adapter_id \<noteq> BROWSER_ADAPTER_ID) = False"
      "(cap \<in> {''linux.app.ensure_running.v1'', ''linux.path.open.v1'', ''desktop.notification.show.v1''} \<and>
         adapter_id \<noteq> LINUX_ADAPTER_ID) = False"
      "(cap = ''dev.fubun.browser.resource.opened.v1'' \<and> adapter_id \<noteq> BROWSER_ADAPTER_ID) = False"
      "(cap = ''dev.fubun.vscode.workspace.opened.v1'' \<and> adapter_id \<noteq> VSCODE_ADAPTER_ID) = False"
    by - (elim conjE, assumption)+
  have "(cap = [] \<or> 128 < length cap \<or>
      list_ex (\<lambda>c. char_is_control c \<or> char_is_whitespace c) (chars cap)) = False"
    "(cap \<in> set seen) = False"
    using p c by (simp_all add: not_less)
  then show "check_capability adapter_id seen cap = Inr ()"
    by (simp only: check_capability_def k if_False)
qed

lemma check_capabilities_iff:
  assumes "adapter_id \<in> {LINUX_ADAPTER_ID, BROWSER_ADAPTER_ID, VSCODE_ADAPTER_ID}"
  shows "check_capabilities adapter_id seen caps = Inr () \<longleftrightarrow>
    set caps \<subseteq> capabilities_of adapter_id \<and> distinct caps \<and> set caps \<inter> set seen = {}"
proof (induction caps arbitrary: seen)
  case (Cons cap caps)
  have "check_capabilities adapter_id seen (cap # caps) = Inr () \<longleftrightarrow>
      check_capability adapter_id seen cap = Inr () \<and> check_capabilities adapter_id (cap # seen) caps = Inr ()"
    by (simp add: and_then_Inr_iff)
  then show ?case unfolding check_capability_iff [OF assms] Cons.IH by auto
qed simp

lemma card_capabilities: "card (capabilities_of adapter_id) \<le> 3 \<and> finite (capabilities_of adapter_id)"
  by (simp add: capabilities_of_def card_insert_if)

definition hello_well_formed :: "adapter_hello \<Rightarrow> bool" where
  "hello_well_formed h \<longleftrightarrow>
     ah_adapter_id h \<in> {LINUX_ADAPTER_ID, BROWSER_ADAPTER_ID, VSCODE_ADAPTER_ID} \<and>
     ah_adapter_version h \<noteq> [] \<and> length (ah_adapter_version h) \<le> 128 \<and>
     \<not> has_control (ah_adapter_version h) \<and>
     (let caps = ah_action_capabilities h @ ah_event_capabilities h
      in caps \<noteq> [] \<and> distinct caps \<and> set caps \<subseteq> capabilities_of (ah_adapter_id h))"

lemma distinct_capabilities_length:
  assumes "distinct caps" "set caps \<subseteq> capabilities_of adapter_id"
  shows "length caps \<le> 3"
  using assms card_capabilities [of adapter_id] card_mono
  by (metis distinct_card le_trans)

lemma validate_hello_iff: "validate_hello h = Inr () \<longleftrightarrow> hello_well_formed h"
proof (cases "ah_adapter_id h \<in> {LINUX_ADAPTER_ID, BROWSER_ADAPTER_ID, VSCODE_ADAPTER_ID}")
  case True
  let ?caps = "ah_action_capabilities h @ ah_event_capabilities h"
  have "validate_hello h =
     (if ah_adapter_version h = [] \<or> 128 < length (ah_adapter_version h) \<or>
              has_control (ah_adapter_version h)
      then Inl InvalidVersion
      else if 16 < length (ah_action_capabilities h) + length (ah_event_capabilities h) \<or>
              (ah_action_capabilities h = [] \<and> ah_event_capabilities h = [])
      then Inl InvalidCapabilityCount
      else check_capabilities (ah_adapter_id h) [] ?caps)"
    by (simp only: validate_hello_def True not_True_eq_False if_False)
  then have "validate_hello h = Inr () \<longleftrightarrow>
      ah_adapter_version h \<noteq> [] \<and> length (ah_adapter_version h) \<le> 128 \<and>
      \<not> has_control (ah_adapter_version h) \<and> length ?caps \<le> 16 \<and> ?caps \<noteq> [] \<and>
      check_capabilities (ah_adapter_id h) [] ?caps = Inr ()"
    by (simp add: not_less)
  then have "validate_hello h = Inr () \<longleftrightarrow>
      ah_adapter_version h \<noteq> [] \<and> length (ah_adapter_version h) \<le> 128 \<and>
      \<not> has_control (ah_adapter_version h) \<and> length ?caps \<le> 16 \<and> ?caps \<noteq> [] \<and>
      set ?caps \<subseteq> capabilities_of (ah_adapter_id h) \<and> distinct ?caps"
    unfolding check_capabilities_iff [OF True] by simp
  then show ?thesis
    using True distinct_capabilities_length [of ?caps "ah_adapter_id h"]
    unfolding hello_well_formed_def Let_def by linarith
next
  case False
  then show ?thesis by (simp add: validate_hello_def hello_well_formed_def)
qed

text \<open>The candidates of \<open>select_eligible\<close>.\<close>

definition candidates :: "connections \<Rightarrow> adapter_requirements \<Rightarrow> (eligible_adapter \<times> uuid) list" where
  "candidates conns req =
     map (\<lambda>(i, c). (\<lparr>ea_adapter_id = ah_adapter_id (ac_hello c), ea_instance_id = i\<rparr>, ac_token c))
       (filter (\<lambda>(i, c). connection_satisfies c req) conns)"

definition candidate_key :: "'z store_env_scheme \<Rightarrow> eligible_adapter \<times> uuid \<Rightarrow> string" where
  "candidate_key E = (\<lambda>(a, t). se_uuid_text E (ea_instance_id a))"

lemma select_eligible_alt:
  "select_eligible E conns req =
     (if conns = [] then Inl EligUnavailable
      else case sort_key (candidate_key E) (candidates conns req) of [] \<Rightarrow> Inl Ineligible | x # _ \<Rightarrow> Inr x)"
  by (simp add: select_eligible_def candidates_def candidate_key_def Let_def)

lemma in_candidates_iff:
  "(a, t) \<in> set (candidates conns req) \<longleftrightarrow>
     (\<exists>c. (ea_instance_id a, c) \<in> set conns \<and> connection_satisfies c req \<and>
          ea_adapter_id a = ah_adapter_id (ac_hello c) \<and> ac_token c = t)"
  by (cases a) (auto simp: candidates_def image_iff)

lemma select_eligible_Inr:
  assumes "select_eligible E conns req = Inr x"
  shows "x \<in> set (candidates conns req) \<and>
    (\<forall>y \<in> set (candidates conns req). candidate_key E x \<le> candidate_key E y)"
proof -
  let ?s = "sort_key (candidate_key E) (candidates conns req)"
  from assms obtain ys where s: "?s = x # ys"
    by (auto simp: select_eligible_alt split: if_splits list.splits)
  have x: "set ?s = set (candidates conns req)" "sorted (map (candidate_key E) ?s)" by simp_all
  then show ?thesis unfolding s by auto
qed

lemma candidates_inj:
  assumes "store_env_laws E" "distinct (map fst conns)"
  shows "inj_on (candidate_key E) (set (candidates conns req))"
proof (rule inj_onI)
  fix x y assume a: "x \<in> set (candidates conns req)" "y \<in> set (candidates conns req)"
    and k: "candidate_key E x = candidate_key E y"
  obtain a t b u where xy: "x = (a, t)" "y = (b, u)" by (cases x, cases y)
  have i: "ea_instance_id a = ea_instance_id b"
    using k uuid_text_inject [OF assms(1)] by (simp add: xy candidate_key_def)
  obtain c d where c: "(ea_instance_id a, c) \<in> set conns" "ea_adapter_id a = ah_adapter_id (ac_hello c)" "ac_token c = t"
    and d: "(ea_instance_id b, d) \<in> set conns" "ea_adapter_id b = ah_adapter_id (ac_hello d)" "ac_token d = u"
    using a by (auto simp: xy in_candidates_iff)
  have "c = d" using c(1) d(1) i assms(2) by (metis eq_key_imp_eq_value)
  then show "x = y" using i c d by (simp add: xy)
qed

lemma candidates_mset: "mset conns = mset conns' \<Longrightarrow> mset (candidates conns req) = mset (candidates conns' req)"
  by (simp add: candidates_def)

lemma select_order_independent:
  assumes "store_env_laws E" "distinct (map fst conns)" "mset conns = mset conns'"
  shows "select_eligible E conns req = select_eligible E conns' req"
proof -
  have "sort_key (candidate_key E) (candidates conns req) = sort_key (candidate_key E) (candidates conns' req)"
    by (rule sort_key_inj_key_eq)
       (use candidates_mset [OF assms(3)] candidates_inj [OF assms(1,2)] in simp_all)
  moreover have "conns = [] \<longleftrightarrow> conns' = []" using assms(3) by (metis mset_zero_iff_right mset_zero_iff)
  ultimately show ?thesis by (simp add: select_eligible_alt)
qed

text \<open>
  What an action needs of the adapter that performs it, said of the hello alone: the adapter made for it, its
  capability, and the tool and the desktop entry, or the permission for the page.
\<close>

definition has_tool :: "adapter_hello \<Rightarrow> string \<Rightarrow> bool" where
  "has_tool h name \<longleftrightarrow> (\<exists>t \<in> set (snap_tools (ah_status h)). tool_name t = name \<and> tool_available t)"

fun can_serve :: "adapter_hello \<Rightarrow> action_spec \<Rightarrow> bool" where
  "can_serve h (LinuxAppEnsureRunning app) \<longleftrightarrow> ah_adapter_id h = ''dev.fubun.linux'' \<and>
     ''linux.app.ensure_running.v1'' \<in> set (ah_action_capabilities h) \<and> has_tool h ''gtk-launch'' \<and>
     app \<in> set (snap_desktop_entry_ids (ah_status h))"
| "can_serve h (LinuxPathOpen rid) \<longleftrightarrow> ah_adapter_id h = ''dev.fubun.linux'' \<and>
     ''linux.path.open.v1'' \<in> set (ah_action_capabilities h) \<and> has_tool h ''xdg-open''"
| "can_serve h (DesktopNotificationShow title body) \<longleftrightarrow> ah_adapter_id h = ''dev.fubun.linux'' \<and>
     ''desktop.notification.show.v1'' \<in> set (ah_action_capabilities h) \<and> has_tool h ''notify-send''"
| "can_serve h (BrowserTabEnsureOpen rid) \<longleftrightarrow> ah_adapter_id h = ''dev.fubun.browser.chromium'' \<and>
     ''browser.tab.ensure_open.v1'' \<in> set (ah_action_capabilities h) \<and>
     rid \<in> set (snap_permitted_resource_ids (ah_status h))"

lemma connection_satisfies_iff:
  "connection_satisfies c (requirements_from_action a) \<longleftrightarrow> can_serve (ac_hello c) a"
  by (cases a)
    (auto simp: connection_satisfies_def has_tool_def adapter_id_allowed_for_capability_def adapter_ids Let_def list_ex_iff)

section \<open>Properties\<close>

text \<open>C26: the adapter chosen for an action is one connected instance that by itself is the adapter made
  for the action, announces its capability and has the tool, the desktop entry or the permission it needs, and is the first
  such instance in the order of the texts of the instance ids; the order in which the connections
  are enumerated does not matter.\<close>

theorem selected_adapter_eligible:
  assumes "store_env_laws E" and "distinct (map fst conns)"
    and "select_eligible E conns (requirements_from_action a) = Inr (ea, tok)"
  shows "(\<exists>c. (ea_instance_id ea, c) \<in> set conns \<and> ac_token c = tok \<and>
      ea_adapter_id ea = ah_adapter_id (ac_hello c) \<and>
      can_serve (ac_hello c) a) \<and>
    (\<forall>(j, d) \<in> set conns. can_serve (ac_hello d) a \<longrightarrow>
      se_uuid_text E (ea_instance_id ea) \<le> se_uuid_text E j) \<and>
    (\<forall>conns'. mset conns' = mset conns \<longrightarrow>
      select_eligible E conns' (requirements_from_action a) = Inr (ea, tok))"
proof (intro conjI)
  let ?req = "requirements_from_action a"
  note s = select_eligible_Inr [OF assms(3)]
  show "\<exists>c. (ea_instance_id ea, c) \<in> set conns \<and> ac_token c = tok \<and>
      ea_adapter_id ea = ah_adapter_id (ac_hello c) \<and> can_serve (ac_hello c) a"
    using s unfolding in_candidates_iff connection_satisfies_iff by blast
  show "\<forall>(j, d) \<in> set conns. can_serve (ac_hello d) a \<longrightarrow>
      se_uuid_text E (ea_instance_id ea) \<le> se_uuid_text E j"
  proof (clarify)
    fix j d assume "(j, d) \<in> set conns" "can_serve (ac_hello d) a"
    then have "(\<lparr>ea_adapter_id = ah_adapter_id (ac_hello d), ea_instance_id = j\<rparr>, ac_token d) \<in> set (candidates conns ?req)"
      by (auto simp: in_candidates_iff connection_satisfies_iff)
    with s show "se_uuid_text E (ea_instance_id ea) \<le> se_uuid_text E j"
      by (fastforce simp: candidate_key_def)
  qed
  show "\<forall>conns'. mset conns' = mset conns \<longrightarrow> select_eligible E conns' ?req = Inr (ea, tok)"
    using select_order_independent [OF assms(1,2)] assms(3) by metis
qed

definition sample_browser :: "uuid \<Rightarrow> adapter_hello" where
  "sample_browser i = \<lparr>ah_adapter_id = ''dev.fubun.browser.chromium'', ah_adapter_version = ''1'',
     ah_instance_id = i, ah_action_capabilities = [''browser.tab.ensure_open.v1''],
     ah_event_capabilities = [''dev.fubun.browser.resource.opened.v1''],
     ah_status = \<lparr>snap_tools = [], snap_desktop_entry_ids = [], snap_permitted_resource_ids = [3]\<rparr>\<rparr>"

definition sample_connection :: "uuid \<Rightarrow> uuid \<Rightarrow> adapter_connection" where
  "sample_connection i token = \<lparr>ac_token = token, ac_hello = sample_browser i,
     ac_connected_at = Timestamp 1 0, ac_last_seen_at = Timestamp 1 0\<rparr>"

theorem selected_adapter_eligible_witness:
  "select_eligible sample_env [(5, sample_connection 5 50), (6, sample_connection 6 60)]
     (requirements_from_action (BrowserTabEnsureOpen 3)) =
       Inr (\<lparr>ea_adapter_id = ''dev.fubun.browser.chromium'', ea_instance_id = 5\<rparr>, 50)"
proof -
  let ?conns = "[(6, sample_connection 6 60), (5, sample_connection 5 50)] :: connections"
  have d: "distinct (map fst ?conns)" by simp
  have s: "select_eligible sample_env ?conns (requirements_from_action (BrowserTabEnsureOpen 3)) =
      Inr (\<lparr>ea_adapter_id = ''dev.fubun.browser.chromium'', ea_instance_id = 5\<rparr>, 50)"
    by code_simp
  have m: "mset [(5, sample_connection 5 50), (6, sample_connection 6 60)] = mset ?conns" by simp
  from selected_adapter_eligible [OF sample_env_laws d s] m show ?thesis by blast
qed

end
