(* ===== verification/Fubun_Manager.thy ===== *)
theory Fubun_Manager
  imports Fubun_Adapter "HOL-Library.AList"
begin

text \<open>
  The dispatch half of \<open>crates/fubun-core/src/adapter.rs\<close>: the connections, the pending requests, and
  the tasks that register, disconnect, dispatch and answer concurrently. A step of the model is what
  the code does under one lock; the steps of different tasks interleave freely.
\<close>

section \<open>The manager\<close>

text \<open>
  A \<open>PendingRequest\<close>. Its one-shot sender is named by the request id under which it is filed: what
  is sent through it appears in the list of settled requests.
\<close>

record pending_request =
  pr_identity :: eligible_adapter
  pr_token :: uuid
  pr_action_execution_id :: uuid

record adapter_manager =
  mg_connections :: connections
  mg_pending :: "(uuid \<times> pending_request) list"

type_synonym reply = "dispatch_error_kind + action_result"

definition empty_manager :: adapter_manager where
  "empty_manager = \<lparr>mg_connections = [], mg_pending = []\<rparr>"

text \<open>
  \<open>register\<close>: validation, then the insertion under the connection lock. The result is the token of
  the connection that was replaced, whose requests the task fails next.
\<close>

definition register_adapter ::
    "adapter_hello \<Rightarrow> uuid \<Rightarrow> timestamp \<Rightarrow> adapter_manager \<Rightarrow>
     (registration_error + uuid option) \<times> adapter_manager" where
  "register_adapter hello token now m =
     (case validate_hello hello of Inl e \<Rightarrow> (Inl e, m)
      | Inr _ \<Rightarrow>
          (Inr (map_option ac_token (map_of (mg_connections m) (ah_instance_id hello))),
           m\<lparr>mg_connections := AList.update (ah_instance_id hello)
               \<lparr>ac_token = token, ac_hello = hello, ac_connected_at = now, ac_last_seen_at = now\<rparr>
               (mg_connections m)\<rparr>))"

definition touch :: "uuid \<Rightarrow> timestamp \<Rightarrow> adapter_manager \<Rightarrow> adapter_manager" where
  "touch i now m =
     (case map_of (mg_connections m) i of None \<Rightarrow> m
      | Some c \<Rightarrow> m\<lparr>mg_connections := AList.update i (c\<lparr>ac_last_seen_at := now\<rparr>) (mg_connections m)\<rparr>)"

text \<open>The part of \<open>disconnect_if_current\<close> under the connection lock: was the connection removed.\<close>

definition remove_if_current :: "uuid \<Rightarrow> uuid \<Rightarrow> adapter_manager \<Rightarrow> bool \<times> adapter_manager" where
  "remove_if_current i token m =
     (case map_of (mg_connections m) i of None \<Rightarrow> (False, m)
      | Some c \<Rightarrow>
          if ac_token c = token
          then (True, m\<lparr>mg_connections := AList.delete i (mg_connections m)\<rparr>)
          else (False, m))"

text \<open>\<open>fail_pending_for_token\<close>: the ids are collected, then each is removed and answered.\<close>

fun fail_requests ::
    "uuid list \<Rightarrow> adapter_manager \<Rightarrow> (uuid \<times> reply) list \<times> adapter_manager" where
  "fail_requests [] m = ([], m)"
| "fail_requests (i # ids) m =
     (case map_of (mg_pending m) i of None \<Rightarrow> fail_requests ids m
      | Some _ \<Rightarrow>
          (case fail_requests ids (m\<lparr>mg_pending := AList.delete i (mg_pending m)\<rparr>) of
             (sent, m') \<Rightarrow> ((i, Inl Disconnected) # sent, m')))"

definition fail_pending_for_token ::
    "uuid \<Rightarrow> adapter_manager \<Rightarrow> (uuid \<times> reply) list \<times> adapter_manager" where
  "fail_pending_for_token token m =
     fail_requests (map fst (filter (\<lambda>(i, p). pr_token p = token) (mg_pending m))) m"

text \<open>The two halves of \<open>shutdown\<close>.\<close>

definition clear_connections :: "adapter_manager \<Rightarrow> adapter_manager" where
  "clear_connections m = m\<lparr>mg_connections := []\<rparr>"

definition drain_pending :: "adapter_manager \<Rightarrow> (uuid \<times> reply) list \<times> adapter_manager" where
  "drain_pending m = (map (\<lambda>(i, _). (i, Inl Disconnected)) (mg_pending m), m\<lparr>mg_pending := []\<rparr>)"

text \<open>\<open>insert_pending_if_current\<close>: both locks are held; \<open>None\<close> when the socket was replaced.\<close>

definition insert_pending_if_current ::
    "uuid \<Rightarrow> pending_request \<Rightarrow> adapter_manager \<Rightarrow> adapter_manager option" where
  "insert_pending_if_current request_id p m =
     (case map_of (mg_connections m) (ea_instance_id (pr_identity p)) of None \<Rightarrow> None
      | Some c \<Rightarrow>
          if ac_token c \<noteq> pr_token p then None
          else Some (m\<lparr>mg_pending := AList.update request_id p (mg_pending m)\<rparr>))"

text \<open>What \<open>resolve\<close> sends for a response to a pending request.\<close>

definition response_result :: "pending_request \<Rightarrow> adapter_response_envelope \<Rightarrow> reply" where
  "response_result p r =
     (if pr_action_execution_id p \<noteq> ars_action_execution_id r then Inl Protocol
      else case ars_body r of ActionResultBody res \<Rightarrow> Inr res | _ \<Rightarrow> Inl Protocol)"

definition resolve ::
    "adapter_response_envelope \<Rightarrow> adapter_manager \<Rightarrow> (uuid \<times> reply) list \<times> adapter_manager" where
  "resolve r m =
     (case map_of (mg_pending m) (ars_request_id r) of None \<Rightarrow> ([], m)
      | Some p \<Rightarrow> ([(ars_request_id r, response_result p r)],
                   m\<lparr>mg_pending := AList.delete (ars_request_id r) (mg_pending m)\<rparr>))"

text \<open>\<open>touch_by_request\<close>: which connection a response touches.\<close>

definition instance_of_request :: "uuid \<Rightarrow> adapter_manager \<Rightarrow> uuid option" where
  "instance_of_request i m = map_option (\<lambda>p. ea_instance_id (pr_identity p)) (map_of (mg_pending m) i)"

text \<open>The drop of an armed \<open>PendingRequestGuard\<close>.\<close>

definition drop_guard :: "uuid \<Rightarrow> adapter_manager \<Rightarrow> adapter_manager" where
  "drop_guard i m = m\<lparr>mg_pending := AList.delete i (mg_pending m)\<rparr>"

section \<open>Dispatch tasks\<close>

record dispatched_error =
  dae_identity :: "eligible_adapter option"
  dae_kind :: dispatch_error_kind

record dispatched_result =
  dar_identity :: eligible_adapter
  dar_result :: action_result

definition eligibility_dispatch_error :: "eligibility_error \<Rightarrow> dispatched_error" where
  "eligibility_dispatch_error e =
     \<lparr>dae_identity = None,
      dae_kind = (case e of EligUnavailable \<Rightarrow> Unavailable | Ineligible \<Rightarrow> CapabilityUnavailable)\<rparr>"

text \<open>The outcome of a reply, as \<open>execute\<close> matches on it.\<close>

definition dispatch_outcome :: "eligible_adapter \<Rightarrow> reply \<Rightarrow> dispatched_error + dispatched_result" where
  "dispatch_outcome a r =
     (case r of Inr res \<Rightarrow> Inr \<lparr>dar_identity = a, dar_result = res\<rparr>
      | Inl k \<Rightarrow> Inl \<lparr>dae_identity = Some a, dae_kind = k\<rparr>)"

text \<open>
  Where a task is in \<open>execute\<close>: before the selection, between the selection and the insertion,
  between the insertion and the send, waiting for the reply, returned, or cancelled.
\<close>

datatype phase =
    Starting adapter_requirements
  | Chosen eligible_adapter uuid
  | Sending eligible_adapter uuid
  | Waiting eligible_adapter uuid
  | Finished "dispatched_error + dispatched_result"
  | Cancelled

text \<open>
  The tasks and the manager they share. Beside the state of the code the record keeps the drains
  that are due, and a log of the requests made and of the responses read.
\<close>

record world =
  w_manager :: adapter_manager
  w_settled :: "(uuid \<times> reply) list"
  w_draining :: "uuid list"
  w_closing :: nat
  w_tasks :: "nat \<Rightarrow> phase option"
  w_issued :: "(uuid \<times> pending_request) list"
  w_responses :: "adapter_response_envelope list"

definition initial_world :: world where
  "initial_world = \<lparr>w_manager = empty_manager, w_settled = [], w_draining = [], w_closing = 0,
     w_tasks = Map.empty, w_issued = [], w_responses = []\<rparr>"

datatype manager_event =
    Register adapter_hello uuid timestamp
  | Touch uuid timestamp
  | DisconnectSocket uuid uuid
  | DrainToken uuid
  | ShutdownClear
  | ShutdownDrain
  | Begin nat adapter_requirements
  | Select nat
  | Insert nat uuid uuid
  | Send nat bool
  | Respond adapter_response_envelope
  | Receive nat
  | Elapse nat
  | Cancel nat

definition settle ::
    "(uuid \<times> reply) list \<times> adapter_manager \<Rightarrow> world \<Rightarrow> world" where
  "settle sm w = w\<lparr>w_manager := snd sm, w_settled := fst sm @ w_settled w\<rparr>"

definition set_phase :: "nat \<Rightarrow> phase \<Rightarrow> world \<Rightarrow> world" where
  "set_phase t p w = w\<lparr>w_tasks := (w_tasks w)(t \<mapsto> p)\<rparr>"

text \<open>
  One step; \<open>None\<close> when the event cannot happen. A new request id is one that was not drawn before
  (\<open>Uuid::new_v4\<close>). A send fails when the socket's queue is closed.
\<close>

fun manager_step :: "'z store_env_scheme \<Rightarrow> manager_event \<Rightarrow> world \<Rightarrow> world option" where
  "manager_step E (Register hello token now) w =
     (case register_adapter hello token now (w_manager w) of
        (Inl _, _) \<Rightarrow> Some w
      | (Inr replaced, m) \<Rightarrow>
          Some (w\<lparr>w_manager := m, w_draining := (case replaced of None \<Rightarrow> [] | Some t \<Rightarrow> [t]) @ w_draining w\<rparr>))"
| "manager_step E (Touch i now) w = Some (w\<lparr>w_manager := touch i now (w_manager w)\<rparr>)"
| "manager_step E (DisconnectSocket i token) w =
     (case remove_if_current i token (w_manager w) of (removed, m) \<Rightarrow>
        Some (w\<lparr>w_manager := m, w_draining := (if removed then [token] else []) @ w_draining w\<rparr>))"
| "manager_step E (DrainToken token) w =
     (if token \<in> set (w_draining w)
      then Some ((settle (fail_pending_for_token token (w_manager w)) w)
                   \<lparr>w_draining := remove1 token (w_draining w)\<rparr>)
      else None)"
| "manager_step E ShutdownClear w =
     Some (w\<lparr>w_manager := clear_connections (w_manager w), w_closing := Suc (w_closing w)\<rparr>)"
| "manager_step E ShutdownDrain w =
     (if 0 < w_closing w
      then Some ((settle (drain_pending (w_manager w)) w)\<lparr>w_closing := w_closing w - 1\<rparr>)
      else None)"
| "manager_step E (Begin t req) w =
     (if w_tasks w t = None then Some (set_phase t (Starting req) w) else None)"
| "manager_step E (Select t) w =
     (case w_tasks w t of
        Some (Starting req) \<Rightarrow>
          (case select_eligible E (mg_connections (w_manager w)) req of
             Inl e \<Rightarrow> Some (set_phase t (Finished (Inl (eligibility_dispatch_error e))) w)
           | Inr (a, token) \<Rightarrow> Some (set_phase t (Chosen a token) w))
      | _ \<Rightarrow> None)"
| "manager_step E (Insert t request_id action_execution_id) w =
     (case w_tasks w t of
        Some (Chosen a token) \<Rightarrow>
          if request_id \<in> fst ` set (w_issued w) then None
          else (let p = \<lparr>pr_identity = a, pr_token = token, pr_action_execution_id = action_execution_id\<rparr>
                in case insert_pending_if_current request_id p (w_manager w) of
                     None \<Rightarrow> Some (set_phase t (Finished (Inl \<lparr>dae_identity = Some a, dae_kind = Disconnected\<rparr>)) w)
                   | Some m \<Rightarrow> Some ((set_phase t (Sending a request_id) w)
                       \<lparr>w_manager := m, w_issued := (request_id, p) # w_issued w\<rparr>))
      | _ \<Rightarrow> None)"
| "manager_step E (Send t delivered) w =
     (case w_tasks w t of
        Some (Sending a rid) \<Rightarrow>
          Some (if delivered then set_phase t (Waiting a rid) w
                else (set_phase t (Finished (Inl \<lparr>dae_identity = Some a, dae_kind = Disconnected\<rparr>)) w)
                       \<lparr>w_manager := drop_guard rid (w_manager w)\<rparr>)
      | _ \<Rightarrow> None)"
| "manager_step E (Respond r) w =
     Some ((settle (resolve r (w_manager w)) w)\<lparr>w_responses := r # w_responses w\<rparr>)"
| "manager_step E (Receive t) w =
     (case w_tasks w t of
        Some (Waiting a rid) \<Rightarrow>
          (case map_of (w_settled w) rid of
             Some r \<Rightarrow> Some (set_phase t (Finished (dispatch_outcome a r)) w)
           | None \<Rightarrow>
               if rid \<in> fst ` set (mg_pending (w_manager w)) then None
               else Some (set_phase t (Finished (Inl \<lparr>dae_identity = Some a, dae_kind = Disconnected\<rparr>)) w))
      | _ \<Rightarrow> None)"
| "manager_step E (Elapse t) w =
     (case w_tasks w t of
        Some (Waiting a rid) \<Rightarrow>
          Some ((set_phase t (Finished (Inl \<lparr>dae_identity = Some a, dae_kind = Timeout\<rparr>)) w)
                  \<lparr>w_manager := drop_guard rid (w_manager w)\<rparr>)
      | _ \<Rightarrow> None)"
| "manager_step E (Cancel t) w =
     (case w_tasks w t of
        None \<Rightarrow> None
      | Some (Sending a rid) \<Rightarrow> Some ((set_phase t Cancelled w)\<lparr>w_manager := drop_guard rid (w_manager w)\<rparr>)
      | Some (Waiting a rid) \<Rightarrow> Some ((set_phase t Cancelled w)\<lparr>w_manager := drop_guard rid (w_manager w)\<rparr>)
      | Some (Finished _) \<Rightarrow> None
      | Some _ \<Rightarrow> Some (set_phase t Cancelled w))"

inductive manager_reachable :: "'z store_env_scheme \<Rightarrow> world \<Rightarrow> bool" for E where
  initial: "manager_reachable E initial_world"
| step: "manager_reachable E w \<Longrightarrow> manager_step E ev w = Some w' \<Longrightarrow> manager_reachable E w'"

fun manager_run :: "'z store_env_scheme \<Rightarrow> manager_event list \<Rightarrow> world \<Rightarrow> world option" where
  "manager_run E [] w = Some w"
| "manager_run E (ev # evs) w = Option.bind (manager_step E ev w) (manager_run E evs)"

lemma manager_run_reachable:
  "manager_reachable E w \<Longrightarrow> manager_run E evs w = Some w' \<Longrightarrow> manager_reachable E w'"
  by (induction evs arbitrary: w) (auto split: bind_splits intro: manager_reachable.step)

section \<open>The manager's operations on the pending requests\<close>

lemma AList_delete_filter: "AList.delete i xs = filter (\<lambda>x. fst x \<noteq> i) xs"
  by (auto simp: AList.delete_eq intro!: filter_cong)

lemma filter_key_singleton:
  assumes "distinct (map fst xs)" "map_of xs i = Some p"
  shows "filter (\<lambda>x. fst x = i) xs = [(i, p)]"
  using assms by (induction xs) (auto simp: filter_empty_conv dest: map_of_SomeD split: if_splits, force)

lemma fail_requests_eq:
  assumes "distinct (map fst (mg_pending m))" "distinct ids" "set ids \<subseteq> fst ` set (mg_pending m)"
  shows "fail_requests ids m =
    (map (\<lambda>i. (i, Inl Disconnected)) ids, m\<lparr>mg_pending := filter (\<lambda>x. fst x \<notin> set ids) (mg_pending m)\<rparr>)"
  using assms
proof (induction ids arbitrary: m)
  case Nil
  then show ?case by simp
next
  case (Cons i ids)
  then have "i \<in> fst ` set (mg_pending m)" by simp
  then obtain p where p: "map_of (mg_pending m) i = Some p"
    using Cons.prems(1) by (metis not_None_eq map_of_eq_None_iff)
  let ?m = "m\<lparr>mg_pending := AList.delete i (mg_pending m)\<rparr>"
  have sub: "set ids \<subseteq> fst ` set (mg_pending ?m)"
  proof
    fix j assume "j \<in> set ids"
    moreover from this have "j \<noteq> i" using Cons.prems(2) by auto
    ultimately show "j \<in> fst ` set (mg_pending ?m)"
      using Cons.prems(3) by (auto simp: AList_delete_filter)
  qed
  have dis: "distinct (map fst (mg_pending ?m))"
    using Cons.prems(1) by (simp add: AList_delete_filter distinct_map_filter)
  from Cons.IH [OF dis _ sub] Cons.prems(2) p show ?case
    by (simp add: AList_delete_filter conj_commute)
qed

text \<open>
  Every operation that answers or drops requests takes those that satisfy a predicate.
\<close>

definition take_pending ::
    "(uuid \<times> pending_request \<Rightarrow> bool) \<Rightarrow> (uuid \<times> pending_request \<Rightarrow> reply) \<Rightarrow> adapter_manager \<Rightarrow>
     (uuid \<times> reply) list \<times> adapter_manager" where
  "take_pending P f m =
     (map (\<lambda>x. (fst x, f x)) (filter P (mg_pending m)),
      m\<lparr>mg_pending := filter (\<lambda>x. \<not> P x) (mg_pending m)\<rparr>)"

lemma fail_pending_for_token_take:
  assumes "distinct (map fst (mg_pending m))"
  shows "fail_pending_for_token token m = take_pending (\<lambda>x. pr_token (snd x) = token) (\<lambda>_. Inl Disconnected) m"
proof -
  let ?P = "\<lambda>(i, p). pr_token p = token"
  have taken: "fst x \<notin> fst ` set (filter ?P (mg_pending m)) \<longleftrightarrow> pr_token (snd x) \<noteq> token"
    if x: "x \<in> set (mg_pending m)" for x
  proof -
    obtain i p where ip: "x = (i, p)" by (cases x)
    have same: "q = p" if "(i, q) \<in> set (mg_pending m)" for q
      using map_of_is_SomeI [OF assms that] map_of_is_SomeI [OF assms x [unfolded ip]] by simp
    have "i \<in> fst ` set (filter ?P (mg_pending m)) \<longleftrightarrow> pr_token p = token"
    proof
      assume "i \<in> fst ` set (filter ?P (mg_pending m))"
      then obtain q where "(i, q) \<in> set (mg_pending m)" "pr_token q = token" by auto
      with same show "pr_token p = token" by simp
    next
      assume "pr_token p = token"
      with x [unfolded ip] have "(i, p) \<in> set (filter ?P (mg_pending m))" by simp
      then show "i \<in> fst ` set (filter ?P (mg_pending m))" by (metis fst_conv imageI)
    qed
    then show ?thesis by (simp add: ip)
  qed
  have "filter (\<lambda>x. fst x \<notin> fst ` set (filter ?P (mg_pending m))) (mg_pending m) =
      filter (\<lambda>x. \<not> pr_token (snd x) = token) (mg_pending m)"
    by (intro filter_cong refl taken)
  moreover have "filter ?P (mg_pending m) = filter (\<lambda>x. pr_token (snd x) = token) (mg_pending m)"
    by (intro filter_cong) auto
  moreover have "distinct (map fst (filter ?P (mg_pending m)))"
    "set (map fst (filter ?P (mg_pending m))) \<subseteq> fst ` set (mg_pending m)"
    using assms by (auto simp: distinct_map_filter)
  note fail_requests_eq [OF assms this]
  ultimately show ?thesis
    by (simp only: fail_pending_for_token_def take_pending_def set_map map_map comp_def)
qed

lemma drain_pending_take: "drain_pending m = take_pending (\<lambda>_. True) (\<lambda>_. Inl Disconnected) m"
  by (simp add: drain_pending_def take_pending_def case_prod_beta)

lemma resolve_take:
  assumes "distinct (map fst (mg_pending m))"
  shows "resolve r m = take_pending (\<lambda>x. fst x = ars_request_id r) (\<lambda>x. response_result (snd x) r) m"
proof (cases "map_of (mg_pending m) (ars_request_id r)")
  case None
  then have "\<forall>x \<in> set (mg_pending m). fst x \<noteq> ars_request_id r" by (force simp: map_of_eq_None_iff)
  then have "filter (\<lambda>x. fst x = ars_request_id r) (mg_pending m) = []"
    "filter (\<lambda>x. fst x \<noteq> ars_request_id r) (mg_pending m) = mg_pending m"
    by (auto simp: filter_empty_conv filter_id_conv)
  with None show ?thesis by (simp add: resolve_def take_pending_def)
next
  case (Some p)
  with filter_key_singleton [OF assms Some] show ?thesis
    by (simp add: resolve_def take_pending_def AList_delete_filter)
qed

lemma drop_guard_take: "drop_guard i m = snd (take_pending (\<lambda>x. fst x = i) f m)"
  by (simp add: drop_guard_def take_pending_def AList_delete_filter)

section \<open>Invariants\<close>

text \<open>The socket a request waits on is the registered one.\<close>

definition socket_current :: "connections \<Rightarrow> pending_request \<Rightarrow> bool" where
  "socket_current conns p =
     (case map_of conns (ea_instance_id (pr_identity p)) of None \<Rightarrow> False | Some c \<Rightarrow> ac_token c = pr_token p)"

text \<open>A reply with a result answers a response that names the request and its action execution.\<close>

definition authentic ::
    "(uuid \<times> pending_request) list \<Rightarrow> adapter_response_envelope list \<Rightarrow> uuid \<times> reply \<Rightarrow> bool" where
  "authentic issued responses x =
     (\<forall>res. snd x = Inr res \<longrightarrow> (\<exists>p r. (fst x, p) \<in> set issued \<and> r \<in> set responses \<and>
        ars_request_id r = fst x \<and> ars_action_execution_id r = pr_action_execution_id p \<and>
        ars_body r = ActionResultBody res))"

text \<open>The request a task holds a guard for.\<close>

fun guarded_request :: "phase option \<Rightarrow> (eligible_adapter \<times> uuid) option" where
  "guarded_request (Some (Sending a rid)) = Some (a, rid)"
| "guarded_request (Some (Waiting a rid)) = Some (a, rid)"
| "guarded_request _ = None"

definition keys_ok :: "world \<Rightarrow> bool" where
  "keys_ok w \<longleftrightarrow>
     distinct (map fst (mg_connections (w_manager w))) \<and>
     distinct (map fst (mg_pending (w_manager w))) \<and>
     distinct (map fst (w_settled w)) \<and>
     distinct (map fst (w_issued w)) \<and>
     set (mg_pending (w_manager w)) \<subseteq> set (w_issued w) \<and>
     fst ` set (w_settled w) \<subseteq> fst ` set (w_issued w) \<and>
     fst ` set (mg_pending (w_manager w)) \<inter> fst ` set (w_settled w) = {}"

definition sockets_ok :: "world \<Rightarrow> bool" where
  "sockets_ok w \<longleftrightarrow> (\<forall>x \<in> set (mg_pending (w_manager w)).
     socket_current (mg_connections (w_manager w)) (snd x) \<or>
     pr_token (snd x) \<in> set (w_draining w) \<or> 0 < w_closing w)"

definition replies_ok :: "world \<Rightarrow> bool" where
  "replies_ok w \<longleftrightarrow> (\<forall>x \<in> set (w_settled w). authentic (w_issued w) (w_responses w) x)"

definition guards_ok :: "world \<Rightarrow> bool" where
  "guards_ok w \<longleftrightarrow>
     (\<forall>t a rid. guarded_request (w_tasks w t) = Some (a, rid) \<longrightarrow>
        rid \<in> fst ` set (mg_pending (w_manager w)) \<union> fst ` set (w_settled w) \<and>
        (\<exists>p. (rid, p) \<in> set (w_issued w) \<and> pr_identity p = a)) \<and>
     (\<forall>t u a b rid. guarded_request (w_tasks w t) = Some (a, rid) \<longrightarrow>
        guarded_request (w_tasks w u) = Some (b, rid) \<longrightarrow> t = u)"

definition results_ok :: "world \<Rightarrow> bool" where
  "results_ok w \<longleftrightarrow> (\<forall>t d. w_tasks w t = Some (Finished (Inr d)) \<longrightarrow>
     (\<exists>rid p. (rid, p) \<in> set (w_issued w) \<and> pr_identity p = dar_identity d \<and>
        (rid, Inr (dar_result d)) \<in> set (w_settled w)))"

definition world_ok :: "world \<Rightarrow> bool" where
  "world_ok w \<longleftrightarrow> keys_ok w \<and> sockets_ok w \<and> replies_ok w \<and> guards_ok w \<and> results_ok w"

lemmas world_parts = keys_ok_def sockets_ok_def replies_ok_def guards_ok_def results_ok_def

subsection \<open>Requests taken from the table\<close>

lemma take_pending_simps [simp]:
  "mg_connections (snd (take_pending P f m)) = mg_connections m"
  "mg_pending (snd (take_pending P f m)) = filter (\<lambda>x. \<not> P x) (mg_pending m)"
  "fst (take_pending P f m) = map (\<lambda>x. (fst x, f x)) (filter P (mg_pending m))"
  by (simp_all add: take_pending_def)

lemma settle_simps [simp]:
  "w_manager (settle sm w) = snd sm" "w_settled (settle sm w) = fst sm @ w_settled w"
  "w_draining (settle sm w) = w_draining w" "w_closing (settle sm w) = w_closing w"
  "w_tasks (settle sm w) = w_tasks w" "w_issued (settle sm w) = w_issued w"
  "w_responses (settle sm w) = w_responses w"
  by (simp_all add: settle_def)

lemma set_phase_simps [simp]:
  "w_manager (set_phase t p w) = w_manager w" "w_settled (set_phase t p w) = w_settled w"
  "w_draining (set_phase t p w) = w_draining w" "w_closing (set_phase t p w) = w_closing w"
  "w_tasks (set_phase t p w) = (w_tasks w)(t \<mapsto> p)" "w_issued (set_phase t p w) = w_issued w"
  "w_responses (set_phase t p w) = w_responses w"
  by (simp_all add: set_phase_def)

lemma keys_split: "fst ` set xs = fst ` set (filter P xs) \<union> fst ` set (filter (\<lambda>x. \<not> P x) xs)"
  by auto

lemma keys_split_disjoint:
  assumes "distinct (map fst xs)"
  shows "fst ` set (filter P xs) \<inter> fst ` set (filter (\<lambda>x. \<not> P x) xs) = {}"
proof -
  have "inj_on fst (set xs)" using assms by (simp add: distinct_map)
  then show ?thesis by (auto simp: inj_on_def)
qed

lemma keys_take:
  assumes "keys_ok w"
  shows "keys_ok (settle (take_pending P f (w_manager w)) w)"
proof -
  let ?p = "mg_pending (w_manager w)"
  have d: "distinct (map fst ?p)" and pi: "set ?p \<subseteq> set (w_issued w)"
    and dj: "fst ` set ?p \<inter> fst ` set (w_settled w) = {}"
    using assms by (simp_all add: keys_ok_def)
  have "distinct (map fst (filter P ?p))" "distinct (map fst (filter (\<lambda>x. \<not> P x) ?p))"
    using d by (simp_all add: distinct_map_filter)
  moreover have "fst ` set (filter P ?p) \<inter> fst ` set (w_settled w) = {}"
    "fst ` set (filter (\<lambda>x. \<not> P x) ?p) \<inter> fst ` set (w_settled w) = {}"
    using dj keys_split [of ?p P] by blast+
  moreover have "set (filter Q ?p) \<subseteq> set (w_issued w)" for Q
    using pi by auto
  moreover from this have "fst ` set (filter P ?p) \<subseteq> fst ` set (w_issued w)" by blast
  moreover have "map fst (map (\<lambda>x. (fst x, f x)) (filter P ?p)) = map fst (filter P ?p)"
    "fst ` set (map (\<lambda>x. (fst x, f x)) (filter P ?p)) = fst ` set (filter P ?p)"
    by (simp_all add: comp_def image_image)
  ultimately show ?thesis
    using assms keys_split_disjoint [OF d, of P]
    unfolding keys_ok_def settle_simps take_pending_simps
    by (simp only: map_append set_append distinct_append image_Un set_map [symmetric])
       (simp add: Int_Un_distrib Int_commute)
qed

lemma guards_take:
  "guards_ok w \<Longrightarrow> guards_ok (settle (take_pending P f (w_manager w)) w)"
  using keys_split [of "mg_pending (w_manager w)" P]
  unfolding guards_ok_def settle_simps take_pending_simps
  by (simp add: image_Un image_image) blast

lemma results_take:
  "results_ok w \<Longrightarrow> results_ok (settle (take_pending P f (w_manager w)) w)"
  unfolding results_ok_def settle_simps by (meson UnI2 set_append [THEN equalityD2, THEN subsetD])

lemma authentic_mono:
  "authentic issued rs x \<Longrightarrow> set issued \<subseteq> set issued' \<Longrightarrow> set rs \<subseteq> set rs' \<Longrightarrow> authentic issued' rs' x"
  unfolding authentic_def by (meson subsetD)

lemma authentic_error [simp]: "authentic issued rs (i, Inl k)"
  by (simp add: authentic_def)

lemma replies_take:
  assumes "replies_ok w" "\<And>x. x \<in> set (mg_pending (w_manager w)) \<Longrightarrow> P x \<Longrightarrow> authentic (w_issued w) (w_responses w) (fst x, f x)"
  shows "replies_ok (settle (take_pending P f (w_manager w)) w)"
  using assms unfolding replies_ok_def settle_simps take_pending_simps by auto

lemma sockets_take:
  "sockets_ok w \<Longrightarrow> sockets_ok (settle (take_pending P f (w_manager w)) w)"
  unfolding sockets_ok_def by auto

subsection \<open>Every step keeps the invariants\<close>

lemma sockets_okD:
  "sockets_ok w \<Longrightarrow> x \<in> set (mg_pending (w_manager w)) \<Longrightarrow>
     socket_current (mg_connections (w_manager w)) (snd x) \<or>
     pr_token (snd x) \<in> set (w_draining w) \<or> 0 < w_closing w"
  by (simp add: sockets_ok_def)

lemma guards_okD:
  assumes "guards_ok w" "guarded_request (w_tasks w t) = Some (a, rid)"
  shows "rid \<in> fst ` set (mg_pending (w_manager w)) \<union> fst ` set (w_settled w)"
    and "\<exists>p. (rid, p) \<in> set (w_issued w) \<and> pr_identity p = a"
    and "guarded_request (w_tasks w u) = Some (b, rid) \<Longrightarrow> t = u"
  using assms unfolding guards_ok_def by blast+

text \<open>The guards of a state whose tasks guard no more, and whose requests are the same.\<close>

lemma guards_ok_fewer:
  assumes "guards_ok w"
    and "\<And>t x. guarded_request (w_tasks w' t) = Some x \<Longrightarrow> guarded_request (w_tasks w t) = Some x"
    and "fst ` set (mg_pending (w_manager w')) \<union> fst ` set (w_settled w') =
         fst ` set (mg_pending (w_manager w)) \<union> fst ` set (w_settled w)"
    and "set (w_issued w') = set (w_issued w)"
  shows "guards_ok w'"
  unfolding guards_ok_def assms(3,4) using guards_okD [OF assms(1)] assms(2) by blast

lemma world_ok_initial: "world_ok initial_world"
  by (simp add: world_ok_def world_parts initial_world_def empty_manager_def)

text \<open>A change of the connections and of the drains that are due.\<close>

lemma world_ok_connections:
  assumes "world_ok w" "distinct (map fst (mg_connections m))"
    and "mg_pending m = mg_pending (w_manager w)"
    and "\<And>p. socket_current (mg_connections (w_manager w)) p \<Longrightarrow>
           socket_current (mg_connections m) p \<or> pr_token p \<in> set ds \<or> 0 < k"
    and "set (w_draining w) \<subseteq> set ds" "w_closing w \<le> k"
  shows "world_ok (w\<lparr>w_manager := m, w_draining := ds, w_closing := k\<rparr>)"
proof -
  have "sockets_ok (w\<lparr>w_manager := m, w_draining := ds, w_closing := k\<rparr>)"
    unfolding sockets_ok_def
  proof (intro ballI)
    fix x assume "x \<in> set (mg_pending (w_manager (w\<lparr>w_manager := m, w_draining := ds, w_closing := k\<rparr>)))"
    then have x: "x \<in> set (mg_pending (w_manager w))" by (simp add: assms(3))
    have "sockets_ok w" using assms(1) by (simp add: world_ok_def)
    from sockets_okD [OF this x]
    show "socket_current (mg_connections (w_manager (w\<lparr>w_manager := m, w_draining := ds, w_closing := k\<rparr>))) (snd x) \<or>
        pr_token (snd x) \<in> set (w_draining (w\<lparr>w_manager := m, w_draining := ds, w_closing := k\<rparr>)) \<or>
        0 < w_closing (w\<lparr>w_manager := m, w_draining := ds, w_closing := k\<rparr>)"
      using assms(4) [of "snd x"] assms(5,6) by auto
  qed
  with assms(1-3) show ?thesis
    by (simp add: world_ok_def keys_ok_def replies_ok_def guards_ok_def results_ok_def)
qed

text \<open>A change of the phase of one task that holds no result and guards what it guarded, or nothing.\<close>

lemma world_ok_set_phase:
  assumes "world_ok w" "guarded_request (Some p) = None \<or> guarded_request (Some p) = guarded_request (w_tasks w t)"
    and "\<And>d. p = Finished (Inr d) \<Longrightarrow> \<exists>rid q. (rid, q) \<in> set (w_issued w) \<and>
           pr_identity q = dar_identity d \<and> (rid, Inr (dar_result d)) \<in> set (w_settled w)"
  shows "world_ok (set_phase t p w)"
proof -
  have "guards_ok (set_phase t p w)"
  proof (rule guards_ok_fewer)
    show "guards_ok w" using assms(1) by (simp add: world_ok_def)
    show "guarded_request (w_tasks w u) = Some x" if "guarded_request (w_tasks (set_phase t p w) u) = Some x" for u x
      using that assms(2) by (auto split: if_splits)
  qed simp_all
  moreover have "results_ok (set_phase t p w)"
    using assms(1,3) unfolding world_ok_def results_ok_def set_phase_simps by (auto split: if_splits)
  ultimately show ?thesis
    using assms(1) by (simp add: world_ok_def keys_ok_def sockets_ok_def replies_ok_def)
qed

text \<open>The drop of a task's guard, when the task ends without a reply.\<close>

lemma world_ok_drop_guard:
  assumes "world_ok w" "guarded_request (w_tasks w t) = Some (a, rid)" "guarded_request (Some p) = None"
    and "\<And>d. p \<noteq> Finished (Inr d)"
  shows "world_ok ((set_phase t p w)\<lparr>w_manager := drop_guard rid (w_manager w)\<rparr>)"
proof -
  let ?w = "(set_phase t p w)\<lparr>w_manager := drop_guard rid (w_manager w)\<rparr>"
  let ?pend = "mg_pending (w_manager w)"
  have pend: "mg_pending (drop_guard rid (w_manager w)) = filter (\<lambda>x. fst x \<noteq> rid) ?pend"
    and conns: "mg_connections (drop_guard rid (w_manager w)) = mg_connections (w_manager w)"
    by (simp_all add: drop_guard_def AList_delete_filter)
  have "keys_ok ?w"
    using assms(1) unfolding world_ok_def keys_ok_def by (auto simp: pend conns distinct_map_filter)
  moreover have "sockets_ok ?w"
    using assms(1) unfolding world_ok_def sockets_ok_def by (simp add: pend conns)
  moreover have "replies_ok ?w"
    using assms(1) by (simp add: world_ok_def replies_ok_def)
  moreover have "results_ok ?w"
    using assms(1,4) unfolding world_ok_def results_ok_def by auto
  moreover have "guards_ok ?w"
  proof -
    have old: "u \<noteq> t \<and> guarded_request (w_tasks w u) = Some (b, r)"
      if "guarded_request (w_tasks ?w u) = Some (b, r)" for u b r
      using that assms(3) by (auto split: if_splits)
    have other: "r \<noteq> rid" if "u \<noteq> t" "guarded_request (w_tasks w u) = Some (b, r)" for u b r
      using assms(1,2) that unfolding world_ok_def guards_ok_def by metis
    have g: "guards_ok w" using assms(1) by (simp add: world_ok_def)
    have "r \<in> fst ` set (mg_pending (w_manager ?w)) \<union> fst ` set (w_settled ?w) \<and>
        (\<exists>q. (r, q) \<in> set (w_issued ?w) \<and> pr_identity q = b)"
      if h: "guarded_request (w_tasks ?w u) = Some (b, r)" for u b r
    proof -
      have "r \<in> fst ` set ?pend \<union> fst ` set (w_settled w)" "\<exists>q. (r, q) \<in> set (w_issued w) \<and> pr_identity q = b"
        using g old [OF h] unfolding guards_ok_def by blast+
      moreover have "r \<noteq> rid" using old [OF h] other by blast
      ultimately show ?thesis by (auto simp: pend)
    qed
    moreover have "u = v" if "guarded_request (w_tasks ?w u) = Some (b, r)"
        "guarded_request (w_tasks ?w v) = Some (c, r)" for u v b c r
      using g old [OF that(1)] old [OF that(2)] unfolding guards_ok_def by blast
    ultimately show ?thesis unfolding guards_ok_def by blast
  qed
  ultimately show ?thesis by (simp add: world_ok_def)
qed

lemma world_ok_take:
  assumes "world_ok w"
    and "\<And>x. x \<in> set (mg_pending (w_manager w)) \<Longrightarrow> P x \<Longrightarrow> authentic (w_issued w) (w_responses w) (fst x, f x)"
  shows "world_ok (settle (take_pending P f (w_manager w)) w)"
  using assms keys_take sockets_take replies_take guards_take results_take
  unfolding world_ok_def by blast

lemma world_ok_keys: "world_ok w \<Longrightarrow> distinct (map fst (mg_pending (w_manager w)))"
  "world_ok w \<Longrightarrow> distinct (map fst (mg_connections (w_manager w)))"
  by (simp_all add: world_ok_def keys_ok_def)

lemma world_update_same [simp]:
  "w\<lparr>w_manager := m, w_draining := ds, w_closing := w_closing w\<rparr> = w\<lparr>w_manager := m, w_draining := ds\<rparr>"
  "w\<lparr>w_manager := m, w_draining := w_draining w, w_closing := k\<rparr> = w\<lparr>w_manager := m, w_closing := k\<rparr>"
  "w\<lparr>w_manager := m, w_draining := w_draining w\<rparr> = w\<lparr>w_manager := m\<rparr>"
  by (auto intro!: world.equality)

lemma step_eq: "manager_step E ev w = Some w' \<Longrightarrow> manager_step E ev w = Some v \<Longrightarrow> w' = v"
  by simp

lemma socket_current_update:
  "socket_current conns p \<Longrightarrow>
     socket_current (AList.update i c conns) p \<or>
     (\<exists>d. map_of conns i = Some d \<and> ac_token d = pr_token p)"
  by (auto simp: socket_current_def update_conv' split: option.splits)

lemma step_register:
  assumes "world_ok w" "manager_step E (Register h token now) w = Some w'"
  shows "world_ok w'"
proof (cases "validate_hello h")
  case (Inl e)
  with assms show ?thesis by (simp add: register_adapter_def)
next
  case (Inr u)
  let ?i = "ah_instance_id h"
  let ?cs = "mg_connections (w_manager w)"
  let ?c = "\<lparr>ac_token = token, ac_hello = h, ac_connected_at = now, ac_last_seen_at = now\<rparr>"
  let ?ds = "(case map_option ac_token (map_of ?cs ?i) of None \<Rightarrow> [] | Some t \<Rightarrow> [t]) @ w_draining w"
  have w': "w' = w\<lparr>w_manager := (w_manager w)\<lparr>mg_connections := AList.update ?i ?c ?cs\<rparr>,
      w_draining := ?ds, w_closing := w_closing w\<rparr>"
    by (rule step_eq [OF assms(2)]) (simp add: register_adapter_def Inr)
  show ?thesis unfolding w'
  proof (rule world_ok_connections [OF assms(1)])
    show "distinct (map fst (mg_connections ((w_manager w)\<lparr>mg_connections := AList.update ?i ?c ?cs\<rparr>)))"
      using world_ok_keys(2) [OF assms(1)] by (simp add: distinct_update)
    fix p assume "socket_current ?cs p"
    from socket_current_update [OF this, of ?i ?c]
    show "socket_current (mg_connections ((w_manager w)\<lparr>mg_connections := AList.update ?i ?c ?cs\<rparr>)) p \<or>
        pr_token p \<in> set ?ds \<or> 0 < w_closing w"
      by auto
  qed (auto split: option.splits)
qed

lemma step_touch:
  assumes "world_ok w" "manager_step E (Touch i now) w = Some w'"
  shows "world_ok w'"
proof -
  have w': "w' = w\<lparr>w_manager := touch i now (w_manager w), w_draining := w_draining w, w_closing := w_closing w\<rparr>"
    by (rule step_eq [OF assms(2)]) simp
  have "distinct (map fst (mg_connections (touch i now (w_manager w))))"
    using world_ok_keys(2) [OF assms(1)] by (simp add: touch_def distinct_update split: option.splits)
  then show ?thesis unfolding w'
    by (rule world_ok_connections [OF assms(1)])
      (auto simp: touch_def socket_current_def update_conv' split: option.splits)
qed

lemma step_disconnect:
  assumes "world_ok w" "manager_step E (DisconnectSocket i token) w = Some w'"
  shows "world_ok w'"
proof -
  let ?r = "remove_if_current i token (w_manager w)"
  have w': "w' = w\<lparr>w_manager := snd ?r, w_draining := (if fst ?r then [token] else []) @ w_draining w,
      w_closing := w_closing w\<rparr>"
    by (rule step_eq [OF assms(2)]) (simp add: case_prod_beta)
  have "distinct (map fst (mg_connections (snd ?r)))"
    using world_ok_keys(2) [OF assms(1)]
    by (simp add: remove_if_current_def distinct_delete split: option.splits)
  then show ?thesis unfolding w'
    by (rule world_ok_connections [OF assms(1)])
      (auto simp: remove_if_current_def socket_current_def delete_conv' split: option.splits if_splits)
qed

lemma step_shutdown_clear:
  assumes "world_ok w" "manager_step E ShutdownClear w = Some w'"
  shows "world_ok w'"
proof -
  have w': "w' = w\<lparr>w_manager := clear_connections (w_manager w), w_draining := w_draining w, w_closing := Suc (w_closing w)\<rparr>"
    by (rule step_eq [OF assms(2)]) simp
  show ?thesis unfolding w'
    by (rule world_ok_connections [OF assms(1)]) (simp_all add: clear_connections_def)
qed

lemma step_drain:
  assumes "world_ok w" "manager_step E (DrainToken token) w = Some w'"
  shows "world_ok w'"
proof -
  let ?w = "settle (take_pending (\<lambda>x. pr_token (snd x) = token) (\<lambda>_. Inl Disconnected) (w_manager w)) w"
  have w': "w' = ?w\<lparr>w_draining := remove1 token (w_draining w)\<rparr>"
    using assms(2) by (auto simp: fail_pending_for_token_take [OF world_ok_keys(1) [OF assms(1)]] split: if_splits)
  have ok: "world_ok ?w" by (rule world_ok_take [OF assms(1)]) simp
  have "sockets_ok w'"
    unfolding sockets_ok_def
  proof
    fix x assume "x \<in> set (mg_pending (w_manager w'))"
    then have x: "x \<in> set (mg_pending (w_manager ?w))" "pr_token (snd x) \<noteq> token" by (auto simp: w')
    from sockets_okD [OF _ x(1)] ok x(2)
    show "socket_current (mg_connections (w_manager w')) (snd x) \<or> pr_token (snd x) \<in> set (w_draining w') \<or> 0 < w_closing w'"
      by (auto simp: w' world_ok_def)
  qed
  with ok show ?thesis
    by (simp add: w' world_ok_def keys_ok_def replies_ok_def guards_ok_def results_ok_def)
qed

lemma step_shutdown_drain:
  assumes "world_ok w" "manager_step E ShutdownDrain w = Some w'"
  shows "world_ok w'"
proof -
  let ?w = "settle (take_pending (\<lambda>_. True) (\<lambda>_. Inl Disconnected) (w_manager w)) w"
  have w': "w' = ?w\<lparr>w_closing := w_closing w - 1\<rparr>"
    using assms(2) by (auto simp: drain_pending_take split: if_splits)
  have "world_ok ?w" by (rule world_ok_take [OF assms(1)]) simp
  then show ?thesis
    by (simp add: w' world_ok_def keys_ok_def sockets_ok_def replies_ok_def guards_ok_def results_ok_def)
qed

lemma step_begin:
  assumes "world_ok w" "manager_step E (Begin t req) w = Some w'"
  shows "world_ok w'"
proof -
  have "w' = set_phase t (Starting req) w" using assms(2) by (simp split: if_splits)
  then show ?thesis using world_ok_set_phase [OF assms(1), of "Starting req" t] by simp
qed

lemma step_select:
  assumes "world_ok w" "manager_step E (Select t) w = Some w'"
  shows "world_ok w'"
proof -
  have "(\<exists>e. w' = set_phase t (Finished (Inl e)) w) \<or> (\<exists>a token. w' = set_phase t (Chosen a token) w)"
    using assms(2) by (auto split: option.splits phase.splits sum.splits)
  then show ?thesis
    using world_ok_set_phase [OF assms(1), of "Finished (Inl _)" t]
      world_ok_set_phase [OF assms(1), of "Chosen _ _" t] by auto
qed

lemma AList_update_new: "k \<notin> fst ` set xs \<Longrightarrow> AList.update k v xs = xs @ [(k, v)]"
  by (induction xs) auto

lemma world_ok_issue:
  assumes ok: "world_ok w" and fresh: "rid \<notin> fst ` set (w_issued w)"
    and cur: "socket_current (mg_connections (w_manager w)) p"
  shows "world_ok ((set_phase t (Sending (pr_identity p) rid) w)
    \<lparr>w_manager := (w_manager w)\<lparr>mg_pending := AList.update rid p (mg_pending (w_manager w))\<rparr>,
     w_issued := (rid, p) # w_issued w\<rparr>)" (is "world_ok ?w")
proof -
  let ?pend = "mg_pending (w_manager w)"
  have keys: "keys_ok w" and guards: "guards_ok w" using ok by (simp_all add: world_ok_def)
  have new: "rid \<notin> fst ` set ?pend" "rid \<notin> fst ` set (w_settled w)"
    using keys fresh unfolding keys_ok_def by auto
  have pend: "AList.update rid p ?pend = ?pend @ [(rid, p)]"
    by (rule AList_update_new [OF new(1)])
  have "keys_ok ?w"
    using keys new fresh unfolding keys_ok_def by (auto simp: pend)
  moreover have "sockets_ok ?w"
    using ok cur unfolding world_ok_def sockets_ok_def by (auto simp: pend)
  moreover have "replies_ok ?w"
    using ok unfolding world_ok_def replies_ok_def
    by (auto elim!: authentic_mono)
  moreover have "results_ok ?w"
    using ok unfolding world_ok_def results_ok_def by auto metis
  moreover have "guards_ok ?w"
  proof -
    have old: "rid \<noteq> r" if "guarded_request (w_tasks w u) = Some (b, r)" for u b r
      using guards_okD(2) [OF guards that] fresh by force
    show ?thesis
      unfolding guards_ok_def
      by (auto simp: pend dest: old guards_okD [OF guards] split: if_splits)
  qed
  ultimately show ?thesis by (simp add: world_ok_def)
qed

lemma step_insert:
  assumes "world_ok w" "manager_step E (Insert t rid aeid) w = Some w'"
  shows "world_ok w'"
proof -
  from assms(2) obtain a token where ph: "w_tasks w t = Some (Chosen a token)"
    by (auto split: option.splits phase.splits)
  let ?p = "\<lparr>pr_identity = a, pr_token = token, pr_action_execution_id = aeid\<rparr>"
  from assms(2) ph have fresh: "rid \<notin> fst ` set (w_issued w)" by (auto split: if_splits)
  show ?thesis
  proof (cases "insert_pending_if_current rid ?p (w_manager w)")
    case None
    with assms(2) ph fresh
    have "w' = set_phase t (Finished (Inl \<lparr>dae_identity = Some a, dae_kind = Disconnected\<rparr>)) w" by simp
    then show ?thesis using world_ok_set_phase [OF assms(1), of "Finished (Inl _)" t] by simp
  next
    case (Some m)
    then have cur: "socket_current (mg_connections (w_manager w)) ?p"
      and m: "m = (w_manager w)\<lparr>mg_pending := AList.update rid ?p (mg_pending (w_manager w))\<rparr>"
      by (auto simp: insert_pending_if_current_def socket_current_def split: option.splits if_splits)
    have "w' = (set_phase t (Sending a rid) w)\<lparr>w_manager := m, w_issued := (rid, ?p) # w_issued w\<rparr>"
      using assms(2) ph fresh Some by simp
    with world_ok_issue [OF assms(1) fresh cur, of t] show ?thesis by (simp add: m)
  qed
qed

lemma step_send:
  assumes "world_ok w" "manager_step E (Send t delivered) w = Some w'"
  shows "world_ok w'"
proof -
  from assms(2) obtain a rid where ph: "w_tasks w t = Some (Sending a rid)"
    by (auto split: option.splits phase.splits)
  show ?thesis
  proof (cases delivered)
    case True
    with assms(2) ph have "w' = set_phase t (Waiting a rid) w" by simp
    with world_ok_set_phase [OF assms(1), of "Waiting a rid" t] ph show ?thesis by simp
  next
    case False
    with assms(2) ph show ?thesis
      using world_ok_drop_guard [OF assms(1), of t a rid "Finished (Inl \<lparr>dae_identity = Some a, dae_kind = Disconnected\<rparr>)"]
      by simp
  qed
qed

lemma step_elapse:
  assumes "world_ok w" "manager_step E (Elapse t) w = Some w'"
  shows "world_ok w'"
proof -
  from assms(2) obtain a rid where ph: "w_tasks w t = Some (Waiting a rid)"
    by (auto split: option.splits phase.splits)
  with assms(2) world_ok_drop_guard [OF assms(1), of t a rid "Finished (Inl \<lparr>dae_identity = Some a, dae_kind = Timeout\<rparr>)"]
  show ?thesis by simp
qed

lemma step_cancel:
  assumes "world_ok w" "manager_step E (Cancel t) w = Some w'"
  shows "world_ok w'"
proof -
  have d: "world_ok ((set_phase t Cancelled w)\<lparr>w_manager := drop_guard rid (w_manager w)\<rparr>)"
    if "guarded_request (w_tasks w t) = Some (a, rid)" for a rid
    by (rule world_ok_drop_guard [OF assms(1) that]) simp_all
  have s: "world_ok (set_phase t Cancelled w)"
    by (rule world_ok_set_phase [OF assms(1)]) simp_all
  show ?thesis using assms(2) d s by (auto split: option.splits phase.splits)
qed

lemma step_respond:
  assumes "world_ok w" "manager_step E (Respond r) w = Some w'"
  shows "world_ok w'"
proof -
  let ?v = "w\<lparr>w_responses := r # w_responses w\<rparr>"
  have "replies_ok ?v"
    using assms(1) unfolding world_ok_def replies_ok_def by (auto elim!: authentic_mono)
  then have v: "world_ok ?v"
    using assms(1) by (simp add: world_ok_def keys_ok_def sockets_ok_def guards_ok_def results_ok_def)
  have "w' = settle (take_pending (\<lambda>x. fst x = ars_request_id r) (\<lambda>x. response_result (snd x) r) (w_manager ?v)) ?v"
    using assms(2) resolve_take [OF world_ok_keys(1) [OF assms(1)], of r] by (auto simp: settle_def)
  also have "world_ok \<dots>"
  proof (rule world_ok_take [OF v])
    fix x assume x: "x \<in> set (mg_pending (w_manager ?v))" "fst x = ars_request_id r"
    have "set (mg_pending (w_manager w)) \<subseteq> set (w_issued w)"
      using assms(1) by (simp add: world_ok_def keys_ok_def)
    with x(1) have "(fst x, snd x) \<in> set (w_issued w)" by auto
    moreover have "pr_action_execution_id (snd x) = ars_action_execution_id r \<and> ars_body r = ActionResultBody res"
      if "response_result (snd x) r = Inr res" for res
      using that by (auto simp: response_result_def split: if_splits adapter_response_body.splits)
    ultimately show "authentic (w_issued ?v) (w_responses ?v) (fst x, response_result (snd x) r)"
      unfolding authentic_def using x(2)
      by (auto intro!: exI [of _ "snd x"] exI [of _ r])
  qed
  finally show ?thesis .
qed

text \<open>A waiting task whose request is no longer pending has a reply: the channel is never closed.\<close>

lemma waiting_answered:
  assumes "world_ok w" "w_tasks w t = Some (Waiting a rid)" "map_of (w_settled w) rid = None"
  shows "rid \<in> fst ` set (mg_pending (w_manager w))"
  using guards_okD(1) [of w t a rid] assms by (auto simp: world_ok_def map_of_eq_None_iff)

lemma step_receive:
  assumes "world_ok w" "manager_step E (Receive t) w = Some w'"
  shows "world_ok w'"
proof -
  from assms(2) obtain a rid where ph: "w_tasks w t = Some (Waiting a rid)"
    by (auto split: option.splits phase.splits)
  with assms(2) waiting_answered [OF assms(1) ph]
  obtain r where r: "map_of (w_settled w) rid = Some r"
    and w': "w' = set_phase t (Finished (dispatch_outcome a r)) w"
    by (auto split: option.splits)
  show ?thesis unfolding w'
  proof (rule world_ok_set_phase [OF assms(1)])
    fix d assume "Finished (dispatch_outcome a r) = Finished (Inr d)"
    then have "r = Inr (dar_result d)" "a = dar_identity d"
      by (auto simp: dispatch_outcome_def split: sum.splits)
    moreover have "\<exists>p. (rid, p) \<in> set (w_issued w) \<and> pr_identity p = a"
      using guards_okD(2) [of w t a rid] assms(1) ph by (simp add: world_ok_def)
    ultimately show "\<exists>rid q. (rid, q) \<in> set (w_issued w) \<and> pr_identity q = dar_identity d \<and>
        (rid, Inr (dar_result d)) \<in> set (w_settled w)"
      using map_of_SomeD [OF r] by blast
  qed simp
qed

lemmas steps_ok = step_register step_touch step_disconnect step_drain step_shutdown_clear
  step_shutdown_drain step_begin step_select step_insert step_send step_respond step_receive
  step_elapse step_cancel

lemma step_ok: "world_ok w \<Longrightarrow> manager_step E ev w = Some w' \<Longrightarrow> world_ok w'"
  by (cases ev; hypsubst; erule (1) steps_ok)

lemma reachable_ok: "manager_reachable E w \<Longrightarrow> world_ok w"
  by (induction rule: manager_reachable.induct) (auto intro: world_ok_initial step_ok)

section \<open>Properties\<close>

text \<open>C11: Requests and sockets. In every state the tasks can reach, each dispatched request is answered
  at most once and is never both pending and answered, and every pending request waits on the socket
  that is registered for its adapter instance, or a task that removed that socket has yet to fail the
  requests of its token, or a shutdown has yet to drain the table. Hence no dispatch is left waiting on
  a socket that was replaced or disconnected.\<close>

theorem requests_wait_on_current_sockets:
  assumes "manager_reachable E w"
  shows "distinct (map fst (w_settled w)) \<and> distinct (map fst (mg_pending (w_manager w))) \<and>
    distinct (map fst (mg_connections (w_manager w))) \<and>
    (\<forall>(i, p) \<in> set (mg_pending (w_manager w)).
       i \<notin> fst ` set (w_settled w) \<and>
       (socket_current (mg_connections (w_manager w)) p \<or> pr_token p \<in> set (w_draining w) \<or> 0 < w_closing w))"
proof -
  have ok: "keys_ok w" "sockets_ok w" using reachable_ok [OF assms] by (simp_all add: world_ok_def)
  have "\<forall>x \<in> set (mg_pending (w_manager w)). fst x \<notin> fst ` set (w_settled w) \<and>
      (socket_current (mg_connections (w_manager w)) (snd x) \<or> pr_token (snd x) \<in> set (w_draining w) \<or> 0 < w_closing w)"
  proof (intro ballI conjI)
    fix x assume x: "x \<in> set (mg_pending (w_manager w))"
    from ok(1) have "fst ` set (mg_pending (w_manager w)) \<inter> fst ` set (w_settled w) = {}"
      by (simp add: keys_ok_def)
    with imageI [OF x, of fst] show "fst x \<notin> fst ` set (w_settled w)" by blast
    from sockets_okD [OF ok(2) x]
    show "socket_current (mg_connections (w_manager w)) (snd x) \<or> pr_token (snd x) \<in> set (w_draining w) \<or> 0 < w_closing w" .
  qed
  moreover from ok(1) have "distinct (map fst (w_settled w))" "distinct (map fst (mg_pending (w_manager w)))"
    "distinct (map fst (mg_connections (w_manager w)))" by (simp_all add: keys_ok_def)
  ultimately show ?thesis by (simp only: case_prod_unfold simp_thms)
qed



text \<open>Teardown of a stale socket. Once another socket has registered for the same instance, the
  late disconnect of the old socket changes neither the connections nor the pending requests, and
  owes no drain.\<close>

lemma stale_disconnect_harmless:
  assumes "register_adapter h token now m = (Inr replaced, m')" and "stale \<noteq> token"
  shows "remove_if_current (ah_instance_id h) stale m' = (False, m') \<and>
    remove_if_current (ah_instance_id h) token m' =
      (True, m'\<lparr>mg_connections := AList.delete (ah_instance_id h) (mg_connections m')\<rparr>) \<and>
    replaced = map_option ac_token (map_of (mg_connections m) (ah_instance_id h)) \<and>
    mg_pending m' = mg_pending m"
  using assms by (auto simp: register_adapter_def remove_if_current_def update_conv' split: sum.splits)

section \<open>A run\<close>

definition sample_response :: adapter_response_envelope where
  "sample_response = \<lparr>ars_protocol_version = CURRENT_PROTOCOL_VERSION, ars_request_id = 8,
     ars_action_execution_id = 9,
     ars_body = ActionResultBody \<lparr>ar_status = AdapterSucceeded, ar_result_code = ''ok'', ar_redacted_message = ''m''\<rparr>\<rparr>"

definition sample_events :: "manager_event list" where
  "sample_events = [Register (sample_browser 5) 50 (Timestamp 1 0),
     Begin 0 (requirements_from_action (BrowserTabEnsureOpen 3)), Select 0, Insert 0 8 9, Send 0 True]"

text \<open>The dispatch waits; then the adapter answers.\<close>

lemma sample_waiting:
  "\<exists>w. manager_reachable sample_env w \<and> w_draining w = [] \<and> w_closing w = 0 \<and>
     w_tasks w 0 = Some (Waiting \<lparr>ea_adapter_id = BROWSER_ADAPTER_ID, ea_instance_id = 5\<rparr> 8) \<and>
     fst ` set (mg_pending (w_manager w)) = {8} \<and> w_settled w = []"
proof -
  let ?r = "manager_run sample_env sample_events initial_world"
  have "map_option (\<lambda>w. (w_draining w, w_closing w, w_tasks w 0, map fst (mg_pending (w_manager w)), w_settled w)) ?r =
     Some ([], 0, Some (Waiting \<lparr>ea_adapter_id = BROWSER_ADAPTER_ID, ea_instance_id = 5\<rparr> 8), [8], [])"
    by code_simp
  then obtain w where r: "?r = Some w" and w: "w_draining w = []" "w_closing w = 0"
      "w_tasks w 0 = Some (Waiting \<lparr>ea_adapter_id = BROWSER_ADAPTER_ID, ea_instance_id = 5\<rparr> 8)"
      "map fst (mg_pending (w_manager w)) = [8]" "w_settled w = []"
    by auto
  have "fst ` set (mg_pending (w_manager w)) = {8}" using arg_cong [OF w(4), of set] by simp
  with w manager_run_reachable [OF manager_reachable.initial r] show ?thesis by blast
qed

theorem requests_wait_on_current_sockets_witness:
  "\<exists>(w :: world) p. manager_reachable sample_env w \<and> (8, p) \<in> set (mg_pending (w_manager w)) \<and> socket_current (mg_connections (w_manager w)) p"
proof -
  from sample_waiting obtain w where w: "manager_reachable sample_env w" "w_draining w = []" "w_closing w = 0"
      "fst ` set (mg_pending (w_manager w)) = {8}" by blast
  then obtain p where p: "(8, p) \<in> set (mg_pending (w_manager w))" by force
  from requests_wait_on_current_sockets [OF w(1)] w(2,3)
  have "\<forall>(i, p) \<in> set (mg_pending (w_manager w)). socket_current (mg_connections (w_manager w)) p" by auto
  with p have "socket_current (mg_connections (w_manager w)) p" by (auto dest: bspec)
  with p w(1) show ?thesis by blast
qed



lemma stale_disconnect_harmless_witness:
  "remove_if_current 5 50 (snd (register_adapter (sample_browser 5) 51 (Timestamp 2 0)
     (snd (register_adapter (sample_browser 5) 50 (Timestamp 1 0) empty_manager)))) =
   (False, snd (register_adapter (sample_browser 5) 51 (Timestamp 2 0)
     (snd (register_adapter (sample_browser 5) 50 (Timestamp 1 0) empty_manager))))"
proof -
  let ?m = "snd (register_adapter (sample_browser 5) 50 (Timestamp 1 0) empty_manager)"
  have "fst (register_adapter (sample_browser 5) 51 (Timestamp 2 0) ?m) = Inr (Some 50)" by code_simp
  then have r: "register_adapter (sample_browser 5) 51 (Timestamp 2 0) ?m =
      (Inr (Some 50), snd (register_adapter (sample_browser 5) 51 (Timestamp 2 0) ?m))"
    by (simp add: prod_eq_iff)
  have "(50 :: uuid) \<noteq> 51" by simp
  from stale_disconnect_harmless [OF r this] show ?thesis by (simp add: sample_browser_def)
qed

end
