(* ===== verification/Fubun_Core.thy ===== *)
theory Fubun_Core
  imports Fubun_Manager Fubun_Policy
begin

text \<open>
  What the request handlers of \<open>crates/fubun-core/src/lib.rs\<close> run on: the state of one task, the
  environment it reads (clock, random ids, file system, adapters, the commands of other tasks), the
  texts of the error types, and the dispatch of one action as the handlers call it.
\<close>

section \<open>State and sequencing\<close>

text \<open>
  A task holds the connection to the writer thread; the requests it has sent to adapters are logged,
  the latest last.
\<close>

record core_state =
  cs_conn :: conn
  cs_sent :: "(eligible_adapter \<times> adapter_request_envelope) list"

type_synonym 'a io = "core_state \<Rightarrow> 'a \<times> core_state"

definition iret :: "'a \<Rightarrow> 'a io" where
  "iret a s = (a, s)"

definition ibind :: "'a io \<Rightarrow> ('a \<Rightarrow> 'b io) \<Rightarrow> 'b io" where
  "ibind m f s = (case m s of (a, s') \<Rightarrow> f a s')"

text \<open>\<open>match\<close> on a result: one continuation for the error, one for the value.\<close>

definition attempt :: "('e + 'a) io \<Rightarrow> ('e \<Rightarrow> 'b io) \<Rightarrow> ('a \<Rightarrow> 'b io) \<Rightarrow> 'b io" where
  "attempt m h f = ibind m (\<lambda>r. case r of Inl e \<Rightarrow> h e | Inr a \<Rightarrow> f a)"

text \<open>The operator \<open>?\<close> after \<open>map_err\<close>.\<close>

definition try_map :: "('e + 'a) io \<Rightarrow> ('e \<Rightarrow> 'f) \<Rightarrow> ('a \<Rightarrow> ('f + 'b) io) \<Rightarrow> ('f + 'b) io" where
  "try_map m g f = attempt m (\<lambda>e. iret (Inl (g e))) f"

definition on_storage :: "'a sm \<Rightarrow> (storage_error + 'a) io" where
  "on_storage m s = (case m (cs_conn s) of (r, c) \<Rightarrow> (r, s\<lparr>cs_conn := c\<rparr>))"

text \<open>One look at the environment.\<close>

definition draw :: "(nat \<Rightarrow> 'a) \<Rightarrow> 'a io" where
  "draw f s =
     (f (conn_tick (cs_conn s)), s\<lparr>cs_conn := (cs_conn s)\<lparr>conn_tick := conn_tick (cs_conn s) + 1\<rparr>\<rparr>)"

definition log_sent :: "eligible_adapter \<Rightarrow> adapter_request_envelope \<Rightarrow> unit io" where
  "log_sent a r s = ((), s\<lparr>cs_sent := cs_sent s @ [(a, r)]\<rparr>)"

section \<open>The environment\<close>

text \<open>What \<open>fs::metadata\<close> says of a path that exists.\<close>

datatype file_kind = RegularFile | DirectoryFile | OtherFile

text \<open>How the wait for the reply of a dispatch ends.\<close>

datatype dispatch_reply = Replied reply | SenderDropped | Elapsed

text \<open>
  The crates \<open>url\<close> and \<open>sha2\<close>; \<open>Uuid::new_v4\<close>; the registry of adapters as it is at a tick;
  whether a send to an adapter's queue succeeds and how the reply to it arrives (given the timeout in
  nanoseconds); \<open>Instant::now\<close> in nanoseconds; the file system; \<open>to_string_lossy\<close>; the path of the
  database. A function of the tick may change between any two looks.
\<close>

record 'u core_env = handle_env +
  ce_url :: "'u url_lib"
  ce_sha256 :: "string \<Rightarrow> u8 list"
  ce_new_v4 :: "nat \<Rightarrow> uuid"
  ce_manager :: "nat \<Rightarrow> adapter_manager"
  ce_send_ok :: "nat \<Rightarrow> bool"
  ce_reply :: "nat \<Rightarrow> int \<Rightarrow> dispatch_reply"
  ce_instant :: "nat \<Rightarrow> int"
  ce_metadata :: "nat \<Rightarrow> string \<Rightarrow> file_kind option"
  ce_canonicalize :: "nat \<Rightarrow> string \<Rightarrow> string option"
  ce_lossy :: "string \<Rightarrow> string"
  ce_database_path :: string

definition now_utc :: "('u, 'z) core_env_scheme \<Rightarrow> timestamp io" where
  "now_utc E = draw (se_now E)"

definition new_v4 :: "('u, 'z) core_env_scheme \<Rightarrow> uuid io" where
  "new_v4 E = draw (ce_new_v4 E)"

definition fs_metadata :: "('u, 'z) core_env_scheme \<Rightarrow> string \<Rightarrow> file_kind option io" where
  "fs_metadata E path = draw (\<lambda>t. ce_metadata E t path)"

definition fs_canonicalize :: "('u, 'z) core_env_scheme \<Rightarrow> string \<Rightarrow> string option io" where
  "fs_canonicalize E path = draw (\<lambda>t. ce_canonicalize E t path)"

text \<open>\<open>Path::exists\<close> and \<open>Path::is_dir\<close> ask for the metadata.\<close>

definition path_exists :: "('u, 'z) core_env_scheme \<Rightarrow> string \<Rightarrow> bool io" where
  "path_exists E path = ibind (fs_metadata E path) (\<lambda>m. iret (m \<noteq> None))"

definition path_is_dir :: "('u, 'z) core_env_scheme \<Rightarrow> string \<Rightarrow> bool io" where
  "path_is_dir E path = ibind (fs_metadata E path) (\<lambda>m. iret (m = Some DirectoryFile))"

definition adapters_find_eligible ::
    "('u, 'z) core_env_scheme \<Rightarrow> adapter_requirements \<Rightarrow> (eligibility_error + eligible_adapter) io" where
  "adapters_find_eligible E req = draw (\<lambda>t. find_eligible E (mg_connections (ce_manager E t)) req)"

section \<open>Dispatch of one action\<close>

definition dispatch_envelope ::
    "uuid \<Rightarrow> uuid \<Rightarrow> action_spec \<Rightarrow> resolved_resource option \<Rightarrow> adapter_request_envelope" where
  "dispatch_envelope request_id action_execution_id action resolved =
     \<lparr>arq_protocol_version = CURRENT_PROTOCOL_VERSION, arq_request_id = request_id,
      arq_action_execution_id = action_execution_id,
      arq_body = ActionExecute \<lparr>aer_action = action, aer_resolved_resource = resolved\<rparr>\<rparr>"

text \<open>
  \<open>AdapterManager::execute\<close> as one task sees it. The selection, the insertion of the pending request
  and the wait each look at the manager at a tick of their own; what the other tasks do between these
  is the step relation of the manager.
\<close>

definition adapters_execute ::
    "('u, 'z) core_env_scheme \<Rightarrow> action_spec \<Rightarrow> resolved_resource option \<Rightarrow> int \<Rightarrow>
     (dispatched_error + dispatched_result) io" where
  "adapters_execute E action resolved timeout =
     attempt (draw (\<lambda>t. select_eligible E (mg_connections (ce_manager E t)) (requirements_from_action action)))
       (\<lambda>e. iret (Inl (eligibility_dispatch_error e)))
       (\<lambda>(identity, token).
         ibind (new_v4 E) (\<lambda>request_id.
         ibind (new_v4 E) (\<lambda>action_execution_id.
         let p = \<lparr>pr_identity = identity, pr_token = token, pr_action_execution_id = action_execution_id\<rparr>;
             failed = (\<lambda>k. Inl \<lparr>dae_identity = Some identity, dae_kind = k\<rparr>)
         in ibind (draw (\<lambda>t. insert_pending_if_current request_id p (ce_manager E t))) (\<lambda>inserted.
            if inserted = None then iret (failed Disconnected)
            else ibind (draw (ce_send_ok E)) (\<lambda>delivered.
              if \<not> delivered then iret (failed Disconnected)
              else ibind (log_sent identity (dispatch_envelope request_id action_execution_id action resolved)) (\<lambda>_.
                ibind (draw (\<lambda>t. ce_reply E t timeout)) (\<lambda>outcome.
                  iret (case outcome of Replied r \<Rightarrow> dispatch_outcome identity r
                        | SenderDropped \<Rightarrow> failed Disconnected
                        | Elapsed \<Rightarrow> failed Timeout))))))))"

section \<open>Texts of the error types\<close>

fun validation_error_text :: "validation_error \<Rightarrow> string" where
  "validation_error_text (UnsupportedSpecVersion v) = ''unsupported event spec version: '' @ v"
| "validation_error_text (EmptyField f) = ''field '' @ f @ '' must not be empty''"
| "validation_error_text SequenceOutOfRange =
     ''adapter sequence number exceeds SQLite'' @ [CHR 0x27] @ ''s signed integer range''"
| "validation_error_text LabelTooLong = ''synthetic event label exceeds 128 bytes''"
| "validation_error_text TypeDataMismatch = ''event type and data kind do not match''"

fun resource_error_text :: "resource_validation_error \<Rightarrow> string" where
  "resource_error_text InvalidLabel = ''resource label must be 1-128 characters''"
| "resource_error_text RelativePath = ''resource locator must be an absolute path''"
| "resource_error_text ControlCharacter = ''resource locator contains a NUL or control character''"
| "resource_error_text LocatorTooLong = ''resource locator exceeds 4096 bytes''"
| "resource_error_text InvalidCanonicalPath = ''resource canonical locator must be an absolute path''"
| "resource_error_text InvalidWebUrl = ''web page locator is not a valid canonical http(s) URL''"

fun action_error_text :: "action_validation_error \<Rightarrow> string" where
  "action_error_text InvalidAppId =
     ''app_id must be 1-128 bytes from A-Z, a-z, 0-9, '' @ [CHR 0x27] @ ''.'' @ [CHR 0x27] @ '', '' @
     [CHR 0x27] @ ''_'' @ [CHR 0x27] @ '', or '' @ [CHR 0x27] @ ''-'' @ [CHR 0x27]"
| "action_error_text (InvalidNotification field maximum) =
     ''notification '' @ field @ '' must be 1-'' @ decimal maximum @
     '' characters without control characters''"

fun ritual_error_text :: "ritual_validation_error \<Rightarrow> string" where
  "ritual_error_text (UnsupportedSchemaVersion v) = ''unsupported ritual schema version: '' @ v"
| "ritual_error_text InvalidName = ''ritual name must be 1-128 characters''"
| "ritual_error_text InvalidActionCount =
     ''ritual must contain 1-'' @ decimal MAX_RITUAL_ACTIONS @ '' actions''"
| "ritual_error_text (InvalidAction i e) =
     ''ritual action '' @ decimal i @ '' is invalid: '' @ action_error_text e"
| "ritual_error_text InvalidTimeout = ''execution.timeout_seconds must be between 1 and 120''"
| "ritual_error_text (ConsecutiveDuplicate i) = ''consecutive duplicate action at index '' @ decimal i"

fun policy_error_text :: "policy_error \<Rightarrow> string" where
  "policy_error_text UnknownAction = ''action is not registered''"
| "policy_error_text RiskNotPermitted = ''risk level is not permitted for Phase 2 manual execution''"

fun registration_error_text :: "registration_error \<Rightarrow> string" where
  "registration_error_text UnknownAdapter = ''adapter id is not registered for Phase 2''"
| "registration_error_text InvalidVersion =
     ''adapter version is empty, too long, or contains control characters''"
| "registration_error_text InvalidCapabilityCount = ''adapter capability list is empty or too large''"
| "registration_error_text InvalidCapability =
     ''adapter capability is empty, too long, or contains control characters''"
| "registration_error_text UnknownCapability =
     ''adapter capability is not in the fixed action registry''"
| "registration_error_text DuplicateCapability = ''adapter capability is duplicated''"

fun dispatch_error_code :: "dispatch_error_kind \<Rightarrow> string" where
  "dispatch_error_code Unavailable = ''adapter_unavailable''"
| "dispatch_error_code CapabilityUnavailable = ''capability_unavailable''"
| "dispatch_error_code Timeout = ''action_timeout''"
| "dispatch_error_code Disconnected = ''adapter_disconnected''"
| "dispatch_error_code Protocol = ''protocol_error''"

fun dispatch_error_message :: "dispatch_error_kind \<Rightarrow> string" where
  "dispatch_error_message Unavailable = ''no adapter is connected''"
| "dispatch_error_message CapabilityUnavailable = ''required capability is unavailable''"
| "dispatch_error_message Timeout = ''adapter action timed out''"
| "dispatch_error_message Disconnected = ''adapter disconnected''"
| "dispatch_error_message Protocol = ''adapter protocol error''"

text \<open>\<open>storage_error\<close>: the response to a storage error no handler treats by itself.\<close>

definition storage_error_response :: "uuid \<Rightarrow> storage_error \<Rightarrow> response_envelope" where
  "storage_error_response i e =
     (case e of
        NotFound \<Rightarrow> response_error i ''internal_error'' ''requested record was not found''
      | DuplicateResource \<Rightarrow> response_error i ''duplicate_resource'' ''resource already exists''
      | RitualAlreadyRunning \<Rightarrow> response_error i ''ritual_already_running'' ''ritual is already running''
      | _ \<Rightarrow> response_error i ''internal_error'' ''storage operation failed'')"

text \<open>The arms \<open>Err(StorageError::NotFound)\<close> and \<open>Err(error)\<close> that most handlers have.\<close>

definition not_found_or :: "uuid \<Rightarrow> string \<Rightarrow> string \<Rightarrow> storage_error \<Rightarrow> response_envelope io" where
  "not_found_or i code message e =
     iret (if e = NotFound then response_error i code message else storage_error_response i e)"

section \<open>Runs\<close>

lemma iret_iff [simp]: "iret a s = (b, s') \<longleftrightarrow> b = a \<and> s' = s"
  by (auto simp: iret_def)

lemma ibind_iff: "ibind m f s = (b, s') \<longleftrightarrow> (\<exists>a s1. m s = (a, s1) \<and> f a s1 = (b, s'))"
  by (auto simp: ibind_def split: prod.splits)

lemma attempt_iff:
  "attempt m h f s = (b, s') \<longleftrightarrow>
     (\<exists>e s1. m s = (Inl e, s1) \<and> h e s1 = (b, s')) \<or> (\<exists>a s1. m s = (Inr a, s1) \<and> f a s1 = (b, s'))"
  unfolding attempt_def ibind_iff by (auto split: sum.splits) (metis sum.exhaust)+

lemma try_map_Inr_iff:
  "try_map m g f s = (Inr b, s') \<longleftrightarrow> (\<exists>a s1. m s = (Inr a, s1) \<and> f a s1 = (Inr b, s'))"
  by (auto simp: try_map_def attempt_iff)

lemma draw_iff:
  "draw f s = (a, s') \<longleftrightarrow> a = f (conn_tick (cs_conn s)) \<and>
     s' = s\<lparr>cs_conn := (cs_conn s)\<lparr>conn_tick := conn_tick (cs_conn s) + 1\<rparr>\<rparr>"
  by (auto simp: draw_def)

lemma log_sent_iff: "log_sent a r s = (u, s') \<longleftrightarrow> s' = s\<lparr>cs_sent := cs_sent s @ [(a, r)]\<rparr>"
  by (auto simp: log_sent_def)

lemma on_storage_iff:
  "on_storage m s = (r, s') \<longleftrightarrow> (\<exists>c. m (cs_conn s) = (r, c) \<and> s' = s\<lparr>cs_conn := c\<rparr>)"
  by (auto simp: on_storage_def split: prod.splits)

lemmas io_iff = ibind_iff attempt_iff try_map_Inr_iff draw_iff log_sent_iff on_storage_iff
  now_utc_def new_v4_def Let_def

text \<open>A run that sends nothing to an adapter.\<close>

definition quiet :: "'a io \<Rightarrow> bool" where
  "quiet m \<longleftrightarrow> (\<forall>s. cs_sent (snd (m s)) = cs_sent s)"

lemma quietD: "quiet m \<Longrightarrow> m s = (a, s') \<Longrightarrow> cs_sent s' = cs_sent s"
  unfolding quiet_def by (metis snd_conv)

text \<open>
  The requests a dispatch sends: one, to an adapter that satisfied the requirements of the action when
  it was chosen, or none, and then the dispatch fails.
\<close>

definition eligible_at ::
    "('u, 'z) core_env_scheme \<Rightarrow> action_spec \<Rightarrow> eligible_adapter \<Rightarrow> bool" where
  "eligible_at E action a \<longleftrightarrow> (\<exists>t c. (ea_instance_id a, c) \<in> set (mg_connections (ce_manager E t)) \<and>
     ea_adapter_id a = ah_adapter_id (ac_hello c) \<and> can_serve (ac_hello c) action)"

lemma adapters_execute_sent:
  assumes "adapters_execute E action resolved timeout s = (x, s')"
  obtains (none) e where "cs_sent s' = cs_sent s" "x = Inl e"
  | (one) q where "cs_sent s' = cs_sent s @ [q]"
      "arq_body (snd q) = ActionExecute \<lparr>aer_action = action, aer_resolved_resource = resolved\<rparr>"
      "eligible_at E action (fst q)" "\<And>d. x = Inr d \<Longrightarrow> dar_identity d = fst q"
proof -
  let ?sel = "\<lambda>t. select_eligible E (mg_connections (ce_manager E t)) (requirements_from_action action)"
  show thesis
  proof (cases "?sel (conn_tick (cs_conn s))")
    case (Inl e)
    with assms show thesis by (intro none) (auto simp: adapters_execute_def io_iff)
  next
    case (Inr p)
    then obtain a tok where p: "?sel (conn_tick (cs_conn s)) = Inr (a, tok)" by (cases p) auto
    have "eligible_at E action a"
      using select_eligible_Inr [OF p] unfolding eligible_at_def in_candidates_iff connection_satisfies_iff by auto
    with assms p show thesis
      by (auto simp: adapters_execute_def io_iff dispatch_envelope_def dispatch_outcome_def
          split: if_splits dispatch_reply.splits sum.splits intro: none one)
  qed
qed

end
