(* ===== verification/Fubun_Observe.thy ===== *)
theory Fubun_Observe
  imports Fubun_Core
begin

text \<open>
  The handlers of \<open>crates/fubun-core/src/lib.rs\<close> that store events, resources and observation scopes:
  \<open>ingest_response\<close>, \<open>ingest_adapter_event\<close>, \<open>resource_create_response\<close> and the two
  \<open>observation_enable\<close> handlers.
\<close>

section \<open>Events of clients\<close>

fun is_synthetic :: "event_data \<Rightarrow> bool" where
  "is_synthetic (Synthetic _ _) = True"
| "is_synthetic _ = False"

definition ingest_response ::
    "('u, 'z) core_env_scheme \<Rightarrow> uuid \<Rightarrow> event \<Rightarrow> response_envelope io" where
  "ingest_response E i e0 =
     (if ev_type e0 \<noteq> SyntheticV1 \<or> \<not> is_synthetic (ev_data e0)
      then iret (response_error i ''invalid_event'' ''client event ingest only accepts dev synthetic events'')
      else ibind (now_utc E) (\<lambda>now.
        let e = e0\<lparr>ev_received_at := now\<rparr>
        in case event_validate e of
             Inl err \<Rightarrow> iret (response_error i ''invalid_event'' (validation_error_text err))
           | Inr _ \<Rightarrow> attempt (on_storage (handle_insert_event E e))
               (\<lambda>err. iret (if err = DuplicateEvent
                  then response_error i ''duplicate_event''
                         ''adapter_instance_id and sequence_no have already been stored''
                  else storage_error_response i err))
               (\<lambda>_. iret (response_ok i (EventIngested
                  \<lparr>ack_event_id = ev_id e, ack_stored = True, ack_duplicate = False\<rparr>)))))"

section \<open>Events of adapters\<close>

text \<open>The tuple \<open>expected\<close>: event type, source, observation source, resource kind, capability.\<close>

definition expected_emission ::
    "string \<Rightarrow> (event_type \<times> string \<times> observation_source \<times> resource_kind \<times> string) option" where
  "expected_emission adapter_id =
     (if adapter_id = ''dev.fubun.browser.chromium''
      then Some (BrowserResourceOpenedV1, ''browser.chromium'', BrowserChromium, WebPage,
                 ''dev.fubun.browser.resource.opened.v1'')
      else if adapter_id = ''dev.fubun.vscode''
      then Some (VscodeWorkspaceOpenedV1, ''vscode.workspace'', VscodeWorkspace, Directory,
                 ''dev.fubun.vscode.workspace.opened.v1'')
      else None)"

definition event_ack_of :: "uuid \<Rightarrow> bool \<Rightarrow> bool \<Rightarrow> event_ack" where
  "event_ack_of i stored duplicate =
     \<lparr>ack_event_id = i, ack_stored = stored, ack_duplicate = duplicate\<rparr>"

definition scope_active_for :: "uuid \<Rightarrow> observation_scope list \<Rightarrow> bool" where
  "scope_active_for rid scopes = list_ex (\<lambda>s. obs_resource_id s = rid \<and> obs_status s = ObsActive) scopes"

text \<open>The payload the event carries; \<open>None\<close> is the early return for a synthetic type.\<close>

fun emitted_data :: "event_type \<Rightarrow> uuid \<Rightarrow> event_data option" where
  "emitted_data BrowserResourceOpenedV1 rid = Some (BrowserResourceOpened rid)"
| "emitted_data VscodeWorkspaceOpenedV1 rid = Some (VscodeWorkspaceOpened rid)"
| "emitted_data SyntheticV1 rid = None"

definition emitted_event ::
    "adapter_hello \<Rightarrow> adapter_event_emit_request \<Rightarrow> event_type \<Rightarrow> string \<Rightarrow> event_data \<Rightarrow> uuid \<Rightarrow> timestamp \<Rightarrow> event" where
  "emitted_event hello payload etype source data i received =
     \<lparr>ev_spec_version = EVENT_SPEC_VERSION, ev_id = i, ev_type = etype, ev_source = source,
      ev_occurred_at = emit_occurred_at payload, ev_received_at = received, ev_actor = User,
      ev_adapter = \<lparr>adp_id = ah_adapter_id hello, adp_version = ah_adapter_version hello,
        adp_instance_id = ah_instance_id hello, adp_sequence_no = emit_sequence_no payload\<rparr>,
      ev_context = None, ev_privacy = PrivacyNormal, ev_data = data\<rparr>"

definition ingest_adapter_event ::
    "('u, 'z) core_env_scheme \<Rightarrow> adapter_hello \<Rightarrow> adapter_event_emit_request \<Rightarrow> event_ack io" where
  "ingest_adapter_event E hello payload =
     ibind (new_v4 E) (\<lambda>i.
       let rejected = iret (event_ack_of i False False); rid = emit_resource_id payload
       in case expected_emission (ah_adapter_id hello) of
            None \<Rightarrow> rejected
          | Some (etype, source, osource, kind, capability) \<Rightarrow>
              if emit_event_type payload \<noteq> etype \<or>
                 capability \<notin> set (ah_event_capabilities hello) \<or>
                 (ah_adapter_id hello = ''dev.fubun.browser.chromium'' \<and>
                  rid \<notin> set (snap_permitted_resource_ids (ah_status hello)))
              then rejected
              else attempt (on_storage (handle_get_resource E rid)) (\<lambda>_. rejected) (\<lambda>resource.
                if res_kind resource \<noteq> kind then rejected
                else attempt (on_storage (handle_list_observation_scopes E (Some osource))) (\<lambda>_. rejected) (\<lambda>scopes.
                  if \<not> scope_active_for rid scopes then rejected
                  else ibind (now_utc E) (\<lambda>received.
                    case emitted_data etype rid of
                      None \<Rightarrow> rejected
                    | Some data \<Rightarrow>
                        attempt (on_storage (handle_insert_event E
                            (emitted_event hello payload etype source data i received)))
                          (\<lambda>err. iret (event_ack_of i False (err = DuplicateEvent)))
                          (\<lambda>_. iret (event_ack_of i True False))))))"

section \<open>Resources\<close>

definition new_resource ::
    "uuid \<Rightarrow> resource_kind \<Rightarrow> string \<Rightarrow> string \<Rightarrow> string \<Rightarrow> sensitivity \<Rightarrow> timestamp \<Rightarrow> resource" where
  "new_resource i kind label locator canonical sens now =
     \<lparr>res_id = i, res_kind = kind, res_label = label, res_locator = locator,
      res_canonical_locator = canonical, res_sensitivity = sens, res_scope = Exact,
      res_created_at = now, res_updated_at = now\<rparr>"

text \<open>The end of \<open>resource_create_response\<close>, from the reading of the clock on.\<close>

definition create_file_resource ::
    "('u, 'z) core_env_scheme \<Rightarrow> uuid \<Rightarrow> resource_create_request \<Rightarrow> resource_kind \<Rightarrow> string \<Rightarrow>
     response_envelope io" where
  "create_file_resource E i payload kind target =
     ibind (now_utc E) (\<lambda>now.
     ibind (new_v4 E) (\<lambda>rid.
       let r = new_resource rid kind (rc_label payload) (rc_path payload) (ce_lossy E target)
                 (rc_sensitivity payload) now
       in case resource_validate (ce_url E) r of
            Inl err \<Rightarrow> iret (response_error i ''invalid_resource'' (resource_error_text err))
          | Inr _ \<Rightarrow> attempt (on_storage (handle_create_resource E r))
              (\<lambda>err. iret (if err = DuplicateResource
                 then response_error i ''duplicate_resource''
                        ''a resource with the same canonical path already exists''
                 else storage_error_response i err))
              (\<lambda>stored. iret (response_ok i (ResourceCreated stored)))))"

definition resource_create_response ::
    "('u, 'z) core_env_scheme \<Rightarrow> uuid \<Rightarrow> resource_create_request \<Rightarrow> response_envelope io" where
  "resource_create_response E i payload =
     (let path = rc_path payload; invalid = (\<lambda>m. iret (response_error i ''invalid_resource'' m))
      in if \<not> path_is_absolute path \<or> 4096 < length path \<or>
            list_ex (\<lambda>b. byte_val b = 0 \<or> byte_val b < 32) path
         then invalid ''resource path must be an absolute existing path''
         else ibind (fs_metadata E path) (\<lambda>metadata.
           if metadata = None then invalid ''resource path does not exist''
           else ibind (fs_canonicalize E path) (\<lambda>canonical.
             case canonical of None \<Rightarrow> invalid ''resource path cannot be canonicalized''
             | Some target \<Rightarrow>
               (case metadata of
                  Some RegularFile \<Rightarrow> create_file_resource E i payload File target
                | Some DirectoryFile \<Rightarrow> create_file_resource E i payload Directory target
                | _ \<Rightarrow> invalid ''resource must be a file or directory''))))"

section \<open>Enabling an observation\<close>

text \<open>
  The two handlers share the step that creates the resource or finds the one that is there already.
\<close>

definition create_or_find_resource ::
    "('u, 'z) core_env_scheme \<Rightarrow> uuid \<Rightarrow> resource \<Rightarrow> string \<Rightarrow> (resource \<Rightarrow> response_envelope io) \<Rightarrow>
     response_envelope io" where
  "create_or_find_resource E i candidate conflict f =
     attempt (on_storage (handle_create_resource E candidate))
       (\<lambda>err. if err = DuplicateResource
         then attempt (on_storage (handle_list_resources E))
           (\<lambda>e. iret (storage_error_response i e))
           (\<lambda>resources.
             case find (\<lambda>r. res_kind r = res_kind candidate \<and>
                            res_canonical_locator r = res_canonical_locator candidate) resources of
               Some r \<Rightarrow> f r
             | None \<Rightarrow> iret (response_error i ''invalid_resource'' conflict))
         else iret (storage_error_response i err))
       f"

definition new_scope :: "uuid \<Rightarrow> observation_source \<Rightarrow> uuid \<Rightarrow> timestamp \<Rightarrow> observation_scope" where
  "new_scope i source rid now =
     \<lparr>obs_id = i, obs_source = source, obs_resource_id = rid, obs_status = ObsActive,
      obs_created_at = now, obs_updated_at = now\<rparr>"

definition browser_observation_enable_response ::
    "('u, 'z) core_env_scheme \<Rightarrow> uuid \<Rightarrow> string \<Rightarrow> string \<Rightarrow> response_envelope io" where
  "browser_observation_enable_response E i label url =
     (case canonicalize_web_url (ce_url E) url of
        Inl _ \<Rightarrow> iret (response_error i ''invalid_resource'' ''invalid web URL'')
      | Inr canonical \<Rightarrow>
          ibind (now_utc E) (\<lambda>now.
          ibind (new_v4 E) (\<lambda>rid.
            let candidate = new_resource rid WebPage label canonical canonical SensNormal now
            in if \<not> is_ok (resource_validate (ce_url E) candidate)
               then iret (response_error i ''invalid_resource'' ''invalid web resource'')
               else create_or_find_resource E i candidate ''web resource conflict'' (\<lambda>resource.
                 ibind (new_v4 E) (\<lambda>sid.
                 attempt (on_storage (handle_ensure_observation_scope E
                     (new_scope sid BrowserChromium (res_id resource) now)))
                   (\<lambda>e. iret (storage_error_response i e))
                   (\<lambda>scope.
                     case web_origin_pattern (ce_url E) canonical of
                       Inl _ \<Rightarrow> iret (response_error i ''invalid_resource'' ''invalid web origin'')
                     | Inr pat \<Rightarrow> iret (response_ok i (BrowserObservationEnabled
                         \<lparr>boe_resource = resource, boe_scope = scope,
                          boe_canonical_url_hash = canonical_web_url_hash (ce_sha256 E) canonical,
                          boe_origin_pattern = pat\<rparr>))))))))"

definition vscode_observation_enable_response ::
    "('u, 'z) core_env_scheme \<Rightarrow> uuid \<Rightarrow> string \<Rightarrow> string \<Rightarrow> response_envelope io" where
  "vscode_observation_enable_response E i label path =
     (let invalid = (\<lambda>m. iret (response_error i ''invalid_resource'' m))
      in if \<not> path_is_absolute path then invalid ''workspace path must be absolute''
         else ibind (fs_canonicalize E path) (\<lambda>canonical.
           case canonical of None \<Rightarrow> invalid ''workspace path cannot be canonicalized''
           | Some target \<Rightarrow>
             ibind (path_is_dir E target) (\<lambda>dir.
             if \<not> dir then invalid ''workspace must be a directory''
             else ibind (now_utc E) (\<lambda>now.
             ibind (new_v4 E) (\<lambda>rid.
               let candidate = new_resource rid Directory label path (ce_lossy E target) SensNormal now
               in if \<not> is_ok (resource_validate (ce_url E) candidate)
                  then invalid ''invalid workspace resource''
                  else create_or_find_resource E i candidate ''workspace conflict'' (\<lambda>resource.
                    ibind (new_v4 E) (\<lambda>sid.
                    attempt (on_storage (handle_ensure_observation_scope E
                        (new_scope sid VscodeWorkspace (res_id resource) now)))
                      (\<lambda>e. iret (storage_error_response i e))
                      (\<lambda>scope. iret (response_ok i (VscodeObservationEnabled
                         \<lparr>voe_resource = resource, voe_scope = scope,
                          voe_canonical_path_hash = canonical_web_url_hash (ce_sha256 E)
                            (''file://'' @ res_canonical_locator resource)\<rparr>))))))))))"

end
