(* ===== verification/Fubun_Rituals.thy ===== *)
theory Fubun_Rituals
  imports Fubun_Core
begin

text \<open>
  The ritual handlers of \<open>crates/fubun-core/src/lib.rs\<close> that do not execute anything: create, update,
  show, preview, activate and pause, and the \<open>preflight\<close> of a run.
\<close>

section \<open>Create and update\<close>

definition MAX_RITUAL_JSON_BYTES :: nat where
  "MAX_RITUAL_JSON_BYTES = 128 * 1024"

fun policy_check :: "action_spec list \<Rightarrow> policy_error + unit" where
  "policy_check [] = Inr ()"
| "policy_check (a # as) = and_then (validate_action a) (\<lambda>_. policy_check as)"

definition validate_ritual_definition ::
    "('u, 'z) core_env_scheme \<Rightarrow> ritual_definition \<Rightarrow> string + string" where
  "validate_ritual_definition E d =
     and_then (map_err ritual_error_text (ritual_validate d)) (\<lambda>_.
     and_then (map_err policy_error_text (policy_check (def_actions d))) (\<lambda>_.
     and_then (ok_or ''ritual JSON could not be canonicalized'' (se_ritual_json E d)) (\<lambda>canonical.
       if MAX_RITUAL_JSON_BYTES < length canonical
       then Inl ''ritual JSON exceeds the size limit'' else Inr canonical)))"

definition new_version ::
    "uuid \<Rightarrow> uuid \<Rightarrow> u32 \<Rightarrow> string \<Rightarrow> string \<Rightarrow> timestamp \<Rightarrow> ritual_version" where
  "new_version i ritual_id number canonical hash now =
     \<lparr>ver_id = i, ver_ritual_id = ritual_id, ver_version = number,
      ver_schema_version = RITUAL_SCHEMA_VERSION, ver_canonical_json = canonical,
      ver_content_hash = hash, ver_created_at = now\<rparr>"

text \<open>\<open>u32::saturating_add(1)\<close>.\<close>

definition saturating_succ :: "u32 \<Rightarrow> u32" where
  "saturating_succ w = (if w = - 1 then w else w + 1)"

definition ritual_create_response ::
    "('u, 'z) core_env_scheme \<Rightarrow> uuid \<Rightarrow> ritual_definition \<Rightarrow> response_envelope io" where
  "ritual_create_response E i d =
     (case validate_ritual_definition E d of
        Inl message \<Rightarrow> iret (response_error i ''invalid_ritual'' message)
      | Inr canonical \<Rightarrow>
          (case content_hash (se_ritual_json E) (ce_sha256 E) d of
             None \<Rightarrow> iret (response_error i ''invalid_ritual'' ''ritual hash could not be computed'')
           | Some hash \<Rightarrow>
               ibind (now_utc E) (\<lambda>now.
               ibind (new_v4 E) (\<lambda>ritual_id.
               ibind (new_v4 E) (\<lambda>version_id.
               let v = new_version version_id ritual_id 1 canonical hash now;
                   r = \<lparr>rit_id = ritual_id, rit_name = def_name d, rit_status = RitualDraft,
                        rit_current_version_id = ver_id v, rit_created_at = now, rit_updated_at = now\<rparr>
               in attempt (on_storage (handle_create_ritual E r v d))
                    (\<lambda>e. iret (storage_error_response i e))
                    (\<lambda>(r, v, d). iret (response_ok i (RitualCreated
                       \<lparr>rec_ritual = r, rec_version = v, rec_definition = d\<rparr>))))))))"

definition ritual_update_response ::
    "('u, 'z) core_env_scheme \<Rightarrow> uuid \<Rightarrow> uuid \<Rightarrow> ritual_definition \<Rightarrow> response_envelope io" where
  "ritual_update_response E i ritual_id d =
     (case validate_ritual_definition E d of
        Inl message \<Rightarrow> iret (response_error i ''invalid_ritual'' message)
      | Inr canonical \<Rightarrow>
          (case content_hash (se_ritual_json E) (ce_sha256 E) d of
             None \<Rightarrow> iret (response_error i ''invalid_ritual'' ''ritual hash could not be computed'')
           | Some hash \<Rightarrow>
               attempt (on_storage (handle_get_ritual E ritual_id))
                 (not_found_or i ''ritual_not_found'' ''ritual was not found'')
                 (\<lambda>(old, current, _).
                   ibind (now_utc E) (\<lambda>now.
                   ibind (new_v4 E) (\<lambda>version_id.
                   let v = new_version version_id ritual_id (saturating_succ (ver_version current)) canonical hash now;
                       r = old\<lparr>rit_name := def_name d, rit_status := RitualDraft,
                               rit_current_version_id := ver_id v, rit_updated_at := now\<rparr>
                   in attempt (on_storage (handle_update_ritual E r v d))
                        (\<lambda>e. iret (storage_error_response i e))
                        (\<lambda>(r, v, d). iret (response_ok i (RitualUpdated
                           \<lparr>rec_ritual = r, rec_version = v, rec_definition = d\<rparr>))))))))"

definition ritual_show_response ::
    "('u, 'z) core_env_scheme \<Rightarrow> uuid \<Rightarrow> uuid \<Rightarrow> response_envelope io" where
  "ritual_show_response E i ritual_id =
     attempt (on_storage (handle_get_ritual E ritual_id))
       (not_found_or i ''ritual_not_found'' ''ritual was not found'')
       (\<lambda>(r, v, d). iret (response_ok i (RitualShown \<lparr>rec_ritual = r, rec_version = v, rec_definition = d\<rparr>)))"

section \<open>Preview\<close>

fun eligibility_warning :: "eligibility_error \<Rightarrow> string" where
  "eligibility_warning EligUnavailable = ''no adapter is connected''"
| "eligibility_warning Ineligible = ''no single adapter instance satisfies the action requirements''"

text \<open>The output of \<open>{:?}\<close> for the three enums of a descriptor.\<close>

fun risk_level_debug :: "risk_level \<Rightarrow> string" where
  "risk_level_debug R0 = ''R0''" | "risk_level_debug R1 = ''R1''"
| "risk_level_debug R2 = ''R2''" | "risk_level_debug R3 = ''R3''"

fun idempotency_debug :: "idempotency \<Rightarrow> string" where
  "idempotency_debug Idempotent = ''Idempotent''"
| "idempotency_debug BestEffort = ''BestEffort''"
| "idempotency_debug NonIdempotent = ''NonIdempotent''"

fun revertability_debug :: "revertability \<Rightarrow> string" where
  "revertability_debug NoStateChange = ''NoStateChange''"
| "revertability_debug PartiallyRevertable = ''PartiallyRevertable''"
| "revertability_debug NotRevertable = ''NotRevertable''"

text \<open>The optional findings about one action, and its warnings.\<close>

record action_findings =
  fnd_exists :: "bool option"
  fnd_path_matches :: "bool option"
  fnd_kind_matches :: "bool option"
  fnd_desktop_entry :: "bool option"
  fnd_warnings :: "string list"

definition no_findings :: action_findings where
  "no_findings = \<lparr>fnd_exists = None, fnd_path_matches = None, fnd_kind_matches = None,
     fnd_desktop_entry = None, fnd_warnings = []\<rparr>"

definition warn_unless :: "bool option \<Rightarrow> string \<Rightarrow> string list" where
  "warn_unless x message = (if x = Some True then [] else [message])"

text \<open>\<open>metadata.is_file()\<close> and \<open>is_dir()\<close> against the kind of the resource.\<close>

definition kind_of_metadata_matches :: "file_kind option \<Rightarrow> resource_kind \<Rightarrow> bool" where
  "kind_of_metadata_matches m kind =
     (case m of Some RegularFile \<Rightarrow> kind = File | Some DirectoryFile \<Rightarrow> kind = Directory | _ \<Rightarrow> False)"

text \<open>\<open>fs::canonicalize(path).map(|value| value.to_string_lossy() == locator).unwrap_or(false)\<close>.\<close>

definition canonical_path_is :: "('u, 'z) core_env_scheme \<Rightarrow> string \<Rightarrow> bool io" where
  "canonical_path_is E path =
     ibind (fs_canonicalize E path) (\<lambda>c. iret (case c of None \<Rightarrow> False | Some t \<Rightarrow> ce_lossy E t = path))"

definition and_io :: "bool io \<Rightarrow> bool io \<Rightarrow> bool io" where
  "and_io a b = ibind a (\<lambda>x. if x then b else iret False)"

definition path_findings :: "('u, 'z) core_env_scheme \<Rightarrow> uuid \<Rightarrow> action_findings io" where
  "path_findings E rid =
     attempt (on_storage (handle_get_resource E rid))
       (\<lambda>_. iret (no_findings\<lparr>fnd_warnings := [''resource was not found'']\<rparr>))
       (\<lambda>r. let path = res_canonical_locator r in
         ibind (path_exists E path) (\<lambda>present.
         ibind (and_io (path_exists E path) (canonical_path_is E path)) (\<lambda>same.
         ibind (and_io (path_exists E path)
            (ibind (fs_metadata E path) (\<lambda>m. iret (kind_of_metadata_matches m (res_kind r))))) (\<lambda>kind.
           iret \<lparr>fnd_exists = Some present, fnd_path_matches = Some same, fnd_kind_matches = Some kind,
                 fnd_desktop_entry = None,
                 fnd_warnings = warn_unless (Some present) ''resource does not exist'' @
                   warn_unless (Some same) ''resource canonical path changed'' @
                   warn_unless (Some kind) ''resource type changed''\<rparr>))))"

definition canonical_url_is :: "('u, 'z) core_env_scheme \<Rightarrow> string \<Rightarrow> bool" where
  "canonical_url_is E s = (case canonicalize_web_url (ce_url E) s of Inl _ \<Rightarrow> False | Inr v \<Rightarrow> v = s)"

definition web_findings ::
    "('u, 'z) core_env_scheme \<Rightarrow> uuid \<Rightarrow> ((string \<times> string) + action_findings) io" where
  "web_findings E rid =
     attempt (on_storage (handle_get_resource E rid))
       (\<lambda>_. iret (Inr (no_findings\<lparr>fnd_exists := Some False, fnd_warnings := [''resource was not found'']\<rparr>)))
       (\<lambda>r. let kind = (res_kind r = WebPage);
                same = (res_kind r = WebPage \<and> canonical_url_is E (res_canonical_locator r))
            in try_map (on_storage (handle_list_observation_scopes E (Some BrowserChromium)))
                 (\<lambda>_. (''internal_error'', ''observation scope lookup failed''))
                 (\<lambda>scopes. iret (Inr
                   \<lparr>fnd_exists = Some True, fnd_path_matches = Some same, fnd_kind_matches = Some kind,
                    fnd_desktop_entry = None,
                    fnd_warnings = warn_unless (Some kind) ''resource is not a web page'' @
                      warn_unless (Some same) ''web resource canonical URL is invalid'' @
                      (if list_ex (\<lambda>s. obs_resource_id s = rid \<and> obs_status s = ObsActive) scopes then []
                       else [''browser observation scope is not active''])\<rparr>)))"

fun action_findings_of ::
    "('u, 'z) core_env_scheme \<Rightarrow> bool \<Rightarrow> action_spec \<Rightarrow> ((string \<times> string) + action_findings) io" where
  "action_findings_of E eligible (LinuxPathOpen rid) = ibind (path_findings E rid) (\<lambda>f. iret (Inr f))"
| "action_findings_of E eligible (LinuxAppEnsureRunning _) =
     iret (Inr (no_findings\<lparr>fnd_desktop_entry := Some eligible,
       fnd_warnings := warn_unless (Some eligible) ''desktop entry was not found on an eligible adapter''\<rparr>))"
| "action_findings_of E eligible (DesktopNotificationShow _ _) = iret (Inr no_findings)"
| "action_findings_of E eligible (BrowserTabEnsureOpen rid) = web_findings E rid"

text \<open>The body of the loop of \<open>build_preview\<close>: the entry and the warnings of one action.\<close>

definition preview_step ::
    "('u, 'z) core_env_scheme \<Rightarrow> nat \<Rightarrow> action_spec \<Rightarrow> ((string \<times> string) + preview_action \<times> string list) io" where
  "preview_step E index action =
     (let d = descriptor action; req = requirements_from_action action in
      ibind (adapters_find_eligible E req) (\<lambda>found.
      let eligible = is_ok found;
          w0 = (case found of Inl e \<Rightarrow> [eligibility_warning e] | Inr _ \<Rightarrow> [])
      in try_map (action_findings_of E eligible action) (\<lambda>e. e) (\<lambda>f.
        let ws = w0 @ fnd_warnings f @
                 (if is_ok (action_validate action) then [] else [''action validation failed''])
        in iret (Inr
          (\<lparr>pa_step_index = word_of_nat index, pa_action_type = dsc_action_type d,
            pa_risk_level = risk_level_debug (dsc_risk_level d),
            pa_idempotency = idempotency_debug (dsc_idempotency d),
            pa_revertability = revertability_debug (dsc_revertability d),
            pa_required_capability = dsc_required_capability d,
            pa_adapter_connected = eligible,
            pa_required_tool_available = map_option (\<lambda>_. eligible) (req_required_tool req),
            pa_resource_exists = fnd_exists f, pa_resource_path_matches = fnd_path_matches f,
            pa_resource_kind_matches = fnd_kind_matches f,
            pa_desktop_entry_exists = fnd_desktop_entry f,
            pa_warning = (case ws of [] \<Rightarrow> None | w # _ \<Rightarrow> Some w)\<rparr>,
           map (\<lambda>m. ''action '' @ decimal (index + 1) @ '': '' @ m) ws)))))"

fun preview_actions ::
    "('u, 'z) core_env_scheme \<Rightarrow> nat \<Rightarrow> action_spec list \<Rightarrow>
     ((string \<times> string) + preview_action list \<times> string list) io" where
  "preview_actions E index [] = iret (Inr ([], []))"
| "preview_actions E index (a # as) =
     try_map (preview_step E index a) (\<lambda>e. e) (\<lambda>(p, ws).
     try_map (preview_actions E (index + 1) as) (\<lambda>e. e) (\<lambda>(ps, ws').
       iret (Inr (p # ps, ws @ ws'))))"

definition build_preview ::
    "('u, 'z) core_env_scheme \<Rightarrow> ritual \<Rightarrow> ritual_version \<Rightarrow> ritual_definition \<Rightarrow>
     ((string \<times> string) + ritual_preview) io" where
  "build_preview E r v d =
     try_map (preview_actions E 0 (def_actions d)) (\<lambda>e. e) (\<lambda>(ps, ws).
       iret (Inr \<lparr>prv_ritual_id = rit_id r, prv_ritual_version_id = ver_id v, prv_actions = ps,
         prv_timeout_seconds = cfg_timeout_seconds (def_execution d), prv_warnings = ws,
         prv_executable = (ws = [])\<rparr>))"

definition ritual_preview_response ::
    "('u, 'z) core_env_scheme \<Rightarrow> uuid \<Rightarrow> uuid \<Rightarrow> response_envelope io" where
  "ritual_preview_response E i ritual_id =
     attempt (on_storage (handle_get_ritual E ritual_id))
       (not_found_or i ''ritual_not_found'' ''ritual was not found'')
       (\<lambda>(r, v, d). attempt (build_preview E r v d)
          (\<lambda>(code, message). iret (response_error i code message))
          (\<lambda>p. iret (response_ok i (RitualPreviewed p))))"

section \<open>Activate and pause\<close>

text \<open>The approval of one action of a version.\<close>

definition approval_of ::
    "uuid \<Rightarrow> ritual_version \<Rightarrow> timestamp \<Rightarrow> action_spec \<Rightarrow> approval" where
  "approval_of i v now action =
     (let f = approval_fields action
      in \<lparr>apr_id = i, apr_ritual_version_id = ver_id v, apr_action_type = apf_action_type f,
          apr_capability = apf_capability f, apr_resource_id = apf_resource_id f,
          apr_app_id = apf_app_id f, apr_content_hash = ver_content_hash v, apr_approved_at = now\<rparr>)"

fun approvals_for ::
    "('u, 'z) core_env_scheme \<Rightarrow> ritual_version \<Rightarrow> timestamp \<Rightarrow> action_spec list \<Rightarrow> approval list io" where
  "approvals_for E v now [] = iret []"
| "approvals_for E v now (a # as) =
     ibind (new_v4 E) (\<lambda>i. ibind (approvals_for E v now as) (\<lambda>rest. iret (approval_of i v now a # rest)))"

definition ritual_activate_response ::
    "('u, 'z) core_env_scheme \<Rightarrow> uuid \<Rightarrow> uuid \<Rightarrow> bool \<Rightarrow> response_envelope io" where
  "ritual_activate_response E i ritual_id approve =
     (if \<not> approve then iret (response_error i ''approval_required'' ''activation requires --approve'')
      else attempt (on_storage (handle_get_ritual E ritual_id))
        (not_found_or i ''ritual_not_found'' ''ritual was not found'')
        (\<lambda>(r, v, d). attempt (build_preview E r v d)
          (\<lambda>(code, message). iret (response_error i code message))
          (\<lambda>p. if \<not> prv_executable p
            then iret (response_error i ''preflight_failed'' ''ritual preview contains blocking warnings'')
            else ibind (now_utc E) (\<lambda>now.
              ibind (approvals_for E v now (def_actions d)) (\<lambda>as.
              attempt (on_storage (handle_create_approvals E as))
                (\<lambda>e. iret (storage_error_response i e))
                (\<lambda>_. attempt (on_storage (handle_set_ritual_status E ritual_id RitualActive))
                  (\<lambda>e. iret (storage_error_response i e))
                  (\<lambda>_. iret (response_ok i (RitualActivated (r\<lparr>rit_status := RitualActive\<rparr>))))))))))"

definition ritual_pause_response ::
    "('u, 'z) core_env_scheme \<Rightarrow> uuid \<Rightarrow> uuid \<Rightarrow> response_envelope io" where
  "ritual_pause_response E i ritual_id =
     attempt (on_storage (handle_get_ritual E ritual_id))
       (not_found_or i ''ritual_not_found'' ''ritual was not found'')
       (\<lambda>(r, _, _).
         if rit_status r = RitualArchived
         then iret (response_error i ''ritual_archived'' ''archived rituals cannot be paused'')
         else attempt (on_storage (handle_set_ritual_status E ritual_id RitualPaused))
           (\<lambda>e. iret (storage_error_response i e))
           (\<lambda>_. iret (response_ok i (RitualPausedPayload (r\<lparr>rit_status := RitualPaused\<rparr>)))))"

section \<open>Preflight\<close>

fun preflight_eligibility_error :: "eligibility_error \<Rightarrow> string \<times> string" where
  "preflight_eligibility_error EligUnavailable = (''adapter_unavailable'', ''no adapter is connected'')"
| "preflight_eligibility_error Ineligible =
     (''capability_unavailable'', ''no single adapter instance satisfies the action requirements'')"

definition approval_covers :: "ritual_version \<Rightarrow> action_spec \<Rightarrow> approval \<Rightarrow> bool" where
  "approval_covers v action a =
     (let f = approval_fields action
      in apr_ritual_version_id a = ver_id v \<and> apr_content_hash a = ver_content_hash v \<and>
         apr_action_type a = apf_action_type f \<and> apr_capability a = apf_capability f \<and>
         apr_resource_id a = apf_resource_id f \<and> apr_app_id a = apf_app_id f)"

definition preflight_path ::
    "('u, 'z) core_env_scheme \<Rightarrow> uuid \<Rightarrow> ((string \<times> string) + unit) io" where
  "preflight_path E rid =
     try_map (on_storage (handle_get_resource E rid)) (\<lambda>_. (''resource_not_found'', ''resource was not found'')) (\<lambda>r.
     let path = res_canonical_locator r in
     ibind (path_exists E path) (\<lambda>present.
     if \<not> present then iret (Inl (''resource_changed'', ''resource no longer exists''))
     else ibind (canonical_path_is E path) (\<lambda>same.
       if \<not> same then iret (Inl (''resource_changed'', ''resource canonical path changed''))
       else ibind (fs_metadata E path) (\<lambda>m.
         if \<not> kind_of_metadata_matches m (res_kind r)
         then iret (Inl (''resource_changed'', ''resource type changed''))
         else iret (Inr ())))))"

definition preflight_web ::
    "('u, 'z) core_env_scheme \<Rightarrow> uuid \<Rightarrow> ((string \<times> string) + unit) io" where
  "preflight_web E rid =
     try_map (on_storage (handle_get_resource E rid)) (\<lambda>_. (''resource_not_found'', ''web resource was not found'')) (\<lambda>r.
     if res_kind r \<noteq> WebPage \<or> \<not> canonical_url_is E (res_canonical_locator r)
     then iret (Inl (''resource_changed'', ''web resource canonical URL changed''))
     else try_map (on_storage (handle_list_observation_scopes E (Some BrowserChromium)))
       (\<lambda>_. (''internal_error'', ''observation scope lookup failed'')) (\<lambda>scopes.
       if list_ex (\<lambda>s. obs_resource_id s = rid \<and> obs_status s = ObsActive) scopes then iret (Inr ())
       else iret (Inl (''observation_inactive'', ''browser observation scope is not active''))))"

fun preflight_target ::
    "('u, 'z) core_env_scheme \<Rightarrow> action_spec \<Rightarrow> ((string \<times> string) + unit) io" where
  "preflight_target E (LinuxPathOpen rid) = preflight_path E rid"
| "preflight_target E (LinuxAppEnsureRunning _) = iret (Inr ())"
| "preflight_target E (DesktopNotificationShow _ _) = iret (Inr ())"
| "preflight_target E (BrowserTabEnsureOpen rid) = preflight_web E rid"

text \<open>The body of the loop, and the loop.\<close>

definition preflight_action ::
    "('u, 'z) core_env_scheme \<Rightarrow> ritual_version \<Rightarrow> approval list \<Rightarrow> action_spec \<Rightarrow>
     ((string \<times> string) + unit) io" where
  "preflight_action E v approvals action =
     (if \<not> is_ok (action_validate action)
      then iret (Inl (''invalid_ritual'', ''action validation failed''))
      else if \<not> is_ok (validate_action action)
      then iret (Inl (''unknown_action'', ''action is not registered''))
      else try_map (adapters_find_eligible E (requirements_from_action action)) preflight_eligibility_error (\<lambda>_.
        if \<not> list_ex (approval_covers v action) approvals
        then iret (Inl (''ritual_not_approved'', ''ritual version approval is missing or stale''))
        else preflight_target E action))"

fun preflight_actions ::
    "('u, 'z) core_env_scheme \<Rightarrow> ritual_version \<Rightarrow> approval list \<Rightarrow> action_spec list \<Rightarrow>
     ((string \<times> string) + unit) io" where
  "preflight_actions E v approvals [] = iret (Inr ())"
| "preflight_actions E v approvals (a # as) =
     try_map (preflight_action E v approvals a) (\<lambda>e. e) (\<lambda>_. preflight_actions E v approvals as)"

definition preflight ::
    "('u, 'z) core_env_scheme \<Rightarrow> ritual_version \<Rightarrow> ritual_definition \<Rightarrow> ((string \<times> string) + unit) io" where
  "preflight E v d =
     try_map (on_storage (handle_list_approvals E (ver_id v))) (\<lambda>_. (''internal_error'', ''approval lookup failed''))
       (\<lambda>approvals. preflight_actions E v approvals (def_actions d))"

end
