(* ===== verification/Fubun_Execute.thy ===== *)
theory Fubun_Execute
  imports Fubun_Rituals
begin

text \<open>
  The execution of a ritual in \<open>crates/fubun-core/src/lib.rs\<close>: \<open>ritual_run_response\<close>,
  \<open>execute_steps\<close> and what they call. The steps are a list that the code updates by index.
\<close>

section \<open>Messages\<close>

definition redact_message :: "string \<Rightarrow> string" where
  "redact_message message = concat (take 160 (filter (\<lambda>c. \<not> char_is_control c) (chars message)))"

section \<open>The end of an execution\<close>

definition step_unfinished :: "execution_step \<Rightarrow> bool" where
  "step_unfinished s = (stp_status s \<in> {StepPending, StepRunning})"

definition step_terminal :: "execution_step \<Rightarrow> bool" where
  "step_terminal s = (stp_status s \<in> {StepSucceeded, StepSkipped, StepFailed, StepAborted})"

definition terminal_step_invariant :: "execution_status \<Rightarrow> execution_step list \<Rightarrow> bool" where
  "terminal_step_invariant status steps =
     (if status \<notin> {ExecSucceeded, ExecFailed, ExecPartial, ExecAborted} then True
      else list_all step_terminal steps)"

definition step_error :: "string \<Rightarrow> storage_error \<Rightarrow> string \<times> string" where
  "step_error message e = (''internal_error'', message)"

definition aborted_step :: "timestamp \<Rightarrow> string \<Rightarrow> string \<Rightarrow> execution_step \<Rightarrow> execution_step" where
  "aborted_step finished code message s =
     s\<lparr>stp_status := StepAborted, stp_finished_at := Some finished, stp_result_code := Some code,
       stp_redacted_message := Some message\<rparr>"

fun finalize_unfinished_steps ::
    "('u, 'z) core_env_scheme \<Rightarrow> timestamp \<Rightarrow> string \<Rightarrow> string \<Rightarrow> execution_step list \<Rightarrow>
     ((string \<times> string) + execution_step list) io" where
  "finalize_unfinished_steps E finished code message [] = iret (Inr [])"
| "finalize_unfinished_steps E finished code message (s # steps) =
     (if step_unfinished s
      then let s' = aborted_step finished code message s in
           try_map (on_storage (handle_update_step E s')) (step_error ''execution step could not be finalized'') (\<lambda>_.
           try_map (finalize_unfinished_steps E finished code message steps) (\<lambda>e. e) (\<lambda>rest.
             iret (Inr (s' # rest))))
      else try_map (finalize_unfinished_steps E finished code message steps) (\<lambda>e. e) (\<lambda>rest.
             iret (Inr (s # rest))))"

section \<open>The loop over the actions\<close>

text \<open>The variables of \<open>execute_steps\<close> that the loop changes.\<close>

record run_state =
  run_execution :: execution
  run_steps :: "execution_step list"
  run_successful :: nat

definition failed_status :: "nat \<Rightarrow> execution_status" where
  "failed_status successful = (if successful = 0 then ExecFailed else ExecPartial)"

definition status_of_result :: "adapter_action_status \<Rightarrow> execution_step_status" where
  "status_of_result s =
     (case s of AdapterSucceeded \<Rightarrow> StepSucceeded | AdapterSkipped \<Rightarrow> StepSkipped | AdapterFailed \<Rightarrow> StepFailed)"

definition set_step :: "nat \<Rightarrow> execution_step \<Rightarrow> run_state \<Rightarrow> run_state" where
  "set_step index s r = r\<lparr>run_steps := (run_steps r)[index := s]\<rparr>"

definition set_failure :: "string \<Rightarrow> run_state \<Rightarrow> run_state" where
  "set_failure code r = r\<lparr>run_execution := (run_execution r)\<lparr>exe_failure_code := Some code\<rparr>\<rparr>"

definition set_status :: "execution_status \<Rightarrow> run_state \<Rightarrow> run_state" where
  "set_status status r = r\<lparr>run_execution := (run_execution r)\<lparr>exe_status := status\<rparr>\<rparr>"

text \<open>The resource that is sent with the action.\<close>

fun resolve_resource ::
    "('u, 'z) core_env_scheme \<Rightarrow> action_spec \<Rightarrow> ((string \<times> string) + resolved_resource option) io" where
  "resolve_resource E (LinuxPathOpen rid) =
     try_map (on_storage (handle_get_resource E rid)) (\<lambda>_. (''resource_not_found'', ''resource was not found''))
       (\<lambda>r. iret (Inr (Some \<lparr>rr_resource_id = rid, rr_kind = res_kind r,
                             rr_canonical_locator = res_canonical_locator r\<rparr>)))"
| "resolve_resource E (BrowserTabEnsureOpen rid) =
     try_map (on_storage (handle_get_resource E rid)) (\<lambda>_. (''resource_not_found'', ''resource was not found''))
       (\<lambda>r. iret (Inr (Some \<lparr>rr_resource_id = rid, rr_kind = res_kind r,
                             rr_canonical_locator = res_canonical_locator r\<rparr>)))"
| "resolve_resource E _ = iret (Inr None)"

definition save_step ::
    "('u, 'z) core_env_scheme \<Rightarrow> execution_step \<Rightarrow> ((string \<times> string) + unit) io" where
  "save_step E s =
     try_map (on_storage (handle_update_step E s)) (step_error ''execution step could not be updated'')
       (\<lambda>_. iret (Inr ()))"

text \<open>Durations and instants are integers, in nanoseconds.\<close>

definition default_timeout :: "action_spec \<Rightarrow> int" where
  "default_timeout action = uint (dsc_default_timeout_ms (descriptor action)) * 1000000"

text \<open>
  The \<open>match\<close> on the result of the dispatch: the new variables, and whether the loop breaks.
\<close>

definition after_dispatch ::
    "('u, 'z) core_env_scheme \<Rightarrow> nat \<Rightarrow> bool \<Rightarrow> timestamp \<Rightarrow> dispatched_error + dispatched_result \<Rightarrow> run_state \<Rightarrow>
     ((string \<times> string) + bool \<times> run_state) io" where
  "after_dispatch E index deadline_bound finished result r =
     (let s = run_steps r ! index in
      case result of
        Inr d \<Rightarrow>
          (let a = dar_result d;
               s' = s\<lparr>stp_adapter_id := Some (ea_adapter_id (dar_identity d)),
                      stp_adapter_instance_id := Some (ea_instance_id (dar_identity d)),
                      stp_status := status_of_result (ar_status a),
                      stp_result_code := Some (ar_result_code a),
                      stp_redacted_message := Some (redact_message (ar_redacted_message a)),
                      stp_finished_at := Some finished\<rparr>;
               r' = set_step index s' r
           in try_map (save_step E s') (\<lambda>e. e) (\<lambda>_.
              if stp_status s' \<in> {StepSucceeded, StepSkipped}
              then iret (Inr (False, r'\<lparr>run_successful := run_successful r' + 1\<rparr>))
              else iret (Inr (True, set_failure ''action_failed'' (set_status (failed_status (run_successful r')) r')))))
      | Inl err \<Rightarrow>
          (let s1 = (case dae_identity err of None \<Rightarrow> s
                     | Some a \<Rightarrow> s\<lparr>stp_adapter_id := Some (ea_adapter_id a),
                                   stp_adapter_instance_id := Some (ea_instance_id a)\<rparr>);
               r1 = set_step index s1 r
           in if dae_kind err = Timeout \<and> deadline_bound
              then iret (Inr (True, set_failure ''ritual_timeout'' r1))
              else let s' = s1\<lparr>stp_status := StepFailed,
                               stp_result_code := Some (dispatch_error_code (dae_kind err)),
                               stp_redacted_message := Some (dispatch_error_message (dae_kind err)),
                               stp_finished_at := Some finished\<rparr>;
                       r' = set_step index s' r1
                   in try_map (save_step E s') (\<lambda>e. e) (\<lambda>_.
                      iret (Inr (True, set_failure (dispatch_error_code (dae_kind err))
                        (set_status (failed_status (run_successful r')) r'))))))"

text \<open>\<open>Instant::saturating_duration_since\<close>.\<close>

definition duration_since :: "int \<Rightarrow> int \<Rightarrow> int" where
  "duration_since deadline instant = max 0 (deadline - instant)"

text \<open>The body of the loop for one action.\<close>

definition execute_action ::
    "('u, 'z) core_env_scheme \<Rightarrow> int \<Rightarrow> nat \<Rightarrow> action_spec \<Rightarrow> run_state \<Rightarrow>
     ((string \<times> string) + bool \<times> run_state) io" where
  "execute_action E deadline index action r =
     ibind (draw (ce_instant E)) (\<lambda>instant.
     let remaining = duration_since deadline instant in
     if remaining = 0 then iret (Inr (True, set_failure ''ritual_timeout'' r))
     else ibind (now_utc E) (\<lambda>started.
       let s = (run_steps r ! index)\<lparr>stp_status := StepRunning, stp_started_at := started\<rparr>;
           r' = set_step index s r
       in try_map (save_step E s) (\<lambda>e. e) (\<lambda>_.
          try_map (resolve_resource E action) (\<lambda>e. e) (\<lambda>resolved.
            ibind (adapters_execute E action resolved (min (default_timeout action) remaining)) (\<lambda>result.
            ibind (now_utc E) (\<lambda>finished.
              after_dispatch E index (remaining \<le> default_timeout action) finished result r'))))))"

fun execute_loop ::
    "('u, 'z) core_env_scheme \<Rightarrow> int \<Rightarrow> nat \<Rightarrow> action_spec list \<Rightarrow> run_state \<Rightarrow>
     ((string \<times> string) + run_state) io" where
  "execute_loop E deadline index [] r = iret (Inr r)"
| "execute_loop E deadline index (a # as) r =
     try_map (execute_action E deadline index a r) (\<lambda>e. e) (\<lambda>(stop, r').
       if stop then iret (Inr r') else execute_loop E deadline (index + 1) as r')"

text \<open>The end of \<open>execute_steps\<close>, once the steps have their final form.\<close>

definition store_outcome ::
    "('u, 'z) core_env_scheme \<Rightarrow> timestamp \<Rightarrow> run_state \<Rightarrow> ((string \<times> string) + execution \<times> execution_step list) io" where
  "store_outcome E t r =
     (let x = (run_execution r)\<lparr>exe_finished_at := Some t\<rparr>; steps = run_steps r
      in if \<not> terminal_step_invariant (exe_status x) steps
         then iret (Inl (''internal_error'', ''terminal execution has a non-terminal step''))
         else try_map (on_storage (handle_update_execution E x)) (step_error ''execution could not be finalized'') (\<lambda>_.
           if exe_status x \<in> {ExecFailed, ExecPartial} \<and> exe_failure_code x = None
           then iret (Inl (''action_failed'', ''execution failed''))
           else iret (Inr (x, steps))))"

text \<open>What follows the loop.\<close>

definition finish_execution ::
    "('u, 'z) core_env_scheme \<Rightarrow> run_state \<Rightarrow> ((string \<times> string) + execution \<times> execution_step list) io" where
  "finish_execution E r0 =
     ibind (now_utc E) (\<lambda>finished.
     try_map
       (if exe_failure_code (run_execution r0) = Some ''ritual_timeout''
        then let r = set_status (failed_status (run_successful r0)) r0 in
             try_map (finalize_unfinished_steps E finished ''ritual_timeout'' ''ritual timed out'' (run_steps r))
               (\<lambda>e. e) (\<lambda>steps. iret (Inr (r\<lparr>run_steps := steps\<rparr>)))
        else if exe_failure_code (run_execution r0) = None then iret (Inr (set_status ExecSucceeded r0))
        else try_map (finalize_unfinished_steps E finished ''stopped_after_failure''
                 ''action was not executed because an earlier action failed'' (run_steps r0))
               (\<lambda>e. e) (\<lambda>steps. iret (Inr (r0\<lparr>run_steps := steps\<rparr>))))
       (\<lambda>e. e)
       (store_outcome E finished))"

definition execute_steps ::
    "('u, 'z) core_env_scheme \<Rightarrow> execution \<Rightarrow> execution_step list \<Rightarrow> ritual_definition \<Rightarrow>
     ((string \<times> string) + execution \<times> execution_step list) io" where
  "execute_steps E x steps d =
     ibind (draw (ce_instant E)) (\<lambda>start.
     let deadline = start + uint (cfg_timeout_seconds (def_execution d)) * 1000000000 in
     try_map (execute_loop E deadline 0 (def_actions d)
         \<lparr>run_execution = x, run_steps = steps, run_successful = 0\<rparr>)
       (\<lambda>e. e) (finish_execution E))"

section \<open>A run\<close>

fun new_steps ::
    "('u, 'z) core_env_scheme \<Rightarrow> uuid \<Rightarrow> timestamp \<Rightarrow> nat \<Rightarrow> action_spec list \<Rightarrow> execution_step list io" where
  "new_steps E xid now index [] = iret []"
| "new_steps E xid now index (a # as) =
     ibind (new_v4 E) (\<lambda>i. ibind (new_steps E xid now (index + 1) as) (\<lambda>rest.
       iret (\<lparr>stp_id = i, stp_execution_id = xid, stp_step_index = word_of_nat index,
              stp_action_type = action_type a, stp_status = StepPending, stp_adapter_id = None,
              stp_adapter_instance_id = None, stp_started_at = now, stp_finished_at = None,
              stp_result_code = None, stp_redacted_message = None\<rparr> # rest)))"

definition not_active_message :: "ritual_status \<Rightarrow> string option" where
  "not_active_message s =
     (case s of RitualActive \<Rightarrow> None
      | RitualDraft \<Rightarrow> Some ''draft rituals must be activated before execution''
      | RitualPaused \<Rightarrow> Some ''paused rituals cannot execute''
      | RitualArchived \<Rightarrow> Some ''archived rituals cannot execute'')"

text \<open>\<open>ritual_run_response\<close> from the reading of the clock on.\<close>

definition start_run ::
    "('u, 'z) core_env_scheme \<Rightarrow> uuid \<Rightarrow> uuid \<Rightarrow> ritual_version \<Rightarrow> ritual_definition \<Rightarrow> response_envelope io" where
  "start_run E i ritual_id v d =
     ibind (now_utc E) (\<lambda>now.
     ibind (new_v4 E) (\<lambda>xid.
     let x = \<lparr>exe_id = xid, exe_ritual_id = ritual_id, exe_ritual_version_id = ver_id v,
              exe_status = ExecRunning, exe_trigger_kind = Manual, exe_started_at = now,
              exe_finished_at = None, exe_failure_code = None, exe_created_at = now\<rparr>
     in ibind (new_steps E xid now 0 (def_actions d)) (\<lambda>steps.
        attempt (on_storage (handle_start_execution E x steps))
          (\<lambda>e. iret (if e = RitualAlreadyRunning
             then response_error i ''ritual_already_running'' ''the ritual already has a running execution''
             else storage_error_response i e))
          (\<lambda>_. attempt (execute_steps E x steps d)
            (\<lambda>(code, message). iret (response_error i code message))
            (\<lambda>(x, steps). iret (response_ok i (RitualRunPayload \<lparr>er_execution = x, er_steps = steps\<rparr>)))))))"

definition ritual_run_response ::
    "('u, 'z) core_env_scheme \<Rightarrow> uuid \<Rightarrow> uuid \<Rightarrow> response_envelope io" where
  "ritual_run_response E i ritual_id =
     attempt (on_storage (handle_get_ritual E ritual_id))
       (not_found_or i ''ritual_not_found'' ''ritual was not found'')
       (\<lambda>(r, v, d).
         case not_active_message (rit_status r) of
           Some message \<Rightarrow> iret (response_error i ''ritual_not_active'' message)
         | None \<Rightarrow> attempt (preflight E v d) (\<lambda>(code, message). iret (response_error i code message))
             (\<lambda>_. start_run E i ritual_id v d))"

end
