(* ===== verification/Fubun_Server.thy ===== *)
theory Fubun_Server
  imports Fubun_Observe Fubun_Execute
begin

text \<open>
  The request dispatcher and the connections of \<open>crates/fubun-core/src/lib.rs\<close>: \<open>process_request\<close>,
  the status handlers, \<open>handle_connection\<close>, \<open>handle_adapter_connection\<close> and the client's side of a
  request. The start and the end of the server are in \<open>Fubun_Lifecycle\<close>.
\<close>

section \<open>Status\<close>

definition status_response :: "('u, 'z) core_env_scheme \<Rightarrow> uuid \<Rightarrow> response_envelope io" where
  "status_response E i =
     attempt (on_storage (handle_schema_version E)) (\<lambda>e. iret (storage_error_response i e)) (\<lambda>v.
       iret (response_ok i (StatusPayload
         \<lparr>sr_daemon = ''ok'', sr_protocol_version = CURRENT_PROTOCOL_VERSION,
          sr_database_status = ''ok'', sr_schema_version = v\<rparr>)))"

text \<open>\<open>unwrap_or_default\<close> on a list.\<close>

definition or_empty :: "('e + 'a list) io \<Rightarrow> 'a list io" where
  "or_empty m = attempt m (\<lambda>_. iret []) iret"

definition active_scopes :: "observation_scope list \<Rightarrow> nat" where
  "active_scopes scopes = length (filter (\<lambda>s. obs_status s = ObsActive) scopes)"

definition connections_now :: "('u, 'z) core_env_scheme \<Rightarrow> (connections \<Rightarrow> 'a) \<Rightarrow> 'a io" where
  "connections_now E f = draw (\<lambda>t. f (mg_connections (ce_manager E t)))"

definition doctor_response :: "('u, 'z) core_env_scheme \<Rightarrow> uuid \<Rightarrow> response_envelope io" where
  "doctor_response E i =
     ibind (on_storage (handle_schema_version E)) (\<lambda>version.
     ibind (on_storage (handle_counts E)) (\<lambda>numbers.
       case (version, numbers) of
         (Inr v, Inr (running, draft, active)) \<Rightarrow>
           ibind (connections_now E (tool_is_available ''gtk-launch'')) (\<lambda>gtk.
           ibind (connections_now E (tool_is_available ''xdg-open'')) (\<lambda>xdg.
           ibind (connections_now E (tool_is_available ''notify-send'')) (\<lambda>notify.
           ibind (connections_now E connected_count) (\<lambda>connected.
           ibind (connections_now E (connected_count_by_id ''dev.fubun.browser.chromium'')) (\<lambda>browsers.
           ibind (connections_now E (connected_count_by_id ''dev.fubun.vscode'')) (\<lambda>vscodes.
           ibind (or_empty (on_storage (handle_list_observation_scopes E (Some BrowserChromium)))) (\<lambda>bscopes.
           ibind (or_empty (on_storage (handle_list_observation_scopes E (Some VscodeWorkspace)))) (\<lambda>vscopes.
             iret (response_ok i (DoctorPayload
               \<lparr>dr_database_path = ce_lossy E (ce_database_path E), dr_database_status = ''ok'',
                dr_schema_version = v, dr_gtk_launch_available = gtk, dr_xdg_open_available = xdg,
                dr_notify_send_available = notify, dr_connected_adapters = connected,
                dr_action_registry_version = ''phase2-fixed-v1'',
                dr_ritual_schema_version = RITUAL_SCHEMA_VERSION,
                dr_running_executions = running, dr_draft_rituals = draft, dr_active_rituals = active,
                dr_browser_adapters = browsers, dr_vscode_adapters = vscodes,
                dr_active_browser_scopes = active_scopes bscopes,
                dr_active_vscode_scopes = active_scopes vscopes\<rparr>))))))))))
       | _ \<Rightarrow> iret (response_error i ''storage_error'' ''database check failed'')))"

text \<open>The arm \<open>RequestBody::IntegrationsStatus\<close>.\<close>

definition reports_of :: "string \<Rightarrow> adapter_report list \<Rightarrow> adapter_report list" where
  "reports_of adapter_id rs = filter (\<lambda>r. rep_adapter_id r = adapter_id) rs"

definition scopes_of :: "observation_source \<Rightarrow> observation_scope list \<Rightarrow> nat" where
  "scopes_of source scopes = length (filter (\<lambda>s. obs_source s = source \<and> obs_status s = ObsActive) scopes)"

definition integrations_response :: "('u, 'z) core_env_scheme \<Rightarrow> uuid \<Rightarrow> response_envelope io" where
  "integrations_response E i =
     ibind (connections_now E (reports E)) (\<lambda>rs.
     ibind (or_empty (on_storage (handle_list_observation_scopes E None))) (\<lambda>scopes.
     ibind (attempt (on_storage (handle_schema_version E)) (\<lambda>_. iret 0) iret) (\<lambda>version.
       iret (response_ok i (IntegrationsStatus
         \<lparr>ir_core_connected = True, ir_linux_adapters = length (reports_of ''dev.fubun.linux'' rs),
          ir_browser_adapters = length (reports_of ''dev.fubun.browser.chromium'' rs),
          ir_vscode_adapters = length (reports_of ''dev.fubun.vscode'' rs),
          ir_native_host_manifest = ''unknown'',
          ir_permitted_browser_resources =
            sum_list (map (\<lambda>r. length (rep_permitted_resource_ids r)) (reports_of ''dev.fubun.browser.chromium'' rs)),
          ir_active_browser_scopes = scopes_of BrowserChromium scopes,
          ir_active_vscode_scopes = scopes_of VscodeWorkspace scopes,
          ir_protocol_version = CURRENT_PROTOCOL_VERSION, ir_database_version = version\<rparr>)))))"

section \<open>The dispatcher\<close>

text \<open>An arm that answers with the value of one storage call.\<close>

definition respond_with ::
    "uuid \<Rightarrow> (storage_error + 'a) io \<Rightarrow> ('a \<Rightarrow> response_payload) \<Rightarrow> response_envelope io" where
  "respond_with i m f = attempt m (\<lambda>e. iret (storage_error_response i e)) (\<lambda>a. iret (response_ok i (f a)))"

definition respond_or_not_found ::
    "uuid \<Rightarrow> string \<Rightarrow> string \<Rightarrow> (storage_error + 'a) io \<Rightarrow> ('a \<Rightarrow> response_payload) \<Rightarrow> response_envelope io" where
  "respond_or_not_found i code message m f =
     attempt m (not_found_or i code message) (\<lambda>a. iret (response_ok i (f a)))"

fun process_body :: "('u, 'z) core_env_scheme \<Rightarrow> uuid \<Rightarrow> request_body \<Rightarrow> response_envelope io" where
  "process_body E i (ClientHello _) =
     iret (response_error i ''already_initialized'' ''handshake is only valid as the first request'')"
| "process_body E i (AdapterHello _) =
     iret (response_error i ''already_initialized'' ''handshake is only valid as the first request'')"
| "process_body E i (EventIngest e) = ingest_response E i e"
| "process_body E i (BrowserObservationEnable label url) = browser_observation_enable_response E i label url"
| "process_body E i (VscodeObservationEnable label path) = vscode_observation_enable_response E i label path"
| "process_body E i (ObservationPause sid) =
     respond_or_not_found i ''scope_not_found'' ''observation scope was not found''
       (on_storage (handle_pause_observation_scope E sid)) ObservationPausedPayload"
| "process_body E i (ObservationsList source) =
     respond_with i (on_storage (handle_list_observation_scopes E source)) ObservationList"
| "process_body E i (EventsList since limit) =
     respond_with i (on_storage (handle_list_events E since limit)) EventList"
| "process_body E i SystemStatus = status_response E i"
| "process_body E i SystemDoctor = doctor_response E i"
| "process_body E i (ResourceCreate payload) = resource_create_response E i payload"
| "process_body E i ResourceListReq = respond_with i (on_storage (handle_list_resources E)) ResourceList"
| "process_body E i (ResourceShow rid) =
     respond_or_not_found i ''resource_not_found'' ''resource was not found''
       (on_storage (handle_get_resource E rid)) ResourceShown"
| "process_body E i (RitualCreate d) = ritual_create_response E i d"
| "process_body E i (RitualUpdate rid d) = ritual_update_response E i rid d"
| "process_body E i RitualListReq = respond_with i (on_storage (handle_list_rituals E)) RitualList"
| "process_body E i (RitualShow rid) = ritual_show_response E i rid"
| "process_body E i (RitualPreviewReq rid) = ritual_preview_response E i rid"
| "process_body E i (RitualActivate rid approve) = ritual_activate_response E i rid approve"
| "process_body E i (RitualPause rid) = ritual_pause_response E i rid"
| "process_body E i (RitualRun rid) = ritual_run_response E i rid"
| "process_body E i AdapterListReq =
     ibind (connections_now E (reports E)) (\<lambda>rs. iret (response_ok i (AdapterList rs)))"
| "process_body E i AdapterStatusReq =
     ibind (connections_now E (reports E)) (\<lambda>rs. iret (response_ok i (AdapterList rs)))"
| "process_body E i ExecutionListReq = respond_with i (on_storage (handle_list_executions E)) ExecutionList"
| "process_body E i (ExecutionShow xid) =
     respond_or_not_found i ''execution_not_found'' ''execution was not found''
       (on_storage (handle_get_execution E xid))
       (\<lambda>(x, steps). ExecutionShown \<lparr>er_execution = x, er_steps = steps\<rparr>)"
| "process_body E i IntegrationsStatusReq = integrations_response E i"

definition process_request :: "('u, 'z) core_env_scheme \<Rightarrow> request_envelope \<Rightarrow> response_envelope io" where
  "process_request E request =
     (if pv_major (req_protocol_version request) \<noteq> pv_major CURRENT_PROTOCOL_VERSION
      then iret (response_error (req_request_id request) ''protocol_major_mismatch''
             ''client and daemon protocol major versions differ'')
      else process_body E (req_request_id request) (req_body request))"

section \<open>Connections of clients\<close>

datatype core_error =
    CoreIo | CoreStorage storage_error | CoreFrame frame_error | SocketPathOccupied string | CoreTask

text \<open>
  What a connection adds to the environment: \<open>serde_json\<close> on a response, whether a write to the socket
  succeeds, and \<open>CARGO_PKG_VERSION\<close>.
\<close>

record 'u server_env = "'u core_env" +
  sv_response_json :: "response_envelope \<Rightarrow> string option"
  sv_write_ok :: "nat \<Rightarrow> bool"
  sv_package_version :: string

text \<open>\<open>write_json_frame\<close> of a response: the frame that went out, or why none did.\<close>

definition write_response ::
    "('u, 'z) server_env_scheme \<Rightarrow> response_envelope \<Rightarrow> (core_error + unit) io" where
  "write_response E r =
     (case encode_json_frame (sv_response_json E) r of
        Inl e \<Rightarrow> iret (Inl (CoreFrame e))
      | Inr _ \<Rightarrow> ibind (draw (sv_write_ok E)) (\<lambda>ok. iret (if ok then Inr () else Inl (CoreFrame FrameIo))))"

text \<open>
  What \<open>read_request_or_shutdown\<close> returns, one entry per call: a request, \<open>None\<close> at the end of the
  stream or at a shutdown, or the error of the frame. A stream that is over gives \<open>None\<close>.
\<close>

type_synonym 'a incoming = "(frame_error + 'a option) list"

text \<open>The loop of an initialised client connection: the responses written, and how it ends.\<close>

fun serve_requests ::
    "('u, 'z) server_env_scheme \<Rightarrow> request_envelope incoming \<Rightarrow>
     (response_envelope list \<times> (core_error + unit)) io" where
  "serve_requests E [] = iret ([], Inr ())"
| "serve_requests E (Inl e # _) = iret ([], Inl (CoreFrame e))"
| "serve_requests E (Inr None # _) = iret ([], Inr ())"
| "serve_requests E (Inr (Some request) # rest) =
     ibind (process_request E request) (\<lambda>response.
     attempt (write_response E response) (\<lambda>e. iret ([], Inl e)) (\<lambda>_.
     ibind (serve_requests E rest) (\<lambda>(rs, end). iret (response # rs, end))))"

definition hello_ack :: "('u, 'z) server_env_scheme \<Rightarrow> client_hello_ack" where
  "hello_ack E = \<lparr>cha_server_name = ''fubund'', cha_server_version = sv_package_version E,
     cha_protocol_version = CURRENT_PROTOCOL_VERSION\<rparr>"

text \<open>One response, after which the connection closes.\<close>

definition reject ::
    "('u, 'z) server_env_scheme \<Rightarrow> response_envelope \<Rightarrow> (response_envelope list \<times> (core_error + unit)) io" where
  "reject E r = attempt (write_response E r) (\<lambda>e. iret ([], Inl e)) (\<lambda>_. iret ([r], Inr ()))"

text \<open>
  \<open>handle_connection\<close> up to the choice of the kind of connection: \<open>Inr\<close> when the connection is over,
  \<open>Inl\<close> when an adapter connection takes over with its first request id and hello.
\<close>

definition handle_connection ::
    "('u, 'z) server_env_scheme \<Rightarrow> request_envelope incoming \<Rightarrow>
     ((uuid \<times> adapter_hello) + response_envelope list \<times> (core_error + unit)) io" where
  "handle_connection E stream =
     (case stream of
        [] \<Rightarrow> iret (Inr ([], Inr ()))
      | Inl e # _ \<Rightarrow> iret (Inr ([], Inl (CoreFrame e)))
      | Inr None # _ \<Rightarrow> iret (Inr ([], Inr ()))
      | Inr (Some first) # rest \<Rightarrow>
          (let i = req_request_id first;
               refuse = (\<lambda>code message. ibind (reject E (response_error i code message)) (\<lambda>x. iret (Inr x)))
           in if pv_major (req_protocol_version first) \<noteq> pv_major CURRENT_PROTOCOL_VERSION
              then refuse ''protocol_major_mismatch'' ''client and daemon protocol major versions differ''
              else case req_body first of
                AdapterHello hello \<Rightarrow> iret (Inl (i, hello))
              | ClientHello hello \<Rightarrow>
                  if pv_major (ch_protocol_version hello) \<noteq> pv_major CURRENT_PROTOCOL_VERSION
                  then refuse ''protocol_major_mismatch'' ''client hello and daemon protocol major versions differ''
                  else let ack = response_ok i (ClientHelloAck (hello_ack E))
                       in attempt (write_response E ack) (\<lambda>e. iret (Inr ([], Inl e))) (\<lambda>_.
                          ibind (serve_requests E rest) (\<lambda>(rs, end). iret (Inr (ack # rs, end))))
              | _ \<Rightarrow> refuse ''handshake_required'' ''client.hello or adapter.hello must be the first request''))"

section \<open>Connections of adapters\<close>

text \<open>
  What an adapter connection does, in order: responses and acknowledgements written, events of the
  shared manager, and the warning for a frame of another protocol major.
\<close>

datatype adapter_effect =
    WroteResponse response_envelope
  | ManagerEvent manager_event
  | QueuedAck adapter_request_envelope
  | MajorMismatch

definition event_ack_envelope :: "uuid \<Rightarrow> event_ack \<Rightarrow> adapter_request_envelope" where
  "event_ack_envelope request_id ack =
     \<lparr>arq_protocol_version = CURRENT_PROTOCOL_VERSION, arq_request_id = request_id,
      arq_action_execution_id = uuid_nil, arq_body = AdapterEventAckBody ack\<rparr>"

text \<open>The branch of the loop for one frame that was read.\<close>

definition adapter_message ::
    "('u, 'z) core_env_scheme \<Rightarrow> adapter_hello \<Rightarrow> adapter_response_envelope \<Rightarrow> adapter_effect io" where
  "adapter_message E hello r =
     (if pv_major (ars_protocol_version r) \<noteq> pv_major CURRENT_PROTOCOL_VERSION then iret MajorMismatch
      else case ars_body r of
        EventEmit payload \<Rightarrow>
          ibind (ingest_adapter_event E hello payload) (\<lambda>ack.
            iret (QueuedAck (event_ack_envelope (ars_request_id r) ack)))
      | _ \<Rightarrow> iret (ManagerEvent (Respond r)))"

text \<open>The loop ends at a shutdown, at the end of the stream, and at a frame that cannot be read.\<close>

fun adapter_loop ::
    "('u, 'z) core_env_scheme \<Rightarrow> adapter_hello \<Rightarrow> adapter_response_envelope incoming \<Rightarrow> adapter_effect list io" where
  "adapter_loop E hello [] = iret []"
| "adapter_loop E hello (Inl _ # _) = iret []"
| "adapter_loop E hello (Inr None # _) = iret []"
| "adapter_loop E hello (Inr (Some r) # rest) =
     ibind (adapter_message E hello r) (\<lambda>x. ibind (adapter_loop E hello rest) (\<lambda>xs. iret (x # xs)))"

definition handle_adapter_connection ::
    "('u, 'z) server_env_scheme \<Rightarrow> uuid \<Rightarrow> adapter_hello \<Rightarrow> adapter_response_envelope incoming \<Rightarrow>
     (adapter_effect list \<times> (core_error + unit)) io" where
  "handle_adapter_connection E i hello stream =
     (let refuse = (\<lambda>before err. let r = response_error i ''protocol_error'' (registration_error_text err)
             in attempt (write_response E r) (\<lambda>e. iret (before, Inl e))
                  (\<lambda>_. iret (before @ [WroteResponse r], Inr ())))
      in case validate_hello hello of
           Inl err \<Rightarrow> refuse [] err
         | Inr _ \<Rightarrow>
             (let ack = response_ok i (AdapterHelloAck (hello_ack E))
              in attempt (write_response E ack) (\<lambda>e. iret ([], Inl e)) (\<lambda>_.
                 ibind (now_utc E) (\<lambda>now.
                 ibind (new_v4 E) (\<lambda>token.
                 attempt (draw (\<lambda>t. fst (register_adapter hello token now (ce_manager E t))))
                   (refuse [WroteResponse ack])
                   (\<lambda>_. ibind (adapter_loop E hello stream) (\<lambda>xs.
                      iret ([WroteResponse ack, ManagerEvent (Register hello token now)] @ xs @
                            [ManagerEvent (DisconnectSocket (ah_instance_id hello) token)], Inr ()))))))))"

section \<open>The client's side\<close>

datatype client_error =
    ClientIo | ClientFrame frame_error | ConnectionClosed | RequestIdMismatch
  | Rejected string string | UnexpectedPayload

text \<open>
  \<open>FubunClient::request\<close>: the result of the write, and of the read that follows it.
\<close>

definition client_request ::
    "uuid \<Rightarrow> (frame_error + unit) \<Rightarrow> (frame_error + response_envelope option) \<Rightarrow> client_error + response_payload" where
  "client_request request_id written answer =
     and_then (map_err ClientFrame written) (\<lambda>_.
     and_then (map_err ClientFrame answer) (\<lambda>r.
     and_then (ok_or ConnectionClosed r) (\<lambda>response.
       if rsp_request_id response \<noteq> request_id then Inl RequestIdMismatch
       else case rsp_body response of
              Ok payload \<Rightarrow> Inr payload
            | Error e \<Rightarrow> Inl (Rejected (err_code e) (err_message e)))))"

definition client_envelope :: "uuid \<Rightarrow> request_body \<Rightarrow> request_envelope" where
  "client_envelope request_id body =
     \<lparr>req_protocol_version = CURRENT_PROTOCOL_VERSION, req_request_id = request_id, req_body = body\<rparr>"

text \<open>What \<open>connect\<close> and \<open>status\<close> make of the result of their request.\<close>

definition client_connected :: "client_error + response_payload \<Rightarrow> client_error + unit" where
  "client_connected r =
     and_then r (\<lambda>p. case p of ClientHelloAck _ \<Rightarrow> Inr () | _ \<Rightarrow> Inl UnexpectedPayload)"

definition client_status :: "client_error + response_payload \<Rightarrow> client_error + status_report" where
  "client_status r = and_then r (\<lambda>p. case p of StatusPayload s \<Rightarrow> Inr s | _ \<Rightarrow> Inl UnexpectedPayload)"

end
