(* ===== verification/Fubun_Execute_Props.thy ===== *)
theory Fubun_Execute_Props
  imports Fubun_Execute
begin

text \<open>
  What a run of a ritual does: the shape of the steps it leaves, the status it records, and the
  requests it sends.
\<close>

section \<open>Storage calls send nothing\<close>

lemma on_storage_sent [simp]: "cs_sent (snd (on_storage m s)) = cs_sent s"
  by (simp add: on_storage_def split: prod.split)

lemma save_step_sent: "save_step E st s = (x, s') \<Longrightarrow> cs_sent s' = cs_sent s"
  by (auto simp: save_step_def try_map_def io_iff)

lemma resolve_resource_sent: "resolve_resource E a s = (x, s') \<Longrightarrow> cs_sent s' = cs_sent s"
  by (cases a) (auto simp: try_map_def io_iff)

lemma finalize_sent: "finalize_unfinished_steps E t c m steps s = (x, s') \<Longrightarrow> cs_sent s' = cs_sent s"
proof (induction steps arbitrary: s x s')
  case Nil
  then show ?case by simp
next
  case (Cons st steps)
  from Cons.prems Cons.IH show ?case
    by (auto simp: try_map_def io_iff split: if_splits)
qed

lemma store_outcome_sent: "store_outcome E t r s = (x, s') \<Longrightarrow> cs_sent s' = cs_sent s"
  by (auto simp: store_outcome_def try_map_def io_iff split: if_splits)

lemma finish_sent: "finish_execution E r s = (x, s') \<Longrightarrow> cs_sent s' = cs_sent s"
  by (auto simp: finish_execution_def try_map_def io_iff dest!: finalize_sent store_outcome_sent
      split: if_splits)

lemma after_dispatch_sent: "after_dispatch E i b t res r s = (x, s') \<Longrightarrow> cs_sent s' = cs_sent s"
  by (auto simp: after_dispatch_def try_map_def io_iff dest!: save_step_sent split: if_splits sum.splits)

section \<open>One action\<close>

definition step_key :: "execution_step \<Rightarrow> uuid \<times> uuid \<times> u32 \<times> string" where
  "step_key s = (stp_id s, stp_execution_id s, stp_step_index s, stp_action_type s)"

definition step_ok :: "execution_step \<Rightarrow> bool" where
  "step_ok s = (stp_status s \<in> {StepSucceeded, StepSkipped})"

lemma dispatch_error_code_not_timeout: "dispatch_error_code k \<noteq> ''ritual_timeout''"
  by (cases k) simp_all

text \<open>How the loop continues or stops after an action.\<close>

definition continued :: "nat \<Rightarrow> run_state \<Rightarrow> run_state \<Rightarrow> bool" where
  "continued index r r' \<longleftrightarrow> (\<exists>st. step_ok st \<and> step_key st = step_key (run_steps r ! index) \<and>
     run_steps r' = (run_steps r)[index := st] \<and> run_successful r' = run_successful r + 1 \<and>
     run_execution r' = run_execution r)"

definition timed_out :: "nat \<Rightarrow> run_state \<Rightarrow> run_state \<Rightarrow> bool" where
  "timed_out index r r' \<longleftrightarrow> (\<exists>st. (st = run_steps r ! index \<or> stp_status st = StepRunning) \<and>
     step_key st = step_key (run_steps r ! index) \<and>
     run_steps r' = (run_steps r)[index := st] \<and> run_successful r' = run_successful r \<and>
     run_execution r' = (run_execution r)\<lparr>exe_failure_code := Some ''ritual_timeout''\<rparr>)"

definition action_failed :: "nat \<Rightarrow> run_state \<Rightarrow> run_state \<Rightarrow> bool" where
  "action_failed index r r' \<longleftrightarrow> (\<exists>st code. stp_status st = StepFailed \<and> code \<noteq> ''ritual_timeout'' \<and>
     step_key st = step_key (run_steps r ! index) \<and>
     run_steps r' = (run_steps r)[index := st] \<and> run_successful r' = run_successful r \<and>
     run_execution r' = (run_execution r)\<lparr>exe_status := failed_status (run_successful r),
       exe_failure_code := Some code\<rparr>)"

lemma after_dispatch_Inr:
  assumes "after_dispatch E index bound finished result r s = (Inr (stop, r'), s')"
    and "index < length (run_steps r)" "stp_status (run_steps r ! index) = StepRunning"
  shows "cs_sent s' = cs_sent s \<and>
    (if stop then timed_out index r r' \<or> action_failed index r r'
     else continued index r r' \<and> (\<exists>d. result = Inr d))"
proof (cases result)
  case (Inr d)
  let ?a = "dar_result d"
  let ?s' = "(run_steps r ! index)\<lparr>stp_adapter_id := Some (ea_adapter_id (dar_identity d)),
     stp_adapter_instance_id := Some (ea_instance_id (dar_identity d)),
     stp_status := status_of_result (ar_status ?a), stp_result_code := Some (ar_result_code ?a),
     stp_redacted_message := Some (redact_message (ar_redacted_message ?a)), stp_finished_at := Some finished\<rparr>"
  let ?r = "set_step index ?s' r"
  have sent: "cs_sent s' = cs_sent s"
    using assms(1) Inr by (auto simp: after_dispatch_def io_iff dest!: save_step_sent split: if_splits)
  show ?thesis
  proof (cases "ar_status ?a = AdapterFailed")
    case True
    let ?r' = "set_failure ''action_failed'' (set_status (failed_status (run_successful ?r)) ?r)"
    from assms(1) Inr True have "r' = ?r'" "stop"
      by (auto simp: after_dispatch_def io_iff status_of_result_def)
    moreover have "action_failed index r ?r'"
      unfolding action_failed_def using True
      by (intro exI [of _ ?s'] exI [of _ "''action_failed''"])
         (simp add: set_failure_def set_step_def set_status_def step_key_def status_of_result_def)
    ultimately show ?thesis using sent by simp
  next
    case False
    let ?r' = "?r\<lparr>run_successful := run_successful ?r + 1\<rparr>"
    from False have ok: "step_ok ?s'"
      by (cases "ar_status ?a") (simp_all add: step_ok_def status_of_result_def)
    with assms(1) Inr have "r' = ?r'" "\<not> stop"
      by (auto simp: after_dispatch_def io_iff step_ok_def)
    moreover have "continued index r ?r'"
      unfolding continued_def using ok
      by (intro exI [of _ ?s']) (simp add: set_step_def step_key_def)
    ultimately show ?thesis using sent Inr by simp
  qed
next
  case (Inl err)
  let ?s = "run_steps r ! index"
  let ?s1 = "case dae_identity err of None \<Rightarrow> ?s
     | Some a \<Rightarrow> ?s\<lparr>stp_adapter_id := Some (ea_adapter_id a), stp_adapter_instance_id := Some (ea_instance_id a)\<rparr>"
  have key: "step_key ?s1 = step_key ?s" "stp_status ?s1 = StepRunning"
    using assms(3) by (auto simp: step_key_def split: option.split)
  show ?thesis
  proof (cases "dae_kind err = Timeout \<and> bound")
    case True
    with assms(1) Inl have "r' = set_failure ''ritual_timeout'' (set_step index ?s1 r)" "stop" "s' = s"
      by (auto simp: after_dispatch_def io_iff)
    moreover have "timed_out index r (set_failure ''ritual_timeout'' (set_step index ?s1 r))"
      unfolding timed_out_def using key by (intro exI [of _ ?s1]) (simp add: set_failure_def set_step_def)
    ultimately show ?thesis by simp
  next
    case False
    let ?c = "dispatch_error_code (dae_kind err)"
    let ?s' = "?s1\<lparr>stp_status := StepFailed, stp_result_code := Some ?c,
       stp_redacted_message := Some (dispatch_error_message (dae_kind err)), stp_finished_at := Some finished\<rparr>"
    let ?r = "set_failure ?c (set_status (failed_status (run_successful r)) (set_step index ?s' (set_step index ?s1 r)))"
    from assms(1) Inl False have "r' = ?r" "stop" "cs_sent s' = cs_sent s"
      by (auto simp: after_dispatch_def io_iff set_step_def dest!: save_step_sent)
    moreover have "action_failed index r ?r"
      unfolding action_failed_def using key(1) dispatch_error_code_not_timeout
      by (intro exI [of _ ?s'] exI [of _ ?c]) (simp add: set_failure_def set_step_def set_status_def step_key_def)
    ultimately show ?thesis by simp
  qed
qed

text \<open>
  A request sent for an action: to an adapter that was eligible for it, with the action and with the resource
  that was read for it.
\<close>

definition request_for ::
    "('u, 'z) core_env_scheme \<Rightarrow> action_spec \<Rightarrow> eligible_adapter \<times> adapter_request_envelope \<Rightarrow> bool" where
  "request_for E a q \<longleftrightarrow> eligible_at E a (fst q) \<and>
     (\<exists>resource t t'. arq_body (snd q) = ActionExecute \<lparr>aer_action = a, aer_resolved_resource = resource\<rparr> \<and>
        resolve_resource E a t = (Inr resource, t'))"

text \<open>
  One pass through the loop: at most one request is sent, for this action and to an adapter that was
  eligible for it; exactly one when the loop goes on.
\<close>

lemma execute_action_Inr:
  assumes "execute_action E deadline index a r s = (Inr (stop, r'), s')"
    and "index < length (run_steps r)"
  obtains qs where "cs_sent s' = cs_sent s @ qs"
    "qs = [] \<and> stop \<or> (\<exists>q. qs = [q] \<and> request_for E a q)"
    "if stop then timed_out index r r' \<or> action_failed index r r' else continued index r r'"
proof -
  let ?rem = "duration_since deadline (ce_instant E (conn_tick (cs_conn s)))"
  show thesis
  proof (cases "?rem = 0")
    case True
    with assms(1) have "stop" "r' = set_failure ''ritual_timeout'' r" "cs_sent s' = cs_sent s"
      by (auto simp: execute_action_def io_iff)
    moreover have "timed_out index r (set_failure ''ritual_timeout'' r)"
      unfolding timed_out_def by (intro exI [of _ "run_steps r ! index"]) (simp add: set_failure_def)
    ultimately show thesis by (intro that [of "[]"]) simp_all
  next
    case False
    let ?tick = "\<lambda>s. s\<lparr>cs_conn := (cs_conn s)\<lparr>conn_tick := Suc (conn_tick (cs_conn s))\<rparr>\<rparr>"
    let ?st = "(run_steps r ! index)\<lparr>stp_status := StepRunning,
       stp_started_at := se_now E (conn_tick (cs_conn (?tick s)))\<rparr>"
    let ?r = "set_step index ?st r"
    from assms(1) False obtain s2 resolved s3 result s4 where
      save: "save_step E ?st (?tick (?tick s)) = (Inr (), s2)"
      and res: "resolve_resource E a s2 = (Inr resolved, s3)"
      and ex: "adapters_execute E a resolved (min (default_timeout a) ?rem) s3 = (result, s4)"
      and ad: "after_dispatch E index (?rem \<le> default_timeout a) (se_now E (conn_tick (cs_conn s4))) result ?r (?tick s4) =
          (Inr (stop, r'), s')"
      by (auto simp: execute_action_def io_iff)
    have idx: "index < length (run_steps ?r)" "stp_status (run_steps ?r ! index) = StepRunning"
      using assms(2) by (simp_all add: set_step_def)
    note after = after_dispatch_Inr [OF ad idx]
    have lift: "continued index ?r r' \<Longrightarrow> continued index r r'" "action_failed index ?r r' \<Longrightarrow> action_failed index r r'"
      using assms(2) by (fastforce simp: continued_def action_failed_def set_step_def step_key_def)+
    have lift_timeout: "timed_out index r r'" if late: "timed_out index ?r r'"
    proof -
      from late obtain st where st: "st = run_steps ?r ! index \<or> stp_status st = StepRunning"
          "step_key st = step_key (run_steps ?r ! index)" "run_steps r' = (run_steps ?r)[index := st]"
          "run_successful r' = run_successful ?r"
          "run_execution r' = (run_execution ?r)\<lparr>exe_failure_code := Some ''ritual_timeout''\<rparr>"
        unfolding timed_out_def by blast
      have "stp_status st = StepRunning" using st(1) idx(2) by auto
      with st(2-5) show ?thesis unfolding timed_out_def
        using assms(2) by (intro exI [of _ st]) (simp add: set_step_def step_key_def)
    qed
    have sent: "cs_sent s3 = cs_sent s" "cs_sent s' = cs_sent s4"
      using save_step_sent [OF save] resolve_resource_sent [OF res] after by simp_all
    have shape: "if stop then timed_out index r r' \<or> action_failed index r r' else continued index r r'"
      using after lift lift_timeout by (auto split: if_splits)
    from ex show thesis
    proof (cases rule: adapters_execute_sent)
      case (none e)
      with after have "stop" by (auto split: if_splits)
      with none sent shape show thesis by (intro that [of "[]"]) simp_all
    next
      case (one q)
      then have "request_for E a q" using res unfolding request_for_def by blast
      with one(1) sent shape show thesis by (intro that [of "[q]"]) simp_all
    qed
  qed
qed

section \<open>The loop\<close>

text \<open>
  The steps after the loop: the first \<open>k\<close> succeeded or were skipped, the next one is where the loop
  stopped, the others are as they were.
\<close>

definition loop_done :: "execution \<Rightarrow> execution_step list \<Rightarrow> nat \<Rightarrow> run_state \<Rightarrow> bool" where
  "loop_done x steps k r \<longleftrightarrow>
     length (run_steps r) = length steps \<and> map step_key (run_steps r) = map step_key steps \<and>
     run_successful r = k \<and> k \<le> length steps \<and> list_all step_ok (take k (run_steps r)) \<and>
     list_all (\<lambda>s. stp_status s = StepPending) (drop (k + 1) (run_steps r)) \<and>
     (if k = length steps then run_execution r = x
      else (step_unfinished (run_steps r ! k) \<and>
              run_execution r = x\<lparr>exe_failure_code := Some ''ritual_timeout''\<rparr>) \<or>
           (stp_status (run_steps r ! k) = StepFailed \<and>
              (\<exists>code. code \<noteq> ''ritual_timeout'' \<and>
                 run_execution r = x\<lparr>exe_status := failed_status k, exe_failure_code := Some code\<rparr>)))"

definition loop_invariant :: "execution \<Rightarrow> execution_step list \<Rightarrow> nat \<Rightarrow> run_state \<Rightarrow> bool" where
  "loop_invariant x steps k r \<longleftrightarrow>
     length (run_steps r) = length steps \<and> map step_key (run_steps r) = map step_key steps \<and>
     run_successful r = k \<and> list_all step_ok (take k (run_steps r)) \<and>
     list_all (\<lambda>s. stp_status s = StepPending) (drop k (run_steps r)) \<and> run_execution r = x"

lemma map_key_update: "f a = f (xs ! i) \<Longrightarrow> map f (xs[i := a]) = map f xs"
  by (metis list_update_id map_update)

lemma take_Suc_update: "k < length xs \<Longrightarrow> take (Suc k) (xs[k := a]) = take k xs @ [a]"
  by (simp add: take_Suc_conv_app_nth)

lemma loop_stop:
  assumes inv: "loop_invariant x steps k r" and k: "k < length steps"
    and stop: "timed_out k r r' \<or> action_failed k r r'"
  shows "loop_done x steps k r'"
proof -
  have pend: "stp_status (run_steps r ! k) = StepPending"
    using inv k by (auto simp: loop_invariant_def Cons_nth_drop_Suc [symmetric])
  have rest: "list_all (\<lambda>s. stp_status s = StepPending) (drop (Suc k) (run_steps r))"
    using inv k by (auto simp: loop_invariant_def Cons_nth_drop_Suc [symmetric])
  show ?thesis
    using stop
  proof
    assume "timed_out k r r'"
    then obtain st where st: "st = run_steps r ! k \<or> stp_status st = StepRunning"
        "step_key st = step_key (run_steps r ! k)" "run_steps r' = (run_steps r)[k := st]"
        "run_successful r' = run_successful r"
        "run_execution r' = (run_execution r)\<lparr>exe_failure_code := Some ''ritual_timeout''\<rparr>"
      unfolding timed_out_def by blast
    have "step_unfinished st" using st(1) pend by (auto simp: step_unfinished_def)
    with st inv k rest show ?thesis
      unfolding loop_done_def loop_invariant_def by (simp add: map_key_update)
  next
    assume "action_failed k r r'"
    then obtain st code where "stp_status st = StepFailed" "code \<noteq> ''ritual_timeout''"
        "step_key st = step_key (run_steps r ! k)" "run_steps r' = (run_steps r)[k := st]"
        "run_successful r' = run_successful r"
        "run_execution r' = (run_execution r)\<lparr>exe_status := failed_status (run_successful r), exe_failure_code := Some code\<rparr>"
      unfolding action_failed_def by blast
    with inv k rest show ?thesis
      unfolding loop_done_def loop_invariant_def by (auto simp: map_key_update)
  qed
qed

lemma loop_continue:
  assumes "loop_invariant x steps k r" "k < length steps" "continued k r r'"
  shows "loop_invariant x steps (Suc k) r'"
proof -
  from assms(3) obtain st where "step_ok st" "step_key st = step_key (run_steps r ! k)"
      "run_steps r' = (run_steps r)[k := st]" "run_successful r' = run_successful r + 1"
      "run_execution r' = run_execution r"
    unfolding continued_def by blast
  moreover have "list_all (\<lambda>s. stp_status s = StepPending) (drop (Suc k) (run_steps r))"
    using assms(1,2) by (auto simp: loop_invariant_def Cons_nth_drop_Suc [symmetric])
  ultimately show ?thesis
    using assms(1,2) by (simp add: loop_invariant_def map_key_update take_Suc_update)
qed

lemma execute_loop_Inr:
  assumes "execute_loop E deadline k as r s = (Inr r', s')"
    and "loop_invariant x steps k r" "length steps = k + length as"
  shows "\<exists>n qs. loop_done x steps (k + n) r' \<and> cs_sent s' = cs_sent s @ qs \<and>
    (length qs = n \<or> length qs = Suc n \<and> n < length as) \<and>
    (\<forall>j < length qs. request_for E (as ! j) (qs ! j))"
  using assms
proof (induction as arbitrary: k r s)
  case Nil
  then show ?case
    by (intro exI [of _ 0] exI [of _ "[]"]) (auto simp: loop_invariant_def loop_done_def)
next
  case (Cons a as)
  from Cons.prems(1) obtain stop r1 s1 where
    act: "execute_action E deadline k a r s = (Inr (stop, r1), s1)"
    and next1: "if stop then r' = r1 \<and> s' = s1 else execute_loop E deadline (k + 1) as r1 s1 = (Inr r', s')"
    by (auto simp: try_map_Inr_iff split: if_splits)
  have k: "k < length steps" "k < length (run_steps r)"
    using Cons.prems by (simp_all add: loop_invariant_def)
  from act k(2) obtain qs where qs: "cs_sent s1 = cs_sent s @ qs"
      "qs = [] \<and> stop \<or> (\<exists>q. qs = [q] \<and> request_for E a q)"
    and shape: "if stop then timed_out k r r1 \<or> action_failed k r r1 else continued k r r1"
    by (rule execute_action_Inr)
  show ?case
  proof (cases stop)
    case True
    with next1 shape loop_stop [OF Cons.prems(2) k(1)] have "loop_done x steps k r'" "s' = s1" by auto
    with qs show ?thesis by (intro exI [of _ 0] exI [of _ qs]) auto
  next
    case False
    with shape have inv: "loop_invariant x steps (Suc k) r1"
      using loop_continue [OF Cons.prems(2) k(1)] by simp
    from False next1 have run: "execute_loop E deadline (Suc k) as r1 s1 = (Inr r', s')" by simp
    have len: "length steps = Suc k + length as" using Cons.prems(3) by simp
    from Cons.IH [OF run inv len] obtain n ps where ps: "loop_done x steps (Suc k + n) r'" "cs_sent s' = cs_sent s1 @ ps"
      "length ps = n \<or> length ps = Suc n \<and> n < length as"
      "\<forall>j < length ps. request_for E (as ! j) (ps ! j)"
      by blast
    from qs(2) False obtain q where q: "qs = [q]" "request_for E a q" by auto
    have "\<forall>j < length (q # ps). request_for E ((a # as) ! j) ((q # ps) ! j)"
      using q ps(4) by (auto simp: nth_Cons split: nat.splits)
    with ps qs(1) q(1) show ?thesis
      by (intro exI [of _ "Suc n"] exI [of _ "q # ps"]) auto
  qed
qed

section \<open>The end\<close>

lemma try_map_iff:
  "try_map m g f s = (b, s') \<longleftrightarrow>
     (\<exists>e. m s = (Inl e, s') \<and> b = Inl (g e)) \<or> (\<exists>a s1. m s = (Inr a, s1) \<and> f a s1 = (b, s'))"
  by (auto simp: try_map_def attempt_iff)

text \<open>The errors a run can end with: a step or the execution that could not be stored, or a resource
  that could not be read.\<close>

definition run_errors :: "(string \<times> string) set" where
  "run_errors =
     {(''internal_error'', ''execution step could not be updated''),
      (''internal_error'', ''execution step could not be finalized''),
      (''internal_error'', ''execution could not be finalized''),
      (''resource_not_found'', ''resource was not found'')}"

definition finalized :: "timestamp \<Rightarrow> string \<Rightarrow> string \<Rightarrow> execution_step \<Rightarrow> execution_step" where
  "finalized t code message s = (if step_unfinished s then aborted_step t code message s else s)"

lemma finalize_result:
  "finalize_unfinished_steps E t code message steps s = (x, s') \<Longrightarrow>
     (\<exists>e \<in> run_errors. x = Inl e) \<or> x = Inr (map (finalized t code message) steps)"
proof (induction steps arbitrary: s x)
  case Nil
  then show ?case by simp
next
  case (Cons st steps)
  from Cons.prems show ?case
    by (auto simp: try_map_iff finalized_def step_error_def run_errors_def io_iff split: if_splits
        dest!: Cons.IH)
qed

lemma finalized_simps [simp]:
  "step_key (finalized t c m s) = step_key s"
  "stp_status (finalized t c m s) = (if step_unfinished s then StepAborted else stp_status s)"
  by (simp_all add: finalized_def aborted_step_def step_key_def)

lemma step_terminal_finalized [simp]: "step_terminal (finalized t c m s)"
  by (cases "stp_status s") (auto simp: step_terminal_def step_unfinished_def)

lemma step_ok_terminal: "step_ok s \<Longrightarrow> step_terminal s" "step_ok s \<Longrightarrow> \<not> step_unfinished s"
  by (auto simp: step_ok_def step_terminal_def step_unfinished_def)

lemma step_ok_finalized: "step_ok s \<Longrightarrow> step_ok (finalized t c m s)"
  using step_ok_terminal by (auto simp: step_ok_def)

text \<open>What is recorded: the first \<open>k\<close> actions took effect, the next one failed or was aborted.\<close>

definition run_outcome ::
    "execution_step list \<Rightarrow> execution \<Rightarrow> nat \<Rightarrow> execution \<Rightarrow> execution_step list \<Rightarrow> bool" where
  "run_outcome steps x k x' steps' \<longleftrightarrow>
     k \<le> length steps \<and> map step_key steps' = map step_key steps \<and>
     list_all step_ok (take k steps') \<and>
     (k < length steps \<longrightarrow> stp_status (steps' ! k) \<in> {StepFailed, StepAborted}) \<and>
     list_all (\<lambda>s. stp_status s = StepAborted) (drop (k + 1) steps') \<and>
     exe_id x' = exe_id x \<and> exe_finished_at x' \<noteq> None \<and>
     exe_status x' = (if k = length steps then ExecSucceeded else failed_status k) \<and>
     (exe_failure_code x' = None \<longleftrightarrow> k = length steps)"

lemma outcome_finalized:
  assumes "loop_done x steps k r" "k < length steps" "exe_status x' = failed_status k"
    "exe_failure_code x' \<noteq> None" "exe_id x' = exe_id x" "exe_finished_at x' \<noteq> None"
  shows "run_outcome steps x k x' (map (finalized t c m) (run_steps r))"
proof -
  have len: "length (run_steps r) = length steps" "map step_key (run_steps r) = map step_key steps"
    and ok: "list_all step_ok (take k (run_steps r))"
    and rest: "list_all (\<lambda>s. stp_status s = StepPending) (drop (k + 1) (run_steps r))"
    and at: "step_unfinished (run_steps r ! k) \<or> stp_status (run_steps r ! k) = StepFailed"
    using assms(1,2) by (auto simp: loop_done_def)
  have "map step_key (map (finalized t c m) (run_steps r)) = map step_key steps"
    using len(2) by (simp add: comp_def)
  moreover have "list_all step_ok (take k (map (finalized t c m) (run_steps r)))"
    using ok by (auto simp: take_map list_all_iff step_ok_finalized)
  moreover have "list_all (\<lambda>s. stp_status s = StepAborted) (drop (k + 1) (map (finalized t c m) (run_steps r)))"
    using rest by (auto simp: drop_map list_all_iff step_unfinished_def)
  moreover have "stp_status (map (finalized t c m) (run_steps r) ! k) \<in> {StepFailed, StepAborted}"
    using at assms(2) len(1) by auto
  ultimately show ?thesis using assms(2-6) by (simp add: run_outcome_def)
qed

lemma update_execution_unlocks:
  assumes "handle_update_execution E x c = (Inr u, c')" "exe_status x \<noteq> ExecRunning"
  shows "\<forall>l \<in> set (db_locks (conn_db c')). tlck_execution_id l \<noteq> se_uuid_text E (exe_id x)"
  using assms
  by (auto simp: handle_update_execution_eq handled_def update_execution_def run_simps Let_def
      update_executions_def delete_locks_def split: if_splits)

definition unlocked :: "('u, 'z) core_env_scheme \<Rightarrow> uuid \<Rightarrow> core_state \<Rightarrow> bool" where
  "unlocked E xid s \<longleftrightarrow> (\<forall>l \<in> set (db_locks (conn_db (cs_conn s))). tlck_execution_id l \<noteq> se_uuid_text E xid)"

lemma store_outcome_result:
  assumes "store_outcome E t r s = (res, s')"
    and "run_outcome steps x k ((run_execution r)\<lparr>exe_finished_at := Some t\<rparr>) (run_steps r)"
    and "list_all step_terminal (run_steps r)"
  shows "(\<exists>e \<in> run_errors. res = Inl e) \<or>
    (\<exists>x' steps'. res = Inr (x', steps') \<and> run_outcome steps x k x' steps' \<and> unlocked E (exe_id x) s')"
proof -
  let ?x = "(run_execution r)\<lparr>exe_finished_at := Some t\<rparr>"
  have st: "exe_status ?x \<noteq> ExecRunning" "exe_status ?x \<in> {ExecFailed, ExecPartial} \<longrightarrow> exe_failure_code ?x \<noteq> None"
    and xid: "exe_id ?x = exe_id x"
    using assms(2) by (auto simp: run_outcome_def failed_status_def split: if_splits)
  have inv: "terminal_step_invariant (exe_status ?x) (run_steps r)"
    using assms(3) by (simp add: terminal_step_invariant_def)
  from assms(1) inv st(2)
  consider (error) e where "res = Inl (step_error ''execution could not be finalized'' e)"
    | (stored) u c where "handle_update_execution E ?x (cs_conn s) = (Inr u, c)"
        "res = Inr (?x, run_steps r)" "cs_conn s' = c"
    by (auto simp: store_outcome_def try_map_iff io_iff)
  then show ?thesis
  proof cases
    case error
    then show ?thesis by (simp add: step_error_def run_errors_def)
  next
    case stored
    from update_execution_unlocks [OF stored(1) st(1)] xid stored(3) have "unlocked E (exe_id x) s'"
      by (simp add: unlocked_def)
    with stored(2) assms(2) show ?thesis by blast
  qed
qed

definition finalize_and_store ::
    "('u, 'z) core_env_scheme \<Rightarrow> timestamp \<Rightarrow> string \<Rightarrow> string \<Rightarrow> run_state \<Rightarrow>
     ((string \<times> string) + execution \<times> execution_step list) io" where
  "finalize_and_store E t code message r =
     try_map (try_map (finalize_unfinished_steps E t code message (run_steps r)) (\<lambda>e. e)
         (\<lambda>steps. iret (Inr (r\<lparr>run_steps := steps\<rparr>))))
       (\<lambda>e. e) (store_outcome E t)"

lemma try_map_iret_Inr [simp]: "try_map (iret (Inr a)) g f = f a"
  by (intro ext) (simp add: try_map_def attempt_def ibind_def iret_def)

lemma finish_execution_alt:
  "finish_execution E r =
     ibind (now_utc E) (\<lambda>t.
       if exe_failure_code (run_execution r) = Some ''ritual_timeout''
       then finalize_and_store E t ''ritual_timeout'' ''ritual timed out''
              (set_status (failed_status (run_successful r)) r)
       else if exe_failure_code (run_execution r) = None then store_outcome E t (set_status ExecSucceeded r)
       else finalize_and_store E t ''stopped_after_failure''
              ''action was not executed because an earlier action failed'' r)"
  unfolding finish_execution_def finalize_and_store_def Let_def
  by (intro arg_cong [where f = "ibind _"] ext) simp

lemma finalize_and_store_result:
  assumes run: "finalize_and_store E t c m r s = (res, s')" and ld: "loop_done x steps k r0"
    and k: "k < length steps" and r: "run_steps r = run_steps r0" "exe_status (run_execution r) = failed_status k"
      "exe_failure_code (run_execution r) \<noteq> None" "exe_id (run_execution r) = exe_id x"
  shows "(\<exists>e \<in> run_errors. res = Inl e) \<or>
    (\<exists>x' steps'. res = Inr (x', steps') \<and> run_outcome steps x k x' steps' \<and> unlocked E (exe_id x) s')"
proof -
  let ?r = "r\<lparr>run_steps := map (finalized t c m) (run_steps r0)\<rparr>"
  from run r(1) consider (error) e where "e \<in> run_errors" "res = Inl e"
    | (stored) s1 where "store_outcome E t ?r s1 = (res, s')"
    by (auto simp: finalize_and_store_def try_map_iff dest!: finalize_result)
  then show ?thesis
  proof cases
    case error
    then show ?thesis by blast
  next
    case stored
    have "run_outcome steps x k ((run_execution ?r)\<lparr>exe_finished_at := Some t\<rparr>) (run_steps ?r)"
      using r by (simp add: outcome_finalized [OF ld k])
    then show ?thesis
      by (rule store_outcome_result [OF stored]) (simp add: list_all_iff)
  qed
qed

lemma finish_execution_result:
  assumes run: "finish_execution E r s = (res, s')" and ld: "loop_done x steps k r"
    and x: "exe_status x = ExecRunning" "exe_failure_code x = None"
  shows "(\<exists>e \<in> run_errors. res = Inl e) \<or>
    (\<exists>x' steps'. res = Inr (x', steps') \<and> run_outcome steps x k x' steps' \<and> unlocked E (exe_id x) s')"
proof (cases "k = length steps")
  case True
  let ?r = "set_status ExecSucceeded r"
  have re: "run_execution r = x" and ok: "list_all step_ok (run_steps r)"
    and key: "map step_key (run_steps r) = map step_key steps" "length (run_steps r) = length steps"
    using ld True by (auto simp: loop_done_def)
  from run re x obtain t s1 where "store_outcome E t ?r s1 = (res, s')"
    by (auto simp: finish_execution_alt ibind_iff)
  moreover have "run_outcome steps x k ((run_execution ?r)\<lparr>exe_finished_at := Some t\<rparr>) (run_steps ?r)"
    using True ok key re x by (simp add: run_outcome_def set_status_def)
  moreover have "list_all step_terminal (run_steps ?r)"
    using ok step_ok_terminal by (auto simp: set_status_def list_all_iff)
  ultimately show ?thesis by (rule store_outcome_result)
next
  case False
  then have k: "k < length steps" "run_successful r = k" using ld by (simp_all add: loop_done_def)
  from ld False have code: "exe_failure_code (run_execution r) \<noteq> None" "exe_id (run_execution r) = exe_id x"
    and status: "exe_failure_code (run_execution r) \<noteq> Some ''ritual_timeout'' \<Longrightarrow> exe_status (run_execution r) = failed_status k"
    by (auto simp: loop_done_def)
  show ?thesis
  proof (cases "exe_failure_code (run_execution r) = Some ''ritual_timeout''")
    case True
    with run obtain t s1 where
      "finalize_and_store E t ''ritual_timeout'' ''ritual timed out'' (set_status (failed_status k) r) s1 = (res, s')"
      by (auto simp: finish_execution_alt ibind_iff k)
    then show ?thesis
      by (rule finalize_and_store_result [OF _ ld k(1)]) (simp_all add: set_status_def code True)
  next
    case False
    with run code(1) obtain t s1 where
      "finalize_and_store E t ''stopped_after_failure''
         ''action was not executed because an earlier action failed'' r s1 = (res, s')"
      by (auto simp: finish_execution_alt ibind_iff)
    then show ?thesis
      by (rule finalize_and_store_result [OF _ ld k(1)]) (simp_all add: code status False)
  qed
qed

section \<open>Requests sent, whatever the result\<close>

definition in_order ::
    "('u, 'z) core_env_scheme \<Rightarrow> action_spec list \<Rightarrow> (eligible_adapter \<times> adapter_request_envelope) list \<Rightarrow> bool" where
  "in_order E as qs \<longleftrightarrow> length qs \<le> length as \<and>
     (\<forall>j < length qs. request_for E (as ! j) (qs ! j))"

lemma in_order_simps [simp]:
  "in_order E as []"
  "in_order E [] qs \<longleftrightarrow> qs = []"
  "in_order E (a # as) (q # qs) \<longleftrightarrow> request_for E a q \<and> in_order E as qs"
  by (auto simp: in_order_def nth_Cons split: nat.splits)

lemma execute_action_sent:
  assumes "execute_action E deadline index a r s = (x, s')"
  shows "\<exists>qs. cs_sent s' = cs_sent s @ qs \<and>
    (qs = [] \<and> (\<forall>r'. x \<noteq> Inr (False, r')) \<or>
     (\<exists>q. qs = [q] \<and> request_for E a q))"
proof (cases "duration_since deadline (ce_instant E (conn_tick (cs_conn s))) = 0")
  case True
  with assms show ?thesis by (auto simp: execute_action_def io_iff)
next
  case False
  let ?rem = "duration_since deadline (ce_instant E (conn_tick (cs_conn s)))"
  let ?tick = "\<lambda>s. s\<lparr>cs_conn := (cs_conn s)\<lparr>conn_tick := Suc (conn_tick (cs_conn s))\<rparr>\<rparr>"
  let ?st = "(run_steps r ! index)\<lparr>stp_status := StepRunning,
     stp_started_at := se_now E (conn_tick (cs_conn (?tick s)))\<rparr>"
  from assms False consider
    (save) e where "save_step E ?st (?tick (?tick s)) = (Inl e, s')" "x = Inl e"
  | (res) e s2 where "save_step E ?st (?tick (?tick s)) = (Inr (), s2)"
      "resolve_resource E a s2 = (Inl e, s')" "x = Inl e"
  | (run) s2 resolved s3 result s4 where "save_step E ?st (?tick (?tick s)) = (Inr (), s2)"
      "resolve_resource E a s2 = (Inr resolved, s3)"
      "adapters_execute E a resolved (min (default_timeout a) ?rem) s3 = (result, s4)"
      "after_dispatch E index (?rem \<le> default_timeout a) (se_now E (conn_tick (cs_conn s4))) result
         (set_step index ?st r) (?tick s4) = (x, s')"
    by (auto simp: execute_action_def try_map_iff io_iff)
  then show ?thesis
  proof cases
    case save
    then show ?thesis using save_step_sent [OF save(1)] by simp
  next
    case res
    then show ?thesis using save_step_sent [OF res(1)] resolve_resource_sent [OF res(2)] by simp
  next
    case run
    have s3: "cs_sent s3 = cs_sent s" using save_step_sent [OF run(1)] resolve_resource_sent [OF run(2)] by simp
    have s': "cs_sent s' = cs_sent s4" using after_dispatch_sent [OF run(4)] by simp
    from run(3) show ?thesis
    proof (cases rule: adapters_execute_sent)
      case (none e)
      have "x \<noteq> Inr (False, r')" for r'
        using run(4) none(2) by (auto simp: after_dispatch_def try_map_iff Let_def split: if_splits)
      with none s3 s' show ?thesis by simp
    next
      case (one q)
      with s3 s' have sent: "cs_sent s' = cs_sent s @ [q]" by simp
      have "request_for E a q" using one(2,3) run(2) unfolding request_for_def by blast
      then show ?thesis
        by (intro exI [of _ "[q]"] conjI sent disjI2 exI [of _ q] refl)
    qed
  qed
qed

lemma execute_loop_sent:
  "execute_loop E deadline k as r s = (x, s') \<Longrightarrow> \<exists>qs. cs_sent s' = cs_sent s @ qs \<and> in_order E as qs"
proof (induction as arbitrary: k r s)
  case Nil
  then show ?case by simp
next
  case (Cons a as)
  obtain y s1 where act: "execute_action E deadline k a r s = (y, s1)" by fastforce
  have y: "(\<exists>r'. y = Inr (False, r') \<and> execute_loop E deadline (k + 1) as r' s1 = (x, s')) \<or>
      s' = s1 \<and> (\<forall>r'. y \<noteq> Inr (False, r'))"
  proof (cases y)
    case (Inl e)
    with Cons.prems act show ?thesis by (simp add: try_map_iff)
  next
    case (Inr p)
    obtain stop r' where "p = (stop, r')" by (cases p)
    with Inr Cons.prems act show ?thesis by (cases stop) (simp_all add: try_map_iff)
  qed
  from execute_action_sent [OF act] obtain qs where qs: "cs_sent s1 = cs_sent s @ qs"
      "qs = [] \<and> (\<forall>r'. y \<noteq> Inr (False, r')) \<or> (\<exists>q. qs = [q] \<and> request_for E a q)"
    by (elim exE conjE)
  from y show ?case
  proof
    assume "\<exists>r'. y = Inr (False, r') \<and> execute_loop E deadline (k + 1) as r' s1 = (x, s')"
    then obtain r' where r': "y = Inr (False, r')" "execute_loop E deadline (k + 1) as r' s1 = (x, s')"
      by (elim exE conjE)
    from Cons.IH [OF r'(2)] obtain ps where ps: "cs_sent s' = cs_sent s1 @ ps" "in_order E as ps"
      by (elim exE conjE)
    from qs(2) r'(1) obtain q where "qs = [q]" "request_for E a q"
      by (elim disjE conjE exE) simp_all
    with qs(1) ps show ?thesis by (intro exI [of _ "q # ps"]) simp
  next
    assume "s' = s1 \<and> (\<forall>r'. y \<noteq> Inr (False, r'))"
    moreover from qs(2) have "in_order E (a # as) qs" by (elim disjE conjE exE) simp_all
    ultimately show ?thesis using qs(1) by (intro exI [of _ qs]) simp
  qed
qed

lemma execute_steps_eq:
  "\<exists>dl s1. cs_sent s1 = cs_sent s \<and> execute_steps E x steps d s =
     try_map (execute_loop E dl 0 (def_actions d) \<lparr>run_execution = x, run_steps = steps, run_successful = 0\<rparr>)
       (\<lambda>e. e) (finish_execution E) s1"
  by (intro exI conjI) (auto simp: execute_steps_def ibind_def draw_def Let_def)

lemma execute_steps_sent:
  assumes "execute_steps E x steps d s = (res, s')"
  shows "\<exists>qs. cs_sent s' = cs_sent s @ qs \<and> in_order E (def_actions d) qs"
proof -
  let ?r = "\<lparr>run_execution = x, run_steps = steps, run_successful = 0\<rparr>"
  obtain dl s1 where s1: "cs_sent s1 = cs_sent s"
    "try_map (execute_loop E dl 0 (def_actions d) ?r) (\<lambda>e. e) (finish_execution E) s1 = (res, s')"
    using execute_steps_eq [of s E x steps d] assms by auto
  obtain y s2 where loop: "execute_loop E dl 0 (def_actions d) ?r s1 = (y, s2)" by fastforce
  with s1(2) have "cs_sent s' = cs_sent s2" by (auto simp: try_map_iff dest!: finish_sent)
  with execute_loop_sent [OF loop] s1(1) show ?thesis by simp
qed

section \<open>Errors\<close>

lemma save_step_Inl: "save_step E st s = (Inl e, s') \<Longrightarrow> e \<in> run_errors"
  by (auto simp: save_step_def try_map_iff step_error_def run_errors_def)

lemma resolve_resource_Inl: "resolve_resource E a s = (Inl e, s') \<Longrightarrow> e \<in> run_errors"
  by (cases a) (auto simp: try_map_iff run_errors_def)

lemma after_dispatch_Inl: "after_dispatch E i b t res r s = (Inl e, s') \<Longrightarrow> e \<in> run_errors"
  by (auto simp: after_dispatch_def try_map_iff Let_def dest!: save_step_Inl split: if_splits sum.splits)

lemma execute_action_Inl: "execute_action E dl i a r s = (Inl e, s') \<Longrightarrow> e \<in> run_errors"
  by (auto simp: execute_action_def try_map_iff ibind_iff Let_def
      dest!: save_step_Inl resolve_resource_Inl after_dispatch_Inl split: if_splits)

lemma execute_loop_Inl: "execute_loop E dl k as r s = (Inl e, s') \<Longrightarrow> e \<in> run_errors"
  by (induction as arbitrary: k r s)
     (auto simp: try_map_iff dest!: execute_action_Inl split: if_splits)

lemma execute_steps_result:
  assumes run: "execute_steps E x steps d s = (res, s')" and len: "length steps = length (def_actions d)"
    and pending: "list_all (\<lambda>st. stp_status st = StepPending) steps"
    and x: "exe_status x = ExecRunning" "exe_failure_code x = None"
  shows "(\<exists>e \<in> run_errors. res = Inl e) \<or>
    (\<exists>k x' steps' qs. res = Inr (x', steps') \<and> run_outcome steps x k x' steps' \<and> unlocked E (exe_id x) s' \<and>
       cs_sent s' = cs_sent s @ qs \<and> in_order E (def_actions d) qs \<and> k \<le> length qs \<and> length qs \<le> k + 1)"
proof -
  let ?r = "\<lparr>run_execution = x, run_steps = steps, run_successful = 0\<rparr>"
  obtain dl s1 where s1: "cs_sent s1 = cs_sent s"
    and rest: "try_map (execute_loop E dl 0 (def_actions d) ?r) (\<lambda>e. e) (finish_execution E) s1 = (res, s')"
    using execute_steps_eq [of s E x steps d] run by auto
  have inv: "loop_invariant x steps 0 ?r" using pending by (simp add: loop_invariant_def)
  from rest consider (error) e where "execute_loop E dl 0 (def_actions d) ?r s1 = (Inl e, s')" "res = Inl e"
    | (looped) r s2 where "execute_loop E dl 0 (def_actions d) ?r s1 = (Inr r, s2)" "finish_execution E r s2 = (res, s')"
    by (auto simp: try_map_iff)
  then show ?thesis
  proof cases
    case error
    then show ?thesis using execute_loop_Inl by blast
  next
    case looped
    from execute_loop_Inr [OF looped(1) inv] len obtain n qs where
      n: "loop_done x steps n r" "cs_sent s2 = cs_sent s1 @ qs" "length qs = n \<or> length qs = Suc n \<and> n < length steps"
        "\<forall>j < length qs. request_for E (def_actions d ! j) (qs ! j)"
      by auto
    have "n \<le> length steps" using n(1) by (simp add: loop_done_def)
    with n len have ord: "in_order E (def_actions d) qs" by (auto simp: in_order_def)
    have sent: "cs_sent s' = cs_sent s @ qs" using finish_sent [OF looped(2)] n(2) s1 by simp
    from finish_execution_result [OF looped(2) n(1) x] show ?thesis
    proof
      assume "\<exists>x' steps'. res = Inr (x', steps') \<and> run_outcome steps x n x' steps' \<and> unlocked E (exe_id x) s'"
      then obtain x' steps' where "res = Inr (x', steps')" "run_outcome steps x n x' steps'" "unlocked E (exe_id x) s'"
        by (elim exE conjE)
      moreover have "n \<le> length qs" "length qs \<le> n + 1" using n(3) by auto
      ultimately show ?thesis using ord sent by (intro disjI2 exI conjI)
    qed simp
  qed
qed

end
