(* ===== verification/Fubun_Core_Rel.thy ===== *)
theory Fubun_Core_Rel
  imports Fubun_Server Fubun_Execute_Props
begin

text \<open>
  What every handler keeps. A relation between the state before and after is stated once as a locale:
  it is reflexive and transitive, it holds across a look at the environment and across a storage call.
  Each handler then satisfies it, and the dispatcher with them. The interpretations, in \<open>Fubun_Core_Inv\<close>,
  are the relations the properties need.
\<close>

definition io_rel :: "(core_state \<Rightarrow> core_state \<Rightarrow> bool) \<Rightarrow> 'a io \<Rightarrow> bool" where
  "io_rel R m \<longleftrightarrow> (\<forall>s. R s (snd (m s)))"

lemma io_relD: "io_rel R m \<Longrightarrow> m s = (a, s') \<Longrightarrow> R s s'"
  unfolding io_rel_def by (metis snd_conv)

lemma io_rel_if: "(b \<Longrightarrow> io_rel R m) \<Longrightarrow> (\<not> b \<Longrightarrow> io_rel R n) \<Longrightarrow> io_rel R (if b then m else n)"
  by simp

lemma io_rel_option:
  "(x = None \<Longrightarrow> io_rel R m) \<Longrightarrow> (\<And>a. x = Some a \<Longrightarrow> io_rel R (f a)) \<Longrightarrow>
     io_rel R (case x of None \<Rightarrow> m | Some a \<Rightarrow> f a)"
  by (cases x) simp_all

lemma io_rel_sum:
  "(\<And>e. x = Inl e \<Longrightarrow> io_rel R (h e)) \<Longrightarrow> (\<And>a. x = Inr a \<Longrightarrow> io_rel R (f a)) \<Longrightarrow>
     io_rel R (case x of Inl e \<Rightarrow> h e | Inr a \<Rightarrow> f a)"
  by (cases x) simp_all

lemma io_rel_prod: "(\<And>a b. p = (a, b) \<Longrightarrow> io_rel R (f a b)) \<Longrightarrow> io_rel R (case p of (a, b) \<Rightarrow> f a b)"
  by (cases p) simp

lemma io_rel_let: "io_rel R (f a) \<Longrightarrow> io_rel R (let x = a in f x)"
  by simp

locale io_relation =
  fixes E :: "('u, 'z) core_env_scheme"
    and R :: "core_state \<Rightarrow> core_state \<Rightarrow> bool"
  assumes R_refl: "R s s"
    and R_trans: "R s t \<Longrightarrow> R t u \<Longrightarrow> R s u"
    and R_tick: "R s (s\<lparr>cs_conn := (cs_conn s)\<lparr>conn_tick := n\<rparr>\<rparr>)"
    and R_request: "never_resumes op \<Longrightarrow> R s (s\<lparr>cs_conn := snd (handle_request E op (cs_conn s))\<rparr>)"
begin

lemma R_call: "never_resumes op \<Longrightarrow> io_rel R (on_storage (handle_call E op msg f))"
proof -
  have "snd (handle_call E op msg f c) = snd (handle_request E op c)" for c
    by (simp add: handle_call_def sbind_def slift_def split: prod.split sum.split)
  then show "never_resumes op \<Longrightarrow> ?thesis"
    using R_request by (simp add: io_rel_def on_storage_def case_prod_beta)
qed

lemma rel_iret: "io_rel R (iret a)"
  by (simp add: io_rel_def iret_def R_refl)

lemma rel_ibind: "io_rel R m \<Longrightarrow> (\<And>a. io_rel R (f a)) \<Longrightarrow> io_rel R (ibind m f)"
  unfolding io_rel_def ibind_def by (metis (no_types, lifting) R_trans case_prod_beta)

lemma rel_attempt:
  "io_rel R m \<Longrightarrow> (\<And>e. io_rel R (h e)) \<Longrightarrow> (\<And>a. io_rel R (f a)) \<Longrightarrow> io_rel R (attempt m h f)"
  unfolding attempt_def by (intro rel_ibind io_rel_sum)

lemma rel_try_map: "io_rel R m \<Longrightarrow> (\<And>a. io_rel R (f a)) \<Longrightarrow> io_rel R (try_map m g f)"
  unfolding try_map_def by (intro rel_attempt rel_iret)

lemma rel_draw: "io_rel R (draw f)"
  by (simp add: io_rel_def draw_def R_tick)

lemma rel_slift_bind:
  "(\<And>a. r = Inr a \<Longrightarrow> io_rel R (on_storage (f a))) \<Longrightarrow> io_rel R (on_storage (sbind (slift r) f))"
  by (cases r) (auto simp: io_rel_def on_storage_def sbind_def slift_def R_refl)

lemma rel_handles:
  "io_rel R (on_storage (handle_list_events E since limit))"
  "io_rel R (on_storage (handle_schema_version E))"
  "io_rel R (on_storage (handle_create_resource E r))"
  "io_rel R (on_storage (handle_list_resources E))"
  "io_rel R (on_storage (handle_get_resource E i))"
  "io_rel R (on_storage (handle_create_ritual E ri v d))"
  "io_rel R (on_storage (handle_update_ritual E ri v d))"
  "io_rel R (on_storage (handle_list_rituals E))"
  "io_rel R (on_storage (handle_get_ritual E i))"
  "io_rel R (on_storage (handle_set_ritual_status E i st))"
  "io_rel R (on_storage (handle_create_approvals E as))"
  "io_rel R (on_storage (handle_list_approvals E i))"
  "io_rel R (on_storage (handle_start_execution E x ss))"
  "io_rel R (on_storage (handle_update_step E sp))"
  "io_rel R (on_storage (handle_list_executions E))"
  "io_rel R (on_storage (handle_get_execution E i))"
  "io_rel R (on_storage (handle_counts E))"
  "io_rel R (on_storage (handle_ensure_observation_scope E sc))"
  "io_rel R (on_storage (handle_list_observation_scopes E src))"
  "io_rel R (on_storage (handle_pause_observation_scope E i))"
  by (simp_all add: handle_list_events_def handle_schema_version_def handle_create_resource_def
      handle_list_resources_def handle_get_resource_def handle_create_ritual_def handle_update_ritual_def
      handle_list_rituals_def handle_get_ritual_def handle_set_ritual_status_def
      handle_create_approvals_def handle_list_approvals_def handle_start_execution_def
      handle_update_step_def handle_list_executions_def handle_get_execution_def handle_counts_def
      handle_ensure_observation_scope_def handle_list_observation_scopes_def
      handle_pause_observation_scope_def R_call)

lemma rel_insert_event: "io_rel R (on_storage (handle_insert_event E e))"
  unfolding handle_insert_event_def by (rule rel_slift_bind) (simp add: R_call)

lemma rel_update_execution:
  "exe_status x \<noteq> ExecRunning \<Longrightarrow> io_rel R (on_storage (handle_update_execution E x))"
  by (simp add: handle_update_execution_def R_call)

lemma rel_not_found_or: "io_rel R (not_found_or i code message e)"
  by (simp add: not_found_or_def rel_iret)

lemmas rel_rules = rel_iret rel_ibind rel_attempt rel_try_map rel_draw rel_handles rel_insert_event
  rel_not_found_or io_rel_if io_rel_option io_rel_sum io_rel_prod io_rel_let

lemma rel_looks:
  "io_rel R (now_utc E)" "io_rel R (new_v4 E)" "io_rel R (fs_metadata E path)"
  "io_rel R (fs_canonicalize E path)" "io_rel R (adapters_find_eligible E req)"
  "io_rel R (connections_now E g)"
  by (simp_all add: now_utc_def new_v4_def fs_metadata_def fs_canonicalize_def
      adapters_find_eligible_def connections_now_def rel_draw)

lemma rel_path_looks:
  "io_rel R (path_exists E path)" "io_rel R (path_is_dir E path)" "io_rel R (canonical_path_is E path)"
  by (auto simp: path_exists_def path_is_dir_def canonical_path_is_def intro!: rel_rules rel_looks)

lemma rel_and_io: "io_rel R m \<Longrightarrow> io_rel R n \<Longrightarrow> io_rel R (and_io m n)"
  unfolding and_io_def by (intro rel_rules)

lemmas rel_all = rel_rules rel_looks rel_path_looks rel_and_io

lemma rel_ingest: "io_rel R (ingest_response E i e)"
  unfolding ingest_response_def by (intro rel_all)

lemma rel_ingest_adapter_event: "io_rel R (ingest_adapter_event E hello payload)"
  unfolding ingest_adapter_event_def by (intro rel_all)

lemma rel_create_file_resource: "io_rel R (create_file_resource E i payload kind target)"
  unfolding create_file_resource_def by (intro rel_all)

lemma rel_file_kind:
  "(x = None \<Longrightarrow> io_rel R m) \<Longrightarrow> (x = Some RegularFile \<Longrightarrow> io_rel R f) \<Longrightarrow>
   (x = Some DirectoryFile \<Longrightarrow> io_rel R g) \<Longrightarrow> (x = Some OtherFile \<Longrightarrow> io_rel R m) \<Longrightarrow>
     io_rel R (case x of Some RegularFile \<Rightarrow> f | Some DirectoryFile \<Rightarrow> g | _ \<Rightarrow> m)"
  by (auto split: option.split file_kind.split)

lemma rel_resource_create: "io_rel R (resource_create_response E i payload)"
  unfolding resource_create_response_def
  by (auto intro!: rel_all rel_create_file_resource split: option.split file_kind.split)

lemma rel_create_or_find:
  "(\<And>r. io_rel R (f r)) \<Longrightarrow> io_rel R (create_or_find_resource E i candidate conflict f)"
  unfolding create_or_find_resource_def by (intro rel_all)

lemma rel_browser_enable: "io_rel R (browser_observation_enable_response E i label url)"
  unfolding browser_observation_enable_response_def by (intro rel_all rel_create_or_find)

lemma rel_vscode_enable: "io_rel R (vscode_observation_enable_response E i label path)"
  unfolding vscode_observation_enable_response_def by (intro rel_all rel_create_or_find)

lemma rel_ritual_create: "io_rel R (ritual_create_response E i d)"
  unfolding ritual_create_response_def by (intro rel_all)

lemma rel_ritual_update: "io_rel R (ritual_update_response E i rid d)"
  unfolding ritual_update_response_def by (intro rel_all)

lemma rel_ritual_show: "io_rel R (ritual_show_response E i rid)"
  unfolding ritual_show_response_def by (intro rel_all)

lemma rel_path_findings: "io_rel R (path_findings E rid)"
  unfolding path_findings_def by (intro rel_all)

lemma rel_web_findings: "io_rel R (web_findings E rid)"
  unfolding web_findings_def by (intro rel_all)

lemma rel_findings: "io_rel R (action_findings_of E eligible a)"
  by (cases a) (auto intro!: rel_all rel_path_findings rel_web_findings)

lemma rel_preview_actions: "io_rel R (preview_actions E k as)"
  by (induction as arbitrary: k) (auto simp: preview_step_def intro!: rel_all rel_findings)

lemma rel_build_preview: "io_rel R (build_preview E r v d)"
  unfolding build_preview_def by (intro rel_all rel_preview_actions)

lemma rel_ritual_preview: "io_rel R (ritual_preview_response E i rid)"
  unfolding ritual_preview_response_def by (intro rel_all rel_build_preview)

lemma rel_approvals_for: "io_rel R (approvals_for E v now as)"
  by (induction as) (auto intro!: rel_all)

lemma rel_ritual_activate: "io_rel R (ritual_activate_response E i rid approve)"
  unfolding ritual_activate_response_def by (intro rel_all rel_build_preview rel_approvals_for)

lemma rel_ritual_pause: "io_rel R (ritual_pause_response E i rid)"
  unfolding ritual_pause_response_def by (intro rel_all)

lemma rel_preflight_target: "io_rel R (preflight_target E a)"
  by (cases a) (auto simp: preflight_path_def preflight_web_def intro!: rel_all)

lemma rel_preflight_actions: "io_rel R (preflight_actions E v as acts)"
  by (induction acts) (auto simp: preflight_action_def intro!: rel_all rel_preflight_target)

lemma rel_preflight: "io_rel R (preflight E v d)"
  unfolding preflight_def by (intro rel_all rel_preflight_actions)

lemma rel_or_empty: "io_rel R m \<Longrightarrow> io_rel R (or_empty m)"
  unfolding or_empty_def by (intro rel_all)

lemma rel_status: "io_rel R (status_response E i)" "io_rel R (integrations_response E i)"
  unfolding status_response_def integrations_response_def by (intro rel_all rel_or_empty)+

lemma rel_doctor: "io_rel R (doctor_response E i)"
  unfolding doctor_response_def by (intro rel_all rel_or_empty)

lemma rel_respond: "io_rel R m \<Longrightarrow> io_rel R (respond_with i m f)"
  "io_rel R m \<Longrightarrow> io_rel R (respond_or_not_found i code message m f)"
  unfolding respond_with_def respond_or_not_found_def by (intro rel_all; assumption)+

lemma rel_new_steps: "io_rel R (new_steps E xid now k as)"
  by (induction as arbitrary: k) (auto intro!: rel_all)

lemma rel_save_step: "io_rel R (save_step E st)"
  unfolding save_step_def by (intro rel_all)

lemma rel_resolve_resource: "io_rel R (resolve_resource E a)"
  by (cases a) (auto intro!: rel_all)

lemma rel_after_dispatch: "io_rel R (after_dispatch E k b t res r)"
  unfolding after_dispatch_def by (intro rel_all rel_save_step)

lemma rel_finalize: "io_rel R (finalize_unfinished_steps E t c m steps)"
  by (induction steps) (auto intro!: rel_all)

text \<open>Every request but a run of a ritual.\<close>

lemma rel_process_body: "\<forall>rid. body \<noteq> RitualRun rid \<Longrightarrow> io_rel R (process_body E i body)"
  by (cases body)
     (auto intro!: rel_all rel_respond rel_status rel_doctor rel_ingest rel_browser_enable
       rel_vscode_enable rel_resource_create rel_ritual_create rel_ritual_update rel_ritual_show
       rel_ritual_preview rel_ritual_activate rel_ritual_pause)

end

text \<open>The steps a run starts with.\<close>

lemma new_steps_shape:
  "new_steps E xid now k as s = (steps, s') \<Longrightarrow>
     length steps = length as \<and> list_all (\<lambda>st. stp_status st = StepPending) steps \<and>
     (\<forall>j < length as. stp_step_index (steps ! j) = word_of_nat (k + j) \<and>
        stp_action_type (steps ! j) = action_type (as ! j) \<and> stp_execution_id (steps ! j) = xid)"
proof (induction as arbitrary: k s steps s')
  case Nil
  then show ?case by simp
next
  case (Cons a as)
  from Cons.prems obtain st rest s1 s2 where n: "new_steps E xid now (k + 1) as s1 = (rest, s2)"
    and st: "steps = st # rest" "stp_status st = StepPending" "stp_step_index st = word_of_nat k"
      "stp_action_type st = action_type a" "stp_execution_id st = xid"
    by (auto simp: ibind_iff)
  from Cons.IH [OF n] have len: "length rest = length as" "list_all (\<lambda>st. stp_status st = StepPending) rest"
    and each: "\<And>j. j < length as \<Longrightarrow> stp_step_index (rest ! j) = word_of_nat (k + 1 + j) \<and>
        stp_action_type (rest ! j) = action_type (as ! j) \<and> stp_execution_id (rest ! j) = xid"
    by blast+
  have "stp_step_index (steps ! j) = word_of_nat (k + j) \<and>
        stp_action_type (steps ! j) = action_type ((a # as) ! j) \<and> stp_execution_id (steps ! j) = xid"
    if "j < length (a # as)" for j
    using that each [of "j - 1"] st by (cases j) simp_all
  with len st(1,2) show ?case by simp
qed

text \<open>A relation that also holds when a request is sent.\<close>

locale dispatching_relation = io_relation E R
  for E :: "('u, 'z) core_env_scheme" and R +
  assumes R_sent: "R s (s\<lparr>cs_sent := cs_sent s @ [q]\<rparr>)"
begin

lemma rel_log_sent: "io_rel R (log_sent a q)"
  by (simp add: io_rel_def log_sent_def R_sent)

lemma rel_adapters_execute: "io_rel R (adapters_execute E a resolved timeout)"
  unfolding adapters_execute_def by (intro rel_all rel_log_sent)

lemma rel_execute_action: "io_rel R (execute_action E dl k a r)"
  unfolding execute_action_def
  by (intro rel_all rel_save_step rel_resolve_resource rel_adapters_execute rel_after_dispatch)

lemma rel_execute_loop: "io_rel R (execute_loop E dl k as r)"
  by (induction as arbitrary: k r) (auto intro!: rel_all rel_execute_action)

lemma rel_store_outcome:
  "exe_status (run_execution r) \<noteq> ExecRunning \<Longrightarrow> io_rel R (store_outcome E t r)"
  unfolding store_outcome_def by (intro rel_all rel_update_execution) simp

lemma rel_ibind':
  "io_rel R m \<Longrightarrow> (\<And>s a s'. m s = (a, s') \<Longrightarrow> io_rel R (f a)) \<Longrightarrow> io_rel R (ibind m f)"
  unfolding io_rel_def ibind_def by (metis (no_types, lifting) R_trans case_prod_beta prod.collapse)

lemma rel_try_map':
  assumes "io_rel R m" "\<And>s a s'. m s = (Inr a, s') \<Longrightarrow> io_rel R (f a)"
  shows "io_rel R (try_map m g f)"
  unfolding try_map_def attempt_def
  by (rule rel_ibind' [OF assms(1)]) (auto split: sum.split intro: rel_iret assms(2))

lemma rel_finalize_and_store:
  assumes "exe_status (run_execution r) \<noteq> ExecRunning"
  shows "io_rel R (finalize_and_store E t c m r)"
  unfolding finalize_and_store_def
proof (rule rel_try_map')
  show "io_rel R (try_map (finalize_unfinished_steps E t c m (run_steps r)) (\<lambda>e. e)
      (\<lambda>steps. iret (Inr (r\<lparr>run_steps := steps\<rparr>))))"
    by (intro rel_all rel_finalize)
next
  fix s r' s'
  assume "try_map (finalize_unfinished_steps E t c m (run_steps r)) (\<lambda>e. e)
      (\<lambda>steps. iret (Inr (r\<lparr>run_steps := steps\<rparr>))) s = (Inr r', s')"
  then have "run_execution r' = run_execution r" by (auto simp: try_map_Inr_iff)
  with assms show "io_rel R (store_outcome E t r')" by (simp add: rel_store_outcome)
qed

lemma rel_finish:
  assumes "loop_done x steps k r" "exe_status x = ExecRunning" "exe_failure_code x = None"
  shows "io_rel R (finish_execution E r)"
proof -
  have failed: "failed_status n \<noteq> ExecRunning" for n by (simp add: failed_status_def)
  have "exe_status (run_execution r) \<noteq> ExecRunning"
    if "exe_failure_code (run_execution r) \<noteq> None" "exe_failure_code (run_execution r) \<noteq> Some ''ritual_timeout''"
    using that assms failed by (auto simp: loop_done_def split: if_splits)
  then show ?thesis
    unfolding finish_execution_alt
    by (intro rel_all rel_finalize_and_store rel_store_outcome) (simp_all add: set_status_def failed)
qed

lemma rel_execute_steps:
  assumes "length steps = length (def_actions d)" "list_all (\<lambda>st. stp_status st = StepPending) steps"
    and x: "exe_status x = ExecRunning" "exe_failure_code x = None"
  shows "io_rel R (execute_steps E x steps d)"
proof -
  let ?r = "\<lparr>run_execution = x, run_steps = steps, run_successful = 0\<rparr>"
  have inv: "loop_invariant x steps 0 ?r" using assms by (simp add: loop_invariant_def)
  have "io_rel R (try_map (execute_loop E dl 0 (def_actions d) ?r) (\<lambda>e. e) (finish_execution E))" for dl
  proof (rule rel_try_map')
    fix s r s' assume "execute_loop E dl 0 (def_actions d) ?r s = (Inr r, s')"
    from execute_loop_Inr [OF this inv] assms(1) obtain k where "loop_done x steps k r" by auto
    then show "io_rel R (finish_execution E r)" using x by (rule rel_finish)
  qed (rule rel_execute_loop)
  then show ?thesis unfolding execute_steps_def Let_def by (intro rel_ibind rel_draw)
qed

lemma rel_new_steps_bind:
  assumes "\<And>steps. length steps = length as \<Longrightarrow> list_all (\<lambda>st. stp_status st = StepPending) steps \<Longrightarrow>
    io_rel R (f steps)"
  shows "io_rel R (ibind (new_steps E xid now k as) f)"
  using rel_new_steps by (rule rel_ibind') (auto dest!: new_steps_shape intro: assms)

lemma rel_ritual_run: "io_rel R (ritual_run_response E i rid)"
  unfolding ritual_run_response_def start_run_def
  by (intro rel_iret rel_attempt rel_handles rel_not_found_or rel_preflight io_rel_option io_rel_prod
      io_rel_let rel_ibind [OF rel_looks(1)] rel_ibind [OF rel_looks(2)] rel_new_steps_bind
      rel_execute_steps) simp_all

lemma rel_process_request: "io_rel R (process_request E request)"
proof -
  have "io_rel R (process_body E i body)" for i body
  proof (cases "\<exists>rid. body = RitualRun rid")
    case True
    then show ?thesis using rel_ritual_run by auto
  qed (simp add: rel_process_body)
  then show ?thesis unfolding process_request_def by (intro rel_rules)
qed

end

end
