(* ===== verification/Fubun_Core_Inv.thy ===== *)
theory Fubun_Core_Inv
  imports Fubun_Core_Rel
begin

text \<open>
  The relations every request keeps, as interpretations of the locales for the model's storage and
  handlers.
\<close>

section \<open>Interpretations\<close>

lemma request_snd:
  "snd (handle_request E op c) =
     (let c' = others E c in if conn_open c' then snd (execute_operation E op c') else c')"
  by (simp add: handle_request_def Let_def)

text \<open>Outside a run no request is sent to an adapter.\<close>

interpretation silent: io_relation E "\<lambda>s s'. cs_sent s' = cs_sent s" for E
  by unfold_locales simp_all

text \<open>The tables stay consistent when the other tasks do not set an execution back to running.\<close>

definition others_settled :: "'z handle_env_scheme \<Rightarrow> bool" where
  "others_settled E \<longleftrightarrow> (\<forall>t. \<forall>op \<in> set (he_others E t). never_resumes op)"

definition stays_consistent :: "'z handle_env_scheme \<Rightarrow> core_state \<Rightarrow> core_state \<Rightarrow> bool" where
  "stays_consistent E s s' \<longleftrightarrow>
     (others_settled E \<longrightarrow> db_ok (conn_db (cs_conn s)) \<longrightarrow> db_ok (conn_db (cs_conn s')))"

lemma others_consistent:
  "others_settled E \<Longrightarrow> db_ok (conn_db c) \<Longrightarrow> db_ok (conn_db (others E c))"
  unfolding others_def others_settled_def by (rule writer_loop_keeps) (auto intro: keeps_execute_operation)

lemma request_consistent:
  assumes "never_resumes op" "others_settled E" "db_ok (conn_db c)"
  shows "db_ok (conn_db (snd (handle_request E op c)))"
  using others_consistent [OF assms(2,3)] keeps_snd [OF keeps_execute_operation [OF assms(1), of E]]
  by (simp add: request_snd Let_def)

interpretation consistent: dispatching_relation E "stays_consistent E" for E
  by unfold_locales (auto simp: stays_consistent_def request_consistent)

text \<open>The append-only tables grow.\<close>

definition grows :: "core_state \<Rightarrow> core_state \<Rightarrow> bool" where
  "grows s s' \<longleftrightarrow> extends (conn_db (cs_conn s)) (conn_db (cs_conn s'))"

lemma extends_trans: "extends a b \<Longrightarrow> extends b c \<Longrightarrow> extends a c"
  by (auto simp: extends_def elim: prefix_order.trans)

lemma request_extends: "extends (conn_db c) (conn_db (snd (handle_request E op c)))"
proof -
  have o: "extends (conn_db c) (conn_db (others E c))"
    unfolding others_def by (rule history.keeps_loop) simp
  then have "extends (conn_db c) (conn_db (snd (execute_operation E op (others E c))))"
    by (rule keeps_snd [OF history.keeps_operation])
  with o show ?thesis by (simp add: request_snd Let_def)
qed

interpretation growing: dispatching_relation E grows for E
  by unfold_locales (auto simp: grows_def request_extends intro: extends_trans)

end
