(* ===== verification/Fubun_Core_Samples.thy ===== *)
theory Fubun_Core_Samples
  imports Fubun_Core_Inv
begin

text \<open>
  A concrete environment and state for the witnesses about the core: one Linux adapter that answers
  every action, one directory, one active and approved ritual that opens it.
\<close>

definition sample_linux :: adapter_hello where
  "sample_linux = \<lparr>ah_adapter_id = ''dev.fubun.linux'', ah_adapter_version = ''1'', ah_instance_id = 5,
     ah_action_capabilities = [''linux.path.open.v1''], ah_event_capabilities = [],
     ah_status = \<lparr>snap_tools = [\<lparr>tool_name = ''xdg-open'', tool_available = True\<rparr>],
       snap_desktop_entry_ids = [], snap_permitted_resource_ids = []\<rparr>\<rparr>"

definition sample_manager :: adapter_manager where
  "sample_manager = \<lparr>mg_connections = [(5, \<lparr>ac_token = 50, ac_hello = sample_linux,
       ac_connected_at = Timestamp 1 0, ac_last_seen_at = Timestamp 1 0\<rparr>)], mg_pending = []\<rparr>"

definition sample_reply :: action_result where
  "sample_reply = \<lparr>ar_status = AdapterSucceeded, ar_result_code = ''ok'', ar_redacted_message = ''m''\<rparr>"

definition sample_core_env :: "bool core_env" where
  "sample_core_env = \<lparr>
     se_uuid_text = se_uuid_text sample_env, se_uuid_parse = se_uuid_parse sample_env,
     se_ts_format = se_ts_format sample_env, se_ts_parse = se_ts_parse sample_env,
     se_ritual_json = se_ritual_json sample_env, se_ritual_of_json = se_ritual_of_json sample_env,
     se_event_json = se_event_json sample_env, se_event_of_json = se_event_of_json sample_env,
     se_context_json = se_context_json sample_env, se_data_json = se_data_json sample_env,
     se_now = se_now sample_env, se_sql_fault = (\<lambda>_. False), he_others = (\<lambda>_. []),
     ce_url = sample_url_lib, ce_sha256 = (\<lambda>_. [1]), ce_new_v4 = (\<lambda>t. word_of_nat (t + 20)),
     ce_manager = (\<lambda>_. sample_manager), ce_send_ok = (\<lambda>_. True),
     ce_reply = (\<lambda>_ _. Replied (Inr sample_reply)), ce_instant = (\<lambda>t. int t),
     ce_metadata = (\<lambda>_ _. Some DirectoryFile), ce_canonicalize = (\<lambda>_ p. Some p), ce_lossy = (\<lambda>p. p),
     ce_database_path = ''/db''\<rparr>"

definition sample_approval :: approval where
  "sample_approval = approval_of 9 sample_version (Timestamp 1 0) (LinuxPathOpen 7)"

definition sample_setup :: "operation list" where
  "sample_setup = [CreateResource (sample_resource 7 ''/d''),
     CreateRitual (sample_ritual_rec RitualActive) sample_version sample_definition,
     CreateApprovals [sample_approval]]"

definition sample_state :: core_state where
  "sample_state = \<lparr>cs_conn = snd (writer_loop sample_core_env sample_setup sample_conn), cs_sent = []\<rparr>"

lemma sample_state_ok: "db_ok (conn_db (cs_conn sample_state))"
proof -
  have "keeps db_ok (execute_operation sample_core_env op)" if "op \<in> set sample_setup" for op
    using that by (intro keeps_execute_operation) (auto simp: sample_setup_def)
  from writer_loop_keeps [where I = db_ok, OF this sample_conn_ok] show ?thesis
    by (simp add: sample_state_def)
qed

lemma sample_others: "others_settled sample_core_env"
  by (simp add: others_settled_def sample_core_env_def)

lemma sample_core_env_laws: "store_env_laws sample_core_env"
  using sample_env_laws by (simp add: store_env_laws_def sample_core_env_def)

text \<open>The ritual runs: one request is sent, and the execution succeeds.\<close>

lemma sample_run:
  "case ritual_run_response sample_core_env 30 1 sample_state of (resp, s) \<Rightarrow>
     length (cs_sent s) = 1 \<and> map (\<lambda>q. (ea_instance_id (fst q), arq_body (snd q))) (cs_sent s) =
       [(5, ActionExecute \<lparr>aer_action = LinuxPathOpen 7, aer_resolved_resource =
          Some \<lparr>rr_resource_id = 7, rr_kind = Directory, rr_canonical_locator = ''/d''\<rparr>\<rparr>)] \<and>
     (case rsp_body resp of Ok (RitualRunPayload x) \<Rightarrow>
        exe_status (er_execution x) = ExecSucceeded \<and> length (er_steps x) = 1 | _ \<Rightarrow> False)"
  by code_simp

end
