(* ===== verification/Fubun_Core_Theorems.thy ===== *)
theory Fubun_Core_Theorems
  imports Fubun_Core_Samples
begin

text \<open>
  The properties of a run of a ritual: what it needs before it sends a request, and the record it leaves.
\<close>

section \<open>Runs\<close>

lemma preflight_actions_Inr:
  "preflight_actions E v approvals as s = (Inr (), s') \<Longrightarrow>
     \<forall>a \<in> set as. action_validate a = Inr () \<and> list_ex (approval_covers v a) approvals"
proof (induction as arbitrary: s)
  case Nil
  then show ?case by simp
next
  case (Cons a as)
  from Cons.prems obtain s1 where act: "preflight_action E v approvals a s = (Inr (), s1)"
    and rest: "preflight_actions E v approvals as s1 = (Inr (), s')"
    by (auto simp: try_map_Inr_iff)
  from act have "action_validate a = Inr () \<and> list_ex (approval_covers v a) approvals"
    by (auto simp: preflight_action_def try_map_Inr_iff is_ok_unit_iff split: if_splits)
  with Cons.IH [OF rest] show ?case by simp
qed

lemma preflight_Inr:
  assumes "preflight E v d s = (Inr (), s')"
  shows "\<exists>approvals c. handle_list_approvals E (ver_id v) (cs_conn s) = (Inr approvals, c) \<and>
    (\<forall>a \<in> set (def_actions d). action_validate a = Inr () \<and> list_ex (approval_covers v a) approvals)"
  using assms by (auto simp: preflight_def try_map_Inr_iff on_storage_iff dest!: preflight_actions_Inr)

text \<open>The requests that a part of a handler sends.\<close>

definition sends :: "('u, 'z) core_env_scheme \<Rightarrow> action_spec list \<Rightarrow> 'a io \<Rightarrow> bool" where
  "sends E as m \<longleftrightarrow> (\<forall>s. \<exists>qs. cs_sent (snd (m s)) = cs_sent s @ qs \<and> in_order E as qs)"

abbreviation silent :: "'a io \<Rightarrow> bool" where
  "silent \<equiv> io_rel (\<lambda>s s'. cs_sent s' = cs_sent s)"

lemma sends_silent: "silent m \<Longrightarrow> sends E as m"
  unfolding sends_def io_rel_def by (intro allI exI [of _ "[]"]) simp

lemma sendsD: "sends E as m \<Longrightarrow> \<exists>qs. cs_sent (snd (m s)) = cs_sent s @ qs \<and> in_order E as qs"
  unfolding sends_def by (rule spec)

lemma sends_ibind:
  assumes "silent m" "\<And>a. sends E as (f a)"
  shows "sends E as (ibind m f)"
proof -
  have "snd (ibind m f s) = snd (f (fst (m s)) (snd (m s)))" for s
    by (simp add: ibind_def case_prod_beta)
  moreover have "cs_sent (snd (m s)) = cs_sent s" for s
    using assms(1) by (simp add: io_rel_def)
  ultimately show ?thesis
    using sendsD [OF assms(2)] unfolding sends_def by metis
qed

lemma sends_attempt:
  "silent m \<Longrightarrow> (\<And>e. sends E as (h e)) \<Longrightarrow> (\<And>a. sends E as (f a)) \<Longrightarrow> sends E as (attempt m h f)"
  unfolding attempt_def by (rule sends_ibind) (auto split: sum.split)

lemma sends_attempt_last:
  assumes "sends E as m" "\<And>e. silent (h e)" "\<And>a. silent (f a)"
  shows "sends E as (attempt m h f)"
proof -
  have "cs_sent (snd (attempt m h f s)) = cs_sent (snd (m s))" for s
    using assms(2,3) by (cases "fst (m s)") (simp_all add: attempt_def ibind_def io_rel_def case_prod_beta)
  with assms(1) show ?thesis unfolding sends_def by metis
qed

lemma sends_execute_steps: "sends E (def_actions d) (execute_steps E x steps d)"
  unfolding sends_def using execute_steps_sent [of E x steps d] by (metis prod.collapse)

lemma sends_start_run: "sends E (def_actions d) (start_run E i rid v d)"
  unfolding start_run_def Let_def
  by (intro sends_ibind sends_attempt silent.rel_looks silent.rel_handles silent.rel_new_steps
      sends_attempt_last sends_execute_steps sends_silent silent.rel_iret io_rel_prod)

lemma sample_get_ritual:
  "case handle_get_ritual sample_core_env 1 (cs_conn sample_state) of
     (Inr (r, v, d), c) \<Rightarrow> d = sample_definition | _ \<Rightarrow> False"
  by code_simp

text \<open>How a request for a run goes: refused before anything is started, or started.\<close>

lemma ritual_run_cases:
  assumes "ritual_run_response E i rid s = (resp, s')"
  obtains (refused) e where "rsp_body resp = Error e" "cs_sent s' = cs_sent s"
  | (started) r v d c s1 s2 where "handle_get_ritual E rid (cs_conn s) = (Inr (r, v, d), c)"
      "rit_status r = RitualActive" "preflight E v d s1 = (Inr (), s2)" "cs_conn s1 = c"
      "start_run E i rid v d s2 = (resp, s')" "cs_sent s2 = cs_sent s"
proof -
  obtain y s1 where get: "on_storage (handle_get_ritual E rid) s = (y, s1)" by fastforce
  then have sent1: "cs_sent s1 = cs_sent s" by (auto simp: on_storage_iff)
  have early: "(case y of Inl e \<Rightarrow> not_found_or i ''ritual_not_found'' ''ritual was not found'' e
      | Inr (r, v, d) \<Rightarrow> (case not_active_message (rit_status r) of
           Some message \<Rightarrow> iret (response_error i ''ritual_not_active'' message)
         | None \<Rightarrow> attempt (preflight E v d) (\<lambda>(code, message). iret (response_error i code message))
             (\<lambda>_. start_run E i rid v d))) s1 = (resp, s')"
    using assms get by (simp add: ritual_run_response_def attempt_def ibind_def)
  have err: "\<exists>e. rsp_body resp = Error e \<and> s' = s1"
    if "y = Inl e \<or> (\<exists>r v d m. y = Inr (r, v, d) \<and> not_active_message (rit_status r) = Some m)" for e
    using that early
    by (auto simp: not_found_or_def response_error_def storage_error_response_def split: storage_error.splits if_splits)
  have msg: "not_active_message st = None \<longleftrightarrow> st = RitualActive" for st
    by (cases st) (simp_all add: not_active_message_def)
  show thesis
  proof (cases "\<exists>r v d. y = Inr (r, v, d) \<and> rit_status r = RitualActive")
    case False
    then have "(\<exists>e. y = Inl e) \<or> (\<exists>r v d m. y = Inr (r, v, d) \<and> not_active_message (rit_status r) = Some m)"
      by (cases y) (auto simp flip: msg)
    with err obtain e where "rsp_body resp = Error e" "s' = s1" by blast
    with sent1 show thesis by (intro refused) simp_all
  next
    case True
    then obtain r v d where y: "y = Inr (r, v, d)" and active: "rit_status r = RitualActive" by blast
    obtain z s2 where pf: "preflight E v d s1 = (z, s2)" by fastforce
    have sent2: "cs_sent s2 = cs_sent s" using io_relD [OF silent.rel_preflight pf] sent1 by simp
    from early y active pf have run: "(case z of Inl (code, message) \<Rightarrow> iret (response_error i code message)
        | Inr _ \<Rightarrow> start_run E i rid v d) s2 = (resp, s')"
      by (simp add: attempt_def ibind_def not_active_message_def)
    show thesis
    proof (cases z)
      case (Inl e)
      with run have "rsp_body resp = Error \<lparr>err_code = fst e, err_message = snd e\<rparr>" "s' = s2"
        by (auto simp: response_error_def case_prod_beta)
      with sent2 show thesis by (intro refused) simp_all
    next
      case (Inr u)
      have "handle_get_ritual E rid (cs_conn s) = (Inr (r, v, d), cs_conn s1)"
        using get y by (auto simp: on_storage_iff)
      moreover have "preflight E v d s1 = (Inr (), s2)" "start_run E i rid v d s2 = (resp, s')"
        using run pf Inr by simp_all
      ultimately show thesis using started active sent2 by blast
    qed
  qed
qed

text \<open>A run that sends a request read an active, approved ritual.\<close>

lemma run_sends_approved:
  assumes "ritual_run_response E i ritual_id s = (resp, s')" and "cs_sent s' \<noteq> cs_sent s"
  shows "\<exists>r v d c approvals c'. handle_get_ritual E ritual_id (cs_conn s) = (Inr (r, v, d), c) \<and>
    rit_status r = RitualActive \<and>
    handle_list_approvals E (ver_id v) c = (Inr approvals, c') \<and>
    (\<forall>a \<in> set (def_actions d). action_validate a = Inr () \<and> list_ex (approval_covers v a) approvals) \<and>
    (\<exists>qs. cs_sent s' = cs_sent s @ qs \<and> in_order E (def_actions d) qs)"
  using assms(1)
proof (cases rule: ritual_run_cases)
  case refused
  with assms(2) show ?thesis by simp
next
  case (started r v d c s1 s2)
  from sends_start_run [of E d i ritual_id v] started(5,6)
  have "\<exists>qs. cs_sent s' = cs_sent s @ qs \<and> in_order E (def_actions d) qs"
    unfolding sends_def by (metis snd_conv)
  moreover from preflight_Inr [OF started(3)] started(4) obtain approvals c' where
    "handle_list_approvals E (ver_id v) c = (Inr approvals, c')"
    "\<forall>a \<in> set (def_actions d). action_validate a = Inr () \<and> list_ex (approval_covers v a) approvals" by blast
  ultimately show ?thesis using started(1,2) by blast
qed

text \<open>C1: A run acts only on an approved ritual. If the run of a ritual sends any request to an adapter,
  then the ritual it read was active, each of its actions is valid and is covered by a stored approval
  for this version and this content hash, and the requests sent are those of the actions in their
  order, each action at most once, each to an adapter that satisfied every requirement of the action
  when it was chosen.\<close>

theorem run_requires_approval:
  assumes "ritual_run_response E i ritual_id s = (resp, s')" and "cs_sent s' \<noteq> cs_sent s"
  shows "\<exists>r v d c approvals c'. handle_get_ritual E ritual_id (cs_conn s) = (Inr (r, v, d), c) \<and>
    rit_status r = RitualActive \<and>
    handle_list_approvals E (ver_id v) c = (Inr approvals, c') \<and>
    (\<forall>a \<in> set (def_actions d). action_validate a = Inr () \<and> list_ex (approval_covers v a) approvals) \<and>
    (\<exists>qs. cs_sent s' = cs_sent s @ qs \<and> in_order E (def_actions d) qs)"
  using assms by (rule run_sends_approved)

theorem run_requires_approval_witness:
  "\<exists>resp s'. ritual_run_response sample_core_env 30 1 sample_state = (resp, s') \<and>
     length (cs_sent s') = 1 \<and> in_order sample_core_env [LinuxPathOpen 7] (cs_sent s')"
proof -
  obtain resp s' where run: "ritual_run_response sample_core_env 30 1 sample_state = (resp, s')" by fastforce
  with sample_run have len: "length (cs_sent s') = 1" by simp
  have empty: "cs_sent sample_state = []" by (simp add: sample_state_def)
  with len have "cs_sent s' \<noteq> cs_sent sample_state" by auto
  from run_requires_approval [OF run this] obtain r v d c qs where
    g: "handle_get_ritual sample_core_env 1 (cs_conn sample_state) = (Inr (r, v, d), c)"
    and "cs_sent s' = cs_sent sample_state @ qs" "in_order sample_core_env (def_actions d) qs" by blast
  moreover have "d = sample_definition" using sample_get_ritual g by simp
  ultimately show ?thesis using run len empty
    by (auto simp: sample_definition_def sample_ritual_def)
qed


text \<open>The runs that start: where the response comes from.\<close>

lemma start_run_payload:
  assumes "start_run E i rid v d s = (resp, s')" and "rsp_body resp = Ok (RitualRunPayload rec)"
  obtains x steps t s1 s2 s3 where "new_steps E (exe_id x) t 0 (def_actions d) s1 = (steps, s2)"
    "execute_steps E x steps d s3 = (Inr (er_execution rec, er_steps rec), s')"
    "exe_status x = ExecRunning" "exe_failure_code x = None" "cs_sent s3 = cs_sent s"
proof -
  define x where "x xid now = \<lparr>exe_id = xid, exe_ritual_id = rid, exe_ritual_version_id = ver_id v,
     exe_status = ExecRunning, exe_trigger_kind = Manual, exe_started_at = now,
     exe_finished_at = None, exe_failure_code = None, exe_created_at = now\<rparr>" for xid now
  from assms(1) obtain now sa xid sb steps sc y sd where
    now: "now_utc E s = (now, sa)" and xid: "new_v4 E sa = (xid, sb)" and
    steps: "new_steps E xid now 0 (def_actions d) sb = (steps, sc)" and
    start: "on_storage (handle_start_execution E (x xid now) steps) sc = (y, sd)" and
    rest: "(case y of Inl e \<Rightarrow> iret (if e = RitualAlreadyRunning
             then response_error i ''ritual_already_running'' ''the ritual already has a running execution''
             else storage_error_response i e)
          | Inr _ \<Rightarrow> attempt (execute_steps E (x xid now) steps d)
            (\<lambda>(code, message). iret (response_error i code message))
            (\<lambda>(x, steps). iret (response_ok i (RitualRunPayload \<lparr>er_execution = x, er_steps = steps\<rparr>)))) sd
      = (resp, s')"
    unfolding start_run_def Let_def attempt_def x_def ibind_iff by blast
  from rest assms(2) have run: "execute_steps E (x xid now) steps d sd = (Inr (er_execution rec, er_steps rec), s')"
    by (auto simp: attempt_iff response_error_def response_ok_def storage_error_response_def
        split: sum.splits if_splits storage_error.splits)
  have sent: "cs_sent sd = cs_sent s"
    using io_relD [OF silent.rel_looks(1) now] io_relD [OF silent.rel_looks(2) xid]
      io_relD [OF silent.rel_new_steps steps] io_relD [OF silent.rel_handles(13) start] by simp
  have "new_steps E (exe_id (x xid now)) now 0 (def_actions d) sb = (steps, sc)"
    using steps by (simp add: x_def)
  from that [OF this run _ _ sent] show thesis by (simp add: x_def)
qed

text \<open>What the outcome of a run says of the record, for the steps a run starts with.\<close>

lemma outcome_record:
  assumes "run_outcome steps x k y ys" and "new_steps E (exe_id x) t 0 as s = (steps, s')"
  shows "length ys = length as \<and> map stp_step_index ys = map word_of_nat [0..<length as] \<and>
    map stp_action_type ys = map action_type as \<and> list_all (\<lambda>st. stp_execution_id st = exe_id y) ys \<and>
    k \<le> length as \<and> list_all (\<lambda>st. stp_status st \<in> {StepFailed, StepAborted}) (take 1 (drop k ys)) \<and>
    exe_status y = (if k = length as then ExecSucceeded else if k = 0 then ExecFailed else ExecPartial) \<and>
    (exe_failure_code y = None \<longleftrightarrow> k = length as)"
proof -
  note shape = new_steps_shape [OF assms(2)] and out = assms(1) [unfolded run_outcome_def]
  have keys: "map step_key ys = map step_key steps" and id: "exe_id y = exe_id x" using out by blast+
  have len: "length ys = length as" "length steps = length as"
    using keys shape by (auto dest: map_eq_imp_length_eq)
  have each: "stp_step_index (ys ! j) = word_of_nat j" "stp_action_type (ys ! j) = action_type (as ! j)"
      "stp_execution_id (ys ! j) = exe_id y" if "j < length as" for j
  proof -
    have "stp_step_index (steps ! j) = word_of_nat (0 + j) \<and> stp_action_type (steps ! j) = action_type (as ! j)
        \<and> stp_execution_id (steps ! j) = exe_id x"
      using shape that by blast
    moreover have "step_key (ys ! j) = step_key (steps ! j)" using keys len that by (metis nth_map)
    ultimately show "stp_step_index (ys ! j) = word_of_nat j"
      "stp_action_type (ys ! j) = action_type (as ! j)" "stp_execution_id (ys ! j) = exe_id y"
      by (simp_all add: step_key_def id)
  qed
  have "map stp_step_index ys = map word_of_nat [0..<length as]" "map stp_action_type ys = map action_type as"
    using each len by (auto intro!: nth_equalityI)
  moreover have "list_all (\<lambda>st. stp_execution_id st = exe_id y) ys"
    unfolding list_all_length using each(3) len(1) by simp
  moreover have "list_all (\<lambda>st. stp_status st \<in> {StepFailed, StepAborted}) (take 1 (drop k ys))"
    using out len by (cases "k < length as") (simp_all add: list_all_length)
  ultimately show ?thesis using out len by (simp add: failed_status_def)
qed

text \<open>C3: A run that returns a record left a complete one. Its steps are those of the actions of the
  ritual, in order, up to some step all succeeded or skipped; at most the next step failed or was
  aborted, and every later one was aborted. The execution is succeeded when no step is missing, failed
  when none succeeded and partial otherwise; it has a time of finish, a failure code exactly when it did
  not succeed, its lock is gone, and the requests sent are those of the steps that succeeded and at
  most one more.\<close>

theorem run_record_complete:
  assumes "ritual_run_response E i rid s = (resp, s')" and "rsp_body resp = Ok (RitualRunPayload rec)"
  shows "\<exists>r v d c k qs. handle_get_ritual E rid (cs_conn s) = (Inr (r, v, d), c) \<and>
    length (er_steps rec) = length (def_actions d) \<and>
    map stp_step_index (er_steps rec) = map word_of_nat [0..<length (def_actions d)] \<and>
    map stp_action_type (er_steps rec) = map action_type (def_actions d) \<and>
    list_all (\<lambda>st. stp_execution_id st = exe_id (er_execution rec)) (er_steps rec) \<and>
    k \<le> length (def_actions d) \<and> list_all step_ok (take k (er_steps rec)) \<and>
    list_all (\<lambda>st. stp_status st \<in> {StepFailed, StepAborted}) (take 1 (drop k (er_steps rec))) \<and>
    list_all (\<lambda>st. stp_status st = StepAborted) (drop (k + 1) (er_steps rec)) \<and>
    exe_status (er_execution rec) =
      (if k = length (def_actions d) then ExecSucceeded else if k = 0 then ExecFailed else ExecPartial) \<and>
    (exe_failure_code (er_execution rec) = None \<longleftrightarrow> k = length (def_actions d)) \<and>
    exe_finished_at (er_execution rec) \<noteq> None \<and>
    (\<forall>l \<in> set (db_locks (conn_db (cs_conn s'))). tlck_execution_id l \<noteq> se_uuid_text E (exe_id (er_execution rec))) \<and>
    cs_sent s' = cs_sent s @ qs \<and> in_order E (def_actions d) qs \<and> k \<le> length qs \<and> length qs \<le> k + 1"
  using assms(1)
proof (cases rule: ritual_run_cases)
  case refused
  with assms(2) show ?thesis by simp
next
  case (started r v d c s1 s2)
  let ?x = "er_execution rec" and ?steps = "er_steps rec"
  from start_run_payload [OF started(5) assms(2)] obtain x steps t sa sb s3 where
    new: "new_steps E (exe_id x) t 0 (def_actions d) sa = (steps, sb)" and
    run: "execute_steps E x steps d s3 = (Inr (?x, ?steps), s')" and
    x: "exe_status x = ExecRunning" "exe_failure_code x = None" and sent: "cs_sent s3 = cs_sent s2" .
  from execute_steps_result [OF run _ _ x] new_steps_shape [OF new] obtain k qs where
    out: "run_outcome steps x k ?x ?steps" and unl: "unlocked E (exe_id x) s'" and
    qs: "cs_sent s' = cs_sent s3 @ qs" "in_order E (def_actions d) qs" "k \<le> length qs" "length qs \<le> k + 1"
    by auto
  have "\<forall>l \<in> set (db_locks (conn_db (cs_conn s'))). tlck_execution_id l \<noteq> se_uuid_text E (exe_id ?x)"
    and "list_all step_ok (take k ?steps)" "list_all (\<lambda>st. stp_status st = StepAborted) (drop (k + 1) ?steps)"
    and "exe_finished_at ?x \<noteq> None"
    using unl out by (simp_all add: unlocked_def run_outcome_def)
  moreover have "cs_sent s' = cs_sent s @ qs" using qs(1) sent started(6) by simp
  ultimately show ?thesis
    using started(1) outcome_record [OF out new] qs(2-4)
    by (intro exI [of _ r] exI [of _ v] exI [of _ d] exI [of _ c] exI [of _ k] exI [of _ qs]) blast
qed

theorem run_record_complete_witness:
  "\<exists>resp s' rec. ritual_run_response sample_core_env 30 1 sample_state = (resp, s') \<and>
     rsp_body resp = Ok (RitualRunPayload rec) \<and> map stp_action_type (er_steps rec) = [''linux.path.open.v1''] \<and>
     exe_finished_at (er_execution rec) \<noteq> None"
proof -
  obtain resp s' where run: "ritual_run_response sample_core_env 30 1 sample_state = (resp, s')" by fastforce
  with sample_run obtain rec where rec: "rsp_body resp = Ok (RitualRunPayload rec)"
    by (auto split: response_body.splits response_payload.splits)
  from run_record_complete [OF run rec] obtain r v d c where
    g: "handle_get_ritual sample_core_env 1 (cs_conn sample_state) = (Inr (r, v, d), c)"
    and "map stp_action_type (er_steps rec) = map action_type (def_actions d)"
      "exe_finished_at (er_execution rec) \<noteq> None" by blast
  moreover have "d = sample_definition" using sample_get_ritual g by simp
  ultimately show ?thesis using run rec by (auto simp: sample_definition_def sample_ritual_def)
qed

section \<open>A run that loses the database\<close>

text \<open>
  An early return of \<open>execute_steps\<close> leaves the execution running and its lock in place. Here one
  statement fails, the one that stores the result of the only step: the adapter has acted, the client is
  told of an internal error, and every later run is refused until the daemon restarts.
\<close>

definition sample_faulty_env :: "bool core_env" where
  "sample_faulty_env = sample_core_env\<lparr>se_sql_fault := (\<lambda>t. t = 36)\<rparr>"

lemma lost_step_update_blocks_ritual:
  "case ritual_run_response sample_faulty_env 30 1 sample_state of (resp, s) \<Rightarrow>
     length (cs_sent s) = 1 \<and> length (db_locks (conn_db (cs_conn s))) = 1 \<and>
     rsp_body resp = Error \<lparr>err_code = ''internal_error'', err_message = ''execution step could not be updated''\<rparr> \<and>
     rsp_body (fst (ritual_run_response sample_faulty_env 31 1 s)) =
       Error \<lparr>err_code = ''ritual_already_running'', err_message = ''the ritual already has a running execution''\<rparr>"
  by code_simp

end
