(* ===== verification/Fubun_Ritual_Theorems.thy ===== *)
theory Fubun_Ritual_Theorems
  imports Fubun_Core_Samples
begin

text \<open>
  The properties of the handlers that change rituals: an update, an activation, a preview.
\<close>

section \<open>What the storage calls leave\<close>

lemma handled_Inr:
  "handled E m c = (Inr a, c') \<longleftrightarrow> m (others E c) = (Inr a, c') \<and> conn_open (others E c)"
  by (auto simp: handled_def Let_def)

lemma set_ritual_status_Inr:
  assumes "set_ritual_status E i st c = (Inr (), c')"
  shows "\<exists>row. row_find trit_id (se_uuid_text E i) (db_rituals (conn_db c')) = Some row \<and>
    trit_status row = ritual_status_name st"
proof -
  let ?id = "se_uuid_text E i"
  from assms obtain u where u: "has_key trit_id ?id (db_rituals (conn_db c))"
      "db_rituals (conn_db c') = row_update (\<lambda>w. trit_id w = ?id)
         (\<lambda>w. w\<lparr>trit_status := ritual_status_name st, trit_updated_at := u\<rparr>) (db_rituals (conn_db c))"
    unfolding set_ritual_status_def by (auto simp: run_simps filter_key_empty split: if_splits)
  show ?thesis
    unfolding u(2)
    by (rule row_find_update_hit [OF u(1), where f = "\<lambda>w. w\<lparr>trit_status := ritual_status_name st,
        trit_updated_at := u\<rparr>"]) simp_all
qed

definition store_approval :: "'z store_env_scheme \<Rightarrow> approval \<Rightarrow> unit sm" where
  "store_approval E a = sbind (slift (approval_to_row E a)) (\<lambda>row.
     sbind (sql E (insert_into_approvals row)) (\<lambda>_. sret ()))"

lemma store_approval_Inr:
  assumes "store_approval E a c = (Inr u, c')"
  obtains row where "approval_to_row E a = Inr row" "db_approvals (conn_db c') = db_approvals (conn_db c) @ [row]"
  using assms by (auto simp: store_approval_def run_simps insert_into_approvals_def)

lemma approvals_loop_Inr:
  "sfor_each (store_approval E) as c = (Inr (), c') \<Longrightarrow>
     \<exists>rows. list_all2 (\<lambda>a r. approval_to_row E a = Inr r) as rows \<and>
       db_approvals (conn_db c') = db_approvals (conn_db c) @ rows"
proof (induction as arbitrary: c)
  case Nil
  then show ?case by (auto simp: sret_iff)
next
  case (Cons a as)
  then obtain u c1 where i: "store_approval E a c = (Inr u, c1)" "sfor_each (store_approval E) as c1 = (Inr (), c')"
    by (auto simp: sbind_Inr_iff)
  from i(1) obtain row where row: "approval_to_row E a = Inr row"
      "db_approvals (conn_db c1) = db_approvals (conn_db c) @ [row]"
    by (rule store_approval_Inr)
  from Cons.IH [OF i(2)] obtain rows where "list_all2 (\<lambda>a r. approval_to_row E a = Inr r) as rows"
      "db_approvals (conn_db c') = db_approvals (conn_db c1) @ rows" by auto
  with row show ?case by (intro exI [of _ "row # rows"]) simp
qed

lemma create_approvals_Inr:
  assumes "create_approvals E as c = (Inr (), c')"
  obtains rows where "list_all2 (\<lambda>a r. approval_to_row E a = Inr r) as rows"
    "set rows \<subseteq> set (db_approvals (conn_db c'))"
proof -
  have "transaction E (sfor_each (store_approval E) as) c = (Inr (), c')"
    using assms unfolding create_approvals_def store_approval_def [abs_def] by simp
  then obtain c2 where c2: "sfor_each (store_approval E) as (c\<lparr>conn_tick := conn_tick c + 1\<rparr>) = (Inr (), c2)"
      "conn_db c' = conn_db c2"
    by (elim transaction_InrD)
  from approvals_loop_Inr [OF c2(1)] obtain rows where "list_all2 (\<lambda>a r. approval_to_row E a = Inr r) as rows"
      "db_approvals (conn_db c2) = db_approvals (conn_db c) @ rows" by auto
  with c2(2) show thesis by (intro that [of rows]) auto
qed

section \<open>Responses with a payload\<close>

lemma rsp_body_error [simp]:
  "rsp_body (response_error i code message) = Ok p \<longleftrightarrow> False"
  "rsp_body (storage_error_response i e) = Ok p \<longleftrightarrow> False"
  "rsp_body (response_ok i q) = Ok p \<longleftrightarrow> q = p"
  by (auto simp: response_error_def response_ok_def storage_error_response_def split: storage_error.splits)

lemma response_distinct [simp]:
  "response_ok i p \<noteq> response_error j code message" "response_error j code message \<noteq> response_ok i p"
  by (simp_all add: response_error_def response_ok_def)

lemma not_found_no_payload: "not_found_or i code message e s = (resp, s') \<Longrightarrow> rsp_body resp = Ok p \<Longrightarrow> False"
  by (auto simp: not_found_or_def split: if_splits)

section \<open>Update\<close>

lemma uint_saturating_succ: "uint (saturating_succ w) = min (uint w + 1) (2 ^ 32 - 1)"
proof -
  have top: "uint (- 1 :: u32) = 2 ^ 32 - 1"
    by (simp add: unsigned_minus_1_eq_mask mask_eq_exp_minus_1)
  have bound: "uint w < 2 ^ 32" using uint_lt2p [of w] by simp
  show ?thesis
  proof (cases "w = - 1")
    case True
    with top show ?thesis by (simp add: saturating_succ_def)
  next
    case False
    with top have ne: "uint w \<noteq> 2 ^ 32 - 1" by (metis word_uint_eq_iff)
    with bound have "uint (w + 1) = uint w + 1"
      by (simp add: uint_word_ariths)
    with False bound ne show ?thesis by (simp add: saturating_succ_def)
  qed
qed

lemma update_ritual_rows:
  assumes "update_ritual E r v d c = (Inr x, c')"
  shows "x = (r, v, d) \<and> (\<exists>row vrow. row_find trit_id (se_uuid_text E (rit_id r)) (db_rituals (conn_db c')) = Some row \<and>
    trit_status row = ritual_status_name (rit_status r) \<and> trit_current_version_id row = se_uuid_text E (ver_id v) \<and>
    version_to_row E v = Inr vrow \<and> vrow \<in> set (db_versions (conn_db c')))"
proof -
  obtain u vrow where u: "x = (r, v, d)" "version_to_row E v = Inr vrow"
      "has_key trit_id (se_uuid_text E (rit_id r)) (db_rituals (conn_db c))"
      "db_rituals (conn_db c') = row_update (\<lambda>w. trit_id w = se_uuid_text E (rit_id r))
         (\<lambda>w. w\<lparr>trit_name := rit_name r, trit_status := ritual_status_name (rit_status r),
                trit_current_version_id := se_uuid_text E (ver_id v), trit_updated_at := u\<rparr>)
         (db_rituals (conn_db c))"
      "db_versions (conn_db c') = db_versions (conn_db c) @ [vrow]"
    using assms by (elim update_ritual_Inr) simp
  obtain old where "row_find trit_id (se_uuid_text E (rit_id r)) (db_rituals (conn_db c')) =
      Some (old\<lparr>trit_name := rit_name r, trit_status := ritual_status_name (rit_status r),
                trit_current_version_id := se_uuid_text E (ver_id v), trit_updated_at := u\<rparr>)"
    unfolding u(4)
    by (rule row_find_update_hit [OF u(3), where f = "\<lambda>w. w\<lparr>trit_name := rit_name r,
        trit_status := ritual_status_name (rit_status r),
        trit_current_version_id := se_uuid_text E (ver_id v), trit_updated_at := u\<rparr>"]) simp_all
  with u(1,2,5) show ?thesis by simp
qed

lemma validate_ritual_definition_Inr:
  "validate_ritual_definition E d = Inr canonical \<Longrightarrow>
     ritual_validate d = Inr () \<and> policy_check (def_actions d) = Inr () \<and>
     length canonical \<le> MAX_RITUAL_JSON_BYTES"
  by (auto simp: validate_ritual_definition_def and_then_Inr_iff map_err_def ok_or_def
      split: sum.splits option.splits if_splits)


lemma payload_case_iff:
  "(case b of Ok (RitualUpdated rec) \<Rightarrow> P rec | _ \<Rightarrow> False) \<longleftrightarrow> (\<exists>rec. b = Ok (RitualUpdated rec) \<and> P rec)"
  "(case b of Ok (RitualActivated r) \<Rightarrow> Q r | _ \<Rightarrow> False) \<longleftrightarrow> (\<exists>r. b = Ok (RitualActivated r) \<and> Q r)"
proof -
  show "(case b of Ok (RitualUpdated rec) \<Rightarrow> P rec | _ \<Rightarrow> False) \<longleftrightarrow> (\<exists>rec. b = Ok (RitualUpdated rec) \<and> P rec)"
  proof (cases b)
    case (Ok p)
    then show ?thesis by (cases p) simp_all
  qed simp
  show "(case b of Ok (RitualActivated r) \<Rightarrow> Q r | _ \<Rightarrow> False) \<longleftrightarrow> (\<exists>r. b = Ok (RitualActivated r) \<and> Q r)"
  proof (cases b)
    case (Ok p)
    then show ?thesis by (cases p) simp_all
  qed simp
qed

lemma sample_valid: "validate_ritual_definition sample_core_env sample_definition = Inr ''d''"
proof -
  have "ritual_validate sample_definition = Inr ()" "policy_check (def_actions sample_definition) = Inr ()"
    "se_ritual_json sample_core_env sample_definition = Some ''d''" by code_simp+
  then show ?thesis by (simp add: validate_ritual_definition_def MAX_RITUAL_JSON_BYTES_def)
qed

lemma sample_update:
  "case ritual_update_response sample_core_env 30 1 sample_definition sample_state of (resp, s) \<Rightarrow>
     (case rsp_body resp of Ok (RitualUpdated rec) \<Rightarrow> ver_version (rec_version rec) = 2 | _ \<Rightarrow> False)"
  unfolding ritual_update_response_def sample_valid sum.case by code_simp


section \<open>Activation\<close>

lemma preview_actions_valid:
  "preview_actions E k as s = (Inr (ps, []), s') \<Longrightarrow> \<forall>a \<in> set as. action_validate a = Inr ()"
proof (induction as arbitrary: k s ps)
  case Nil
  then show ?case by simp
next
  case (Cons a as)
  then obtain p s1 ps' where step: "preview_step E k a s = (Inr (p, []), s1)"
    and rest: "preview_actions E (k + 1) as s1 = (Inr (ps', []), s')"
    by (auto simp: try_map_Inr_iff)
  from step have "is_ok (action_validate a)"
    by (auto simp: preview_step_def ibind_iff try_map_Inr_iff Let_def split: if_splits)
  then have "action_validate a = Inr ()" by (simp add: is_ok_unit_iff)
  with Cons.IH [OF rest] show ?case by simp
qed

lemma approvals_for_shape:
  "approvals_for E v now as s = (aps, s') \<Longrightarrow> list_all2 (\<lambda>a p. \<exists>j. p = approval_of j v now a) as aps"
  by (induction as arbitrary: s aps) (auto simp: ibind_iff)

lemma approval_of_covers: "approval_covers v a (approval_of j v now a)"
  by (simp add: approval_covers_def approval_of_def Let_def)

lemma approvals_stored:
  assumes "approvals_for E v now as s = (aps, s')" "list_all2 (\<lambda>a r. approval_to_row E a = Inr r) aps rows"
    and "set rows \<subseteq> R" "a \<in> set as"
  shows "\<exists>p arow. approval_covers v a p \<and> approval_to_row E p = Inr arow \<and> arow \<in> R"
proof -
  from assms(4) obtain k where k: "k < length as" "a = as ! k" by (auto simp: in_set_conv_nth)
  with approvals_for_shape [OF assms(1)] obtain j where j: "aps ! k = approval_of j v now a" and "k < length aps"
    by (auto simp: list_all2_conv_all_nth)
  with assms(2) have "approval_to_row E (aps ! k) = Inr (rows ! k)" "k < length rows"
    by (auto simp: list_all2_conv_all_nth)
  with j assms(3) approval_of_covers [of v a j now] show ?thesis by (metis nth_mem subsetD)
qed


lemma sample_activation:
  "case ritual_activate_response sample_core_env 30 1 True sample_state of (resp, s) \<Rightarrow>
     (case rsp_body resp of Ok (RitualActivated r) \<Rightarrow> rit_id r = 1 | _ \<Rightarrow> False)"
  by code_simp


end
