(* ===== verification/Fubun_Answers.thy ===== *)
theory Fubun_Answers
  imports Fubun_Server
begin

text \<open>
  The type of the protocol: which payload answers which request, and that every answer of the daemon has the id of
  its request, the current version, and an error or the payload that belongs to the request.
\<close>

section \<open>The payload of a request\<close>

inductive payload_fits :: "request_body \<Rightarrow> response_payload \<Rightarrow> bool" where
  "ack_event_id a = ev_id e \<Longrightarrow> payload_fits (EventIngest e) (EventIngested a)"
| "payload_fits (BrowserObservationEnable label url) (BrowserObservationEnabled b)"
| "payload_fits (VscodeObservationEnable label path) (VscodeObservationEnabled w)"
| "payload_fits (ObservationPause i) (ObservationPausedPayload s)"
| "payload_fits (ObservationsList source) (ObservationList ss)"
| "payload_fits (EventsList since limit) (EventList es)"
| "payload_fits SystemStatus (StatusPayload st)"
| "payload_fits SystemDoctor (DoctorPayload dr)"
| "payload_fits (ResourceCreate rc) (ResourceCreated r)"
| "payload_fits ResourceListReq (ResourceList rs)"
| "payload_fits (ResourceShow i) (ResourceShown r)"
| "payload_fits (RitualCreate d) (RitualCreated rr)"
| "payload_fits (RitualUpdate i d) (RitualUpdated rr)"
| "payload_fits RitualListReq (RitualList rits)"
| "payload_fits (RitualShow i) (RitualShown rr)"
| "payload_fits (RitualPreviewReq i) (RitualPreviewed p)"
| "rit_status rit = RitualActive \<Longrightarrow> payload_fits (RitualActivate i True) (RitualActivated rit)"
| "rit_status rit = RitualPaused \<Longrightarrow> payload_fits (RitualPause i) (RitualPausedPayload rit)"
| "payload_fits (RitualRun i) (RitualRunPayload x)"
| "payload_fits AdapterListReq (AdapterList reps)"
| "payload_fits AdapterStatusReq (AdapterList reps)"
| "payload_fits ExecutionListReq (ExecutionList xs)"
| "payload_fits (ExecutionShow i) (ExecutionShown x)"
| "payload_fits IntegrationsStatusReq (IntegrationsStatus rep)"

declare payload_fits.intros [intro!]

inductive_cases payload_fits_statusE: "payload_fits SystemStatus p"
inductive_cases payload_fits_doctorE: "payload_fits SystemDoctor p"
inductive_cases payload_fits_ingestE: "payload_fits (EventIngest e) p"
inductive_cases payload_fits_eventsE: "payload_fits (EventsList since limit) p"
inductive_simps payload_fits_hello: "payload_fits (ClientHello h) p" "payload_fits (AdapterHello ah) p"

section \<open>Runs that answer one request with one kind of payload\<close>

definition answers :: "(response_payload \<Rightarrow> bool) \<Rightarrow> uuid \<Rightarrow> response_envelope io \<Rightarrow> bool" where
  "answers P i m \<longleftrightarrow> (\<forall>s. rsp_request_id (fst (m s)) = i \<and>
     rsp_protocol_version (fst (m s)) = CURRENT_PROTOCOL_VERSION \<and>
     (case rsp_body (fst (m s)) of Ok p \<Rightarrow> P p | Error e \<Rightarrow> True))"

lemma answers_iret:
  "P p \<Longrightarrow> answers P i (iret (response_ok i p))" "answers P i (iret (response_error i c m))"
  "answers P i (iret (storage_error_response i e))" "answers P i (not_found_or i c m e)"
  by (auto simp: answers_def iret_def storage_error_response_def not_found_or_def split: storage_error.split)

lemma answers_ibind: "(\<And>a. answers P i (f a)) \<Longrightarrow> answers P i (ibind m f)"
  by (simp add: answers_def ibind_def split: prod.split)

lemma answers_cases:
  "(b \<Longrightarrow> answers P i m) \<Longrightarrow> (\<not> b \<Longrightarrow> answers P i n) \<Longrightarrow> answers P i (if b then m else n)"
  "(x = None \<Longrightarrow> answers P i m) \<Longrightarrow> (\<And>a. x = Some a \<Longrightarrow> answers P i (f a)) \<Longrightarrow>
     answers P i (case x of None \<Rightarrow> m | Some a \<Rightarrow> f a)"
  "(\<And>e. y = Inl e \<Longrightarrow> answers P i (h e)) \<Longrightarrow> (\<And>a. y = Inr a \<Longrightarrow> answers P i (g a)) \<Longrightarrow>
     answers P i (case y of Inl e \<Rightarrow> h e | Inr a \<Rightarrow> g a)"
  "(\<And>a b. p = (a, b) \<Longrightarrow> answers P i (k a b)) \<Longrightarrow> answers P i (case p of (a, b) \<Rightarrow> k a b)"
  "answers P i (q v) \<Longrightarrow> answers P i (let z = v in q z)"
  by (auto split: option.split sum.split prod.split)

lemma answers_attempt:
  "(\<And>e. answers P i (h e)) \<Longrightarrow> (\<And>a. answers P i (f a)) \<Longrightarrow> answers P i (attempt m h f)"
  unfolding attempt_def by (intro answers_ibind answers_cases)

lemma answers_iret_if:
  "(b \<Longrightarrow> answers P i (iret r)) \<Longrightarrow> (\<not> b \<Longrightarrow> answers P i (iret r')) \<Longrightarrow>
     answers P i (iret (if b then r else r'))"
  by simp

lemmas answers_rules = answers_iret answers_iret_if answers_ibind answers_cases answers_attempt

lemma answers_respond:
  "(\<And>a. P (f a)) \<Longrightarrow> answers P i (respond_with i m f)"
  "(\<And>a. P (f a)) \<Longrightarrow> answers P i (respond_or_not_found i code message m f)"
  unfolding respond_with_def respond_or_not_found_def by (intro answers_rules; simp)+

lemma answers_observe:
  "answers (payload_fits (EventIngest e)) i (ingest_response E i e)"
  "answers (payload_fits (BrowserObservationEnable label url)) i
     (browser_observation_enable_response E i label url)"
  "answers (payload_fits (VscodeObservationEnable label path)) i
     (vscode_observation_enable_response E i label path)"
  unfolding ingest_response_def browser_observation_enable_response_def
    vscode_observation_enable_response_def create_or_find_resource_def
  by (intro answers_rules payload_fits.intros; simp)+

lemma answers_resource_create:
  "answers (payload_fits (ResourceCreate payload)) i (resource_create_response E i payload)"
  unfolding resource_create_response_def create_file_resource_def
  by (auto intro!: answers_rules split: option.split file_kind.split)

lemma answers_rituals:
  "answers (payload_fits (RitualCreate d)) i (ritual_create_response E i d)"
  "answers (payload_fits (RitualUpdate rid d)) i (ritual_update_response E i rid d)"
  "answers (payload_fits (RitualShow rid)) i (ritual_show_response E i rid)"
  "answers (payload_fits (RitualPreviewReq rid)) i (ritual_preview_response E i rid)"
  "answers (payload_fits (RitualPause rid)) i (ritual_pause_response E i rid)"
  "answers (payload_fits (RitualRun rid)) i (ritual_run_response E i rid)"
  unfolding ritual_create_response_def ritual_update_response_def ritual_show_response_def
    ritual_preview_response_def ritual_pause_response_def ritual_run_response_def start_run_def
  by (intro answers_rules payload_fits.intros; simp)+

lemma answers_activate:
  "answers (payload_fits (RitualActivate rid approve)) i (ritual_activate_response E i rid approve)"
  by (cases approve) (auto simp: ritual_activate_response_def intro!: answers_rules)

lemma answers_status:
  "answers (payload_fits SystemStatus) i (status_response E i)"
  "answers (payload_fits IntegrationsStatusReq) i (integrations_response E i)"
  "answers (payload_fits SystemDoctor) i (doctor_response E i)"
  unfolding status_response_def integrations_response_def doctor_response_def
  by (intro answers_rules payload_fits.intros)+

lemma answers_process_body: "answers (payload_fits body) i (process_body E i body)"
  by (cases body) (auto intro!: answers_observe answers_resource_create answers_rituals answers_activate answers_status
      answers_respond answers_iret answers_ibind simp: payload_fits_hello split: prod.split)

lemma answers_process_request:
  "answers (payload_fits (req_body request)) (req_request_id request) (process_request E request)"
  unfolding process_request_def by (intro answers_rules answers_process_body)

end
