(* ===== verification/Fubun_Server_Theorems.thy ===== *)
theory Fubun_Server_Theorems
  imports Fubun_Core_Samples Fubun_Answers
begin

text \<open>
  The properties of connections: how a client's requests are answered, what any sequence of requests
  keeps, when the event of an adapter is stored, and what a message of an adapter becomes.
\<close>

section \<open>Connections of clients\<close>

text \<open>The requests a stream holds, up to its end or its first unreadable frame.\<close>

fun stream_requests :: "request_envelope incoming \<Rightarrow> request_envelope list" where
  "stream_requests (Inr (Some r) # rest) = r # stream_requests rest"
| "stream_requests _ = []"

definition client_handshake :: "request_envelope incoming \<Rightarrow> bool" where
  "client_handshake stream =
     (case stream_requests stream of
        [] \<Rightarrow> False
      | r # _ \<Rightarrow> pv_major (req_protocol_version r) = pv_major CURRENT_PROTOCOL_VERSION \<and>
          (case req_body r of
             ClientHello h \<Rightarrow> pv_major (ch_protocol_version h) = pv_major CURRENT_PROTOCOL_VERSION
           | _ \<Rightarrow> False))"

definition answers_in_order :: "request_envelope list \<Rightarrow> response_envelope list \<Rightarrow> bool" where
  "answers_in_order qs rs \<longleftrightarrow> length rs \<le> length qs \<and>
     map rsp_request_id rs = map req_request_id (take (length rs) qs) \<and>
     list_all (\<lambda>r. rsp_protocol_version r = CURRENT_PROTOCOL_VERSION) rs"

lemma answers_in_order_simps [simp]:
  "answers_in_order qs []"
  "answers_in_order (q # qs) (r # rs) \<longleftrightarrow> rsp_request_id r = req_request_id q \<and>
     rsp_protocol_version r = CURRENT_PROTOCOL_VERSION \<and> answers_in_order qs rs"
  by (auto simp: answers_in_order_def)

lemma process_request_answers:
  "process_request E q s = (r, s') \<Longrightarrow>
     rsp_request_id r = req_request_id q \<and> rsp_protocol_version r = CURRENT_PROTOCOL_VERSION"
  using answers_process_request [of q E] unfolding answers_def by (metis fst_conv)

lemma serve_requests_answers:
  "serve_requests E stream s = ((rs, end), s') \<Longrightarrow>
     answers_in_order (stream_requests stream) rs \<and>
     (if end = Inr () then length rs = length (stream_requests stream) else True)"
proof (induction stream arbitrary: s rs rule: stream_requests.induct)
  case (1 q rest)
  then obtain r s1 where r: "process_request E q s = (r, s1)" and
    step: "attempt (write_response E r) (\<lambda>e. iret ([], Inl e)) (\<lambda>_.
      ibind (serve_requests E rest) (\<lambda>(rs, end). iret (r # rs, end))) s1 = ((rs, end), s')"
    by (auto simp: ibind_iff)
  from step consider (failed) e where "rs = []" "end = Inl e"
    | (written) rs' s2 where "rs = r # rs'" "serve_requests E rest s2 = ((rs', end), s')"
    by (auto simp: attempt_iff ibind_iff)
  then show ?case
  proof cases
    case written
    from "1.IH" [OF written(2)] process_request_answers [OF r] written(1) show ?thesis by simp
  qed simp
qed simp_all

lemma write_response_db:
  "write_response E r s = (x, s') \<Longrightarrow> conn_db (cs_conn s') = conn_db (cs_conn s) \<and> cs_sent s' = cs_sent s"
  by (auto simp: write_response_def ibind_iff draw_iff split: sum.splits)

lemma reject_db:
  "reject E r s = ((rs, end), s') \<Longrightarrow> conn_db (cs_conn s') = conn_db (cs_conn s) \<and> cs_sent s' = cs_sent s \<and>
     (rs = [] \<or> rs = [r])"
  by (auto simp: reject_def attempt_iff dest: write_response_db)

lemma handle_connection_first:
  assumes "handle_connection E (Inr (Some q) # rest) s = (Inr (rs, end), s')"
  obtains (refused) code message where "\<not> client_handshake (Inr (Some q) # rest)"
      "reject E (response_error (req_request_id q) code message) s = ((rs, end), s')"
  | (greeted) ack where "client_handshake (Inr (Some q) # rest)" "ack = response_ok (req_request_id q) (ClientHelloAck (hello_ack E))"
      "attempt (write_response E ack) (\<lambda>e. iret (Inr ([], Inl e))) (\<lambda>_.
         ibind (serve_requests E rest) (\<lambda>(rs, end). iret (Inr (ack # rs, end)))) s =
         (Inr (rs, end) :: (uuid \<times> adapter_hello) + response_envelope list \<times> (core_error + unit), s')"
proof (cases "pv_major (req_protocol_version q) = pv_major CURRENT_PROTOCOL_VERSION")
  case False
  with assms show thesis
    by (intro refused) (auto simp: handle_connection_def client_handshake_def ibind_iff)
next
  case major: True
  show thesis
  proof (cases "\<exists>h. req_body q = ClientHello h")
    case True
    then obtain h where h: "req_body q = ClientHello h" by blast
    show thesis
    proof (cases "pv_major (ch_protocol_version h) = pv_major CURRENT_PROTOCOL_VERSION")
      case True
      with assms major h show thesis
        by (intro greeted) (simp_all add: handle_connection_def client_handshake_def Let_def)
    next
      case False
      with assms major h show thesis
        by (intro refused) (auto simp: handle_connection_def client_handshake_def ibind_iff)
    qed
  next
    case False
    then have "\<not> client_handshake (Inr (Some q) # rest)"
      by (cases "req_body q") (simp_all add: client_handshake_def)
    moreover from assms major False
    have "reject E (response_error (req_request_id q) ''handshake_required''
        ''client.hello or adapter.hello must be the first request'') s = ((rs, end), s')"
      by (cases "req_body q") (simp_all add: handle_connection_def ibind_iff Let_def)
    ultimately show thesis by (rule refused)
  qed
qed


definition sample_server_env :: "bool server_env" where
  "sample_server_env = core_env.extend sample_core_env
     \<lparr>sv_response_json = (\<lambda>_. Some ''r''), sv_write_ok = (\<lambda>_. True), sv_package_version = ''1''\<rparr>"

definition sample_request :: "uuid \<Rightarrow> request_body \<Rightarrow> request_envelope" where
  "sample_request i body =
     \<lparr>req_protocol_version = CURRENT_PROTOCOL_VERSION, req_request_id = i, req_body = body\<rparr>"

definition sample_stream :: "request_envelope incoming" where
  "sample_stream = [Inr (Some (sample_request 1 (ClientHello
     \<lparr>ch_client_name = ''c'', ch_client_version = ''1'', ch_protocol_version = CURRENT_PROTOCOL_VERSION\<rparr>))),
     Inr (Some (sample_request 2 SystemStatus)), Inr None]"

lemma sample_write: "\<exists>s'. write_response sample_server_env r s = (Inr (), s')"
  by (simp add: write_response_def encode_json_frame_def sample_server_env_def core_env.extend_def
      MAX_MESSAGE_SIZE_def ibind_def draw_def)

lemma sample_connection:
  "\<exists>r1 r2 s'. handle_connection sample_server_env sample_stream s = (Inr ([r1, r2], Inr ()), s')"
proof -
  let ?E = sample_server_env
  let ?ack = "response_ok 1 (ClientHelloAck (hello_ack ?E))"
  obtain s1 where w1: "write_response ?E ?ack s = (Inr (), s1)" using sample_write by blast
  obtain r s2 where p: "process_request ?E (sample_request 2 SystemStatus) s1 = (r, s2)" by fastforce
  obtain s3 where w2: "write_response ?E r s2 = (Inr (), s3)" using sample_write by blast
  show ?thesis
    using w1 p w2
    by (simp add: handle_connection_def sample_stream_def Let_def sample_request_def attempt_def ibind_def iret_def)
qed


text \<open>
  A response that does not fit a frame ends the connection with nothing written: the client sees the
  end of the stream and no error of the request it sent.
\<close>

lemma oversized_response_unanswered:
  assumes "process_request E q s = (r, s1)" and "sv_response_json E r = Some json" and "MAX_MESSAGE_SIZE < length json"
  shows "serve_requests E (Inr (Some q) # rest) s =
    (([], Inl (CoreFrame (Oversized (length json) MAX_MESSAGE_SIZE))), s1)"
  using assms by (simp add: ibind_def attempt_def write_response_def encode_json_frame_def iret_def)

section \<open>What any connection keeps\<close>

text \<open>
  The relations of the requests hold across a whole connection. The environment of a connection is an
  extension of the one of the locale, so the facts of the locale are used from outside.
\<close>

lemma connection_relation:
  assumes "dispatching_relation E R"
  shows "io_rel R (write_response E r)" "io_rel R (serve_requests E stream)" "io_rel R (reject E r)"
    "io_rel R (handle_connection E stream)" "io_rel R (adapter_message E hello m)"
    "io_rel R (adapter_loop E hello frames)" "io_rel R (handle_adapter_connection E i hello frames)"
proof -
  note base = dispatching_relation.axioms(1) [OF assms]
  note rules = io_relation.rel_ibind [OF base] io_relation.rel_attempt [OF base] io_relation.rel_iret [OF base]
    io_relation.rel_draw [OF base] io_relation.rel_looks [OF base] io_rel_if io_rel_sum io_rel_prod io_rel_let
    io_rel_option
  show wr: "io_rel R (write_response E r)" for r
    unfolding write_response_def by (intro rules)
  show serve: "io_rel R (serve_requests E stream)" for stream
    by (induction stream rule: stream_requests.induct)
       (auto intro!: rules wr dispatching_relation.rel_process_request [OF assms])
  show reject: "io_rel R (reject E r)" for r
    unfolding reject_def by (intro rules wr)
  show "io_rel R (handle_connection E stream)"
  proof (cases stream rule: stream_requests.cases)
    case (1 q rest)
    then show ?thesis
      by (cases "req_body q") (auto simp: handle_connection_def Let_def intro!: rules wr serve reject)
  qed (simp_all add: handle_connection_def rules)
  show msg: "io_rel R (adapter_message E hello m)" for hello m
    unfolding adapter_message_def
    by (auto intro!: rules io_relation.rel_ingest_adapter_event [OF base] split: adapter_response_body.split)
  show loop: "io_rel R (adapter_loop E hello frames)" for hello frames
  proof (induction frames)
    case (Cons x frames)
    then show ?case by (cases "(E, hello, x # frames)" rule: adapter_loop.cases) (auto intro!: rules msg)
  qed (simp add: rules)
  show "io_rel R (handle_adapter_connection E i hello frames)"
    unfolding handle_adapter_connection_def Let_def by (intro rules wr loop)
qed

text \<open>C15: Whatever a connection sends, the database stays consistent. For every sequence of frames on a client
  or an adapter connection, with other tasks sending any commands in between that do not set a
  finished execution back to running, all invariants of the tables hold afterwards, and events,
  resources, versions and approvals are only ever added.\<close>

theorem connections_keep_database_consistent:
  assumes "others_settled E" and "db_ok (conn_db (cs_conn s))"
  shows "db_ok (conn_db (cs_conn (snd (handle_connection E stream s)))) \<and>
    db_ok (conn_db (cs_conn (snd (handle_adapter_connection E i hello frames s)))) \<and>
    extends (conn_db (cs_conn s)) (conn_db (cs_conn (snd (handle_connection E stream s)))) \<and>
    extends (conn_db (cs_conn s)) (conn_db (cs_conn (snd (handle_adapter_connection E i hello frames s))))"
proof -
  note c = connection_relation [OF consistent.dispatching_relation_axioms, of E, unfolded io_rel_def stays_consistent_def]
  note g = connection_relation [OF growing.dispatching_relation_axioms, of E, unfolded io_rel_def grows_def]
  show ?thesis using assms c(4) [of stream] c(7) [of i hello frames] g(4) [of stream] g(7) [of i hello frames] by blast
qed

lemma sample_others_server: "others_settled sample_server_env"
  by (simp add: others_settled_def sample_server_env_def core_env.extend_def sample_core_env_def)

theorem connections_keep_database_consistent_witness:
  "db_ok (conn_db (cs_conn (snd (handle_connection sample_server_env sample_stream sample_state))))"
  using connections_keep_database_consistent [OF sample_others_server sample_state_ok, of sample_stream] by blast

section \<open>Events of adapters\<close>

lemma event_ack_of_simps [simp]:
  "ack_stored (event_ack_of i stored duplicate) = stored" "ack_event_id (event_ack_of i stored duplicate) = i"
  by (simp_all add: event_ack_of_def)

text \<open>The row of an event that an adapter emitted.\<close>

lemma insert_emitted_event:
  assumes "on_storage (handle_insert_event E (emitted_event hello payload etype source data i received)) s = (Inr (), s')"
  obtains row where "row \<in> set (db_events (conn_db (cs_conn s')))"
    "tevt_id row = se_uuid_text E i" "tevt_event_type row = event_type_name etype"
    "tevt_source row = source" "tevt_actor row = ''user''" "tevt_adapter_id row = ah_adapter_id hello"
    "tevt_adapter_instance_id row = se_uuid_text E (ah_instance_id hello)"
    "tevt_sequence_no row = uint (emit_sequence_no payload)"
proof -
  let ?e = "emitted_event hello payload etype source data i received"
  from assms obtain c where "insert_event E ?e c = (Inr (), cs_conn s')"
    by (auto simp: on_storage_iff handle_insert_event_eq sbind_Inr_iff handled_def Let_def split: if_splits)
  then obtain a row where rows: "event_to_rows E ?e = Inr (a, row)"
    and mem: "row \<in> set (db_events (conn_db (cs_conn s')))"
    by (elim insert_event_Inr) auto
  from rows have "tevt_id row = se_uuid_text E i" "tevt_event_type row = event_type_name etype"
    "tevt_source row = source" "tevt_actor row = ''user''" "tevt_adapter_id row = ah_adapter_id hello"
    "tevt_adapter_instance_id row = se_uuid_text E (ah_instance_id hello)"
    "tevt_sequence_no row = uint (emit_sequence_no payload)"
    by (auto simp: event_to_rows_def and_then_Inr_iff emitted_event_def Let_def split: if_splits)
  with mem show thesis by (rule that)
qed


definition sample_emit_env :: "bool core_env" where
  "sample_emit_env = sample_core_env\<lparr>se_event_json := (\<lambda>_. Some ''e'')\<rparr>"

definition sample_vscode :: adapter_hello where
  "sample_vscode = \<lparr>ah_adapter_id = ''dev.fubun.vscode'', ah_adapter_version = ''1'', ah_instance_id = 6,
     ah_action_capabilities = [], ah_event_capabilities = [''dev.fubun.vscode.workspace.opened.v1''],
     ah_status = \<lparr>snap_tools = [], snap_desktop_entry_ids = [], snap_permitted_resource_ids = []\<rparr>\<rparr>"

definition sample_emit :: adapter_event_emit_request where
  "sample_emit = \<lparr>emit_sequence_no = 3, emit_occurred_at = Timestamp 1 0,
     emit_event_type = VscodeWorkspaceOpenedV1, emit_resource_id = 7\<rparr>"

definition sample_observed_state :: core_state where
  "sample_observed_state = \<lparr>cs_conn = snd (writer_loop sample_emit_env
     [CreateResource (sample_resource 7 ''/d''),
      EnsureObservationScope (new_scope 8 VscodeWorkspace 7 (Timestamp 1 0))] sample_conn), cs_sent = []\<rparr>"

lemma sample_emission:
  "case ingest_adapter_event sample_emit_env sample_vscode sample_emit sample_observed_state of (ack, s') \<Rightarrow> ack_stored ack"
  by code_simp


section \<open>Messages of adapters\<close>

text \<open>C40: The message of an adapter is stored redacted: at most 160 characters, none of them a control
  character, a part of the original that keeps the order, and redacting again changes nothing.\<close>

theorem redact_message_bounded:
  assumes "utf8_aligned message"
  shows "chars_count (redact_message message) \<le> 160 \<and> \<not> has_control (redact_message message) \<and>
    subseq (chars (redact_message message)) (chars message) \<and>
    redact_message (redact_message message) = redact_message message"
proof -
  define cs where "cs = take 160 (filter (\<lambda>c. \<not> char_is_control c) (chars message))"
  have red: "redact_message message = concat cs" by (simp add: redact_message_def cs_def)
  have "set cs \<subseteq> set (chars message)" by (auto simp: cs_def dest: in_set_takeD)
  then have chars: "chars (concat cs) = cs"
    using chars_shape [OF assms] by (intro length_chars_shape) blast
  have clean: "\<forall>c \<in> set cs. \<not> char_is_control c" by (auto simp: cs_def dest: in_set_takeD)
  have len: "length cs \<le> 160" by (simp add: cs_def)
  have "filter (\<lambda>c. \<not> char_is_control c) cs = cs" using clean by (intro filter_True) blast
  then have "redact_message (concat cs) = concat cs"
    using len by (simp add: redact_message_def chars)
  moreover have "subseq cs (chars message)"
    unfolding cs_def
    by (rule subseq_order.order_trans [OF prefix_imp_subseq [OF take_is_prefix] subseq_filter_left])
  moreover have "\<not> has_control (concat cs)"
    using clean by (auto simp: has_control_def chars list_ex_iff)
  ultimately show ?thesis using len by (simp add: chars_count_def chars red)
qed

theorem redact_message_bounded_witness:
  "redact_message [CHR ''a'', char_of (10 :: nat), CHR ''b''] = ''ab'' \<and>
     chars_count (redact_message [CHR ''a'', char_of (10 :: nat), CHR ''b'']) \<le> 160"
proof
  show "redact_message [CHR ''a'', char_of (10 :: nat), CHR ''b''] = ''ab''" by code_simp
  have "utf8_aligned [CHR ''a'', char_of (10 :: nat), CHR ''b'']" by code_simp
  from redact_message_bounded [OF this] show "chars_count (redact_message [CHR ''a'', char_of (10 :: nat), CHR ''b'']) \<le> 160"
    by blast
qed

end
