(* ===== verification/Fubun_Json.thy ===== *)
theory Fubun_Json
  imports Fubun_Prelude
begin

text \<open>
  \<open>serde_json::Value\<close>, for the parts of the program that build or change JSON values themselves. An
  object is the list of its members in the order of their keys, as \<open>serde_json::Map\<close> keeps them; a
  number is its text.
\<close>

datatype json_value =
    JNull | JBool bool | JNumber string | JString string
  | JArray "json_value list" | JObject "(string \<times> json_value) list"

text \<open>\<open>Map::insert\<close>.\<close>

fun json_insert :: "string \<Rightarrow> json_value \<Rightarrow> (string \<times> json_value) list \<Rightarrow> (string \<times> json_value) list" where
  "json_insert k v [] = [(k, v)]"
| "json_insert k v ((l, w) # xs) =
     (if k = l then (k, v) # xs else if k < l then (k, v) # (l, w) # xs else (l, w) # json_insert k v xs)"

text \<open>\<open>json!\<close> of an object: the members are inserted one after the other.\<close>

definition json_object :: "(string \<times> json_value) list \<Rightarrow> json_value" where
  "json_object ms = JObject (fold (\<lambda>(k, v). json_insert k v) ms [])"

definition has_member :: "string \<Rightarrow> (string \<times> json_value) list \<Rightarrow> bool" where
  "has_member k xs = list_ex (\<lambda>x. fst x = k) xs"

text \<open>\<open>Value::get\<close> with a key, \<open>as_array\<close>, \<open>as_str\<close>.\<close>

fun json_get :: "string \<Rightarrow> json_value \<Rightarrow> json_value option" where
  "json_get k (JObject xs) = map_of xs k"
| "json_get k _ = None"

fun json_array :: "json_value \<Rightarrow> json_value list option" where
  "json_array (JArray vs) = Some vs"
| "json_array _ = None"

fun json_str :: "json_value \<Rightarrow> string option" where
  "json_str (JString s) = Some s"
| "json_str _ = None"

lemma map_of_json_insert: "map_of (json_insert k v xs) = (map_of xs)(k \<mapsto> v)"
  by (induction k v xs rule: json_insert.induct) (auto simp: fun_eq_iff)

lemma sorted_json_insert:
  "sorted_wrt (<) (map fst xs) \<Longrightarrow> sorted_wrt (<) (map fst (json_insert k v xs))"
proof (induction k v xs rule: json_insert.induct)
  case (2 k v l w xs)
  have keys: "set (map fst (json_insert k v xs)) = insert k (set (map fst xs))"
    by (induction k v xs rule: json_insert.induct) auto
  from 2 show ?case using keys by (auto simp: not_less less_le)
qed simp

lemma json_get_object [simp]: "json_get k (json_object ms) = map_of (rev ms) k"
proof -
  have "map_of (fold (\<lambda>(k, v). json_insert k v) ms xs) = map_of xs ++ map_of (rev ms)" for xs
    by (induction ms arbitrary: xs) (auto simp: map_of_json_insert fun_eq_iff map_add_def split: option.split)
  from this [of "[]"] show ?thesis by (simp add: json_object_def)
qed

end
