(* ===== verification/Fubun_Paths.thy ===== *)
theory Fubun_Paths
  imports Fubun_Prelude
begin

text \<open>
  The paths of \<open>crates/fubun-core/src/paths.rs\<close>, the operations of \<open>std::path\<close> and \<open>std::env\<close> the
  programs use, and the files they work on. A file system maps a path to a node, a regular file with its
  bytes, a directory or a socket; each call on it may fail, and a write that fails may leave any bytes behind.
  It has no symbolic links, except that \<open>canonicalize\<close> is an input of the programs that call it.
\<close>

section \<open>Paths of the standard library\<close>

text \<open>\<open>str::split\<close> with a character.\<close>

fun split_on :: "char \<Rightarrow> string \<Rightarrow> string list" where
  "split_on c [] = [[]]"
| "split_on c (x # xs) =
     (if x = c then [] # split_on c xs
      else (case split_on c xs of [] \<Rightarrow> [[x]] | y # ys \<Rightarrow> (x # y) # ys))"

text \<open>
  What a path names: whether it starts at the root, and its components. Two paths are equal when these are.
  Empty components and \<open>.\<close> are dropped, except a leading \<open>.\<close>.
\<close>

type_synonym path_key = "bool \<times> string list"

definition path_key :: "string \<Rightarrow> path_key" where
  "path_key p =
     (let parts = split_on (CHR ''/'') p; names = filter (\<lambda>c. c \<noteq> [] \<and> c \<noteq> ''.'') parts
      in (path_is_absolute p, if hd parts = ''.'' then ''.'' # names else names))"

text \<open>\<open>Path::file_name\<close>; \<open>file_stem\<close> and \<open>extension\<close> of such a name.\<close>

definition path_file_name :: "string \<Rightarrow> string option" where
  "path_file_name p =
     (let cs = snd (path_key p) in if cs = [] \<or> last cs \<in> {''..'', ''.''} then None else Some (last cs))"

definition name_parts :: "string \<Rightarrow> string \<times> string option" where
  "name_parts name =
     (let parts = split_on (CHR ''.'') name; stem = take (length name - Suc (length (last parts))) name
      in if length parts = 1 \<or> stem = [] then (name, None) else (stem, Some (last parts)))"

text \<open>\<open>Path::with_extension\<close>, of the key of a path with a file name.\<close>

definition key_with_extension :: "string \<Rightarrow> path_key \<Rightarrow> path_key" where
  "key_with_extension e k = (fst k, butlast (snd k) @ [fst (name_parts (last (snd k))) @ ''.'' @ e])"

definition key_parent :: "path_key \<Rightarrow> path_key" where
  "key_parent k = (fst k, butlast (snd k))"

text \<open>\<open>OsStr::to_str\<close>: whether bytes are UTF-8.\<close>

definition tail_byte :: "nat \<Rightarrow> bool" where
  "tail_byte b = (128 \<le> b \<and> b < 192)"

fun utf8_bytes :: "nat list \<Rightarrow> bool" where
  "utf8_bytes [] = True"
| "utf8_bytes (a # bs) =
     (if a < 128 then utf8_bytes bs
      else if 194 \<le> a \<and> a < 224 then (case bs of b # cs \<Rightarrow> tail_byte b \<and> utf8_bytes cs | _ \<Rightarrow> False)
      else if 224 \<le> a \<and> a < 240
        then (case bs of b # c # ds \<Rightarrow> tail_byte b \<and> tail_byte c \<and> (a = 224 \<longrightarrow> 160 \<le> b) \<and> (a = 237 \<longrightarrow> b < 160) \<and> utf8_bytes ds
              | _ \<Rightarrow> False)
      else if 240 \<le> a \<and> a < 245
        then (case bs of b # c # d # es \<Rightarrow> tail_byte b \<and> tail_byte c \<and> tail_byte d \<and>
                 (a = 240 \<longrightarrow> 144 \<le> b) \<and> (a = 244 \<longrightarrow> b < 144) \<and> utf8_bytes es
              | _ \<Rightarrow> False)
      else False)"

definition to_str :: "string \<Rightarrow> string option" where
  "to_str s = (if utf8_bytes (map byte_val s) then Some s else None)"

text \<open>The environment of a process: \<open>env::var_os\<close> and \<open>env::split_paths\<close>.\<close>

type_synonym variables = "string \<Rightarrow> string option"

definition split_paths :: "string \<Rightarrow> string list" where
  "split_paths = split_on (CHR '':'')"

section \<open>The paths of the program\<close>

record fubun_paths =
  fp_runtime_directory :: string
  fp_socket_path :: string
  fp_data_directory :: string
  fp_database_path :: string

datatype path_error = MissingRuntimeDirectory | MissingDataHome | NotAbsolute string string

definition ensure_absolute :: "string \<Rightarrow> string \<Rightarrow> path_error + unit" where
  "ensure_absolute name p = (if \<not> path_is_absolute p then Inl (NotAbsolute name p) else Inr ())"

definition from_xdg_roots :: "string \<Rightarrow> string \<Rightarrow> path_error + fubun_paths" where
  "from_xdg_roots runtime_home data_home =
     and_then (ensure_absolute ''XDG_RUNTIME_DIR'' runtime_home) (\<lambda>_.
     and_then (ensure_absolute ''XDG_DATA_HOME'' data_home) (\<lambda>_.
       let runtime_directory = path_join runtime_home ''fubun''; data_directory = path_join data_home ''fubun''
       in Inr \<lparr>fp_runtime_directory = runtime_directory, fp_socket_path = path_join runtime_directory ''core.sock'',
               fp_data_directory = data_directory, fp_database_path = path_join data_directory ''fubun.db''\<rparr>))"

definition home_or :: "variables \<Rightarrow> string \<Rightarrow> string \<Rightarrow> string option" where
  "home_or vars name below =
     (case vars name of Some p \<Rightarrow> Some p
      | None \<Rightarrow> map_option (\<lambda>home. path_join home below) (vars ''HOME''))"

definition discover :: "variables \<Rightarrow> path_error + fubun_paths" where
  "discover vars =
     and_then (ok_or MissingRuntimeDirectory (vars ''XDG_RUNTIME_DIR'')) (\<lambda>runtime_home.
     and_then (ok_or MissingDataHome (home_or vars ''XDG_DATA_HOME'' ''.local/share'')) (\<lambda>data_home.
       from_xdg_roots runtime_home data_home))"

section \<open>Files\<close>

datatype node_kind = Regular string | Dir | Socket

record node =
  nd_kind :: node_kind
  nd_mode :: u32

record files =
  fs_nodes :: "path_key \<rightharpoonup> node"
  fs_tick :: nat

datatype io_error = NotFound | OtherIo

text \<open>Which calls fail, what a failed write leaves behind, and the mode of a new file or directory.\<close>

record files_env =
  fse_fault :: "nat \<Rightarrow> bool"
  fse_torn :: "nat \<Rightarrow> string option"
  fse_file_mode :: u32
  fse_dir_mode :: u32

type_synonym ('e, 'a) fio = "files \<Rightarrow> ('e + 'a) \<times> files"

definition io_ret :: "'a \<Rightarrow> ('e, 'a) fio" where
  "io_ret a s = (Inr a, s)"

definition io_err :: "'e \<Rightarrow> ('e, 'a) fio" where
  "io_err e s = (Inl e, s)"

definition io_bind :: "('e, 'a) fio \<Rightarrow> ('a \<Rightarrow> ('e, 'b) fio) \<Rightarrow> ('e, 'b) fio" where
  "io_bind m f s = (case m s of (Inl e, s') \<Rightarrow> (Inl e, s') | (Inr a, s') \<Rightarrow> f a s')"

definition io_lift :: "'e + 'a \<Rightarrow> ('e, 'a) fio" where
  "io_lift r s = (r, s)"

text \<open>\<open>if\<close> with no \<open>else\<close>, and a call whose error is replaced.\<close>

definition io_when :: "bool \<Rightarrow> ('e, unit) fio \<Rightarrow> ('e, unit) fio" where
  "io_when b m = (if b then m else io_ret ())"

definition io_map_err :: "('d \<Rightarrow> 'e) \<Rightarrow> ('d, 'a) fio \<Rightarrow> ('e, 'a) fio" where
  "io_map_err g m s = (case m s of (Inl e, s') \<Rightarrow> (Inl (g e), s') | (Inr a, s') \<Rightarrow> (Inr a, s'))"

definition file_op ::
    "files_env \<Rightarrow> ((path_key \<rightharpoonup> node) \<Rightarrow> io_error + 'a \<times> (path_key \<rightharpoonup> node)) \<Rightarrow> (io_error, 'a) fio" where
  "file_op E f s =
     (let s' = s\<lparr>fs_tick := fs_tick s + 1\<rparr>
      in if fse_fault E (fs_tick s) then (Inl OtherIo, s')
         else (case f (fs_nodes s) of Inl e \<Rightarrow> (Inl e, s') | Inr (a, n) \<Rightarrow> (Inr a, s'\<lparr>fs_nodes := n\<rparr>)))"

definition file_metadata :: "files_env \<Rightarrow> path_key \<Rightarrow> (io_error, node) fio" where
  "file_metadata E k = file_op E (\<lambda>n. case n k of None \<Rightarrow> Inl NotFound | Some x \<Rightarrow> Inr (x, n))"

text \<open>\<open>Path::exists\<close>: an error counts as absent.\<close>

definition file_exists :: "files_env \<Rightarrow> path_key \<Rightarrow> ('e, bool) fio" where
  "file_exists E k s = (case file_metadata E k s of (Inl _, s') \<Rightarrow> (Inr False, s') | (Inr _, s') \<Rightarrow> (Inr True, s'))"

definition read_file :: "files_env \<Rightarrow> path_key \<Rightarrow> (io_error, string) fio" where
  "read_file E k =
     file_op E (\<lambda>n. case n k of None \<Rightarrow> Inl NotFound
       | Some x \<Rightarrow> (case nd_kind x of Regular b \<Rightarrow> Inr (b, n) | _ \<Rightarrow> Inl OtherIo))"

definition is_directory :: "(path_key \<rightharpoonup> node) \<Rightarrow> path_key \<Rightarrow> bool" where
  "is_directory n k = (snd k = [] \<or> (case n k of None \<Rightarrow> False | Some x \<Rightarrow> nd_kind x = Dir))"

definition put_bytes :: "files_env \<Rightarrow> path_key \<Rightarrow> string \<Rightarrow> (path_key \<rightharpoonup> node) \<Rightarrow> io_error + unit \<times> (path_key \<rightharpoonup> node)" where
  "put_bytes E k b n =
     (if \<not> is_directory n (key_parent k) then Inl NotFound
      else (case n k of
              None \<Rightarrow> Inr ((), n(k \<mapsto> \<lparr>nd_kind = Regular b, nd_mode = fse_file_mode E\<rparr>))
            | Some x \<Rightarrow> (case nd_kind x of Regular _ \<Rightarrow> Inr ((), n(k \<mapsto> x\<lparr>nd_kind := Regular b\<rparr>)) | _ \<Rightarrow> Inl OtherIo)))"

text \<open>\<open>fs::write\<close>; a failed one may have truncated or partly written the file.\<close>

definition write_file :: "files_env \<Rightarrow> path_key \<Rightarrow> string \<Rightarrow> (io_error, unit) fio" where
  "write_file E k b s =
     (case (fse_fault E (fs_tick s), fse_torn E (fs_tick s)) of
        (True, Some t) \<Rightarrow>
          (Inl OtherIo, s\<lparr>fs_tick := fs_tick s + 1, fs_nodes :=
             (case put_bytes E k t (fs_nodes s) of Inl _ \<Rightarrow> fs_nodes s | Inr (_, n) \<Rightarrow> n)\<rparr>)
      | _ \<Rightarrow> file_op E (put_bytes E k b) s)"

definition set_mode :: "files_env \<Rightarrow> path_key \<Rightarrow> u32 \<Rightarrow> (io_error, unit) fio" where
  "set_mode E k m =
     file_op E (\<lambda>n. case n k of None \<Rightarrow> Inl NotFound | Some x \<Rightarrow> Inr ((), n(k \<mapsto> x\<lparr>nd_mode := m\<rparr>)))"

definition rename_file :: "files_env \<Rightarrow> path_key \<Rightarrow> path_key \<Rightarrow> (io_error, unit) fio" where
  "rename_file E a b =
     file_op E (\<lambda>n. case n a of None \<Rightarrow> Inl NotFound
       | Some x \<Rightarrow> if nd_kind x \<noteq> Dir \<and> \<not> is_directory n b \<and> is_directory n (key_parent b)
                  then Inr ((), (n(a := None))(b \<mapsto> x)) else Inl OtherIo)"

definition remove_file :: "files_env \<Rightarrow> path_key \<Rightarrow> (io_error, unit) fio" where
  "remove_file E k =
     file_op E (\<lambda>n. case n k of None \<Rightarrow> Inl NotFound
       | Some x \<Rightarrow> if nd_kind x = Dir then Inl OtherIo else Inr ((), n(k := None)))"

text \<open>\<open>create_dir_all\<close>: the missing directories on the way are created, none when one is no directory.\<close>

definition directories_to :: "path_key \<Rightarrow> path_key list" where
  "directories_to k = map (\<lambda>i. (fst k, take (Suc i) (snd k))) [0..<length (snd k)]"

definition create_dir_all :: "files_env \<Rightarrow> path_key \<Rightarrow> (io_error, unit) fio" where
  "create_dir_all E k =
     file_op E (\<lambda>n. if list_ex (\<lambda>d. n d \<noteq> None \<and> \<not> is_directory n d) (directories_to k) then Inl OtherIo
       else Inr ((), fold (\<lambda>d n. if n d = None then n(d \<mapsto> \<lparr>nd_kind = Dir, nd_mode = fse_dir_mode E\<rparr>) else n) (directories_to k) n))"

section \<open>Lemmas\<close>

text \<open>Where a root is absolute, so is every path below it.\<close>

lemma path_join_absolute: "path_is_absolute p \<Longrightarrow> path_is_absolute (path_join p q)"
  by (auto simp: path_join_def path_is_absolute_def)

lemma from_xdg_roots_Inr:
  "from_xdg_roots r d = Inr fp \<longleftrightarrow> path_is_absolute r \<and> path_is_absolute d \<and>
     fp = \<lparr>fp_runtime_directory = path_join r ''fubun'', fp_socket_path = path_join (path_join r ''fubun'') ''core.sock'',
       fp_data_directory = path_join d ''fubun'', fp_database_path = path_join (path_join d ''fubun'') ''fubun.db''\<rparr>"
  by (auto simp: from_xdg_roots_def ensure_absolute_def Let_def)

lemma split_on_not_Nil [simp]: "split_on c s \<noteq> []"
  by (induction s) (auto split: list.split)

lemma split_on_append:
  "split_on c (xs @ c # ys) = split_on c xs @ split_on c ys"
  by (induction xs) (auto split: list.split)

lemma split_on_plain: "c \<notin> set xs \<Longrightarrow> split_on c xs = [xs]"
  by (induction xs) auto

lemma split_on_plain_append:
  "c \<notin> set ys \<Longrightarrow> split_on c (xs @ ys) = butlast (split_on c xs) @ [last (split_on c xs) @ ys]"
  by (induction xs) (auto simp: split_on_plain split: list.split)

text \<open>The key of a joined path.\<close>

lemma hd_split_on: "p \<noteq> [] \<Longrightarrow> hd p = c \<Longrightarrow> hd (split_on c p) = []"
  by (cases p) auto

lemma path_key_join:
  assumes "path_is_absolute p" "\<not> path_is_absolute q" "q \<noteq> []" "hd (split_on (CHR ''/'') q) \<noteq> ''.''"
  shows "path_key (path_join p q) = (True, snd (path_key p) @ snd (path_key q))"
proof -
  let ?keep = "filter (\<lambda>c. c \<noteq> [] \<and> c \<noteq> ''.'')"
  have p: "p \<noteq> []" "hd p = CHR ''/''" using assms(1) by (auto simp: path_is_absolute_def prefix_def)
  have abs: "path_is_absolute (path_join p q)" using assms(1) by (rule path_join_absolute)
  have hd_join: "hd (split_on (CHR ''/'') (path_join p q)) = []"
    using hd_split_on [of "path_join p q" "CHR ''/''"] p assms(2,3) by (cases p) (auto simp: path_join_def)
  have hd_p: "hd (split_on (CHR ''/'') p) = []" using hd_split_on [of p] p by simp
  have "?keep (split_on (CHR ''/'') (path_join p q)) = ?keep (split_on (CHR ''/'') p) @ ?keep (split_on (CHR ''/'') q)"
  proof (cases "last p = CHR ''/''")
    case True
    then obtain r where r: "p = r @ ''/''" using p by (metis append_butlast_last_id)
    then have join: "path_join p q = r @ CHR ''/'' # q" using p assms(2) by (simp add: path_join_def)
    have "split_on (CHR ''/'') p = split_on (CHR ''/'') r @ [[]]"
      using split_on_append [of "CHR ''/''" r "[]"] r by simp
    then show ?thesis unfolding join split_on_append by simp
  next
    case False
    then have join: "path_join p q = p @ CHR ''/'' # q" using p assms(2) by (simp add: path_join_def)
    show ?thesis unfolding join split_on_append by simp
  qed
  with hd_join hd_p abs assms(4) show ?thesis by (simp add: path_key_def Let_def)
qed

end
