(* ===== verification/Fubun_Host.thy ===== *)
theory Fubun_Host
  imports Fubun_Server Fubun_Json Fubun_Paths
begin

text \<open>
  Model of \<open>apps/fubun-native-host/src/main.rs\<close>: the bridge between the browser extension and the core.
  The extension writes frames to standard input, the host answers on standard output and is an adapter
  of the core on one connection and a client on another. The tasks of the host are the entries of a
  list; each step of the model is the code of one of them between two points where it waits.
  \<open>serde_json\<close> is a parameter; a send to a channel that is full only waits, so the channels are unbounded.
\<close>

section \<open>Messages\<close>

record native_envelope =
  ne_protocol_version :: protocol_version
  ne_request_id :: uuid
  ne_type :: string
  ne_payload :: json_value

record extension_hello =
  eh_extension_id :: string
  eh_extension_version :: string
  eh_extension_instance_id :: uuid
  eh_permitted_resource_ids :: "uuid list"

record browser_event =
  be_sequence_no :: u64
  be_occurred_at :: timestamp
  be_resource_id :: uuid

record browser_action_result =
  bar_request_id :: uuid
  bar_action_execution_id :: uuid
  bar_result :: action_result

datatype host_message_error =
    ProtocolMismatch | InvalidPayload | CoreFailed | AdapterUnavailable
  | EventAckTimeout | EventAckClosed | EventAckProtocol | DuplicateEventRequest

datatype pending_ack_error = AckDisconnected | AckProtocol

datatype core_inbound =
    InboundAction uuid uuid action_execute_request
  | InboundStatus uuid uuid

text \<open>The derived conversions from and to JSON.\<close>

record host_env =
  he_hello :: "json_value \<Rightarrow> extension_hello option"
  he_enable :: "json_value \<Rightarrow> (string \<times> string) option"
  he_pause :: "json_value \<Rightarrow> uuid option"
  he_event :: "json_value \<Rightarrow> browser_event option"
  he_result :: "json_value \<Rightarrow> browser_action_result option"
  he_enabled_json :: "browser_observation_enabled \<Rightarrow> json_value option"
  he_scope_json :: "observation_scope \<Rightarrow> json_value option"
  he_ack_json :: "event_ack \<Rightarrow> json_value option"
  he_uuid_json :: "uuid \<Rightarrow> json_value"
  he_action_json :: "action_spec \<Rightarrow> json_value"
  he_resource_json :: "resolved_resource option \<Rightarrow> json_value"

definition HOST_NAME :: string where
  "HOST_NAME = ''dev.fubun.browser''"

definition HOST_ADAPTER_ID :: string where
  "HOST_ADAPTER_ID = ''dev.fubun.browser.chromium''"

definition HOST_ACTION_CAPABILITIES :: "string list" where
  "HOST_ACTION_CAPABILITIES = [''browser.tab.ensure_open.v1'']"

definition HOST_EVENT_CAPABILITIES :: "string list" where
  "HOST_EVENT_CAPABILITIES = [''dev.fubun.browser.resource.opened.v1'']"

section \<open>Who may start the host\<close>

definition valid_extension_id :: "string \<Rightarrow> bool" where
  "valid_extension_id i = (length i = 32 \<and> list_all (\<lambda>b. 97 \<le> byte_val b \<and> byte_val b \<le> 112) i)"

definition strip_prefix :: "string \<Rightarrow> string \<Rightarrow> string option" where
  "strip_prefix p s = (if prefix p s then Some (drop (length p) s) else None)"

definition strip_slash :: "string \<Rightarrow> string option" where
  "strip_slash s = (if s \<noteq> [] \<and> last s = CHR ''/'' then Some (butlast s) else None)"

definition validate_origin :: "string \<Rightarrow> string + string" where
  "validate_origin origin =
     and_then (ok_or ''invalid caller scheme'' (strip_prefix ''chrome-extension://'' origin)) (\<lambda>v.
     and_then (ok_or ''caller origin must end with /'' (strip_slash v)) (\<lambda>i.
       if \<not> valid_extension_id i then Inl ''invalid extension id'' else Inr i))"

datatype host_start_error = HostText string | HostIo io_error | HostJson

definition private_mode :: "u32 \<Rightarrow> bool" where
  "private_mode m = (m AND 63 = 0)"

definition valid_allowed_ids :: "string list \<Rightarrow> bool" where
  "valid_allowed_ids ids = (ids \<noteq> [] \<and> length ids \<le> 32 \<and> distinct ids \<and> list_all valid_extension_id ids)"

definition host_config_path :: "string \<Rightarrow> string" where
  "host_config_path config_home = path_join config_home ''fubun/browser-native-host.json''"

definition is_regular :: "node \<Rightarrow> bool" where
  "is_regular x = (case nd_kind x of Regular _ \<Rightarrow> True | _ \<Rightarrow> False)"

definition load_allowed_ids ::
    "files_env \<Rightarrow> (string \<Rightarrow> string list option) \<Rightarrow> variables \<Rightarrow> (host_start_error, string list) fio" where
  "load_allowed_ids F from_slice vars =
     io_bind (io_lift (ok_or (HostText ''XDG_CONFIG_HOME or HOME is required'') (home_or vars ''XDG_CONFIG_HOME'' ''.config''))) (\<lambda>config_home.
     let k = path_key (host_config_path config_home) in
     io_bind (io_map_err HostIo (file_metadata F (key_parent k))) (\<lambda>parent.
     if nd_kind parent \<noteq> Dir \<or> \<not> private_mode (nd_mode parent)
     then io_err (HostText ''native host config directory must be private'')
     else io_bind (io_map_err HostIo (file_metadata F k)) (\<lambda>meta.
     if \<not> is_regular meta \<or> \<not> private_mode (nd_mode meta)
     then io_err (HostText ''native host config must not be group/world accessible'')
     else io_bind (io_map_err HostIo (read_file F k)) (\<lambda>bytes.
     io_bind (io_lift (ok_or HostJson (from_slice bytes))) (\<lambda>ids.
     if \<not> valid_allowed_ids ids then io_err (HostText ''invalid allowed extension id configuration'')
     else io_ret ids)))))"

text \<open>\<open>main\<close> before the runtime starts: the extension that may use the host.\<close>

definition host_main ::
    "files_env \<Rightarrow> (string \<Rightarrow> string list option) \<Rightarrow> variables \<Rightarrow> string option \<Rightarrow> (host_start_error, string) fio" where
  "host_main F from_slice vars arg =
     io_bind (io_lift (ok_or (HostText ''caller origin is required'') arg)) (\<lambda>origin.
     io_bind (io_lift (map_err HostText (validate_origin origin))) (\<lambda>extension_id.
     io_bind (load_allowed_ids F from_slice vars) (\<lambda>allowed.
     if extension_id \<notin> set allowed then io_err (HostText ''extension origin is not registered'')
     else io_ret extension_id)))"

section \<open>Handshake\<close>

definition validate_extension_hello :: "extension_hello \<Rightarrow> string \<Rightarrow> string + unit" where
  "validate_extension_hello hello expected =
     (if eh_extension_id hello \<noteq> expected then Inl ''extension hello identity mismatch''
      else if eh_extension_version hello = [] \<or> 64 < length (eh_extension_version hello) \<or>
        has_control (eh_extension_version hello)
      then Inl ''invalid extension version''
      else if 256 < length (eh_permitted_resource_ids hello) \<or> \<not> distinct (eh_permitted_resource_ids hello)
      then Inl ''invalid permitted browser resources''
      else Inr ())"

definition extension_hello_of :: "host_env \<Rightarrow> string \<Rightarrow> native_envelope \<Rightarrow> host_start_error + extension_hello" where
  "extension_hello_of E extension_id m =
     (if pv_major (ne_protocol_version m) \<noteq> pv_major CURRENT_PROTOCOL_VERSION \<or> ne_type m \<noteq> ''extension.hello''
      then Inl (HostText ''extension hello is required'')
      else and_then (ok_or HostJson (he_hello E (ne_payload m))) (\<lambda>hello.
           and_then (map_err HostText (validate_extension_hello hello extension_id)) (\<lambda>_. Inr hello)))"

definition host_status :: "extension_hello \<Rightarrow> adapter_status_snapshot" where
  "host_status hello = \<lparr>snap_tools = [], snap_desktop_entry_ids = [],
     snap_permitted_resource_ids = eh_permitted_resource_ids hello\<rparr>"

definition host_adapter_hello :: "string \<Rightarrow> uuid \<Rightarrow> extension_hello \<Rightarrow> request_envelope" where
  "host_adapter_hello version request_id hello =
     \<lparr>req_protocol_version = CURRENT_PROTOCOL_VERSION, req_request_id = request_id,
      req_body = AdapterHello
        \<lparr>ah_adapter_id = HOST_ADAPTER_ID, ah_adapter_version = version,
         ah_instance_id = eh_extension_instance_id hello,
         ah_action_capabilities = HOST_ACTION_CAPABILITIES, ah_event_capabilities = HOST_EVENT_CAPABILITIES,
         ah_status = host_status hello\<rparr>\<rparr>"

text \<open>The test of the answer to an adapter's hello, here and in the Linux adapter.\<close>

definition hello_accepted :: "uuid \<Rightarrow> response_envelope \<Rightarrow> bool" where
  "hello_accepted request_id ack =
     (rsp_request_id ack = request_id \<and>
      (case rsp_body ack of Ok (AdapterHelloAck _) \<Rightarrow> True | _ \<Rightarrow> False))"

definition extension_hello_ack :: "native_envelope \<Rightarrow> native_envelope" where
  "extension_hello_ack hello =
     \<lparr>ne_protocol_version = CURRENT_PROTOCOL_VERSION, ne_request_id = ne_request_id hello,
      ne_type = ''extension.hello.ack'',
      ne_payload = json_object [(''host'', JString HOST_NAME), (''adapter_id'', JString HOST_ADAPTER_ID)]\<rparr>"

section \<open>The host and its tasks\<close>

text \<open>
  A task waits to run, is registered and sending its event, waits for the acknowledgement, or has ended.
  \<open>et_mail\<close> is what its one-shot channel holds.
\<close>

datatype event_phase =
    Spawned | Registered | AwaitingAck
  | Finished "host_message_error + event_ack"

record event_task =
  et_request :: uuid
  et_event :: browser_event
  et_phase :: event_phase
  et_mail :: "(pending_ack_error + event_ack) option"

text \<open>
  \<open>hs_pending\<close> maps a request to the task that holds the receiving end; \<open>hs_native\<close>, \<open>hs_adapter\<close> are what was
  put into the two output channels, \<open>hs_inbound\<close> what waits in the channel from the reader of the adapter
  connection. The flags say whether the tasks at the other ends still run.
\<close>

record host =
  hs_pending :: "uuid \<rightharpoonup> nat"
  hs_tasks :: "event_task list"
  hs_native :: "native_envelope list"
  hs_adapter :: "adapter_response_envelope list"
  hs_inbound :: "core_inbound list"
  hs_status :: adapter_status_snapshot
  hs_native_open :: bool
  hs_adapter_open :: bool

definition initial_host :: "extension_hello \<Rightarrow> native_envelope \<Rightarrow> host" where
  "initial_host hello m = \<lparr>hs_pending = Map.empty, hs_tasks = [], hs_native = [extension_hello_ack m],
     hs_adapter = [], hs_inbound = [], hs_status = host_status hello, hs_native_open = True, hs_adapter_open = True\<rparr>"

definition native_send :: "native_envelope \<Rightarrow> host \<Rightarrow> bool \<times> host" where
  "native_send m h = (if hs_native_open h then (True, h\<lparr>hs_native := hs_native h @ [m]\<rparr>) else (False, h))"

definition adapter_send :: "adapter_response_envelope \<Rightarrow> host \<Rightarrow> bool \<times> host" where
  "adapter_send m h = (if hs_adapter_open h then (True, h\<lparr>hs_adapter := hs_adapter h @ [m]\<rparr>) else (False, h))"

definition native_message :: "uuid \<Rightarrow> string \<Rightarrow> json_value \<Rightarrow> native_envelope" where
  "native_message request_id t payload =
     \<lparr>ne_protocol_version = CURRENT_PROTOCOL_VERSION, ne_request_id = request_id, ne_type = t, ne_payload = payload\<rparr>"

definition integration_error :: "uuid \<Rightarrow> native_envelope" where
  "integration_error request_id =
     native_message request_id ''integration.error'' (json_object [(''code'', JString ''request_failed'')])"

text \<open>A send whose failure is \<open>AdapterUnavailable\<close>.\<close>

definition sent_or_unavailable :: "bool \<times> host \<Rightarrow> (host_message_error + unit) \<times> host" where
  "sent_or_unavailable r = (if fst r then Inr () else Inl AdapterUnavailable, snd r)"

definition handle_native_message ::
    "host_env \<Rightarrow> native_envelope \<Rightarrow> (request_body \<Rightarrow> client_error + response_payload) \<Rightarrow> host \<Rightarrow>
     (host_message_error + unit) \<times> host" where
  "handle_native_message E m core h =
     (if pv_major (ne_protocol_version m) \<noteq> pv_major CURRENT_PROTOCOL_VERSION then (Inl ProtocolMismatch, h)
      else if ne_type m = ''browser.observation.enable'' then
        (case he_enable E (ne_payload m) of None \<Rightarrow> (Inl InvalidPayload, h)
         | Some (label, url) \<Rightarrow>
           (case core (BrowserObservationEnable label url) of
              Inr (BrowserObservationEnabled v) \<Rightarrow>
                (case he_enabled_json E v of None \<Rightarrow> (Inl CoreFailed, h)
                 | Some j \<Rightarrow> sent_or_unavailable
                     (native_send (native_message (ne_request_id m) ''browser.observation.enabled'' j) h))
            | _ \<Rightarrow> (Inl CoreFailed, h)))
      else if ne_type m = ''browser.observation.pause'' then
        (case he_pause E (ne_payload m) of None \<Rightarrow> (Inl InvalidPayload, h)
         | Some scope_id \<Rightarrow>
           (case core (ObservationPause scope_id) of
              Inr (ObservationPausedPayload v) \<Rightarrow>
                (case he_scope_json E v of None \<Rightarrow> (Inl CoreFailed, h)
                 | Some j \<Rightarrow> sent_or_unavailable
                     (native_send (native_message (ne_request_id m) ''browser.observation.paused'' j) h))
            | _ \<Rightarrow> (Inl CoreFailed, h)))
      else if ne_type m = ''browser.event.emit'' then
        (case he_event E (ne_payload m) of None \<Rightarrow> (Inl InvalidPayload, h)
         | Some event \<Rightarrow> (Inr (), h\<lparr>hs_tasks := hs_tasks h @
             [\<lparr>et_request = ne_request_id m, et_event = event, et_phase = Spawned, et_mail = None\<rparr>]\<rparr>))
      else if ne_type m = ''browser.action.result'' then
        (case he_result E (ne_payload m) of None \<Rightarrow> (Inl InvalidPayload, h)
         | Some r \<Rightarrow> sent_or_unavailable (adapter_send
             \<lparr>ars_protocol_version = CURRENT_PROTOCOL_VERSION, ars_request_id = bar_request_id r,
              ars_action_execution_id = bar_action_execution_id r, ars_body = ActionResultBody (bar_result r)\<rparr> h))
      else if ne_type m = ''integration.ping'' then
        sent_or_unavailable (native_send (native_message (ne_request_id m) ''integration.pong'' (JObject [])) h)
      else (Inl InvalidPayload, h))"

text \<open>A message of the extension in the loop of \<open>run_host\<close>: an error is reported, and the loop goes on.\<close>

definition on_native_message ::
    "host_env \<Rightarrow> native_envelope \<Rightarrow> (request_body \<Rightarrow> client_error + response_payload) \<Rightarrow> host \<Rightarrow> host" where
  "on_native_message E m core h =
     (case handle_native_message E m core h of
        (Inr _, h') \<Rightarrow> h'
      | (Inl _, h') \<Rightarrow> snd (native_send (integration_error (ne_request_id m)) h'))"

text \<open>A message of the core that waits in the channel.\<close>

definition on_core_message :: "host_env \<Rightarrow> core_inbound \<Rightarrow> host \<Rightarrow> host" where
  "on_core_message E c h =
     (case c of
        InboundAction request_id execution_id payload \<Rightarrow>
          snd (native_send (native_message request_id ''browser.action.execute''
            (json_object [(''request_id'', he_uuid_json E request_id), (''action_execution_id'', he_uuid_json E execution_id),
              (''action'', he_action_json E (aer_action payload)),
              (''resolved_resource'', he_resource_json E (aer_resolved_resource payload))])) h)
      | InboundStatus request_id execution_id \<Rightarrow>
          snd (adapter_send \<lparr>ars_protocol_version = CURRENT_PROTOCOL_VERSION, ars_request_id = request_id,
            ars_action_execution_id = execution_id, ars_body = StatusBody (hs_status h)\<rparr> h))"

section \<open>Waiting for acknowledgements\<close>

definition set_task :: "nat \<Rightarrow> (event_task \<Rightarrow> event_task) \<Rightarrow> host \<Rightarrow> host" where
  "set_task i f h = h\<lparr>hs_tasks := (hs_tasks h)[i := f (hs_tasks h ! i)]\<rparr>"

text \<open>\<open>PendingEventAckGuard\<close>, dropped while armed.\<close>

definition guard_drop :: "uuid \<Rightarrow> host \<Rightarrow> host" where
  "guard_drop request_id h = h\<lparr>hs_pending := (hs_pending h)(request_id := None)\<rparr>"

text \<open>The end of a task: what \<open>emit_event_and_wait\<close> returned is reported to the extension.\<close>

definition ack_message :: "host_env \<Rightarrow> uuid \<Rightarrow> host_message_error + event_ack \<Rightarrow> native_envelope" where
  "ack_message E request_id r =
     (case r of
        Inr v \<Rightarrow> native_message request_id ''browser.event.ack''
          (case he_ack_json E v of None \<Rightarrow> JObject [] | Some j \<Rightarrow> j)
      | Inl _ \<Rightarrow> integration_error request_id)"

definition finish_task :: "host_env \<Rightarrow> nat \<Rightarrow> host_message_error + event_ack \<Rightarrow> host \<Rightarrow> host" where
  "finish_task E i r h =
     snd (native_send (ack_message E (et_request (hs_tasks h ! i)) r) (set_task i (\<lambda>t. t\<lparr>et_phase := Finished r\<rparr>) h))"

text \<open>\<open>emit_event_and_wait\<close>, part by part: up to the send, the send, and the end of the wait.\<close>

definition emit_register :: "host_env \<Rightarrow> nat \<Rightarrow> host \<Rightarrow> host" where
  "emit_register E i h =
     (let r = et_request (hs_tasks h ! i)
      in if hs_pending h r \<noteq> None then finish_task E i (Inl DuplicateEventRequest) h
         else set_task i (\<lambda>t. t\<lparr>et_phase := Registered\<rparr>) (h\<lparr>hs_pending := (hs_pending h)(r \<mapsto> i)\<rparr>))"

definition event_emission :: "event_task \<Rightarrow> adapter_response_envelope" where
  "event_emission t =
     \<lparr>ars_protocol_version = CURRENT_PROTOCOL_VERSION, ars_request_id = et_request t,
      ars_action_execution_id = uuid_nil,
      ars_body = EventEmit \<lparr>emit_sequence_no = be_sequence_no (et_event t), emit_occurred_at = be_occurred_at (et_event t),
        emit_event_type = BrowserResourceOpenedV1, emit_resource_id = be_resource_id (et_event t)\<rparr>\<rparr>"

definition emit_send :: "host_env \<Rightarrow> nat \<Rightarrow> host \<Rightarrow> host" where
  "emit_send E i h =
     (let t = hs_tasks h ! i
      in case adapter_send (event_emission t) h of
           (True, h') \<Rightarrow> set_task i (\<lambda>t. t\<lparr>et_phase := AwaitingAck\<rparr>) h'
         | (False, h') \<Rightarrow> finish_task E i (Inl AdapterUnavailable) (guard_drop (et_request t) h'))"

definition emit_timeout :: "host_env \<Rightarrow> nat \<Rightarrow> host \<Rightarrow> host" where
  "emit_timeout E i h = finish_task E i (Inl EventAckTimeout) (guard_drop (et_request (hs_tasks h ! i)) h)"

definition ack_error :: "pending_ack_error \<Rightarrow> host_message_error" where
  "ack_error e = (case e of AckDisconnected \<Rightarrow> EventAckClosed | AckProtocol \<Rightarrow> EventAckProtocol)"

definition emit_receive :: "host_env \<Rightarrow> nat \<Rightarrow> host \<Rightarrow> host" where
  "emit_receive E i h =
     (let t = hs_tasks h ! i
      in case et_mail t of
           Some r \<Rightarrow> finish_task E i (map_err ack_error r) h
         | None \<Rightarrow> finish_task E i (Inl EventAckClosed) (guard_drop (et_request t) h))"

text \<open>
  The reader of the adapter connection. The send of an acknowledgement fails silently when its task has
  ended; a message for the loop is put into its channel.
\<close>

definition deliver :: "uuid \<Rightarrow> pending_ack_error + event_ack \<Rightarrow> host \<Rightarrow> host" where
  "deliver request_id r h =
     (case hs_pending h request_id of
        None \<Rightarrow> h
      | Some i \<Rightarrow> set_task i (\<lambda>t. t\<lparr>et_mail := Some r\<rparr>) (h\<lparr>hs_pending := (hs_pending h)(request_id := None)\<rparr>))"

definition route_adapter_request :: "adapter_request_envelope \<Rightarrow> host \<Rightarrow> host" where
  "route_adapter_request q h =
     (case arq_body q of
        AdapterEventAckBody v \<Rightarrow>
          deliver (arq_request_id q) (if arq_action_execution_id q = uuid_nil then Inr v else Inl AckProtocol) h
      | ActionExecute payload \<Rightarrow>
          h\<lparr>hs_inbound := hs_inbound h @ [InboundAction (arq_request_id q) (arq_action_execution_id q) payload]\<rparr>
      | AdapterStatusRequest \<Rightarrow>
          h\<lparr>hs_inbound := hs_inbound h @ [InboundStatus (arq_request_id q) (arq_action_execution_id q)]\<rparr>)"

definition drain_pending_event_acks :: "pending_ack_error \<Rightarrow> host \<Rightarrow> host" where
  "drain_pending_event_acks e h =
     h\<lparr>hs_pending := Map.empty,
       hs_tasks := map (\<lambda>(i, t). if hs_pending h (et_request t) = Some i then t\<lparr>et_mail := Some (Inl e)\<rparr> else t)
         (enumerate 0 (hs_tasks h))\<rparr>"

section \<open>Steps\<close>

text \<open>
  What can happen next; the extension's message comes with the core's answers on the client
  connection. The steps of tasks are those the host takes by itself.
\<close>

datatype host_event =
    FromExtension native_envelope "request_body \<Rightarrow> client_error + response_payload"
  | FromCore adapter_request_envelope
  | ReaderEnds | AdapterWriterEnds | NativeWriterEnds
  | ForwardInbound
  | TaskRegister nat | TaskSend nat | TaskTimeout nat | TaskReceive nat

definition in_phase :: "nat \<Rightarrow> event_phase \<Rightarrow> host \<Rightarrow> bool" where
  "in_phase i p h = (i < length (hs_tasks h) \<and> et_phase (hs_tasks h ! i) = p)"

text \<open>The channel of a task is closed when no entry holds its sending end.\<close>

definition sender_held :: "nat \<Rightarrow> host \<Rightarrow> bool" where
  "sender_held i h = (hs_pending h (et_request (hs_tasks h ! i)) = Some i)"

definition host_step :: "host_env \<Rightarrow> host_event \<Rightarrow> host \<Rightarrow> host option" where
  "host_step E l h =
     (case l of
        FromExtension m core \<Rightarrow> Some (on_native_message E m core h)
      | FromCore q \<Rightarrow>
          (if pv_major (arq_protocol_version q) = pv_major CURRENT_PROTOCOL_VERSION
           then Some (route_adapter_request q h) else None)
      | ReaderEnds \<Rightarrow> Some (drain_pending_event_acks AckDisconnected h)
      | AdapterWriterEnds \<Rightarrow> Some (h\<lparr>hs_adapter_open := False\<rparr>)
      | NativeWriterEnds \<Rightarrow> Some (h\<lparr>hs_native_open := False\<rparr>)
      | ForwardInbound \<Rightarrow>
          (case hs_inbound h of [] \<Rightarrow> None | c # cs \<Rightarrow> Some (on_core_message E c (h\<lparr>hs_inbound := cs\<rparr>)))
      | TaskRegister i \<Rightarrow> if in_phase i Spawned h then Some (emit_register E i h) else None
      | TaskSend i \<Rightarrow> if in_phase i Registered h then Some (emit_send E i h) else None
      | TaskTimeout i \<Rightarrow>
          if in_phase i AwaitingAck h \<and> et_mail (hs_tasks h ! i) = None then Some (emit_timeout E i h) else None
      | TaskReceive i \<Rightarrow>
          if in_phase i AwaitingAck h \<and> (et_mail (hs_tasks h ! i) \<noteq> None \<or> \<not> sender_held i h)
          then Some (emit_receive E i h) else None)"

fun host_run :: "host_env \<Rightarrow> host_event list \<Rightarrow> host \<Rightarrow> host option" where
  "host_run E [] h = Some h"
| "host_run E (l # ls) h = (case host_step E l h of None \<Rightarrow> None | Some h' \<Rightarrow> host_run E ls h')"

section \<open>Native frames\<close>

text \<open>\<open>to_ne_bytes\<close> of the machine: little endian or the reverse.\<close>

definition to_ne_bytes :: "bool \<Rightarrow> u32 \<Rightarrow> string" where
  "to_ne_bytes little w = (if little then to_le_bytes w else rev (to_le_bytes w))"

definition from_ne_bytes :: "bool \<Rightarrow> char \<Rightarrow> char \<Rightarrow> char \<Rightarrow> char \<Rightarrow> u32" where
  "from_ne_bytes little a b c d = (if little then from_le_bytes a b c d else from_le_bytes d c b a)"

definition write_native_envelope :: "bool \<Rightarrow> (native_envelope \<Rightarrow> string option) \<Rightarrow> native_envelope \<Rightarrow> frame_error + string" where
  "write_native_envelope little to_vec m =
     and_then (ok_or FrameJson (to_vec m)) (\<lambda>bytes.
       if MAX_MESSAGE_SIZE < length bytes then Inl (Oversized (length bytes) MAX_MESSAGE_SIZE)
       else Inr (to_ne_bytes little (word_of_nat (length bytes)) @ bytes))"

definition read_native_frame ::
    "bool \<Rightarrow> (string \<Rightarrow> native_envelope option) \<Rightarrow> string \<Rightarrow> (frame_error + native_envelope option) \<times> string" where
  "read_native_frame little from_slice stream =
     (case stream of [] \<Rightarrow> (Inr None, [])
      | a # rest \<Rightarrow>
        (case read_exact 3 rest of
           (Inr [b, c, d], rest') \<Rightarrow>
             (let len = unat (from_ne_bytes little a b c d)
              in if len = 0 \<or> MAX_MESSAGE_SIZE < len then (Inl (Oversized len MAX_MESSAGE_SIZE), rest')
                 else (case read_exact len rest' of
                         (Inr payload, rest'') \<Rightarrow> (ok_or FrameJson (map_option Some (from_slice payload)), rest'')
                       | (Inl e, rest'') \<Rightarrow> (Inl e, rest'')))
         | (Inr _, rest') \<Rightarrow> (Inl FrameIo, rest')
         | (Inl e, rest') \<Rightarrow> (Inl e, rest')))"

end
