(* ===== verification/Fubun_Host_Props.thy ===== *)
theory Fubun_Host_Props
  imports Fubun_Host
begin

text \<open>
  What the native messaging host guarantees: which extension may use it, that an acknowledgement
  reaches the request it belongs to, that the table of waiting requests holds waiting tasks only, and that
  every task ends.
\<close>

section \<open>What a step leaves alone\<close>

text \<open>The parts of a host after a message that is no acknowledgement: messages and new tasks are added.\<close>

definition host_grows :: "host \<Rightarrow> host \<Rightarrow> bool" where
  "host_grows h h' \<longleftrightarrow> hs_pending h' = hs_pending h \<and>
     (\<exists>ns. hs_native h' = hs_native h @ ns \<and> list_all (\<lambda>m. ne_type m \<noteq> ''browser.event.ack'') ns) \<and>
     (\<exists>as. hs_adapter h' = hs_adapter h @ as) \<and>
     (\<exists>ts. hs_tasks h' = hs_tasks h @ ts \<and> list_all (\<lambda>t. et_phase t = Spawned \<and> et_mail t = None) ts)"

lemma growsI:
  assumes "hs_pending h' = hs_pending h" "hs_native h' = hs_native h @ ns"
    "list_all (\<lambda>m. ne_type m \<noteq> ''browser.event.ack'') ns" "hs_adapter h' = hs_adapter h @ as"
    "hs_tasks h' = hs_tasks h @ ts" "list_all (\<lambda>t. et_phase t = Spawned \<and> et_mail t = None) ts"
  shows "host_grows h h'"
  using assms unfolding host_grows_def by blast

lemma grows_refl [simp]: "host_grows h h"
  by (rule growsI [where ns = "[]" and as = "[]" and ts = "[]"]) simp_all

lemma grows_trans: "host_grows h h' \<Longrightarrow> host_grows h' h'' \<Longrightarrow> host_grows h h''"
  by (fastforce simp: host_grows_def)

lemma grows_native_send: "ne_type m \<noteq> ''browser.event.ack'' \<Longrightarrow> host_grows h (snd (native_send m h))"
  by (rule growsI [where ns = "if hs_native_open h then [m] else []" and as = "[]" and ts = "[]"])
     (simp_all add: native_send_def)

lemma grows_adapter_send: "host_grows h (snd (adapter_send m h))"
  by (rule growsI [where ns = "[]" and as = "if hs_adapter_open h then [m] else []" and ts = "[]"])
     (simp_all add: adapter_send_def)

lemma grows_new_task: "et_phase t = Spawned \<Longrightarrow> et_mail t = None \<Longrightarrow> host_grows h (h\<lparr>hs_tasks := hs_tasks h @ [t]\<rparr>)"
  by (rule growsI [where ns = "[]" and as = "[]" and ts = "[t]"]) simp_all

lemma ne_type_native_message [simp]: "ne_type (native_message r t p) = t" "ne_request_id (native_message r t p) = r"
  by (simp_all add: native_message_def)

lemma integration_error_type [simp]: "ne_type (integration_error r) = ''integration.error''"
  by (simp add: integration_error_def)

lemma snd_sent_or_unavailable [simp]: "snd (sent_or_unavailable r) = snd r"
  by (simp add: sent_or_unavailable_def)

lemma grows_enabled:
  "host_grows h (snd (case x of BrowserObservationEnabled v \<Rightarrow>
       (case he_enabled_json E v of None \<Rightarrow> (Inl CoreFailed, h)
        | Some j \<Rightarrow> sent_or_unavailable (native_send (native_message r ''browser.observation.enabled'' j) h))
     | _ \<Rightarrow> (Inl CoreFailed, h)))"
  by (cases x) (simp_all add: grows_native_send split: option.split)

lemma grows_paused:
  "host_grows h (snd (case x of ObservationPausedPayload v \<Rightarrow>
       (case he_scope_json E v of None \<Rightarrow> (Inl CoreFailed, h)
        | Some j \<Rightarrow> sent_or_unavailable (native_send (native_message r ''browser.observation.paused'' j) h))
     | _ \<Rightarrow> (Inl CoreFailed, h)))"
  by (cases x) (simp_all add: grows_native_send split: option.split)

lemma grows_handle: "host_grows h (snd (handle_native_message E m core h))"
  unfolding handle_native_message_def
  by (simp add: grows_native_send grows_adapter_send grows_new_task grows_enabled grows_paused
      split: option.split sum.split prod.split)

lemma grows_on_native: "host_grows h (on_native_message E m core h)"
proof -
  obtain r h' where r: "handle_native_message E m core h = (r, h')" by fastforce
  then have "host_grows h h'" using grows_handle [of h E m core] by simp
  moreover have "host_grows h' (snd (native_send (integration_error (ne_request_id m)) h'))"
    by (rule grows_native_send) simp
  ultimately show ?thesis using r by (cases r) (auto simp: on_native_message_def intro: grows_trans)
qed

lemma grows_on_core: "host_grows h (on_core_message E c h)"
  by (auto simp: on_core_message_def grows_native_send grows_adapter_send split: core_inbound.split)

section \<open>The invariant of the host\<close>

lemma event_emission_simps [simp]:
  "event_emission (t\<lparr>et_phase := p\<rparr>) = event_emission t" "event_emission (t\<lparr>et_mail := x\<rparr>) = event_emission t"
  by (simp_all add: event_emission_def)

text \<open>The core acknowledged a request with this value.\<close>

definition acked :: "host_event list \<Rightarrow> uuid \<Rightarrow> event_ack \<Rightarrow> bool" where
  "acked ls r v \<longleftrightarrow> (\<exists>q. FromCore q \<in> set ls \<and> arq_request_id q = r \<and>
     arq_action_execution_id q = uuid_nil \<and> arq_body q = AdapterEventAckBody v)"

definition entry_ok :: "host \<Rightarrow> uuid \<Rightarrow> nat \<Rightarrow> bool" where
  "entry_ok h r i \<longleftrightarrow> i < length (hs_tasks h) \<and> et_request (hs_tasks h ! i) = r \<and>
     et_phase (hs_tasks h ! i) \<in> {Registered, AwaitingAck} \<and> et_mail (hs_tasks h ! i) = None"

definition task_ok :: "host_event list \<Rightarrow> host \<Rightarrow> event_task \<Rightarrow> bool" where
  "task_ok ls h t \<longleftrightarrow> (\<forall>v. et_mail t = Some (Inr v) \<longrightarrow> acked ls (et_request t) v) \<and>
     (et_phase t = AwaitingAck \<longrightarrow> event_emission t \<in> set (hs_adapter h)) \<and>
     (et_phase t = Spawned \<longrightarrow> et_mail t = None)"

definition answered :: "host_event list \<Rightarrow> host_env \<Rightarrow> host \<Rightarrow> native_envelope \<Rightarrow> bool" where
  "answered ls E h m \<longleftrightarrow> (\<exists>t v. acked ls (et_request t) v \<and> event_emission t \<in> set (hs_adapter h) \<and>
     m = ack_message E (et_request t) (Inr v))"

definition host_inv :: "host_env \<Rightarrow> host_event list \<Rightarrow> host \<Rightarrow> bool" where
  "host_inv E ls h \<longleftrightarrow> (\<forall>r i. hs_pending h r = Some i \<longrightarrow> entry_ok h r i) \<and> list_all (task_ok ls h) (hs_tasks h) \<and>
     (\<forall>m \<in> set (hs_native h). ne_type m = ''browser.event.ack'' \<longrightarrow> answered ls E h m)"

lemma host_invD:
  assumes "host_inv E ls h"
  shows "hs_pending h r = Some i \<Longrightarrow> entry_ok h r i" "i < length (hs_tasks h) \<Longrightarrow> task_ok ls h (hs_tasks h ! i)"
    "m \<in> set (hs_native h) \<Longrightarrow> ne_type m = ''browser.event.ack'' \<Longrightarrow> answered ls E h m"
  using assms by (auto simp: host_inv_def list_all_length)

lemma acked_snoc: "acked ls r v \<Longrightarrow> acked (ls @ [l]) r v"
  by (auto simp: acked_def)

lemma answered_mono: "answered ls E h m \<Longrightarrow> set (hs_adapter h) \<subseteq> set (hs_adapter h') \<Longrightarrow> answered ls E h' m"
  unfolding answered_def by blast

lemma task_ok_mono: "task_ok ls h t \<Longrightarrow> set (hs_adapter h) \<subseteq> set (hs_adapter h') \<Longrightarrow> task_ok ls h' t"
  unfolding task_ok_def by blast

lemma task_ok_simps [simp]:
  "task_ok ls (h\<lparr>hs_pending := p\<rparr>) = task_ok ls h" "task_ok ls (h\<lparr>hs_native := n\<rparr>) = task_ok ls h"
  by (simp_all add: task_ok_def fun_eq_iff)

lemma host_inv_snoc: "host_inv E ls h \<Longrightarrow> host_inv E (ls @ [l]) h"
  unfolding host_inv_def answered_def task_ok_def list_all_iff by (blast intro: acked_snoc)

lemma host_inv_grows:
  assumes "host_inv E ls h" "host_grows h h'"
  shows "host_inv E ls h'"
proof -
  from assms(2) obtain ns as ts where h': "hs_pending h' = hs_pending h" "hs_native h' = hs_native h @ ns"
    "\<forall>m \<in> set ns. ne_type m \<noteq> ''browser.event.ack''" "hs_adapter h' = hs_adapter h @ as"
    "hs_tasks h' = hs_tasks h @ ts" "\<forall>t \<in> set ts. et_phase t = Spawned \<and> et_mail t = None"
    by (auto simp: host_grows_def list_all_iff)
  then have sub: "set (hs_adapter h) \<subseteq> set (hs_adapter h')" by simp
  have "entry_ok h' r i" if "hs_pending h' r = Some i" for r i
    using host_invD(1) [OF assms(1), of r i] that h' by (simp add: entry_ok_def nth_append)
  moreover have "task_ok ls h' t" if "t \<in> set (hs_tasks h')" for t
  proof (cases "t \<in> set ts")
    case True
    then show ?thesis using h'(6) by (simp add: task_ok_def)
  next
    case False
    then have "task_ok ls h t" using that h'(5) assms(1) by (auto simp: host_inv_def list_all_iff)
    then show ?thesis using sub by (rule task_ok_mono)
  qed
  moreover have "answered ls E h' m" if "m \<in> set (hs_native h')" "ne_type m = ''browser.event.ack''" for m
    using host_invD(3) [OF assms(1)] that h'(2,3) sub by (auto intro: answered_mono)
  ultimately show ?thesis by (simp add: host_inv_def list_all_iff)
qed

text \<open>One task changes, and its entry.\<close>

lemma length_set_task [simp]: "length (hs_tasks (set_task i f h)) = length (hs_tasks h)"
  by (simp add: set_task_def)

lemma set_task_fields [simp]:
  "hs_pending (set_task i f h) = hs_pending h" "hs_native (set_task i f h) = hs_native h"
  "hs_adapter (set_task i f h) = hs_adapter h" "hs_inbound (set_task i f h) = hs_inbound h"
  "hs_native_open (set_task i f h) = hs_native_open h" "hs_adapter_open (set_task i f h) = hs_adapter_open h"
  by (simp_all add: set_task_def)

lemma set_task_pending: "set_task i f (h\<lparr>hs_pending := p\<rparr>) = (set_task i f h)\<lparr>hs_pending := p\<rparr>"
  by (simp add: set_task_def)

lemma nth_set_task: "i < length (hs_tasks h) \<Longrightarrow> hs_tasks (set_task i f h) ! j = (if i = j then f (hs_tasks h ! i) else hs_tasks h ! j)"
  by (simp add: set_task_def nth_list_update)

lemma host_inv_set_task:
  assumes inv: "host_inv E ls h" and i: "i < length (hs_tasks h)"
    and new: "task_ok ls h (f (hs_tasks h ! i))"
    and kept: "\<And>r. hs_pending h r = Some i \<Longrightarrow> et_request (f (hs_tasks h ! i)) = r \<and>
      et_phase (f (hs_tasks h ! i)) \<in> {Registered, AwaitingAck} \<and> et_mail (f (hs_tasks h ! i)) = None"
  shows "host_inv E ls (set_task i f h)"
proof -
  have "entry_ok (set_task i f h) r j" if "hs_pending h r = Some j" for r j
    using host_invD(1) [OF inv that] kept [of r] that i by (auto simp: entry_ok_def nth_set_task)
  moreover have "task_ok ls (set_task i f h) (hs_tasks (set_task i f h) ! j)" if "j < length (hs_tasks h)" for j
    using host_invD(2) [OF inv that] new i by (auto simp: nth_set_task intro: task_ok_mono)
  moreover have "answered ls E (set_task i f h) m" if "m \<in> set (hs_native h)" "ne_type m = ''browser.event.ack''" for m
    using host_invD(3) [OF inv that] by (rule answered_mono) simp
  ultimately show ?thesis by (auto simp: host_inv_def list_all_length)
qed

lemma host_inv_unlist:
  "host_inv E ls h \<Longrightarrow> host_inv E ls (h\<lparr>hs_pending := (hs_pending h)(r := None)\<rparr>)"
  by (auto simp: host_inv_def entry_ok_def task_ok_def answered_def)

lemma host_inv_finish:
  assumes inv: "host_inv E ls h" and i: "i < length (hs_tasks h)" and gone: "\<And>r. hs_pending h r \<noteq> Some i"
    and ok: "\<And>v. x = Inr v \<Longrightarrow> acked ls (et_request (hs_tasks h ! i)) v \<and> event_emission (hs_tasks h ! i) \<in> set (hs_adapter h)"
  shows "host_inv E ls (finish_task E i x h)"
proof -
  let ?h = "set_task i (\<lambda>t. t\<lparr>et_phase := Finished x\<rparr>) h"
  have "task_ok ls h ((hs_tasks h ! i)\<lparr>et_phase := Finished x\<rparr>)"
    using host_invD(2) [OF inv i] by (simp add: task_ok_def)
  then have inv': "host_inv E ls ?h" using gone by (intro host_inv_set_task [OF inv i]) auto
  show ?thesis
  proof (cases x)
    case (Inl e)
    then show ?thesis unfolding finish_task_def
      by (intro host_inv_grows [OF inv'] grows_native_send) (simp add: ack_message_def)
  next
    case (Inr v)
    have "answered ls E ?h (ack_message E (et_request (hs_tasks h ! i)) x)"
      using ok [OF Inr] Inr unfolding answered_def by (intro exI [of _ "hs_tasks h ! i"] exI [of _ v]) simp
    with inv' show ?thesis
      by (auto simp: finish_task_def native_send_def host_inv_def entry_ok_def task_ok_def answered_def)
  qed
qed

text \<open>Every step keeps the invariant.\<close>

lemma host_inv_register:
  assumes inv: "host_inv E ls h" and i: "in_phase i Spawned h"
  shows "host_inv E ls (emit_register E i h)"
proof -
  let ?r = "et_request (hs_tasks h ! i)"
  have gone: "hs_pending h r \<noteq> Some i" for r
    using host_invD(1) [OF inv, of r i] i by (auto simp: entry_ok_def in_phase_def)
  have len: "i < length (hs_tasks h)" using i by (simp add: in_phase_def)
  show ?thesis
  proof (cases "hs_pending h ?r")
    case (Some j)
    have "host_inv E ls (finish_task E i (Inl DuplicateEventRequest) h)" by (rule host_inv_finish [OF inv len gone]) simp
    then show ?thesis using Some by (simp add: emit_register_def)
  next
    case None
    let ?f = "\<lambda>t. t\<lparr>et_phase := Registered\<rparr>"
    have ok: "task_ok ls h (hs_tasks h ! i)" using host_invD(2) [OF inv len] .
    then have inv1: "host_inv E ls (set_task i ?f h)"
      using gone by (intro host_inv_set_task [OF inv len]) (auto simp: task_ok_def)
    have "et_mail (hs_tasks h ! i) = None" using ok i by (simp add: task_ok_def in_phase_def)
    then have "entry_ok (set_task i ?f h) ?r i" using len by (simp add: entry_ok_def nth_set_task)
    with inv1 None show ?thesis
      by (auto simp: emit_register_def set_task_pending host_inv_def entry_ok_def answered_def)
  qed
qed

lemma host_inv_send:
  assumes inv: "host_inv E ls h" and i: "in_phase i Registered h"
  shows "host_inv E ls (emit_send E i h)"
proof -
  let ?t = "hs_tasks h ! i"
  have len: "i < length (hs_tasks h)" using i by (simp add: in_phase_def)
  show ?thesis
  proof (cases "hs_adapter_open h")
    case True
    let ?h = "h\<lparr>hs_adapter := hs_adapter h @ [event_emission ?t]\<rparr>"
    have sent: "adapter_send (event_emission ?t) h = (True, ?h)" using True by (simp add: adapter_send_def)
    have inv1: "host_inv E ls ?h" using host_inv_grows [OF inv grows_adapter_send [of h "event_emission ?t"]] sent by simp
    have "task_ok ls ?h (?t\<lparr>et_phase := AwaitingAck\<rparr>)"
      using host_invD(2) [OF inv len] by (simp add: task_ok_def)
    then have "host_inv E ls (set_task i (\<lambda>t. t\<lparr>et_phase := AwaitingAck\<rparr>) ?h)"
      using len host_invD(1) [OF inv, of _ i] by (intro host_inv_set_task [OF inv1]) (auto simp: entry_ok_def)
    then show ?thesis using sent by (simp add: emit_send_def Let_def)
  next
    case False
    have "host_inv E ls (finish_task E i (Inl AdapterUnavailable) (guard_drop (et_request ?t) h))"
      using host_inv_unlist [OF inv] len host_invD(1) [OF inv, of _ i]
      by (intro host_inv_finish) (auto simp: guard_drop_def entry_ok_def)
    then show ?thesis using False by (simp add: emit_send_def adapter_send_def Let_def)
  qed
qed

lemma host_inv_dropped:
  assumes inv: "host_inv E ls h" and i: "i < length (hs_tasks h)"
  shows "host_inv E ls (finish_task E i (Inl e) (guard_drop (et_request (hs_tasks h ! i)) h))"
  using host_inv_unlist [OF inv] i host_invD(1) [OF inv, of _ i]
  by (intro host_inv_finish) (auto simp: guard_drop_def entry_ok_def)

lemma host_inv_receive:
  assumes inv: "host_inv E ls h" and i: "in_phase i AwaitingAck h"
  shows "host_inv E ls (emit_receive E i h)"
proof -
  let ?t = "hs_tasks h ! i"
  have len: "i < length (hs_tasks h)" using i by (simp add: in_phase_def)
  have ok: "task_ok ls h ?t" using host_invD(2) [OF inv len] .
  show ?thesis
  proof (cases "et_mail ?t")
    case None
    then show ?thesis using host_inv_dropped [OF inv len] by (simp add: emit_receive_def)
  next
    case (Some x)
    have "host_inv E ls (finish_task E i (map_err ack_error x) h)"
      using ok Some i host_invD(1) [OF inv, of _ i]
      by (intro host_inv_finish [OF inv len]) (auto simp: entry_ok_def task_ok_def in_phase_def)
    then show ?thesis using Some by (simp add: emit_receive_def)
  qed
qed

lemma host_inv_deliver:
  assumes inv: "host_inv E ls h" and x: "\<And>v. x = Inr v \<Longrightarrow> acked ls r v"
  shows "host_inv E ls (deliver r x h)"
proof (cases "hs_pending h r")
  case (Some i)
  let ?h = "h\<lparr>hs_pending := (hs_pending h)(r := None)\<rparr>"
  have entry: "entry_ok h r i" using host_invD(1) [OF inv Some] .
  have "host_inv E ls (set_task i (\<lambda>t. t\<lparr>et_mail := Some x\<rparr>) ?h)"
    using entry x host_invD(1) [OF inv, of _ i] host_invD(2) [OF inv, of i]
    by (intro host_inv_set_task host_inv_unlist [OF inv])
       (auto simp: entry_ok_def task_ok_def split: if_splits)
  then show ?thesis using Some by (simp add: deliver_def)
qed (simp add: deliver_def inv)

lemma host_inv_inbound [simp]:
  "host_inv E ls (h\<lparr>hs_inbound := b\<rparr>) = host_inv E ls h" "host_inv E ls (h\<lparr>hs_adapter_open := o1\<rparr>) = host_inv E ls h"
  "host_inv E ls (h\<lparr>hs_native_open := o2\<rparr>) = host_inv E ls h"
  by (simp_all add: host_inv_def entry_ok_def task_ok_def answered_def list_all_iff)

lemma host_inv_drain:
  assumes inv: "host_inv E ls h"
  shows "host_inv E ls (drain_pending_event_acks e h)"
proof -
  let ?h = "drain_pending_event_acks e h"
  have "task_ok ls ?h (hs_tasks ?h ! i)" if "i < length (hs_tasks h)" for i
    using host_invD(2) [OF inv that] host_invD(1) [OF inv, of "et_request (hs_tasks h ! i)" i] that
    by (auto simp: drain_pending_event_acks_def task_ok_def entry_ok_def nth_enumerate_eq)
  then show ?thesis using inv
    by (auto simp: host_inv_def list_all_length drain_pending_event_acks_def answered_def)
qed

lemma host_inv_step:
  assumes "host_inv E ls h" "host_step E l h = Some h'"
  shows "host_inv E (ls @ [l]) h'"
proof -
  have inv: "host_inv E (ls @ [l]) h" by (rule host_inv_snoc) (rule assms(1))
  show ?thesis
  proof (cases l)
    case (FromCore q)
    have "host_inv E (ls @ [l]) (route_adapter_request q h)"
      using inv FromCore by (auto simp: route_adapter_request_def acked_def intro!: host_inv_deliver split: adapter_request_body.split)
    then show ?thesis using assms(2) FromCore by (simp add: host_step_def split: if_splits)
  next
    case ForwardInbound
    then obtain c cs where "hs_inbound h = c # cs" "h' = on_core_message E c (h\<lparr>hs_inbound := cs\<rparr>)"
      using assms(2) by (auto simp: host_step_def split: list.splits)
    then show ?thesis using inv by (auto intro!: host_inv_grows [OF _ grows_on_core])
  next
    case (FromExtension m core)
    then show ?thesis using assms(2) host_inv_grows [OF inv grows_on_native [of h E m core]] by (simp add: host_step_def)
  next
    case (TaskTimeout i)
    then show ?thesis using assms(2) host_inv_dropped [OF inv, of i EventAckTimeout]
      by (simp add: host_step_def emit_timeout_def in_phase_def split: if_splits)
  qed (use assms(2) inv host_inv_register [OF inv] host_inv_send [OF inv] host_inv_receive [OF inv] in
      \<open>auto simp: host_step_def host_inv_drain split: if_splits\<close>)
qed

lemma host_run_snoc:
  "host_run E (ls @ [l]) h = Some h'' \<longleftrightarrow> (\<exists>h'. host_run E ls h = Some h' \<and> host_step E l h' = Some h'')"
  by (induction ls arbitrary: h) (auto split: option.splits)

lemma host_inv_initial: "host_inv E [] (initial_host hello m)"
  by (simp add: host_inv_def initial_host_def extension_hello_ack_def)

lemma host_inv_run: "host_run E ls (initial_host hello m) = Some h \<Longrightarrow> host_inv E ls h"
  by (induction ls arbitrary: h rule: rev_induct) (auto simp: host_run_snoc host_inv_initial intro: host_inv_step)

section \<open>The work left\<close>

definition phase_work :: "event_phase \<Rightarrow> nat" where
  "phase_work p = (case p of Spawned \<Rightarrow> 3 | Registered \<Rightarrow> 2 | AwaitingAck \<Rightarrow> 1 | Finished _ \<Rightarrow> 0)"

definition host_work :: "host \<Rightarrow> nat" where
  "host_work h = sum_list (map (\<lambda>t. phase_work (et_phase t)) (hs_tasks h)) + length (hs_inbound h)"

text \<open>The steps the host takes with no new message.\<close>

definition host_internal :: "host_event \<Rightarrow> bool" where
  "host_internal l = (case l of ForwardInbound \<Rightarrow> True | TaskRegister _ \<Rightarrow> True | TaskSend _ \<Rightarrow> True
     | TaskTimeout _ \<Rightarrow> True | TaskReceive _ \<Rightarrow> True | _ \<Rightarrow> False)"

lemma sum_list_less_update:
  "i < length xs \<Longrightarrow> f y < f (xs ! i) \<Longrightarrow> sum_list (map f (xs[i := y])) < (sum_list (map f xs) :: nat)"
  by (induction xs arbitrary: i) (auto split: nat.split)

lemma work_set_task:
  "i < length (hs_tasks h) \<Longrightarrow> phase_work (et_phase (f (hs_tasks h ! i))) < phase_work (et_phase (hs_tasks h ! i)) \<Longrightarrow>
     host_work (set_task i f h) < host_work h"
  by (simp add: host_work_def set_task_def sum_list_less_update)

lemma work_native_send [simp]: "host_work (snd (native_send m h)) = host_work h"
  by (simp add: native_send_def host_work_def)

lemma work_adapter_send [simp]: "host_work (snd (adapter_send m h)) = host_work h"
  by (simp add: adapter_send_def host_work_def)

lemma work_pending [simp]: "host_work (h\<lparr>hs_pending := p\<rparr>) = host_work h"
  by (simp add: host_work_def)

lemma work_guard_drop [simp]: "host_work (guard_drop r h) = host_work h"
  by (simp add: guard_drop_def)

lemma guard_drop_tasks [simp]: "hs_tasks (guard_drop r h) = hs_tasks h"
  by (simp add: guard_drop_def)

lemma work_finish:
  "i < length (hs_tasks h) \<Longrightarrow> 0 < phase_work (et_phase (hs_tasks h ! i)) \<Longrightarrow> host_work (finish_task E i r h) < host_work h"
  by (simp add: finish_task_def work_set_task phase_work_def)

lemma work_step:
  assumes "host_internal l" "host_step E l h = Some h'"
  shows "host_work h' < host_work h"
proof (cases l)
  case ForwardInbound
  then obtain c cs where c: "hs_inbound h = c # cs" "h' = on_core_message E c (h\<lparr>hs_inbound := cs\<rparr>)"
    using assms(2) by (auto simp: host_step_def split: list.splits)
  then have "host_work h' = host_work (h\<lparr>hs_inbound := cs\<rparr>)"
    by (simp add: on_core_message_def split: core_inbound.split)
  then show ?thesis using c by (simp add: host_work_def)
next
  case (TaskRegister i)
  then have i: "i < length (hs_tasks h)" "et_phase (hs_tasks h ! i) = Spawned" "h' = emit_register E i h"
    using assms(2) by (simp_all add: host_step_def in_phase_def split: if_splits)
  then show ?thesis
    by (simp add: emit_register_def Let_def set_task_pending work_finish work_set_task phase_work_def)
next
  case (TaskSend i)
  then have i: "i < length (hs_tasks h)" "et_phase (hs_tasks h ! i) = Registered" "h' = emit_send E i h"
    using assms(2) by (simp_all add: host_step_def in_phase_def split: if_splits)
  have "host_work (set_task i (\<lambda>t. t\<lparr>et_phase := AwaitingAck\<rparr>) (h\<lparr>hs_adapter := x\<rparr>)) < host_work (h\<lparr>hs_adapter := x\<rparr>)" for x
    using i by (intro work_set_task) (simp_all add: phase_work_def)
  then have sent: "host_work (set_task i (\<lambda>t. t\<lparr>et_phase := AwaitingAck\<rparr>) (h\<lparr>hs_adapter := x\<rparr>)) < host_work h" for x
    by (simp add: host_work_def)
  have "host_work (finish_task E i r (guard_drop q h)) < host_work (guard_drop q h)" for r q
    using i by (intro work_finish) (simp_all add: phase_work_def)
  then show ?thesis using i(3) sent by (simp add: emit_send_def adapter_send_def Let_def)
next
  case (TaskTimeout i)
  then have i: "i < length (hs_tasks h)" "et_phase (hs_tasks h ! i) = AwaitingAck" "h' = emit_timeout E i h"
    using assms(2) by (simp_all add: host_step_def in_phase_def split: if_splits)
  have "host_work (finish_task E i r (guard_drop q h)) < host_work (guard_drop q h)" for r q
    using i by (intro work_finish) (simp_all add: phase_work_def)
  then show ?thesis using i(3) by (simp add: emit_timeout_def)
next
  case (TaskReceive i)
  then have i: "i < length (hs_tasks h)" "et_phase (hs_tasks h ! i) = AwaitingAck" "h' = emit_receive E i h"
    using assms(2) by (simp_all add: host_step_def in_phase_def split: if_splits)
  have "host_work (finish_task E i r (guard_drop q h)) < host_work (guard_drop q h)" for r q
    using i by (intro work_finish) (simp_all add: phase_work_def)
  then show ?thesis using i work_finish [of i h E] by (simp add: emit_receive_def Let_def phase_work_def split: option.split)
qed (use assms(1) in \<open>simp_all add: host_internal_def\<close>)

lemma work_run:
  "host_run E ls h = Some h' \<Longrightarrow> list_all host_internal ls \<Longrightarrow> length ls + host_work h' \<le> host_work h"
proof (induction ls arbitrary: h)
  case (Cons l ls)
  then obtain h1 where "host_step E l h = Some h1" "host_run E ls h1 = Some h'" by (auto split: option.splits)
  with Cons.IH [of h1] Cons.prems(2) work_step [of l E h h1] show ?case by simp
qed simp

lemma sum_list_pos_member: "0 < (sum_list (map f xs) :: nat) \<Longrightarrow> \<exists>x \<in> set xs. 0 < f x"
  by (induction xs) auto

text \<open>Where work is left, a step is possible.\<close>

lemma work_progress:
  assumes "0 < host_work h"
  shows "\<exists>l. host_internal l \<and> host_step E l h \<noteq> None"
proof (cases "hs_inbound h")
  case (Cons c cs)
  then show ?thesis by (intro exI [of _ ForwardInbound]) (simp add: host_internal_def host_step_def)
next
  case Nil
  then obtain i where i: "i < length (hs_tasks h)" "0 < phase_work (et_phase (hs_tasks h ! i))"
    using assms sum_list_pos_member [of "\<lambda>t. phase_work (et_phase t)" "hs_tasks h"]
    by (auto simp: host_work_def in_set_conv_nth)
  show ?thesis
  proof (cases "et_phase (hs_tasks h ! i)")
    case Spawned
    with i show ?thesis by (intro exI [of _ "TaskRegister i"]) (simp add: host_internal_def host_step_def in_phase_def)
  next
    case Registered
    with i show ?thesis by (intro exI [of _ "TaskSend i"]) (simp add: host_internal_def host_step_def in_phase_def)
  next
    case AwaitingAck
    with i show ?thesis
      by (cases "et_mail (hs_tasks h ! i)")
         (force simp: host_internal_def host_step_def in_phase_def intro: exI [of _ "TaskTimeout i"] exI [of _ "TaskReceive i"])+
  qed (use i in \<open>simp add: phase_work_def\<close>)
qed

lemma phase_work_0: "phase_work p = 0 \<longleftrightarrow> (\<exists>r. p = Finished r)"
  by (cases p) (auto simp: phase_work_def)

lemma work_0_iff:
  "host_work h = 0 \<longleftrightarrow> hs_inbound h = [] \<and> list_all (\<lambda>t. \<exists>r. et_phase t = Finished r) (hs_tasks h)"
  by (auto simp: host_work_def phase_work_0 list_all_iff)

section \<open>Properties\<close>

text \<open>C12: An acknowledgement the host gives to the extension is one the core gave for the same request, on the
  connection of the adapter and with no execution, after the event of that request was put into the
  channel to the core. An acknowledgement for another request, or of an action, never
  reaches it, in any interleaving of messages, timeouts and closing connections.\<close>

theorem acknowledgement_reaches_its_request:
  assumes "host_run E ls (initial_host hello first) = Some h"
    and "m \<in> set (hs_native h)" and "ne_type m = ''browser.event.ack''"
  shows "\<exists>q v t. FromCore q \<in> set ls \<and> arq_body q = AdapterEventAckBody v \<and> arq_request_id q = ne_request_id m \<and>
    arq_action_execution_id q = uuid_nil \<and> m = ack_message E (ne_request_id m) (Inr v) \<and>
    et_request t = ne_request_id m \<and> event_emission t \<in> set (hs_adapter h)"
proof -
  from host_invD(3) [OF host_inv_run [OF assms(1)] assms(2,3)] obtain t v where
    t: "acked ls (et_request t) v" "event_emission t \<in> set (hs_adapter h)" "m = ack_message E (et_request t) (Inr v)"
    by (auto simp: answered_def)
  then have "ne_request_id m = et_request t" by (simp add: ack_message_def)
  with t show ?thesis by (fastforce simp: acked_def)
qed

text \<open>C22: The table of requests that wait for an acknowledgement holds waiting tasks only: the task of an entry has the
  request of the entry, is sending or waiting and has no result yet, and no two entries have the same task.
  An entry of a task that has ended is never left behind.\<close>

theorem pending_table_holds_waiting_tasks:
  assumes "host_run E ls (initial_host hello first) = Some h" and "hs_pending h r = Some i"
  shows "i < length (hs_tasks h) \<and> et_request (hs_tasks h ! i) = r \<and>
    et_phase (hs_tasks h ! i) \<in> {Registered, AwaitingAck} \<and> et_mail (hs_tasks h ! i) = None \<and>
    (\<forall>q. hs_pending h q = Some i \<longleftrightarrow> q = r)"
  using host_invD(1) [OF host_inv_run [OF assms(1)]] assms(2) unfolding entry_ok_def by blast


definition sample_host_env :: host_env where
  "sample_host_env = \<lparr>he_hello = (\<lambda>_. None), he_enable = (\<lambda>_. None), he_pause = (\<lambda>_. None),
     he_event = (\<lambda>_. Some \<lparr>be_sequence_no = 1, be_occurred_at = Timestamp 0 0, be_resource_id = 7\<rparr>),
     he_result = (\<lambda>_. None), he_enabled_json = (\<lambda>_. None), he_scope_json = (\<lambda>_. None),
     he_ack_json = (\<lambda>_. Some (JBool True)), he_uuid_json = (\<lambda>_. JNull), he_action_json = (\<lambda>_. JNull),
     he_resource_json = (\<lambda>_. JNull)\<rparr>"

definition sample_hello :: extension_hello where
  "sample_hello = \<lparr>eh_extension_id = replicate 32 (CHR ''a''), eh_extension_version = ''1'',
     eh_extension_instance_id = 1, eh_permitted_resource_ids = [7]\<rparr>"

definition sample_ack :: adapter_request_envelope where
  "sample_ack = \<lparr>arq_protocol_version = CURRENT_PROTOCOL_VERSION, arq_request_id = 3, arq_action_execution_id = 0,
     arq_body = AdapterEventAckBody \<lparr>ack_event_id = 9, ack_stored = True, ack_duplicate = False\<rparr>\<rparr>"

definition sample_host_events :: "host_event list" where
  "sample_host_events = [FromExtension (native_message 3 ''browser.event.emit'' JNull) (\<lambda>_. Inl ConnectionClosed),
     TaskRegister 0, TaskSend 0]"

definition sample_first :: native_envelope where
  "sample_first = native_message 2 ''extension.hello'' JNull"

definition sample_host :: host where
  "sample_host = the (host_run sample_host_env sample_host_events (initial_host sample_hello sample_first))"

definition sample_acked_host :: host where
  "sample_acked_host = the (host_run sample_host_env (sample_host_events @ [FromCore sample_ack, TaskReceive 0])
     (initial_host sample_hello sample_first))"

lemmas sample_host_defs = sample_host_def sample_acked_host_def sample_host_events_def sample_ack_def sample_first_def
  sample_host_env_def initial_host_def host_step_def on_native_message_def handle_native_message_def in_phase_def
  emit_register_def emit_send_def emit_receive_def set_task_def adapter_send_def native_send_def finish_task_def
  event_emission_def route_adapter_request_def deliver_def extension_hello_ack_def ack_message_def native_message_def

lemma sample_host_run:
  "host_run sample_host_env sample_host_events (initial_host sample_hello sample_first) = Some sample_host"
  by (simp add: sample_host_defs)

lemma sample_acked_host_run:
  "host_run sample_host_env (sample_host_events @ [FromCore sample_ack, TaskReceive 0])
     (initial_host sample_hello sample_first) = Some sample_acked_host"
  by (simp add: sample_host_defs)

theorem acknowledgement_reaches_its_request_witness:
  "\<exists>q v. FromCore q \<in> set (sample_host_events @ [FromCore sample_ack, TaskReceive 0]) \<and>
     arq_body q = AdapterEventAckBody v \<and> arq_request_id q = 3 \<and>
     native_message 3 ''browser.event.ack'' (JBool True) \<in> set (hs_native sample_acked_host)"
proof -
  have m: "native_message 3 ''browser.event.ack'' (JBool True) \<in> set (hs_native sample_acked_host)"
    by (simp add: sample_host_defs)
  show ?thesis using acknowledgement_reaches_its_request [OF sample_acked_host_run m] m by auto
qed

theorem pending_table_holds_waiting_tasks_witness:
  "hs_pending sample_host 3 = Some 0 \<and> et_request (hs_tasks sample_host ! 0) = 3"
proof -
  have "hs_pending sample_host 3 = Some 0" by (simp add: sample_host_defs)
  with pending_table_holds_waiting_tasks [OF sample_host_run this] show ?thesis by simp
qed


text \<open>The caller's origin is accepted exactly when it is \<open>chrome-extension://\<close>, an extension id of 32 letters
  from a to p, and a slash; the id is what is between.\<close>

lemma validate_origin_exact:
  "validate_origin origin = Inr i \<longleftrightarrow>
     origin = ''chrome-extension://'' @ i @ ''/'' \<and> length i = 32 \<and> list_all (\<lambda>b. 97 \<le> byte_val b \<and> byte_val b \<le> 112) i"
proof -
  have prefix: "strip_prefix p s = Some v \<longleftrightarrow> s = p @ v" for p s v
    by (auto simp: strip_prefix_def prefix_def)
  have slash: "strip_slash s = Some v \<longleftrightarrow> s = v @ ''/''" for s v
    by (cases s rule: rev_cases) (auto simp: strip_slash_def)
  have "validate_origin origin = Inr i \<longleftrightarrow> valid_extension_id i \<and>
      (\<exists>v. strip_prefix ''chrome-extension://'' origin = Some v \<and> strip_slash v = Some i)"
    unfolding validate_origin_def and_then_Inr_iff by auto
  then show ?thesis unfolding prefix slash by (auto simp: valid_extension_id_def)
qed

section \<open>Native frames\<close>

lemma ne_bytes_obtain:
  obtains a b c d where "to_ne_bytes little w = [a, b, c, d]" "from_ne_bytes little a b c d = w"
proof (cases little)
  case True
  with to_le_bytes_obtain [of w] show thesis by (metis that to_ne_bytes_def from_ne_bytes_def)
next
  case False
  obtain a b c d where "to_le_bytes w = [a, b, c, d]" "from_le_bytes a b c d = w" by (rule to_le_bytes_obtain)
  with False show thesis by (intro that [of d c b a]) (simp_all add: to_ne_bytes_def from_ne_bytes_def)
qed

text \<open>A frame the host writes is read back as the message, whatever follows it, on a machine of either
  byte order.\<close>

lemma native_frame_reads_back:
  assumes "write_native_envelope little to_vec m = Inr frame"
    and "\<And>p. to_vec m = Some p \<Longrightarrow> p \<noteq> [] \<and> from_slice p = Some m"
  shows "read_native_frame little from_slice (frame @ rest) = (Inr (Some m), rest)"
proof -
  from assms(1) obtain p where p: "to_vec m = Some p" "length p \<le> MAX_MESSAGE_SIZE"
    "frame = to_ne_bytes little (word_of_nat (length p)) @ p"
    by (auto simp: write_native_envelope_def and_then_Inr_iff not_less split: if_splits)
  obtain a b c d where le: "to_ne_bytes little (word_of_nat (length p)) = [a, b, c, d]"
    "from_ne_bytes little a b c d = word_of_nat (length p)" by (rule ne_bytes_obtain)
  with p have "unat (from_ne_bytes little a b c d) = length p" by (simp add: unat_frame_length)
  with p le assms(2) [OF p(1)] show ?thesis by (simp add: read_native_frame_def read_exact_def Let_def)
qed

lemma native_frame_reads_back_witness:
  "read_native_frame False (\<lambda>_. Some sample_first) ([CHR 0x00, CHR 0x00, CHR 0x00, CHR 0x01] @ ''x'' @ ''yz'') =
     (Inr (Some sample_first), ''yz'')"
proof -
  have one: "to_ne_bytes False 1 = [CHR 0x00, CHR 0x00, CHR 0x00, CHR 0x01]"
    by (simp add: to_ne_bytes_def to_le_bytes_def Let_def char_of_def bit_0)
  have "write_native_envelope False (\<lambda>_. Some ''x'') sample_first = Inr ([CHR 0x00, CHR 0x00, CHR 0x00, CHR 0x01] @ ''x'')"
    by (simp add: write_native_envelope_def one MAX_MESSAGE_SIZE_def)
  from native_frame_reads_back [OF this, of "\<lambda>_. Some sample_first" "''yz''"] show ?thesis by simp
qed

end
