(* ===== verification/Fubun_Linux.thy ===== *)
theory Fubun_Linux
  imports Fubun_Host
begin

text \<open>
  Model of \<open>apps/fubun-linux-adapter/src/main.rs\<close>: the adapter that starts desktop applications, opens
  registered paths and shows notifications. What it asks the system for may change from one call to the next,
  so each answer depends on a counter of calls; the state also records the programs that were run.
\<close>

section \<open>The system\<close>

record linux_metadata =
  lm_is_file :: bool
  lm_is_dir :: bool
  lm_mode :: u32
  lm_uid :: u32

datatype exit_status = SpawnFailed | Exited bool

record linux_env =
  li_vars :: variables
  li_metadata :: "nat \<Rightarrow> string \<Rightarrow> linux_metadata option"
  li_read_dir :: "nat \<Rightarrow> string \<Rightarrow> string list option"
  li_read_file :: "nat \<Rightarrow> string \<Rightarrow> string option"
  li_canonicalize :: "nat \<Rightarrow> string \<Rightarrow> string option"
  li_read_link :: "nat \<Rightarrow> string \<Rightarrow> string option"
  li_run :: "nat \<Rightarrow> string \<Rightarrow> string list \<Rightarrow> exit_status"

record linux_state =
  ls_tick :: nat
  ls_commands :: "(string \<times> string list \<times> exit_status) list"

type_synonym 'a lin = "linux_state \<Rightarrow> 'a \<times> linux_state"

definition lret :: "'a \<Rightarrow> 'a lin" where
  "lret a s = (a, s)"

definition lbind :: "'a lin \<Rightarrow> ('a \<Rightarrow> 'b lin) \<Rightarrow> 'b lin" where
  "lbind m f s = (case m s of (a, s') \<Rightarrow> f a s')"

definition ask :: "(nat \<Rightarrow> 'a) \<Rightarrow> 'a lin" where
  "ask f s = (f (ls_tick s), s\<lparr>ls_tick := ls_tick s + 1\<rparr>)"

text \<open>\<open>any\<close>, \<open>find\<close> and a loop that collects lists.\<close>

primrec any_of :: "('a \<Rightarrow> bool lin) \<Rightarrow> 'a list \<Rightarrow> bool lin" where
  "any_of f [] = lret False"
| "any_of f (x # xs) = lbind (f x) (\<lambda>b. if b then lret True else any_of f xs)"

primrec find_of :: "('a \<Rightarrow> bool lin) \<Rightarrow> 'a list \<Rightarrow> 'a option lin" where
  "find_of f [] = lret None"
| "find_of f (x # xs) = lbind (f x) (\<lambda>b. if b then lret (Some x) else find_of f xs)"

primrec collect_of :: "('a \<Rightarrow> 'b list lin) \<Rightarrow> 'a list \<Rightarrow> 'b list lin" where
  "collect_of f [] = lret []"
| "collect_of f (x # xs) = lbind (f x) (\<lambda>ys. lbind (collect_of f xs) (\<lambda>zs. lret (ys @ zs)))"

section \<open>Programs\<close>

text \<open>\<open>ProcessRunner::run\<close>: the name is one of the fixed registry, or nothing is run.\<close>

definition process_runner :: "linux_env \<Rightarrow> string \<Rightarrow> string list \<Rightarrow> exit_status lin" where
  "process_runner E executable args s =
     (if executable \<in> {''gtk-launch'', ''xdg-open'', ''notify-send''}
      then (let r = li_run E (ls_tick s) executable args
            in (r, s\<lparr>ls_tick := ls_tick s + 1, ls_commands := ls_commands s @ [(executable, args, r)]\<rparr>))
      else (SpawnFailed, s))"

definition executable_exists :: "linux_env \<Rightarrow> string \<Rightarrow> bool lin" where
  "executable_exists E name =
     (case li_vars E ''PATH'' of None \<Rightarrow> lret False
      | Some paths \<Rightarrow> any_of (\<lambda>directory.
          lbind (ask (\<lambda>n. li_metadata E n (path_join directory name))) (\<lambda>m.
            lret (case m of None \<Rightarrow> False | Some x \<Rightarrow> lm_is_file x \<and> lm_mode x AND 73 \<noteq> 0))) (split_paths paths))"

section \<open>Desktop entries\<close>

definition application_directories :: "variables \<Rightarrow> string list" where
  "application_directories vars =
     (case vars ''XDG_DATA_HOME'' of None \<Rightarrow> [] | Some p \<Rightarrow> [path_join p ''applications'']) @
     (case vars ''HOME'' of None \<Rightarrow> [] | Some p \<Rightarrow> [path_join p ''.local/share/applications'']) @
     (case vars ''XDG_DATA_DIRS'' of None \<Rightarrow> []
      | Some ps \<Rightarrow> map (\<lambda>p. path_join p ''applications'') (split_paths ps)) @
     [''/usr/local/share/applications'', ''/usr/share/applications'']"

definition entry_id :: "string \<Rightarrow> string option" where
  "entry_id name =
     (case name_parts name of (stem, ext) \<Rightarrow> if ext = Some ''desktop'' then to_str stem else None)"

definition desktop_entry_ids :: "linux_env \<Rightarrow> string list lin" where
  "desktop_entry_ids E =
     lbind (collect_of (\<lambda>directory. lbind (ask (\<lambda>n. li_read_dir E n directory)) (\<lambda>entries.
         lret (case entries of None \<Rightarrow> [] | Some names \<Rightarrow> List.map_filter entry_id names)))
       (application_directories (li_vars E)))
     (\<lambda>ids. lret (remdups_adj (sort ids)))"

definition collect_status :: "linux_env \<Rightarrow> adapter_status_snapshot lin" where
  "collect_status E =
     lbind (executable_exists E ''gtk-launch'') (\<lambda>g. lbind (executable_exists E ''xdg-open'') (\<lambda>x.
     lbind (executable_exists E ''notify-send'') (\<lambda>n. lbind (desktop_entry_ids E) (\<lambda>ids.
       lret \<lparr>snap_tools = [\<lparr>tool_name = ''gtk-launch'', tool_available = g\<rparr>,
           \<lparr>tool_name = ''xdg-open'', tool_available = x\<rparr>, \<lparr>tool_name = ''notify-send'', tool_available = n\<rparr>],
         snap_desktop_entry_ids = ids, snap_permitted_resource_ids = []\<rparr>))))"

definition find_desktop_entry :: "linux_env \<Rightarrow> string \<Rightarrow> string option lin" where
  "find_desktop_entry E app_id =
     find_of (\<lambda>p. lbind (ask (\<lambda>n. li_metadata E n p)) (\<lambda>m.
         lret (case m of None \<Rightarrow> False | Some x \<Rightarrow> lm_is_file x)))
       (map (\<lambda>directory. path_join directory (app_id @ ''.desktop'')) (application_directories (li_vars E)))"

text \<open>\<open>str::lines\<close>: a carriage return before a line feed belongs to the end of the line.\<close>

definition text_lines :: "string \<Rightarrow> string list" where
  "text_lines s =
     (let parts = split_on (CHR 0x0A) s;
          strip = (\<lambda>l. if l \<noteq> [] \<and> last l = CHR 0x0D then butlast l else l)
      in map strip (butlast parts) @ (if last parts = [] then [] else [last parts]))"

definition first_word :: "string \<Rightarrow> string option" where
  "first_word s =
     (let w = concat (takeWhile (\<lambda>c. \<not> char_is_whitespace c) (dropWhile char_is_whitespace (chars s)))
      in if w = [] then None else Some w)"

definition exec_name :: "string \<Rightarrow> string option" where
  "exec_name line =
     Option.bind (strip_prefix ''Exec='' line) (\<lambda>v. Option.bind (first_word v) (\<lambda>w. Option.bind (path_file_name w) to_str))"

definition desktop_exec_basename :: "linux_env \<Rightarrow> string \<Rightarrow> string option lin" where
  "desktop_exec_basename E p =
     lbind (ask (\<lambda>n. li_read_file E n p)) (\<lambda>content.
       lret (Option.bind (Option.bind content to_str) (\<lambda>text.
         (case List.map_filter exec_name (text_lines text) of [] \<Rightarrow> None | x # _ \<Rightarrow> Some x))))"

section \<open>Running processes\<close>

definition is_pid :: "string \<Rightarrow> bool" where
  "is_pid name = (to_str name \<noteq> None \<and> list_all (\<lambda>b. 48 \<le> byte_val b \<and> byte_val b \<le> 57) name)"

definition runs_executable :: "linux_env \<Rightarrow> u32 \<Rightarrow> string \<Rightarrow> string \<Rightarrow> bool lin" where
  "runs_executable E current_uid executable pid =
     (let process_dir = path_join ''/proc'' pid in
      lbind (ask (\<lambda>n. li_metadata E n process_dir)) (\<lambda>m.
        if (case m of None \<Rightarrow> False | Some x \<Rightarrow> lm_uid x \<noteq> current_uid) then lret False
        else lbind (ask (\<lambda>n. li_read_link E n (path_join process_dir ''exe''))) (\<lambda>target.
          lret (Option.bind (Option.bind target path_file_name) to_str = Some executable))))"

definition process_running :: "linux_env \<Rightarrow> string \<Rightarrow> bool lin" where
  "process_running E executable =
     lbind (ask (\<lambda>n. li_metadata E n ''/proc/self'')) (\<lambda>own.
     let current_uid = (case own of None \<Rightarrow> 0 | Some x \<Rightarrow> lm_uid x) in
     lbind (ask (\<lambda>n. li_read_dir E n ''/proc'')) (\<lambda>entries.
       case entries of None \<Rightarrow> lret False
       | Some names \<Rightarrow> any_of (runs_executable E current_uid executable) (filter is_pid names)))"

section \<open>Actions\<close>

definition action_done :: "adapter_action_status \<Rightarrow> string \<Rightarrow> string \<Rightarrow> string + action_result" where
  "action_done status code message =
     Inr \<lparr>ar_status = status, ar_result_code = code, ar_redacted_message = message\<rparr>"

text \<open>The end of all three actions: the program is run, and only a successful exit counts.\<close>

definition run_tool :: "linux_env \<Rightarrow> string \<Rightarrow> string list \<Rightarrow> string \<Rightarrow> string \<Rightarrow> string \<Rightarrow> (string + action_result) lin" where
  "run_tool E executable args failed code message =
     lbind (process_runner E executable args) (\<lambda>r.
       lret (case r of Exited True \<Rightarrow> action_done AdapterSucceeded code message | _ \<Rightarrow> Inl failed))"

definition ensure_running :: "linux_env \<Rightarrow> string \<Rightarrow> (string + action_result) lin" where
  "ensure_running E app_id =
     (case validate_app_id app_id of Inl _ \<Rightarrow> lret (Inl ''invalid desktop entry id'')
      | Inr _ \<Rightarrow>
        lbind (find_desktop_entry E app_id) (\<lambda>entry.
        case entry of None \<Rightarrow> lret (Inl ''desktop entry not found'')
        | Some p \<Rightarrow>
          lbind (desktop_exec_basename E p) (\<lambda>executable.
          case executable of None \<Rightarrow> lret (Inl ''desktop entry has no fixed executable'')
          | Some x \<Rightarrow>
            lbind (process_running E x) (\<lambda>running.
            if running then lret (action_done AdapterSkipped ''already_running'' ''application already running'')
            else lbind (executable_exists E ''gtk-launch'') (\<lambda>tool.
              if \<not> tool then lret (Inl ''gtk-launch is unavailable'')
              else run_tool E ''gtk-launch'' [app_id] ''application launch failed''
                     ''launched'' ''application launch requested'')))))"

definition kind_matches :: "resource_kind \<Rightarrow> linux_metadata \<Rightarrow> bool" where
  "kind_matches k m = (case k of File \<Rightarrow> lm_is_file m | Directory \<Rightarrow> lm_is_dir m | WebPage \<Rightarrow> False)"

text \<open>The tests on the path are made in this order, and stop at the first that fails.\<close>

definition path_unchanged :: "linux_env \<Rightarrow> string \<Rightarrow> bool lin" where
  "path_unchanged E p =
     (if \<not> path_is_absolute p then lret False
      else lbind (ask (\<lambda>n. li_metadata E n p)) (\<lambda>m.
        if m = None then lret False
        else lbind (ask (\<lambda>n. li_canonicalize E n p)) (\<lambda>c.
          lret (case c of None \<Rightarrow> False | Some q \<Rightarrow> path_key q = path_key p))))"

definition open_path :: "linux_env \<Rightarrow> uuid \<Rightarrow> resolved_resource option \<Rightarrow> (string + action_result) lin" where
  "open_path E resource_id resource =
     (case resource of None \<Rightarrow> lret (Inl ''resolved resource is required'')
      | Some r \<Rightarrow>
        if rr_resource_id r \<noteq> resource_id then lret (Inl ''resource identity mismatch'')
        else let p = rr_canonical_locator r in
          lbind (path_unchanged E p) (\<lambda>same.
          if \<not> same then lret (Inl ''resource changed'')
          else lbind (ask (\<lambda>n. li_metadata E n p)) (\<lambda>m.
          case m of None \<Rightarrow> lret (Inl ''resource unavailable'')
          | Some x \<Rightarrow>
            if \<not> kind_matches (rr_kind r) x then lret (Inl ''resource type changed'')
            else lbind (executable_exists E ''xdg-open'') (\<lambda>tool.
              if \<not> tool then lret (Inl ''xdg-open is unavailable'')
              else run_tool E ''xdg-open'' [p] ''path open failed'' ''opened'' ''path open requested''))))"

definition show_notification :: "linux_env \<Rightarrow> string \<Rightarrow> string \<Rightarrow> (string + action_result) lin" where
  "show_notification E title body =
     lbind (executable_exists E ''notify-send'') (\<lambda>tool.
       if \<not> tool then lret (Inl ''notify-send is unavailable'')
       else run_tool E ''notify-send'' [title, body] ''notification failed'' ''sent'' ''notification sent'')"

definition linux_execute_action ::
    "linux_env \<Rightarrow> action_spec \<Rightarrow> resolved_resource option \<Rightarrow> (string + action_result) lin" where
  "linux_execute_action E action resource =
     (case action_validate action of Inl _ \<Rightarrow> lret (Inl ''action validation failed'')
      | Inr _ \<Rightarrow>
        (case action of
           LinuxAppEnsureRunning app_id \<Rightarrow> ensure_running E app_id
         | LinuxPathOpen resource_id \<Rightarrow> open_path E resource_id resource
         | DesktopNotificationShow title body \<Rightarrow> show_notification E title body
         | BrowserTabEnsureOpen _ \<Rightarrow> lret (Inl ''browser action is not supported by the Linux adapter'')))"

section \<open>Requests\<close>

definition linux_handle_request :: "linux_env \<Rightarrow> adapter_request_envelope \<Rightarrow> adapter_response_envelope lin" where
  "linux_handle_request E q =
     lbind (case arq_body q of
         ActionExecute payload \<Rightarrow>
           lbind (linux_execute_action E (aer_action payload) (aer_resolved_resource payload)) (\<lambda>r.
             lret (ActionResultBody (case r of Inr a \<Rightarrow> a
               | Inl message \<Rightarrow> \<lparr>ar_status = AdapterFailed, ar_result_code = ''action_failed'', ar_redacted_message = message\<rparr>)))
       | AdapterStatusRequest \<Rightarrow> lbind (collect_status E) (\<lambda>s. lret (StatusBody s))
       | AdapterEventAckBody _ \<Rightarrow> lbind (collect_status E) (\<lambda>s. lret (StatusBody s)))
     (\<lambda>body. lret \<lparr>ars_protocol_version = CURRENT_PROTOCOL_VERSION, ars_request_id = arq_request_id q,
        ars_action_execution_id = arq_action_execution_id q, ars_body = body\<rparr>)"

text \<open>The loop of \<open>main\<close>: a response for each request, in order.\<close>

primrec serve_adapter :: "linux_env \<Rightarrow> adapter_request_envelope list \<Rightarrow> adapter_response_envelope list lin" where
  "serve_adapter E [] = lret []"
| "serve_adapter E (q # qs) = lbind (linux_handle_request E q) (\<lambda>r. lbind (serve_adapter E qs) (\<lambda>rs. lret (r # rs)))"

section \<open>Start\<close>

definition LINUX_CAPABILITIES :: "string list" where
  "LINUX_CAPABILITIES = [''linux.app.ensure_running.v1'', ''linux.path.open.v1'', ''desktop.notification.show.v1'']"

text \<open>The arguments: the last \<open>--socket\<close> counts, and one with no value stands for none.\<close>

fun linux_args :: "string option \<Rightarrow> string list \<Rightarrow> string + string option" where
  "linux_args socket_path [] = Inr socket_path"
| "linux_args socket_path (arg # args) =
     (if arg = ''--socket''
      then (case args of [] \<Rightarrow> Inr None | p # rest \<Rightarrow> linux_args (Some p) rest)
      else Inl (''unknown argument: '' @ arg))"

definition default_socket_path :: "variables \<Rightarrow> string + string" where
  "default_socket_path vars =
     ok_or ''XDG_RUNTIME_DIR is required''
       (map_option (\<lambda>runtime. path_join runtime ''fubun/core.sock'') (vars ''XDG_RUNTIME_DIR''))"

definition linux_socket_path :: "variables \<Rightarrow> string list \<Rightarrow> string + string" where
  "linux_socket_path vars args =
     and_then (linux_args None args) (\<lambda>p. case p of Some q \<Rightarrow> Inr q | None \<Rightarrow> default_socket_path vars)"

definition linux_adapter_hello :: "string \<Rightarrow> uuid \<Rightarrow> uuid \<Rightarrow> adapter_status_snapshot \<Rightarrow> request_envelope" where
  "linux_adapter_hello version request_id instance_id status =
     \<lparr>req_protocol_version = CURRENT_PROTOCOL_VERSION, req_request_id = request_id,
      req_body = AdapterHello
        \<lparr>ah_adapter_id = LINUX_ADAPTER_ID, ah_adapter_version = version, ah_instance_id = instance_id,
         ah_action_capabilities = LINUX_CAPABILITIES, ah_event_capabilities = [], ah_status = status\<rparr>\<rparr>"

end
