(* ===== verification/Fubun_Linux_Props.thy ===== *)
theory Fubun_Linux_Props
  imports Fubun_Linux
begin

text \<open>
  What the Linux adapter guarantees: which programs it runs and with which arguments, what its answers say, and
  that the desktop entries it reports are the ones its directories hold.
\<close>

section \<open>Questions that run no program\<close>

definition no_program :: "'a lin \<Rightarrow> bool" where
  "no_program m \<longleftrightarrow> (\<forall>s. ls_commands (snd (m s)) = ls_commands s)"

named_theorems quiet_intros \<open>calls that run no program\<close>

lemma quiet_lret [quiet_intros]: "no_program (lret a)"
  by (simp add: no_program_def lret_def)

lemma quiet_ask [quiet_intros]: "no_program (ask f)"
  by (simp add: no_program_def ask_def)

lemma quiet_lbind [quiet_intros]: "no_program m \<Longrightarrow> (\<And>a. no_program (f a)) \<Longrightarrow> no_program (lbind m f)"
  by (simp add: no_program_def lbind_def split: prod.split) (metis snd_conv)

lemma quiet_if [quiet_intros]: "(b \<Longrightarrow> no_program m) \<Longrightarrow> (\<not> b \<Longrightarrow> no_program n) \<Longrightarrow> no_program (if b then m else n)"
  by simp

lemma quiet_option [quiet_intros]:
  "(x = None \<Longrightarrow> no_program m) \<Longrightarrow> (\<And>y. x = Some y \<Longrightarrow> no_program (f y)) \<Longrightarrow> no_program (case x of None \<Rightarrow> m | Some y \<Rightarrow> f y)"
  by (cases x) simp_all

lemma quiet_any_of [quiet_intros]: "(\<And>x. no_program (f x)) \<Longrightarrow> no_program (any_of f xs)"
  by (induction xs) (auto intro!: quiet_intros)

lemma quiet_find_of [quiet_intros]: "(\<And>x. no_program (f x)) \<Longrightarrow> no_program (find_of f xs)"
  by (induction xs) (auto intro!: quiet_intros)

lemma quiet_collect_of [quiet_intros]: "(\<And>x. no_program (f x)) \<Longrightarrow> no_program (collect_of f xs)"
  by (induction xs) (auto intro!: quiet_intros)

lemma quiet_questions [quiet_intros]:
  "no_program (executable_exists E name)" "no_program (desktop_entry_ids E)" "no_program (find_desktop_entry E app)"
  "no_program (desktop_exec_basename E p)" "no_program (path_unchanged E p)"
  unfolding executable_exists_def desktop_entry_ids_def find_desktop_entry_def desktop_exec_basename_def path_unchanged_def
  by (intro quiet_intros)+

lemma quiet_process_running [quiet_intros]: "no_program (process_running E x)"
  unfolding process_running_def runs_executable_def Let_def by (intro quiet_intros)

lemma quiet_collect_status [quiet_intros]: "no_program (collect_status E)"
  unfolding collect_status_def by (intro quiet_intros)

section \<open>Actions that run at most one program\<close>

text \<open>
  How an action ends: nothing was run, and it failed or was not needed; or one permitted program was run, and
  the action succeeded exactly when the program exited with success.
\<close>

definition outcome :: "(string \<Rightarrow> string list \<Rightarrow> bool) \<Rightarrow> linux_state \<Rightarrow> string + action_result \<Rightarrow> linux_state \<Rightarrow> bool" where
  "outcome ok s r s' \<longleftrightarrow>
     ls_commands s' = ls_commands s \<and> (case r of Inl _ \<Rightarrow> True | Inr a \<Rightarrow> ar_status a = AdapterSkipped) \<or>
     (\<exists>exe args x. ok exe args \<and> ls_commands s' = ls_commands s @ [(exe, args, x)] \<and>
        (case r of Inl _ \<Rightarrow> x \<noteq> Exited True | Inr a \<Rightarrow> x = Exited True \<and> ar_status a = AdapterSucceeded))"

definition acts :: "(string \<Rightarrow> string list \<Rightarrow> bool) \<Rightarrow> (string + action_result) lin \<Rightarrow> bool" where
  "acts ok m \<longleftrightarrow> (\<forall>s. outcome ok s (fst (m s)) (snd (m s)))"

lemma acts_failed: "acts ok (lret (Inl e))"
  by (simp add: acts_def outcome_def lret_def)

lemma acts_skipped: "acts ok (lret (action_done AdapterSkipped c m))"
  by (simp add: acts_def outcome_def lret_def action_done_def)

lemma acts_lbind:
  assumes "no_program m" "\<And>s a s'. m s = (a, s') \<Longrightarrow> acts ok (f a)"
  shows "acts ok (lbind m f)"
  unfolding acts_def
proof
  fix s
  obtain a s1 where m: "m s = (a, s1)" by fastforce
  then have "ls_commands s1 = ls_commands s" using assms(1) by (metis no_program_def snd_conv)
  moreover have "outcome ok s1 (fst (f a s1)) (snd (f a s1))" using assms(2) [OF m] by (simp add: acts_def)
  ultimately show "outcome ok s (fst (lbind m f s)) (snd (lbind m f s))"
    using m by (simp add: lbind_def outcome_def)
qed

lemma acts_run_tool:
  "ok exe args \<Longrightarrow> exe \<in> {''gtk-launch'', ''xdg-open'', ''notify-send''} \<Longrightarrow> acts ok (run_tool E exe args failed code message)"
  unfolding acts_def outcome_def
  by (auto simp: run_tool_def lbind_def process_runner_def Let_def lret_def action_done_def split: exit_status.split bool.split)

lemma acts_mono: "acts ok m \<Longrightarrow> (\<And>exe args. ok exe args \<Longrightarrow> ok' exe args) \<Longrightarrow> acts ok' m"
  unfolding acts_def outcome_def by blast

lemma ask_eq: "ask f s = (a, s') \<longleftrightarrow> a = f (ls_tick s) \<and> s' = s\<lparr>ls_tick := ls_tick s + 1\<rparr>"
  by (auto simp: ask_def)

text \<open>What may be run for an action.\<close>

definition same_path :: "linux_env \<Rightarrow> string \<Rightarrow> bool" where
  "same_path E p \<longleftrightarrow> path_is_absolute p \<and> (\<exists>n q. li_canonicalize E n p = Some q \<and> path_key q = path_key p)"

definition permitted :: "linux_env \<Rightarrow> action_spec \<Rightarrow> resolved_resource option \<Rightarrow> string \<Rightarrow> string list \<Rightarrow> bool" where
  "permitted E action resource exe args =
     (case action of
        LinuxAppEnsureRunning app_id \<Rightarrow>
          exe = ''gtk-launch'' \<and> args = [app_id] \<and> validate_app_id app_id = Inr ()
      | LinuxPathOpen resource_id \<Rightarrow>
          (case resource of None \<Rightarrow> False
           | Some r \<Rightarrow> exe = ''xdg-open'' \<and> args = [rr_canonical_locator r] \<and> rr_resource_id r = resource_id \<and>
               same_path E (rr_canonical_locator r) \<and>
               (\<exists>n m. li_metadata E n (rr_canonical_locator r) = Some m \<and> kind_matches (rr_kind r) m))
      | DesktopNotificationShow title body \<Rightarrow>
          exe = ''notify-send'' \<and> args = [title, body] \<and> action_validate action = Inr ()
      | BrowserTabEnsureOpen _ \<Rightarrow> False)"

lemma acts_ensure_running: "acts (permitted E (LinuxAppEnsureRunning app) r) (ensure_running E app)"
proof (cases "validate_app_id app")
  case (Inr u)
  then have ok: "permitted E (LinuxAppEnsureRunning app) r ''gtk-launch'' [app]" by (simp add: permitted_def)
  show ?thesis unfolding ensure_running_def Inr sum.case
    by (intro acts_lbind quiet_intros)
       (auto intro!: acts_lbind quiet_intros acts_failed acts_skipped acts_run_tool ok split: option.split)
qed (simp add: ensure_running_def acts_failed)

lemma path_unchanged_True: "path_unchanged E p s = (True, s') \<Longrightarrow> same_path E p"
  by (auto simp: path_unchanged_def same_path_def lret_def lbind_def ask_def split: if_splits option.splits)

lemma acts_open_path: "acts (permitted E (LinuxPathOpen rid) resource) (open_path E rid resource)"
proof (cases resource)
  case (Some r)
  let ?p = "rr_canonical_locator r"
  have tool: "acts (permitted E (LinuxPathOpen rid) resource)
      (lbind (executable_exists E ''xdg-open'') (\<lambda>tool. if \<not> tool then lret (Inl ''xdg-open is unavailable'')
         else run_tool E ''xdg-open'' [?p] ''path open failed'' ''opened'' ''path open requested''))"
    if "rr_resource_id r = rid" "same_path E ?p" "li_metadata E n ?p = Some x" "kind_matches (rr_kind r) x" for n x
  proof -
    have "permitted E (LinuxPathOpen rid) resource ''xdg-open'' [?p]" using that Some by (auto simp: permitted_def)
    then show ?thesis by (intro acts_lbind quiet_intros) (auto intro!: acts_failed acts_run_tool)
  qed
  show ?thesis
  proof (cases "rr_resource_id r = rid")
    case True
    show ?thesis unfolding open_path_def Some option.case Let_def
      using True tool Some path_unchanged_True
      by (auto intro!: acts_lbind quiet_intros acts_failed simp: ask_eq split: option.split)
  qed (simp add: open_path_def Some acts_failed)
qed (simp add: open_path_def acts_failed)

lemma acts_show_notification:
  "action_validate (DesktopNotificationShow t b) = Inr () \<Longrightarrow>
     acts (permitted E (DesktopNotificationShow t b) r) (show_notification E t b)"
  unfolding show_notification_def
  by (intro acts_lbind quiet_intros) (auto intro!: acts_failed acts_run_tool simp: permitted_def)

lemma acts_execute_action: "acts (permitted E action r) (linux_execute_action E action r)"
  by (cases "action_validate action"; cases action)
     (simp_all add: linux_execute_action_def acts_failed acts_ensure_running acts_open_path acts_show_notification)

text \<open>The answer to a request.\<close>

lemma linux_request_fields:
  assumes "linux_handle_request E q s = (a, s')"
  shows "ars_request_id a = arq_request_id q \<and> ars_action_execution_id a = arq_action_execution_id q \<and>
    ars_protocol_version a = CURRENT_PROTOCOL_VERSION"
  using assms by (auto simp: linux_handle_request_def lbind_def lret_def split: prod.splits)

lemma linux_request_action:
  assumes "linux_handle_request E q s = (a, s')" and "arq_body q = ActionExecute payload"
  obtains r where "linux_execute_action E (aer_action payload) (aer_resolved_resource payload) s = (r, s')"
    "ars_body a = ActionResultBody (case r of Inr x \<Rightarrow> x
      | Inl message \<Rightarrow> \<lparr>ar_status = AdapterFailed, ar_result_code = ''action_failed'', ar_redacted_message = message\<rparr>)"
  using assms by (auto simp: linux_handle_request_def lbind_def lret_def split: prod.splits)

lemma linux_request_other:
  assumes "linux_handle_request E q s = (a, s')" and "\<And>payload. arq_body q \<noteq> ActionExecute payload"
  shows "ls_commands s' = ls_commands s"
proof -
  have "no_program (linux_handle_request E q)" unfolding linux_handle_request_def
    using assms(2) by (cases "arq_body q") (auto intro!: quiet_intros)
  then show ?thesis using assms(1) by (metis no_program_def snd_conv)
qed

lemma linux_request_outcome:
  assumes "linux_handle_request E q s = (a, s')" and "arq_body q = ActionExecute payload"
  shows "\<exists>r. outcome (permitted E (aer_action payload) (aer_resolved_resource payload)) s r s' \<and>
    ars_body a = ActionResultBody (case r of Inr x \<Rightarrow> x
      | Inl message \<Rightarrow> \<lparr>ar_status = AdapterFailed, ar_result_code = ''action_failed'', ar_redacted_message = message\<rparr>)"
proof -
  from linux_request_action [OF assms] obtain r where
    r: "linux_execute_action E (aer_action payload) (aer_resolved_resource payload) s = (r, s')"
    "ars_body a = ActionResultBody (case r of Inr x \<Rightarrow> x
      | Inl message \<Rightarrow> \<lparr>ar_status = AdapterFailed, ar_result_code = ''action_failed'', ar_redacted_message = message\<rparr>)" .
  have "outcome (permitted E (aer_action payload) (aer_resolved_resource payload)) s r s'"
    using acts_execute_action [of E "aer_action payload" "aer_resolved_resource payload"] r(1) unfolding acts_def by (metis fst_conv snd_conv)
  with r(2) show ?thesis by blast
qed

section \<open>The list of desktop entries\<close>

lemma collect_of_ask:
  "collect_of (\<lambda>x. lbind (ask (\<lambda>n. f n x)) (\<lambda>y. lret (g y))) xs s =
     (concat (map (\<lambda>(i, x). g (f i x)) (enumerate (ls_tick s) xs)), s\<lparr>ls_tick := ls_tick s + length xs\<rparr>)"
  by (induction xs arbitrary: s) (simp_all add: lret_def lbind_def ask_def)

lemma set_map_filter: "set (List.map_filter f xs) = {y. \<exists>x \<in> set xs. f x = Some y}"
  by (auto simp: List.map_filter_def image_iff) force

lemma distinct_remdups_adj: "sorted xs \<Longrightarrow> distinct (remdups_adj xs)" for xs :: "'a :: linorder list"
  by (induction xs rule: remdups_adj.induct) (auto simp: less_le_not_le)

definition listed_in :: "linux_env \<Rightarrow> nat \<Rightarrow> string \<Rightarrow> string set" where
  "listed_in E n directory =
     {i. \<exists>names name. li_read_dir E n directory = Some names \<and> name \<in> set names \<and> entry_id name = Some i}"

section \<open>Properties\<close>

lemma linux_request_commands:
  assumes "linux_handle_request E q s = (a, s')"
  shows "ls_commands s' = ls_commands s \<or>
    (\<exists>payload exe args x. arq_body q = ActionExecute payload \<and>
       permitted E (aer_action payload) (aer_resolved_resource payload) exe args \<and>
       ls_commands s' = ls_commands s @ [(exe, args, x)])"
proof (cases "\<exists>payload. arq_body q = ActionExecute payload")
  case True
  then obtain payload where p: "arq_body q = ActionExecute payload" by blast
  from linux_request_outcome [OF assms p] p show ?thesis unfolding outcome_def by blast
next
  case False
  then show ?thesis using linux_request_other [OF assms] by blast
qed

text \<open>C13: Whatever it is asked, the Linux adapter runs at most one program, and only for an action that passes its checks:
  \<open>gtk-launch\<close> with the valid desktop entry id of the action, \<open>xdg-open\<close> with the path of the resource the action
  names, which was absolute, canonical and of the resource's kind when it was looked at, or \<open>notify-send\<close>
  with the valid title and body; each argument is passed as it is.\<close>

theorem linux_runs_only_permitted_programs:
  assumes "linux_handle_request E q s = (a, s')"
  shows "ls_commands s' = ls_commands s \<or>
    (\<exists>payload exe args x. arq_body q = ActionExecute payload \<and>
       permitted E (aer_action payload) (aer_resolved_resource payload) exe args \<and>
       ls_commands s' = ls_commands s @ [(exe, args, x)])"
  using assms by (rule linux_request_commands)

text \<open>C30: The answer to an action carries the ids of the request and is an action result, and it is truthful: it says
  succeeded exactly when a program was run and exited with success.\<close>

theorem linux_result_truthful:
  assumes "linux_handle_request E q s = (a, s')" and "arq_body q = ActionExecute payload"
  shows "ars_request_id a = arq_request_id q \<and> ars_action_execution_id a = arq_action_execution_id q \<and>
    (\<exists>r. ars_body a = ActionResultBody r \<and>
      (ar_status r = AdapterSucceeded \<longleftrightarrow> (\<exists>exe args. ls_commands s' = ls_commands s @ [(exe, args, Exited True)])))"
proof -
  from linux_request_outcome [OF assms] obtain r where
    r: "outcome (permitted E (aer_action payload) (aer_resolved_resource payload)) s r s'"
    "ars_body a = ActionResultBody (case r of Inr x \<Rightarrow> x
      | Inl message \<Rightarrow> \<lparr>ar_status = AdapterFailed, ar_result_code = ''action_failed'', ar_redacted_message = message\<rparr>)"
    by blast
  then show ?thesis using linux_request_fields [OF assms(1)] by (cases r) (auto simp: outcome_def)
qed

definition sample_linux_env :: linux_env where
  "sample_linux_env = \<lparr>li_vars = (\<lambda>v. if v = ''PATH'' then Some ''/b'' else None),
     li_metadata = (\<lambda>_ _. Some \<lparr>lm_is_file = True, lm_is_dir = False, lm_mode = 73, lm_uid = 1\<rparr>),
     li_read_dir = (\<lambda>_ _. None), li_read_file = (\<lambda>_ _. None), li_canonicalize = (\<lambda>_ p. Some p),
     li_read_link = (\<lambda>_ _. None), li_run = (\<lambda>_ _ _. Exited True)\<rparr>"

definition sample_open_request :: adapter_request_envelope where
  "sample_open_request = \<lparr>arq_protocol_version = CURRENT_PROTOCOL_VERSION, arq_request_id = 3,
     arq_action_execution_id = 4, arq_body = ActionExecute \<lparr>aer_action = LinuxPathOpen 7,
       aer_resolved_resource = Some \<lparr>rr_resource_id = 7, rr_kind = File, rr_canonical_locator = ''/h/f''\<rparr>\<rparr>\<rparr>"

definition sample_linux_state :: linux_state where
  "sample_linux_state = \<lparr>ls_tick = 0, ls_commands = []\<rparr>"

lemma sample_open_runs:
  "ls_commands (snd (linux_handle_request sample_linux_env sample_open_request sample_linux_state)) =
     [(''xdg-open'', [''/h/f''], Exited True)]"
  by code_simp

theorem linux_runs_only_permitted_programs_witness:
  "permitted sample_linux_env (LinuxPathOpen 7)
     (Some \<lparr>rr_resource_id = 7, rr_kind = File, rr_canonical_locator = ''/h/f''\<rparr>) ''xdg-open'' [''/h/f'']"
  using linux_runs_only_permitted_programs [OF prod.collapse [symmetric],
      where E = sample_linux_env and q = sample_open_request and s = sample_linux_state] sample_open_runs
  by (simp add: sample_linux_state_def sample_open_request_def)

theorem linux_result_truthful_witness:
  "\<exists>r. ars_body (fst (linux_handle_request sample_linux_env sample_open_request sample_linux_state)) = ActionResultBody r \<and>
     ar_status r = AdapterSucceeded"
  using linux_result_truthful [OF prod.collapse [symmetric],
      where E = sample_linux_env and q = sample_open_request and s = sample_linux_state] sample_open_runs
  by (auto simp: sample_linux_state_def sample_open_request_def)

text \<open>C33: The desktop entries the adapter reports are the sorted list, without repetition, of the set of ids of all
  \<open>.desktop\<close> files of its directories, each directory as it was when it was read; a directory that
  cannot be read counts as empty.\<close>

theorem desktop_entry_ids_sorted_set:
  "fst (desktop_entry_ids E s) = sorted_list_of_set
     (\<Union>(i, directory) \<in> set (enumerate (ls_tick s) (application_directories (li_vars E))). listed_in E i directory)"
proof -
  let ?g = "\<lambda>entries. case entries of None \<Rightarrow> [] | Some names \<Rightarrow> List.map_filter entry_id names"
  let ?ids = "concat (map (\<lambda>(i, x). ?g (li_read_dir E i x)) (enumerate (ls_tick s) (application_directories (li_vars E))))"
  have item: "set (?g (li_read_dir E i x)) = listed_in E i x" for i x
    by (cases "li_read_dir E i x") (auto simp: listed_in_def set_map_filter)
  have "fst (desktop_entry_ids E s) = remdups_adj (sort ?ids)"
    unfolding desktop_entry_ids_def lbind_def [of "collect_of _ _"] collect_of_ask by (simp add: lret_def)
  also have "remdups_adj (sort ?ids) = sorted_list_of_set (set ?ids)"
    using sorted_list_of_set.idem_if_sorted_distinct [of "remdups_adj (sort ?ids)"]
    by (simp only: distinct_remdups_adj sorted_remdups_adj sorted_sort remdups_adj_set set_sort simp_thms)
  also have "set ?ids = (\<Union>(i, directory) \<in> set (enumerate (ls_tick s) (application_directories (li_vars E))). listed_in E i directory)"
    by (simp add: split_def item)
  finally show ?thesis .
qed

text \<open>The core accepts the hello of the Linux adapter and that of the browser host, for any status, exactly when the
  version is 1 to 128 bytes without control characters: their capabilities are the ones reserved for them.\<close>

lemma adapter_hellos_accepted:
  "(case req_body (linux_adapter_hello version i j status) of AdapterHello h \<Rightarrow> validate_hello h = Inr () | _ \<Rightarrow> False) =
     (version \<noteq> [] \<and> length version \<le> 128 \<and> \<not> has_control version) \<and>
   (case req_body (host_adapter_hello version i hello) of AdapterHello h \<Rightarrow> validate_hello h = Inr () | _ \<Rightarrow> False) =
     (version \<noteq> [] \<and> length version \<le> 128 \<and> \<not> has_control version)"
  by (simp add: linux_adapter_hello_def host_adapter_hello_def validate_hello_iff hello_well_formed_def
      LINUX_CAPABILITIES_def HOST_ACTION_CAPABILITIES_def HOST_EVENT_CAPABILITIES_def HOST_ADAPTER_ID_def
      capabilities_of_def LINUX_ADAPTER_ID_def BROWSER_ADAPTER_ID_def VSCODE_ADAPTER_ID_def)

end
