(* ===== verification/Fubun_Migrate.thy ===== *)
theory Fubun_Migrate
  imports Fubun_Samples Fubun_Json
begin

text \<open>
  The start of the storage of \<open>crates/fubun-storage/src/lib.rs\<close>: \<open>prepare_database_path\<close>,
  \<open>initialize_connection\<close>, \<open>migrate\<close> and \<open>migrate_legacy_event_payloads\<close>. Here the database is a file:
  besides the rows it has a catalogue, the names of the tables and indexes that exist, and whether the
  column that version 3 adds is there.
\<close>

section \<open>Files\<close>

record db_file =
  fl_db :: db
  fl_objects :: "string list"
  fl_step_column :: bool

record file_conn =
  fc_file :: db_file
  fc_tick :: nat

type_synonym 'a fm = "file_conn \<Rightarrow> (storage_error + 'a) \<times> file_conn"

type_synonym 'a file_statement = "db_file \<Rightarrow> sqlite_error + 'a \<times> db_file"

definition fret :: "'a \<Rightarrow> 'a fm" where
  "fret a c = (Inr a, c)"

definition flift :: "storage_error + 'a \<Rightarrow> 'a fm" where
  "flift r c = (r, c)"

definition fbind :: "'a fm \<Rightarrow> ('a \<Rightarrow> 'b fm) \<Rightarrow> 'b fm" where
  "fbind m f c = (case m c of (Inl e, c') \<Rightarrow> (Inl e, c') | (Inr a, c') \<Rightarrow> f a c')"

primrec ffor_each :: "('a \<Rightarrow> unit fm) \<Rightarrow> 'a list \<Rightarrow> unit fm" where
  "ffor_each f [] = fret ()"
| "ffor_each f (x # xs) = fbind (f x) (\<lambda>_. ffor_each f xs)"

text \<open>The texts of JSON values, and the calls on files that may fail, are inputs.\<close>

record migrate_env = store_env +
  mg_parse :: "string \<Rightarrow> json_value option"
  mg_print :: "json_value \<Rightarrow> string option"
  mg_io_ok :: "nat \<Rightarrow> bool"

definition fclock :: "'z migrate_env_scheme \<Rightarrow> timestamp fm" where
  "fclock E c = (Inr (se_now E (fc_tick c)), c\<lparr>fc_tick := fc_tick c + 1\<rparr>)"

definition fsql :: "'z migrate_env_scheme \<Rightarrow> 'a file_statement \<Rightarrow> 'a fm" where
  "fsql E s c =
     (let c' = c\<lparr>fc_tick := fc_tick c + 1\<rparr>
      in if se_sql_fault E (fc_tick c) then (Inl (Sqlite OtherFailure), c')
         else (case s (fc_file c) of
                 Inl e \<Rightarrow> (Inl (Sqlite e), c')
               | Inr (a, f) \<Rightarrow> (Inr a, c'\<lparr>fc_file := f\<rparr>)))"

definition ftransaction :: "'z migrate_env_scheme \<Rightarrow> 'a fm \<Rightarrow> 'a fm" where
  "ftransaction E body c =
     (case fsql E (\<lambda>f. Inr ((), f)) c of
        (Inl e, c1) \<Rightarrow> (Inl e, c1)
      | (Inr _, c1) \<Rightarrow>
          (case fbind body (\<lambda>a. fbind (fsql E (\<lambda>f. Inr ((), f))) (\<lambda>_. fret a)) c1 of
             (Inl e, c2) \<Rightarrow> (Inl e, c2\<lparr>fc_file := fc_file c1\<rparr>)
           | (Inr a, c2) \<Rightarrow> (Inr a, c2)))"

text \<open>A call on the file system, with the error of \<open>std::io\<close>.\<close>

definition file_call :: "'z migrate_env_scheme \<Rightarrow> unit fm" where
  "file_call E c =
     (if mg_io_ok E (fc_tick c) then Inr () else Inl Io, c\<lparr>fc_tick := fc_tick c + 1\<rparr>)"

section \<open>Statements on the catalogue\<close>

text \<open>\<open>CREATE TABLE\<close> and \<open>CREATE INDEX\<close> fail when the name is taken.\<close>

definition create_object :: "string \<Rightarrow> unit file_statement" where
  "create_object name f =
     (if name \<in> set (fl_objects f) then Inl OtherFailure
      else Inr ((), f\<lparr>fl_objects := fl_objects f @ [name]\<rparr>))"

text \<open>\<open>execute_batch\<close>: the statements one after the other.\<close>

definition create_objects :: "'z migrate_env_scheme \<Rightarrow> string list \<Rightarrow> unit fm" where
  "create_objects E names = ffor_each (\<lambda>name. fsql E (create_object name)) names"

definition create_migrations_table :: "unit file_statement" where
  "create_migrations_table f =
     Inr ((), if ''schema_migrations'' \<in> set (fl_objects f) then f
              else f\<lparr>fl_objects := fl_objects f @ [''schema_migrations'']\<rparr>)"

definition add_step_column :: "unit file_statement" where
  "add_step_column f =
     (if ''execution_steps'' \<notin> set (fl_objects f) \<or> fl_step_column f then Inl OtherFailure
      else Inr ((), f\<lparr>fl_step_column := True, fl_db := (fl_db f)\<lparr>db_steps :=
             map (\<lambda>s. s\<lparr>tstp_adapter_instance_id := None\<rparr>) (db_steps (fl_db f))\<rparr>\<rparr>))"

definition insert_migration :: "u32 \<Rightarrow> unit file_statement" where
  "insert_migration v f =
     (if v \<in> set (db_migrations (fl_db f)) then Inl ConstraintViolation
      else Inr ((), f\<lparr>fl_db := (fl_db f)\<lparr>db_migrations := db_migrations (fl_db f) @ [v]\<rparr>\<rparr>))"

definition read_version :: "u32 file_statement" where
  "read_version f = Inr (current_schema_version (fl_db f), f)"

definition objects_v1 :: "string list" where
  "objects_v1 = [''adapters'', ''settings'', ''events'', ''events_received_at_idx'']"

definition objects_v2 :: "string list" where
  "objects_v2 = [''resources'', ''rituals'', ''ritual_versions'', ''ritual_approvals'', ''executions'',
     ''execution_steps'', ''ritual_execution_locks'', ''ritual_versions_ritual_idx'',
     ''executions_created_idx'', ''execution_steps_execution_idx'']"

definition objects_v4 :: "string list" where
  "objects_v4 = [''observation_scopes'', ''observation_scopes_source_idx'']"

section \<open>Old event payloads\<close>

definition legacy_object :: "(string \<times> json_value) list \<Rightarrow> bool" where
  "legacy_object xs \<longleftrightarrow> \<not> has_member ''kind'' xs \<and> has_member ''label'' xs \<and> has_member ''counter'' xs"

definition tagged :: "(string \<times> json_value) list \<Rightarrow> json_value" where
  "tagged xs = JObject (json_insert ''kind'' (JString ''synthetic'') xs)"

text \<open>The body of the loop over the rows: \<open>None\<close> is \<open>continue\<close>.\<close>

definition normalize_values :: "json_value \<Rightarrow> json_value \<Rightarrow> (json_value \<times> json_value) option" where
  "normalize_values data canonical =
     (case data of
        JObject xs \<Rightarrow>
          if \<not> legacy_object xs then None
          else (case canonical of
                  JObject ys \<Rightarrow>
                    (case map_of ys ''data'' of
                       Some (JObject zs) \<Rightarrow>
                         if legacy_object zs
                         then Some (tagged xs, JObject (json_insert ''data'' (tagged zs) ys)) else None
                     | _ \<Rightarrow> None)
                | _ \<Rightarrow> None)
      | _ \<Rightarrow> None)"

definition normalize_row ::
    "'z migrate_env_scheme \<Rightarrow> string \<Rightarrow> string \<Rightarrow> storage_error + (string \<times> string) option" where
  "normalize_row E data_json canonical_json =
     and_then (ok_or Json (mg_parse E data_json)) (\<lambda>data.
     and_then (ok_or Json (mg_parse E canonical_json)) (\<lambda>canonical.
       case normalize_values data canonical of
         None \<Rightarrow> Inr None
       | Some (d, c) \<Rightarrow>
           and_then (ok_or Json (mg_print E d)) (\<lambda>dt.
           and_then (ok_or Json (mg_print E c)) (\<lambda>ct. Inr (Some (dt, ct))))))"

definition update_event_json :: "string \<Rightarrow> string \<Rightarrow> string \<Rightarrow> unit file_statement" where
  "update_event_json i dt ct f =
     Inr ((), f\<lparr>fl_db := (fl_db f)\<lparr>db_events := row_update (\<lambda>e. tevt_id e = i)
        (\<lambda>e. e\<lparr>tevt_data_json := dt, tevt_canonical_json := ct\<rparr>) (db_events (fl_db f))\<rparr>\<rparr>)"

definition synthetic_rows :: "db \<Rightarrow> (string \<times> string \<times> string) list" where
  "synthetic_rows d = map (\<lambda>e. (tevt_id e, tevt_data_json e, tevt_canonical_json e))
     (filter (\<lambda>e. tevt_event_type e = ''dev.fubun.dev.synthetic.v1'') (db_events d))"

text \<open>One row of the loop.\<close>

definition convert_row :: "'z migrate_env_scheme \<Rightarrow> string \<times> string \<times> string \<Rightarrow> unit fm" where
  "convert_row E x = (case x of (i, data, canonical) \<Rightarrow>
     fbind (flift (normalize_row E data canonical)) (\<lambda>r.
       case r of None \<Rightarrow> fret () | Some (dt, ct) \<Rightarrow> fsql E (update_event_json i dt ct)))"

definition migrate_legacy_event_payloads :: "'z migrate_env_scheme \<Rightarrow> unit fm" where
  "migrate_legacy_event_payloads E =
     fbind (fsql E (\<lambda>f. Inr (''events'' \<in> set (fl_objects f), f))) (\<lambda>exists.
     if \<not> exists then fret ()
     else fbind (fsql E (\<lambda>f. Inr (synthetic_rows (fl_db f), f))) (\<lambda>rows.
       ffor_each (convert_row E) rows))"

section \<open>Migration\<close>

definition SCHEMA_VERSION :: u32 where
  "SCHEMA_VERSION = 4"

text \<open>The block of one version: a transaction with the changes and the new number.\<close>

definition versioned :: "'z migrate_env_scheme \<Rightarrow> u32 \<Rightarrow> unit fm \<Rightarrow> unit fm" where
  "versioned E v changes =
     ftransaction E (fbind changes (\<lambda>_.
       fbind (fclock E) (\<lambda>now. fbind (flift (format_ts E now)) (\<lambda>_. fsql E (insert_migration v)))))"

text \<open>The version is read again before each block but the first.\<close>

definition upgrade :: "'z migrate_env_scheme \<Rightarrow> u32 \<Rightarrow> unit fm \<Rightarrow> unit fm" where
  "upgrade E n changes =
     fbind (fsql E read_version) (\<lambda>current.
       if current = n then versioned E (n + 1) changes else fret ())"

definition migrate :: "'z migrate_env_scheme \<Rightarrow> unit fm" where
  "migrate E =
     fbind (fsql E create_migrations_table) (\<lambda>_.
     fbind (fsql E read_version) (\<lambda>current.
     if SCHEMA_VERSION < current then flift (Inl (UnsupportedSchema current))
     else
       fbind (if current = 0 then versioned E 1 (create_objects E objects_v1) else fret ()) (\<lambda>_.
       fbind (upgrade E 1 (create_objects E objects_v2)) (\<lambda>_.
       fbind (upgrade E 2 (fsql E add_step_column)) (\<lambda>_.
         upgrade E 3 (fbind (create_objects E objects_v4) (\<lambda>_. migrate_legacy_event_payloads E)))))))"

text \<open>
  Opening the connection, the time limit for locks and the two settings are calls that may fail and
  leave the file as it is.
\<close>

definition setting :: "unit file_statement" where
  "setting f = Inr ((), f)"

definition initialize_connection :: "'z migrate_env_scheme \<Rightarrow> unit fm" where
  "initialize_connection E =
     fbind (fsql E setting) (\<lambda>_. fbind (file_call E) (\<lambda>_. fbind (fsql E setting) (\<lambda>_.
     fbind (fsql E setting) (\<lambda>_. fbind (fsql E setting) (\<lambda>_. migrate E)))))"

text \<open>\<open>prepare_database_path\<close>; the argument is whether the path has a parent.\<close>

definition prepare_database_path :: "'z migrate_env_scheme \<Rightarrow> bool \<Rightarrow> unit fm" where
  "prepare_database_path E has_parent =
     (if \<not> has_parent then flift (Inl Io)
      else fbind (file_call E) (\<lambda>_. file_call E))"

text \<open>
  \<open>Storage::open\<close>: the path is prepared, the thread is started, and an error of its start is reported as
  its text. On success the thread takes commands on the tables of the file.
\<close>

definition storage_open ::
    "'z migrate_env_scheme \<Rightarrow> (storage_error \<Rightarrow> string) \<Rightarrow> bool \<Rightarrow> file_conn \<Rightarrow> (storage_error + conn) \<times> file_conn" where
  "storage_open E to_text has_parent =
     fbind (prepare_database_path E has_parent) (\<lambda>_.
     fbind (file_call E) (\<lambda>_. \<lambda>c.
       case initialize_connection E c of
         (Inl e, c') \<Rightarrow> (Inl (Startup (to_text e)), c')
       | (Inr _, c') \<Rightarrow> (Inr \<lparr>conn_db = fl_db (fc_file c'), conn_tick = fc_tick c', conn_open = True\<rparr>, c')))"

section \<open>Runs\<close>

lemma fbind_iff:
  "fbind m f c = (r, c') \<longleftrightarrow>
     (\<exists>e. m c = (Inl e, c') \<and> r = Inl e) \<or> (\<exists>a c1. m c = (Inr a, c1) \<and> f a c1 = (r, c'))"
  by (auto simp: fbind_def split: prod.splits sum.splits)

lemma fsql_iff:
  "fsql E s c = (r, c') \<longleftrightarrow>
     (\<exists>e. r = Inl (Sqlite e) \<and> c' = c\<lparr>fc_tick := fc_tick c + 1\<rparr> \<and>
        (se_sql_fault E (fc_tick c) \<and> e = OtherFailure \<or> \<not> se_sql_fault E (fc_tick c) \<and> s (fc_file c) = Inl e)) \<or>
     (\<exists>a f. r = Inr a \<and> \<not> se_sql_fault E (fc_tick c) \<and> s (fc_file c) = Inr (a, f) \<and>
        c' = c\<lparr>fc_tick := fc_tick c + 1, fc_file := f\<rparr>)"
  by (auto simp: fsql_def Let_def split: sum.splits)

lemma fret_iff [simp]: "fret a c = (r, c') \<longleftrightarrow> r = Inr a \<and> c' = c"
  by (auto simp: fret_def)

lemma flift_iff [simp]: "flift x c = (r, c') \<longleftrightarrow> x = r \<and> c' = c"
  by (auto simp: flift_def)

lemma fclock_iff [simp]:
  "fclock E c = (r, c') \<longleftrightarrow> r = Inr (se_now E (fc_tick c)) \<and> c' = c\<lparr>fc_tick := fc_tick c + 1\<rparr>"
  by (auto simp: fclock_def)

text \<open>A transaction changes the file as its body does, or not at all.\<close>

lemma ftransaction_cases:
  assumes "ftransaction E body c = (r, c')"
  obtains (failed) e where "r = Inl e" "fc_file c' = fc_file c"
  | (moved) a c1 c2 where "r = Inr a" "fc_file c1 = fc_file c" "body c1 = (Inr a, c2)" "fc_file c' = fc_file c2"
proof -
  obtain x c1 where x: "fsql E (\<lambda>f. Inr ((), f)) c = (x, c1)" by fastforce
  then have c1: "fc_file c1 = fc_file c" by (auto simp: fsql_iff)
  obtain y c2 where y: "fbind body (\<lambda>a. fbind (fsql E (\<lambda>f. Inr ((), f))) (\<lambda>_. fret a)) c1 = (y, c2)" by fastforce
  show thesis
  proof (cases x)
    case (Inl e)
    with x assms c1 show thesis by (intro failed) (auto simp: ftransaction_def)
  next
    case (Inr u)
    show thesis
    proof (cases y)
      case (Inl e)
      with x y assms c1 Inr show thesis by (intro failed) (auto simp: ftransaction_def)
    next
      case (Inr a)
      with y obtain c3 where c3: "body c1 = (Inr a, c3)" "fc_file c2 = fc_file c3"
        by (auto simp: fbind_iff fsql_iff)
      from assms x y \<open>x = Inr u\<close> Inr have "r = Inr a" "c' = c2" by (auto simp: ftransaction_def)
      with c1 c3 show thesis by (intro moved) auto
    qed
  qed
qed

definition record_version :: "u32 \<Rightarrow> db_file \<Rightarrow> db_file" where
  "record_version v f = f\<lparr>fl_db := (fl_db f)\<lparr>db_migrations := db_migrations (fl_db f) @ [v]\<rparr>\<rparr>"

lemma versioned_cases:
  assumes "versioned E v changes c = (r, c')"
  obtains (failed) e where "r = Inl e" "fc_file c' = fc_file c"
  | (moved) c1 c2 where "r = Inr ()" "fc_file c1 = fc_file c" "changes c1 = (Inr (), c2)"
      "fc_file c' = record_version v (fc_file c2)"
  using assms unfolding versioned_def
proof (cases rule: ftransaction_cases)
  case failed
  then show thesis by (rule that(1))
next
  case (moved a c1 c2)
  from moved(3) obtain c3 where "changes c1 = (Inr (), c3)" "fc_file c2 = record_version v (fc_file c3)"
    by (auto simp: fbind_iff fsql_iff insert_migration_def record_version_def split: if_splits)
  with moved show thesis by (intro that(2)) auto
qed

lemma create_objects_Inr:
  "create_objects E names c = (Inr (), c') \<Longrightarrow>
     fc_file c' = (fc_file c)\<lparr>fl_objects := fl_objects (fc_file c) @ names\<rparr>"
  unfolding create_objects_def
  by (induction names arbitrary: c) (auto simp: fbind_iff fsql_iff create_object_def split: if_splits)

section \<open>The old event payloads\<close>

text \<open>What the conversion makes of one row.\<close>

definition migrated_event :: "'z migrate_env_scheme \<Rightarrow> event_row \<Rightarrow> event_row" where
  "migrated_event E e =
     (if tevt_event_type e = ''dev.fubun.dev.synthetic.v1''
      then case normalize_row E (tevt_data_json e) (tevt_canonical_json e) of
             Inr (Some (dt, ct)) \<Rightarrow> e\<lparr>tevt_data_json := dt, tevt_canonical_json := ct\<rparr>
           | _ \<Rightarrow> e
      else e)"

definition with_events :: "(event_row list \<Rightarrow> event_row list) \<Rightarrow> db_file \<Rightarrow> db_file" where
  "with_events g f = f\<lparr>fl_db := (fl_db f)\<lparr>db_events := g (db_events (fl_db f))\<rparr>\<rparr>"

lemma tevt_id_migrated [simp]: "tevt_id (migrated_event E e) = tevt_id e"
  by (simp add: migrated_event_def split: sum.split option.split prod.split)

text \<open>One row of the loop changes the rows with its id, which is itself.\<close>

lemma convert_row_Inr:
  assumes "convert_row E (tevt_id e, tevt_data_json e, tevt_canonical_json e) c = (Inr (), c')"
    and "tevt_event_type e = ''dev.fubun.dev.synthetic.v1''"
    and "\<forall>w \<in> set (db_events (fl_db (fc_file c))). tevt_id w = tevt_id e \<longrightarrow> w = e"
  shows "fc_file c' = with_events (map (\<lambda>w. if tevt_id w = tevt_id e then migrated_event E w else w)) (fc_file c)"
proof -
  from assms(1) obtain r where r: "normalize_row E (tevt_data_json e) (tevt_canonical_json e) = Inr r"
    and run: "(case r of None \<Rightarrow> fret () | Some (dt, ct) \<Rightarrow> fsql E (update_event_json (tevt_id e) dt ct)) c = (Inr (), c')"
    by (auto simp: convert_row_def fbind_iff)
  show ?thesis
  proof (cases r)
    case None
    then have "migrated_event E e = e" using r by (simp add: migrated_event_def)
    then have "map (\<lambda>w. if tevt_id w = tevt_id e then migrated_event E w else w) (db_events (fl_db (fc_file c))) =
        db_events (fl_db (fc_file c))"
      using assms(3) by (intro map_idI) auto
    with run None show ?thesis by (simp add: with_events_def)
  next
    case (Some p)
    obtain dt ct where p: "p = (dt, ct)" by (cases p)
    then have "migrated_event E e = e\<lparr>tevt_data_json := dt, tevt_canonical_json := ct\<rparr>"
      using r assms(2) Some by (simp add: migrated_event_def)
    then have "row_update (\<lambda>w. tevt_id w = tevt_id e) (\<lambda>w. w\<lparr>tevt_data_json := dt, tevt_canonical_json := ct\<rparr>)
        (db_events (fl_db (fc_file c))) =
      map (\<lambda>w. if tevt_id w = tevt_id e then migrated_event E w else w) (db_events (fl_db (fc_file c)))"
      using assms(3) by (auto simp: row_update_def)
    with run Some p show ?thesis by (auto simp: fsql_iff update_event_json_def with_events_def)
  qed
qed

lemma convert_rows_Inr:
  assumes "ffor_each (convert_row E) (map (\<lambda>e. (tevt_id e, tevt_data_json e, tevt_canonical_json e)) es) c = (Inr (), c')"
    and "\<forall>e \<in> set es. tevt_event_type e = ''dev.fubun.dev.synthetic.v1''" and "distinct (map tevt_id es)"
    and "\<forall>e \<in> set es. \<forall>w \<in> set (db_events (fl_db (fc_file c))). tevt_id w = tevt_id e \<longrightarrow> w = e"
  shows "fc_file c' = with_events (map (\<lambda>w. if tevt_id w \<in> tevt_id ` set es then migrated_event E w else w)) (fc_file c)"
  using assms
proof (induction es arbitrary: c)
  case Nil
  then show ?case by (simp add: with_events_def)
next
  case (Cons e es)
  from Cons.prems(1) obtain c1 where e: "convert_row E (tevt_id e, tevt_data_json e, tevt_canonical_json e) c = (Inr (), c1)"
    and es: "ffor_each (convert_row E) (map (\<lambda>e. (tevt_id e, tevt_data_json e, tevt_canonical_json e)) es) c1 = (Inr (), c')"
    by (auto simp: fbind_iff)
  have c1: "fc_file c1 = with_events (map (\<lambda>w. if tevt_id w = tevt_id e then migrated_event E w else w)) (fc_file c)"
    using Cons.prems(2,4) by (intro convert_row_Inr [OF e]) auto
  have "\<forall>x \<in> set es. \<forall>w \<in> set (db_events (fl_db (fc_file c1))). tevt_id w = tevt_id x \<longrightarrow> w = x"
    using Cons.prems(3,4) by (auto simp: c1 with_events_def)
  with Cons.IH [OF es] Cons.prems(2,3)
  have "fc_file c' = with_events (map (\<lambda>w. if tevt_id w \<in> tevt_id ` set es then migrated_event E w else w)) (fc_file c1)"
    by auto
  then show ?case
    using Cons.prems(3) by (auto simp: c1 with_events_def intro!: arg_cong [where f = "\<lambda>x. fc_file c\<lparr>fl_db := x\<rparr>"])
qed

lemma migrate_legacy_Inr:
  assumes "migrate_legacy_event_payloads E c = (Inr (), c')" and "''events'' \<in> set (fl_objects (fc_file c))"
    and "unique_on tevt_id (db_events (fl_db (fc_file c)))"
  shows "fc_file c' = with_events (map (migrated_event E)) (fc_file c)"
proof -
  let ?es = "filter (\<lambda>e. tevt_event_type e = ''dev.fubun.dev.synthetic.v1'') (db_events (fl_db (fc_file c)))"
  let ?c1 = "c\<lparr>fc_tick := Suc (Suc (fc_tick c))\<rparr>"
  have run: "ffor_each (convert_row E) (map (\<lambda>e. (tevt_id e, tevt_data_json e, tevt_canonical_json e)) ?es) ?c1 = (Inr (), c')"
    using assms(1,2) unfolding migrate_legacy_event_payloads_def
    by (auto simp: fbind_iff fsql_iff synthetic_rows_def)
  have inj: "inj_on tevt_id (set (db_events (fl_db (fc_file c))))" and "distinct (db_events (fl_db (fc_file c)))"
    using assms(3) by (auto simp: unique_on_def distinct_map)
  then have "distinct (map tevt_id ?es)" by (auto simp: distinct_map intro: inj_on_subset)
  with convert_rows_Inr [OF run] inj
  have "fc_file c' = with_events (map (\<lambda>w. if tevt_id w \<in> tevt_id ` set ?es then migrated_event E w else w)) (fc_file c)"
    by (auto dest: inj_onD)
  moreover have "(if tevt_id w \<in> tevt_id ` set ?es then migrated_event E w else w) = migrated_event E w"
    if "w \<in> set (db_events (fl_db (fc_file c)))" for w
    using that inj by (auto simp: migrated_event_def dest: inj_onD)
  ultimately show ?thesis by (simp add: with_events_def cong: map_cong)
qed

section \<open>Versions of a file\<close>

definition objects_at :: "nat \<Rightarrow> string set" where
  "objects_at v = (if 1 \<le> v then set objects_v1 else {}) \<union> (if 2 \<le> v then set objects_v2 else {}) \<union>
     (if 4 \<le> v then set objects_v4 else {})"

text \<open>
  A file of version \<open>v\<close>: the numbers up to \<open>v\<close> are recorded, exactly the tables and indexes of these
  versions exist, and the column of version 3 is there or reads as NULL.
\<close>

definition file_at :: "nat \<Rightarrow> db_file \<Rightarrow> bool" where
  "file_at v f \<longleftrightarrow> v \<le> 4 \<and> db_migrations (fl_db f) = take v [1, 2, 3, 4] \<and>
     set (fl_objects f) - {''schema_migrations''} = objects_at v \<and>
     (0 < v \<longrightarrow> ''schema_migrations'' \<in> set (fl_objects f)) \<and> fl_step_column f = (3 \<le> v) \<and>
     (if 3 \<le> v then True else list_all (\<lambda>s. tstp_adapter_instance_id s = None) (db_steps (fl_db f)))"

text \<open>What the block that starts at version \<open>v\<close> does to a file.\<close>

definition advance :: "'z migrate_env_scheme \<Rightarrow> nat \<Rightarrow> db_file \<Rightarrow> db_file" where
  "advance E v f =
     (let create = (\<lambda>names. f\<lparr>fl_objects := fl_objects f @ names\<rparr>)
      in record_version (word_of_nat (v + 1))
        (if v = 0 then create objects_v1 else if v = 1 then create objects_v2
         else if v = 2 then f\<lparr>fl_step_column := True\<rparr>
         else with_events (map (migrated_event E)) (create objects_v4)))"

lemma less_4_cases: "v < 4 \<longleftrightarrow> v \<in> {0, 1, 2, 3 :: nat}" "v \<le> 4 \<longleftrightarrow> v \<in> {0, 1, 2, 3, 4 :: nat}"
  by auto

lemma file_version:
  "file_at v f \<Longrightarrow> current_schema_version (fl_db f) = word_of_nat v"
  unfolding file_at_def less_4_cases by (elim conjE insertE emptyE) (simp_all add: current_schema_version_def)

lemma objects_plain: "''schema_migrations'' \<notin> set objects_v1" "''schema_migrations'' \<notin> set objects_v2"
    "''schema_migrations'' \<notin> set objects_v4"
  by (simp_all add: objects_v1_def objects_v2_def objects_v4_def)

lemma file_at_advance:
  assumes "file_at v f" "v < 4" "''schema_migrations'' \<in> set (fl_objects f)"
  shows "file_at (v + 1) (advance E v f) \<and> ''schema_migrations'' \<in> set (fl_objects (advance E v f))"
  using assms objects_plain unfolding less_4_cases
  by (elim insertE emptyE; hypsubst)
     (auto simp: file_at_def advance_def record_version_def with_events_def Let_def objects_at_def)

lemma events_advance:
  "unique_on tevt_id (db_events (fl_db f)) \<Longrightarrow> unique_on tevt_id (db_events (fl_db (advance E v f)))"
  by (simp add: advance_def record_version_def with_events_def Let_def unique_on_def comp_def)

text \<open>The changes of each block, and a block that runs on a file of its version.\<close>

definition changes_of :: "'z migrate_env_scheme \<Rightarrow> nat \<Rightarrow> unit fm" where
  "changes_of E v =
     (if v = 0 then create_objects E objects_v1 else if v = 1 then create_objects E objects_v2
      else if v = 2 then fsql E add_step_column
      else fbind (create_objects E objects_v4) (\<lambda>_. migrate_legacy_event_payloads E))"

definition good_file :: "nat \<Rightarrow> db_file \<Rightarrow> bool" where
  "good_file v f \<longleftrightarrow> file_at v f \<and> ''schema_migrations'' \<in> set (fl_objects f) \<and>
     unique_on tevt_id (db_events (fl_db f))"

lemma good_file_advance: "good_file v f \<Longrightarrow> v < 4 \<Longrightarrow> good_file (v + 1) (advance E v f)"
  using file_at_advance [of v f E] events_advance [of f E v] by (simp add: good_file_def)

lemma step_column_noop:
  "list_all (\<lambda>s. tstp_adapter_instance_id s = None) ss \<Longrightarrow> map (\<lambda>s. s\<lparr>tstp_adapter_instance_id := None\<rparr>) ss = ss"
  by (intro map_idI) (auto simp: list_all_iff)

lemma changes_advance:
  assumes "good_file v (fc_file c)" "v < 4" and "changes_of E v c = (Inr (), c')"
  shows "record_version (word_of_nat (v + 1)) (fc_file c') = advance E v (fc_file c)"
proof -
  from assms(2) consider "v = 0 \<or> v = 1" | "v = 2" | "v = 3" by linarith
  then show ?thesis
  proof cases
    case 1
    with assms(3) show ?thesis
      by (auto simp: changes_of_def advance_def Let_def dest!: create_objects_Inr)
  next
    case 2
    with assms(1) have "map (\<lambda>s. s\<lparr>tstp_adapter_instance_id := None\<rparr>) (db_steps (fl_db (fc_file c))) = db_steps (fl_db (fc_file c))"
      by (intro step_column_noop) (simp add: good_file_def file_at_def)
    with 2 assms(3) show ?thesis
      by (auto simp: changes_of_def advance_def Let_def fsql_iff add_step_column_def split: if_splits)
  next
    case 3
    with assms(3) obtain c1 where c1: "create_objects E objects_v4 c = (Inr (), c1)"
      and leg: "migrate_legacy_event_payloads E c1 = (Inr (), c')"
      by (auto simp: changes_of_def fbind_iff)
    note c1' = create_objects_Inr [OF c1]
    have "objects_v1 \<noteq> [] \<and> ''events'' \<in> set objects_v1" by (simp add: objects_v1_def)
    then have "''events'' \<in> objects_at v" using 3 by (auto simp: objects_at_def)
    then have "''events'' \<in> set (fl_objects (fc_file c1))"
      using assms(1) c1' by (auto simp: good_file_def file_at_def)
    from migrate_legacy_Inr [OF leg this] assms(1) c1'
    have "fc_file c' = with_events (map (migrated_event E)) (fc_file c1)" by (simp add: good_file_def)
    with 3 c1' show ?thesis by (simp add: advance_def Let_def)
  qed
qed

text \<open>How a run ends: at some version on the way, at the last one when it succeeds.\<close>

definition settles :: "'z migrate_env_scheme \<Rightarrow> nat \<Rightarrow> db_file \<Rightarrow> storage_error + unit \<Rightarrow> db_file \<Rightarrow> bool" where
  "settles E v f r f' \<longleftrightarrow> (\<exists>w. v \<le> w \<and> w \<le> 4 \<and> f' = fold (advance E) [v..<w] f \<and> (r = Inr () \<longrightarrow> w = 4))"

lemma settles_failed: "v \<le> 4 \<Longrightarrow> settles E v f (Inl e) f"
  unfolding settles_def by (intro exI [of _ v]) simp

lemma settles_advance: "settles E (v + 1) (advance E v f) r f' \<Longrightarrow> settles E v f r f'"
  unfolding settles_def
proof (elim exE conjE)
  fix w assume w: "v + 1 \<le> w" "w \<le> 4" "f' = fold (advance E) [v + 1..<w] (advance E v f)" "r = Inr () \<longrightarrow> w = 4"
  then have "f' = fold (advance E) [v..<w] f" by (simp add: upt_conv_Cons)
  with w show "\<exists>w. v \<le> w \<and> w \<le> 4 \<and> f' = fold (advance E) [v..<w] f \<and> (r = Inr () \<longrightarrow> w = 4)"
    by (intro exI [of _ w]) simp
qed

lemma block_then:
  assumes good: "good_file w (fc_file c)" "b \<le> w" "b \<le> 3"
    and rest: "\<And>c w r c'. good_file w (fc_file c) \<Longrightarrow> b + 1 \<le> w \<Longrightarrow> rest c = (r, c') \<Longrightarrow> settles E w (fc_file c) r (fc_file c')"
    and run: "fbind (if w = b then versioned E (word_of_nat (b + 1)) (changes_of E b) else fret ()) (\<lambda>_. rest) c = (r, c')"
  shows "settles E w (fc_file c) r (fc_file c')"
proof (cases "w = b")
  case False
  with run have "rest c = (r, c')" by (auto simp: fbind_iff)
  with rest good False show ?thesis by simp
next
  case True
  have w4: "w \<le> 4" "b < 4" using good by (auto simp: good_file_def file_at_def)
  obtain x c1 where x: "versioned E (word_of_nat (b + 1)) (changes_of E b) c = (x, c1)" by fastforce
  then show ?thesis
  proof (cases rule: versioned_cases)
    case (failed e)
    with run True x have "r = Inl e" "c' = c1" by (auto simp: fbind_iff)
    with failed w4 show ?thesis by (simp add: settles_failed)
  next
    case (moved c2 c3)
    have "fc_file c1 = advance E b (fc_file c)"
      using changes_advance [of b c2 E c3] good moved w4 True by simp
    moreover from this have "good_file (b + 1) (fc_file c1)"
      using good_file_advance [of b "fc_file c" E] good w4 True by simp
    moreover from run True x moved have "rest c1 = (r, c')" by (auto simp: fbind_iff)
    ultimately have "settles E (b + 1) (advance E b (fc_file c)) r (fc_file c')" using rest by fastforce
    then show ?thesis using True by (simp add: settles_advance)
  qed
qed

lemma version_eq_iff: "w \<le> 4 \<Longrightarrow> b \<le> 4 \<Longrightarrow> (word_of_nat w = (word_of_nat b :: u32)) = (w = b)"
  unfolding less_4_cases by (elim insertE emptyE; hypsubst; simp)

lemma upgrade_then:
  assumes "good_file w (fc_file c)" "b \<le> w" "b \<le> 3"
    and rest: "\<And>c w r c'. good_file w (fc_file c) \<Longrightarrow> b + 1 \<le> w \<Longrightarrow> rest c = (r, c') \<Longrightarrow> settles E w (fc_file c) r (fc_file c')"
    and run: "fbind (upgrade E (word_of_nat b) (changes_of E b)) (\<lambda>_. rest) c = (r, c')"
  shows "settles E w (fc_file c) r (fc_file c')"
proof -
  have w: "w \<le> 4" "file_at w (fc_file c)" using assms(1) by (simp_all add: good_file_def file_at_def)
  obtain x c1 where x: "fsql E read_version c = (x, c1)" by fastforce
  then have c1: "fc_file c1 = fc_file c" by (auto simp: fsql_iff read_version_def)
  show ?thesis
  proof (cases x)
    case (Inl e)
    with x run have "r = Inl e" "c' = c1" by (auto simp: upgrade_def fbind_iff)
    with c1 w show ?thesis by (simp add: settles_failed)
  next
    case (Inr current)
    with x file_version [OF w(2)] have current: "current = word_of_nat w" by (auto simp: fsql_iff read_version_def)
    have next_word: "word_of_nat b + 1 = (word_of_nat (b + 1) :: u32)" by simp
    have "(current = word_of_nat b) = (w = b)" using version_eq_iff w assms(3) current by simp
    then have "upgrade E (word_of_nat b) (changes_of E b) c =
        (if w = b then versioned E (word_of_nat (b + 1)) (changes_of E b) else fret ()) c1"
      using x Inr unfolding upgrade_def fbind_def next_word [symmetric] by simp
    then have "fbind (if w = b then versioned E (word_of_nat (b + 1)) (changes_of E b) else fret ()) (\<lambda>_. rest) c1 = (r, c')"
      using run unfolding fbind_def by (simp only:)
    then have "settles E w (fc_file c1) r (fc_file c')"
      using assms(1) by (intro block_then [OF _ assms(2,3) rest]) (simp_all only: c1)
    then show ?thesis by (simp only: c1)
  qed
qed

lemma fbind_fret: "fbind m fret = m" for m :: "unit fm"
  by (rule ext) (auto simp: fbind_def fret_def split: prod.split sum.split)

lemma blocks_settle:
  assumes "good_file w (fc_file c)" "1 \<le> w"
    and "fbind (upgrade E 1 (create_objects E objects_v2)) (\<lambda>_. fbind (upgrade E 2 (fsql E add_step_column)) (\<lambda>_.
         upgrade E 3 (fbind (create_objects E objects_v4) (\<lambda>_. migrate_legacy_event_payloads E)))) c = (r, c')"
  shows "settles E w (fc_file c) r (fc_file c')"
proof -
  have last: "settles E w (fc_file c) r (fc_file c')"
    if g: "good_file w (fc_file c)" "4 \<le> w" "fret () c = (r, c')" for w c r c'
  proof -
    have "w = 4" using g by (simp add: good_file_def file_at_def)
    with g show ?thesis by (auto simp: settles_def)
  qed
  have third: "settles E w (fc_file c) r (fc_file c')"
    if "good_file w (fc_file c)" "3 \<le> w"
      "fbind (upgrade E (word_of_nat 3) (changes_of E 3)) (\<lambda>_. fret ()) c = (r, c')" for w c r c'
    by (rule upgrade_then [OF that(1,2) _ _ that(3)]) (simp, rule last, simp_all)
  have second: "settles E w (fc_file c) r (fc_file c')"
    if "good_file w (fc_file c)" "2 \<le> w"
      "fbind (upgrade E (word_of_nat 2) (changes_of E 2)) (\<lambda>_.
         fbind (upgrade E (word_of_nat 3) (changes_of E 3)) (\<lambda>_. fret ())) c = (r, c')" for w c r c'
    by (rule upgrade_then [OF that(1,2) _ _ that(3)]) (simp, rule third, simp_all)
  have run: "fbind (upgrade E (word_of_nat 1) (changes_of E 1)) (\<lambda>_.
      fbind (upgrade E (word_of_nat 2) (changes_of E 2)) (\<lambda>_.
         fbind (upgrade E (word_of_nat 3) (changes_of E 3)) (\<lambda>_. fret ()))) c = (r, c')"
    using assms(3) by (simp add: changes_of_def fbind_fret)
  show ?thesis by (rule upgrade_then [OF assms(1,2) _ _ run]) (simp, rule second, simp_all)
qed

section \<open>Properties\<close>

text \<open>The rows of a file after the versions up to \<open>w\<close>: only the payloads of old events change, at version 4.\<close>

definition migrated_db :: "'z migrate_env_scheme \<Rightarrow> nat \<Rightarrow> nat \<Rightarrow> db \<Rightarrow> db" where
  "migrated_db E v w d = d\<lparr>db_migrations := take w [1, 2, 3, 4],
     db_events := (if v < 4 \<and> w = 4 then map (migrated_event E) (db_events d) else db_events d)\<rparr>"

lemma fold_advance:
  "good_file v f \<Longrightarrow> v \<le> w \<Longrightarrow> w \<le> 4 \<Longrightarrow>
     good_file w (fold (advance E) [v..<w] f) \<and> fl_db (fold (advance E) [v..<w] f) = migrated_db E v w (fl_db f)"
proof (induction "w - v" arbitrary: v f)
  case 0
  then have "w = v" by simp
  with 0 show ?case by (auto simp: migrated_db_def good_file_def file_at_def)
next
  case (Suc n)
  then have v: "v < w" "v < 4" and n: "n = w - (v + 1)" by simp_all
  have good: "good_file (v + 1) (advance E v f)" using good_file_advance Suc.prems(1) v by blast
  from Suc.hyps(1) [OF n good] Suc.prems v
  have ih: "good_file w (fold (advance E) [v + 1..<w] (advance E v f))"
    "fl_db (fold (advance E) [v + 1..<w] (advance E v f)) = migrated_db E (v + 1) w (fl_db (advance E v f))" by simp_all
  have "migrated_db E (v + 1) w (fl_db (advance E v f)) = migrated_db E v w (fl_db f)"
    using v Suc.prems by (auto simp: migrated_db_def advance_def Let_def record_version_def with_events_def)
  with ih v show ?case by (simp add: upt_conv_Cons)
qed

section \<open>Runs without a fault\<close>

text \<open>No statement fails, the time has a text, and the synthetic rows, while they are still to be read, are JSON.\<close>

definition can_migrate :: "'z migrate_env_scheme \<Rightarrow> nat \<Rightarrow> db_file \<Rightarrow> bool" where
  "can_migrate E v f \<longleftrightarrow> (\<forall>n. \<not> se_sql_fault E n) \<and> (\<forall>n. se_ts_format E (se_now E n) \<noteq> None) \<and>
     (if v < 4 then list_all (\<lambda>(_, data, canonical). \<exists>r. normalize_row E data canonical = Inr r) (synthetic_rows (fl_db f))
      else True)"

lemma fsql_ok:
  "can_migrate E v f \<Longrightarrow> s (fc_file c) = Inr (a, g) \<Longrightarrow> fsql E s c = (Inr a, c\<lparr>fc_tick := fc_tick c + 1, fc_file := g\<rparr>)"
  by (simp add: can_migrate_def fsql_def Let_def)

lemma create_objects_ok:
  "can_migrate E v f \<Longrightarrow> distinct names \<Longrightarrow> set names \<inter> set (fl_objects (fc_file c)) = {} \<Longrightarrow>
     \<exists>c'. create_objects E names c = (Inr (), c')"
  unfolding create_objects_def
proof (induction names arbitrary: c)
  case (Cons name names)
  let ?g = "(fc_file c)\<lparr>fl_objects := fl_objects (fc_file c) @ [name]\<rparr>"
  let ?c1 = "c\<lparr>fc_tick := fc_tick c + 1, fc_file := ?g\<rparr>"
  have "fsql E (create_object name) c = (Inr (), ?c1)"
    using Cons.prems by (intro fsql_ok) (auto simp: create_object_def)
  moreover have "\<exists>c'. ffor_each (\<lambda>name. fsql E (create_object name)) names ?c1 = (Inr (), c')"
    using Cons.prems by (intro Cons.IH) auto
  ultimately show ?case by (simp add: fbind_def)
qed simp

lemma convert_rows_ok:
  "can_migrate E v f \<Longrightarrow> list_all (\<lambda>(_, data, canonical). \<exists>r. normalize_row E data canonical = Inr r) rows \<Longrightarrow>
     \<exists>c'. ffor_each (convert_row E) rows c = (Inr (), c')"
proof (induction rows arbitrary: c)
  case (Cons x rows)
  obtain i data canonical where x: "x = (i, data, canonical)" by (cases x)
  with Cons.prems obtain r where r: "normalize_row E data canonical = Inr r" by auto
  have "\<exists>c1. convert_row E x c = (Inr (), c1)"
  proof (cases r)
    case None
    with x r show ?thesis by (simp add: convert_row_def fbind_def flift_def)
  next
    case (Some p)
    obtain dt ct where "p = (dt, ct)" by (cases p)
    with x r Some Cons.prems(1) show ?thesis
      by (simp add: convert_row_def fbind_def flift_def update_event_json_def fsql_ok)
  qed
  then obtain c1 where "convert_row E x c = (Inr (), c1)" by blast
  moreover have "\<exists>c'. ffor_each (convert_row E) rows c1 = (Inr (), c')" using Cons by simp
  ultimately show ?case by (simp add: fbind_def)
qed simp

lemma changes_ok:
  assumes "can_migrate E v (fc_file c)" "good_file v (fc_file c)" "v < 4"
  shows "\<exists>c'. changes_of E v c = (Inr (), c')"
proof -
  note at = assms(2) [unfolded good_file_def file_at_def]
  have fresh: "set names \<inter> set (fl_objects (fc_file c)) = {}"
    if "set names \<inter> objects_at v = {}" "''schema_migrations'' \<notin> set names" for names
    using that at by blast
  from assms(3) consider "v = 0" | "v = 1" | "v = 2" | "v = 3" by linarith
  then show ?thesis
  proof cases
    case 1
    then show ?thesis using fresh [of objects_v1] objects_plain
      by (simp add: changes_of_def create_objects_ok [OF assms(1)] objects_at_def objects_v1_def)
  next
    case 2
    then show ?thesis using fresh [of objects_v2] objects_plain
      by (simp add: changes_of_def create_objects_ok [OF assms(1)] objects_at_def objects_v1_def objects_v2_def)
  next
    case 3
    have "''execution_steps'' \<in> objects_at v" using 3 by (simp add: objects_at_def objects_v2_def)
    then have "''execution_steps'' \<in> set (fl_objects (fc_file c))" using at by blast
    moreover have "\<not> fl_step_column (fc_file c)" using at 3 by simp
    ultimately show ?thesis using 3 by (simp add: changes_of_def add_step_column_def fsql_ok [OF assms(1)])
  next
    case 4
    have "set objects_v4 \<inter> objects_at v = {}" using 4 by (simp add: objects_at_def objects_v1_def objects_v2_def objects_v4_def)
    moreover have "distinct objects_v4" by (simp add: objects_v4_def)
    ultimately obtain c1 where c1: "create_objects E objects_v4 c = (Inr (), c1)"
      using create_objects_ok [OF assms(1), of objects_v4 c] fresh [OF _ objects_plain(3)] by blast
    then have db: "fl_db (fc_file c1) = fl_db (fc_file c)" using create_objects_Inr by fastforce
    let ?c2 = "c1\<lparr>fc_tick := fc_tick c1 + 1\<rparr>" and ?c3 = "c1\<lparr>fc_tick := fc_tick c1 + 2\<rparr>"
    have "\<exists>c'. ffor_each (convert_row E) (synthetic_rows (fl_db (fc_file c1))) ?c3 = (Inr (), c')"
      using assms(1) 4 db by (intro convert_rows_ok [OF assms(1)]) (simp add: can_migrate_def)
    then have "\<exists>c'. migrate_legacy_event_payloads E c1 = (Inr (), c')"
      using fsql_ok [OF assms(1), of "\<lambda>f. Inr (''events'' \<in> set (fl_objects f), f)" c1]
        fsql_ok [OF assms(1), of "\<lambda>f. Inr (synthetic_rows (fl_db f), f)" ?c2]
      by (cases "''events'' \<in> set (fl_objects (fc_file c1))")
         (simp_all add: migrate_legacy_event_payloads_def fbind_def fret_def)
    with 4 c1 show ?thesis by (simp add: changes_of_def fbind_def)
  qed
qed

lemma can_migrate_same_events:
  "can_migrate E v f \<Longrightarrow> v \<le> w \<Longrightarrow> (w < 4 \<Longrightarrow> db_events (fl_db g) = db_events (fl_db f)) \<Longrightarrow> can_migrate E w g"
  by (auto simp: can_migrate_def synthetic_rows_def)

lemma block_ok:
  assumes "can_migrate E b (fc_file c)" "good_file b (fc_file c)" "b < 4"
  obtains c' where "versioned E (word_of_nat (b + 1)) (changes_of E b) c = (Inr (), c')"
    "fc_file c' = advance E b (fc_file c)"
proof -
  have begun: "fsql E (\<lambda>f. Inr ((), f)) c = (Inr (), c\<lparr>fc_tick := fc_tick c + 1\<rparr>)"
    using fsql_ok [OF assms(1), of "\<lambda>f. Inr ((), f)" c] by simp
  let ?c1 = "c\<lparr>fc_tick := fc_tick c + 1\<rparr>"
  obtain c2 where c2: "changes_of E b ?c1 = (Inr (), c2)" using changes_ok [of E b ?c1] assms by auto
  then have adv: "record_version (word_of_nat (b + 1)) (fc_file c2) = advance E b (fc_file c)"
    using changes_advance [OF _ _ c2] assms by simp
  have "db_migrations (fl_db (advance E b (fc_file c))) = take (b + 1) [1, 2, 3, 4]"
    using good_file_advance [OF assms(2,3), of E] unfolding good_file_def file_at_def by blast
  then have migs: "db_migrations (fl_db (fc_file c2)) @ [word_of_nat (b + 1)] = take (b + 1) [1, 2, 3, 4]"
    by (simp add: adv [symmetric] record_version_def)
  have "distinct (take (b + 1) [1, 2, 3, 4 :: u32])" by (rule distinct_take) simp
  then have new: "word_of_nat (b + 1) \<notin> set (db_migrations (fl_db (fc_file c2)))"
    unfolding migs [symmetric] by simp
  let ?c3 = "c2\<lparr>fc_tick := fc_tick c2 + 1\<rparr>"
  let ?c4 = "?c3\<lparr>fc_tick := fc_tick ?c3 + 1, fc_file := record_version (word_of_nat (b + 1)) (fc_file c2)\<rparr>"
  have rec: "fsql E (insert_migration (word_of_nat (b + 1))) ?c3 = (Inr (), ?c4)"
    using new by (intro fsql_ok [OF assms(1)]) (simp add: insert_migration_def record_version_def)
  have commit: "fsql E (\<lambda>f. Inr ((), f)) ?c4 = (Inr (), ?c4\<lparr>fc_tick := fc_tick ?c4 + 1\<rparr>)"
    using fsql_ok [OF assms(1), of "\<lambda>f. Inr ((), f)" ?c4] by simp
  have "se_ts_format E (se_now E (fc_tick c2)) \<noteq> None" using assms(1) unfolding can_migrate_def by blast
  then obtain s where "format_ts E (se_now E (fc_tick c2)) = Inr s" by (auto simp: format_ts_def)
  then have "versioned E (word_of_nat (b + 1)) (changes_of E b) c = (Inr (), ?c4\<lparr>fc_tick := fc_tick ?c4 + 1\<rparr>)"
    unfolding versioned_def ftransaction_def fbind_def begun prod.case sum.case c2 fclock_def flift_def
    by (simp only: rec commit prod.case sum.case fret_def)
  then show thesis by (rule that) (simp add: adv [simplified])
qed

text \<open>A file that can still be migrated.\<close>

definition migratable :: "'z migrate_env_scheme \<Rightarrow> nat \<Rightarrow> file_conn \<Rightarrow> bool" where
  "migratable E v c \<longleftrightarrow> good_file v (fc_file c) \<and> can_migrate E v (fc_file c)"

lemma events_advance_early: "v < 3 \<Longrightarrow> db_events (fl_db (advance E v f)) = db_events (fl_db f)"
  by (simp add: advance_def Let_def record_version_def)

lemma migratable_block:
  assumes "migratable E b c" "b < 4"
  obtains c' where "versioned E (word_of_nat (b + 1)) (changes_of E b) c = (Inr (), c')" "migratable E (b + 1) c'"
proof -
  have m: "can_migrate E b (fc_file c)" "good_file b (fc_file c)" using assms(1) by (simp_all add: migratable_def)
  from block_ok [OF m assms(2)] obtain c' where
    c': "versioned E (word_of_nat (b + 1)) (changes_of E b) c = (Inr (), c')" "fc_file c' = advance E b (fc_file c)" .
  have "can_migrate E (b + 1) (fc_file c')"
    by (rule can_migrate_same_events [OF m(1)]) (simp_all add: c'(2) events_advance_early)
  moreover have "good_file (b + 1) (fc_file c')" unfolding c'(2) by (rule good_file_advance [OF m(2) assms(2)])
  ultimately show thesis using c'(1) by (intro that) (simp_all only: migratable_def)
qed

lemma migratable_upgrade:
  assumes "migratable E w c" "b \<le> w" "b < 4"
  obtains c' w' where "upgrade E (word_of_nat b) (changes_of E b) c = (Inr (), c')" "migratable E w' c'" "b + 1 \<le> w'"
proof -
  have g: "good_file w (fc_file c)" "can_migrate E w (fc_file c)" using assms(1) by (simp_all add: migratable_def)
  then have w: "w \<le> 4" "file_at w (fc_file c)" by (simp_all add: good_file_def file_at_def)
  let ?c1 = "c\<lparr>fc_tick := fc_tick c + 1\<rparr>"
  have read: "fsql E read_version c = (Inr (word_of_nat w), ?c1)"
    using fsql_ok [OF g(2), of read_version c] file_version [OF w(2)] by (simp add: read_version_def)
  have m1: "migratable E w ?c1" using assms(1) by (simp add: migratable_def)
  have next_word: "word_of_nat (b + 1) = (word_of_nat b + 1 :: u32)" by simp
  have eq: "(word_of_nat w = (word_of_nat b :: u32)) = (w = b)" using version_eq_iff w assms(3) by simp
  show thesis
  proof (cases "w = b")
    case True
    from migratable_block [OF m1 [unfolded True] assms(3)] obtain c' where
      c': "versioned E (word_of_nat (b + 1)) (changes_of E b) ?c1 = (Inr (), c')" "migratable E (b + 1) c'" .
    then have "upgrade E (word_of_nat b) (changes_of E b) c = (Inr (), c')"
      unfolding upgrade_def fbind_def read prod.case sum.case next_word eq using True by simp
    then show thesis using c'(2) by (rule that) simp
  next
    case False
    then have "upgrade E (word_of_nat b) (changes_of E b) c = (Inr (), ?c1)"
      unfolding upgrade_def fbind_def read prod.case sum.case eq by (simp add: fret_def)
    then show thesis using m1 by (rule that) (use False assms(2) in simp)
  qed
qed

text \<open>How a migration ends.\<close>

lemma migrate_outcome:
  assumes "file_at v (fc_file c)" and "unique_on tevt_id (db_events (fl_db (fc_file c)))"
    and "migrate E c = (r, c')"
  shows "\<exists>w. v \<le> w \<and> w \<le> 4 \<and> file_at w (fc_file c') \<and>
    fl_db (fc_file c') = migrated_db E v w (fl_db (fc_file c)) \<and> (r = Inr () \<longrightarrow> w = 4)"
proof -
  let ?f = "fc_file c"
  let ?f1 = "if ''schema_migrations'' \<in> set (fl_objects ?f) then ?f
    else ?f\<lparr>fl_objects := fl_objects ?f @ [''schema_migrations'']\<rparr>"
  have v: "v \<le> 4" using assms(1) by (simp add: file_at_def)
  have same: "migrated_db E v v (fl_db ?f) = fl_db ?f" using assms(1) by (auto simp: migrated_db_def file_at_def)
  have good1: "good_file v ?f1" and db1: "fl_db ?f1 = fl_db ?f"
    using assms(1,2) by (auto simp: good_file_def file_at_def)
  have stopped: "file_at v g \<and> fl_db g = migrated_db E v v (fl_db ?f)" if "g = ?f \<or> g = ?f1" for g
    using that assms(1) good1 db1 same by (auto simp: good_file_def)
  obtain x c1 where x: "fsql E create_migrations_table c = (x, c1)" by fastforce
  show ?thesis
  proof (cases x)
    case (Inl e)
    with x assms(3) have "r = Inl e" "fc_file c' = ?f" by (auto simp: migrate_def fbind_iff fsql_iff)
    with stopped [of "fc_file c'"] v show ?thesis by auto
  next
    case (Inr u)
    with x have c1: "fc_file c1 = ?f1" by (auto simp: fsql_iff create_migrations_table_def)
    obtain y c2 where y: "fsql E read_version c1 = (y, c2)" by fastforce
    then have c2: "fc_file c2 = ?f1" using c1 by (auto simp: fsql_iff read_version_def)
    show ?thesis
    proof (cases y)
      case (Inl e)
      with x y Inr assms(3) have "r = Inl e" "c' = c2" by (auto simp: migrate_def fbind_iff)
      with stopped [of "fc_file c'"] c2 v show ?thesis by auto
    next
      case (Inr current)
      have "file_at v ?f1" using good1 by (simp add: good_file_def)
      with y Inr c1 have current: "current = word_of_nat v"
        using file_version [of v ?f1] by (auto simp: fsql_iff read_version_def)
      have zero: "(current = 0) = (v = 0)" using version_eq_iff [of v 0] v current by simp
      have "\<not> SCHEMA_VERSION < current"
        using v current unfolding less_4_cases by (elim insertE emptyE; simp add: SCHEMA_VERSION_def)
      with x y \<open>x = Inr u\<close> Inr assms(3) zero
      have run: "fbind (if v = 0 then versioned E (word_of_nat (0 + 1)) (changes_of E 0) else fret ()) (\<lambda>_.
         fbind (upgrade E 1 (create_objects E objects_v2)) (\<lambda>_. fbind (upgrade E 2 (fsql E add_step_column)) (\<lambda>_.
         upgrade E 3 (fbind (create_objects E objects_v4) (\<lambda>_. migrate_legacy_event_payloads E))))) c2 = (r, c')"
        by (cases "v = 0") (simp_all add: migrate_def fbind_iff [of "fsql E create_migrations_table"]
            fbind_iff [of "fsql E read_version"] changes_of_def)
      have "settles E v (fc_file c2) r (fc_file c')"
        using c2 good1 blocks_settle by (intro block_then [OF _ _ _ _ run]) auto
      then obtain w where w: "v \<le> w" "w \<le> 4" "fc_file c' = fold (advance E) [v..<w] ?f1" "r = Inr () \<longrightarrow> w = 4"
        unfolding settles_def c2 by blast
      have "file_at w (fc_file c')" "fl_db (fc_file c') = migrated_db E v w (fl_db ?f)"
        unfolding w(3) using fold_advance [OF good1 w(1,2), of E] by (simp_all only: good_file_def db1)
      with w show ?thesis by (intro exI [of _ w]) simp
    qed
  qed
qed

text \<open>C10: The migration is safe to interrupt and to repeat. Started on a file of any version up to the current one,
  it leaves a file of that or a later version, wherever a statement fails; no table loses a row or
  changes a value, except that the payloads of old synthetic events are tagged in the last version,
  all of them or none. When it succeeds the file has the current version.\<close>

theorem migration_safe:
  assumes "file_at v (fc_file c)" and "unique_on tevt_id (db_events (fl_db (fc_file c)))"
    and "migrate E c = (r, c')"
  shows "\<exists>w. v \<le> w \<and> w \<le> 4 \<and> file_at w (fc_file c') \<and>
    fl_db (fc_file c') = migrated_db E v w (fl_db (fc_file c)) \<and> (r = Inr () \<longrightarrow> w = 4)"
  using assms by (rule migrate_outcome)

text \<open>A file of a later version is refused, with its rows as they were.\<close>

lemma newer_version_refused:
  assumes "SCHEMA_VERSION < current_schema_version (fl_db (fc_file c))" and "migrate E c = (r, c')"
  shows "(\<exists>e. r = Inl e) \<and> fl_db (fc_file c') = fl_db (fc_file c)"
proof -
  obtain x c1 where x: "fsql E create_migrations_table c = (x, c1)" by fastforce
  then have c1: "fl_db (fc_file c1) = fl_db (fc_file c)" by (auto simp: fsql_iff create_migrations_table_def split: if_splits)
  obtain y c2 where y: "fsql E read_version c1 = (y, c2)" by fastforce
  then have c2: "fc_file c2 = fc_file c1" and "y = Inr n \<Longrightarrow> SCHEMA_VERSION < n" for n
    using c1 assms(1) by (auto simp: fsql_iff read_version_def)
  with x y c1 assms(2) show ?thesis
    by (cases x; cases y) (auto simp: migrate_def fbind_def flift_def)
qed

definition sample_members :: "(string \<times> json_value) list" where
  "sample_members = [(''counter'', JNumber ''1''), (''label'', JString ''a'')]"

definition sample_migrate_env :: migrate_env where
  "sample_migrate_env = store_env.extend sample_env (migrate_env.fields
     (\<lambda>s. if s = ''old'' then Some (JObject sample_members)
          else if s = ''oldc'' then Some (JObject [(''data'', JObject sample_members)]) else None)
     (\<lambda>j. if j = tagged sample_members then Some ''new'' else Some ''newc'')
     (\<lambda>_. True))"

definition sample_old_row :: event_row where
  "sample_old_row = \<lparr>tevt_id = ''u'', tevt_spec_version = ''1'',
     tevt_event_type = ''dev.fubun.dev.synthetic.v1'', tevt_source = ''s'', tevt_occurred_at = ''t'',
     tevt_received_at = ''t'', tevt_actor = ''user'', tevt_adapter_id = ''a'', tevt_adapter_version = ''1'',
     tevt_adapter_instance_id = ''i'', tevt_sequence_no = 1, tevt_context_json = None,
     tevt_privacy = ''local'', tevt_data_json = ''old'', tevt_canonical_json = ''oldc''\<rparr>"

definition sample_old_file :: file_conn where
  "sample_old_file = \<lparr>fc_file =
     \<lparr>fl_db = empty_db\<lparr>db_migrations := [1, 2, 3], db_events := [sample_old_row]\<rparr>,
      fl_objects = ''schema_migrations'' # objects_v1 @ objects_v2, fl_step_column = True\<rparr>, fc_tick = 0\<rparr>"

lemma sample_old_file_at: "file_at 3 (fc_file sample_old_file)"
  unfolding file_at_def by code_simp

lemma sample_old_file_unique: "unique_on tevt_id (db_events (fl_db (fc_file sample_old_file)))"
  by code_simp

theorem migration_safe_witness:
  "fl_db (fc_file (snd (migrate sample_migrate_env sample_old_file))) =
     migrated_db sample_migrate_env 3 4 (fl_db (fc_file sample_old_file)) \<and>
   map tevt_data_json (db_events (migrated_db sample_migrate_env 3 4 (fl_db (fc_file sample_old_file)))) = [''new'']"
proof -
  have "fst (migrate sample_migrate_env sample_old_file) = Inr ()" by code_simp
  moreover have "map tevt_data_json (db_events (migrated_db sample_migrate_env 3 4 (fl_db (fc_file sample_old_file)))) = [''new'']"
    by code_simp
  ultimately show ?thesis
    using migration_safe [OF sample_old_file_at sample_old_file_unique surjective_pairing, of sample_migrate_env] by auto
qed

text \<open>When a migration succeeds.\<close>

lemma migrate_completes:
  assumes "file_at v (fc_file c)" and "unique_on tevt_id (db_events (fl_db (fc_file c)))"
    and "can_migrate E v (fc_file c)"
  shows "fst (migrate E c) = Inr ()"
proof -
  let ?f = "fc_file c"
  let ?f1 = "if ''schema_migrations'' \<in> set (fl_objects ?f) then ?f
    else ?f\<lparr>fl_objects := fl_objects ?f @ [''schema_migrations'']\<rparr>"
  let ?c1 = "c\<lparr>fc_tick := fc_tick c + 1, fc_file := ?f1\<rparr>" and ?c2 = "c\<lparr>fc_tick := fc_tick c + 2, fc_file := ?f1\<rparr>"
  have v: "v \<le> 4" using assms(1) by (simp add: file_at_def)
  have db1: "fl_db ?f1 = fl_db ?f" by simp
  have good1: "good_file v ?f1" using assms(1,2) by (auto simp: good_file_def file_at_def)
  have can1: "can_migrate E v ?f1" using assms(3) by (rule can_migrate_same_events) (simp_all add: db1)
  have m2: "migratable E v ?c2" using good1 can1 by (simp add: migratable_def)
  have "fsql E create_migrations_table c = (Inr (), ?c1)"
    by (intro fsql_ok [OF assms(3)]) (simp add: create_migrations_table_def)
  moreover have "file_at v ?f1" using good1 by (simp only: good_file_def)
  then have "fsql E read_version ?c1 = (Inr (word_of_nat v), ?c2)"
    using fsql_ok [OF can1, of read_version ?c1] file_version [of v ?f1] by (simp add: read_version_def)
  moreover have zero: "((word_of_nat v :: u32) = 0) = (v = 0)" using version_eq_iff [of v 0] v by simp
  moreover have "\<not> SCHEMA_VERSION < word_of_nat v"
    using v unfolding less_4_cases by (elim insertE emptyE; simp add: SCHEMA_VERSION_def)
  moreover obtain c3 w where "(if v = 0 then versioned E 1 (create_objects E objects_v1) else fret ()) ?c2 = (Inr (), c3)"
    and w: "migratable E w c3" "1 \<le> w"
  proof (cases "v = 0")
    case True
    from migratable_block [OF m2 [unfolded True], OF zero_less_numeral] obtain c3 where
      "versioned E (word_of_nat (0 + 1)) (changes_of E 0) ?c2 = (Inr (), c3)" "migratable E (0 + 1) c3" .
    then show thesis by (intro that [of c3 1]) (simp_all add: True changes_of_def)
  next
    case False
    then show thesis using m2 by (intro that [of ?c2 v]) (simp_all add: fret_def)
  qed
  moreover obtain c4 w2 where "upgrade E 1 (create_objects E objects_v2) c3 = (Inr (), c4)"
    and w2: "migratable E w2 c4" "2 \<le> w2"
    by (rule migratable_upgrade [OF w]) (simp_all add: changes_of_def)
  moreover obtain c5 w3 where "upgrade E 2 (fsql E add_step_column) c4 = (Inr (), c5)"
    and w3: "migratable E w3 c5" "3 \<le> w3"
    by (rule migratable_upgrade [OF w2]) (simp_all add: changes_of_def)
  moreover obtain c6 where
    "upgrade E 3 (fbind (create_objects E objects_v4) (\<lambda>_. migrate_legacy_event_payloads E)) c5 = (Inr (), c6)"
    by (rule migratable_upgrade [OF w3]) (simp_all add: changes_of_def)
  ultimately show ?thesis unfolding migrate_def fbind_def by simp
qed

text \<open>C32: Where no statement fails, the time can be written and the old synthetic rows hold JSON, the migration of a
  file of any version up to the current one succeeds.\<close>

theorem migration_completes:
  assumes "file_at v (fc_file c)" and "unique_on tevt_id (db_events (fl_db (fc_file c)))"
    and "can_migrate E v (fc_file c)"
  shows "fst (migrate E c) = Inr ()"
  using assms by (rule migrate_completes)

lemma sample_can_migrate: "can_migrate sample_migrate_env 3 (fc_file sample_old_file)"
proof -
  have "list_all (\<lambda>(_, data, canonical). case normalize_row sample_migrate_env data canonical of Inl _ \<Rightarrow> False | Inr _ \<Rightarrow> True)
      (synthetic_rows (fl_db (fc_file sample_old_file)))" by code_simp
  then have "list_all (\<lambda>(_, data, canonical). \<exists>r. normalize_row sample_migrate_env data canonical = Inr r)
      (synthetic_rows (fl_db (fc_file sample_old_file)))"
    by (rule list.pred_mono_strong) (auto split: sum.splits, metis old.sum.exhaust)
  then show ?thesis
    by (simp add: can_migrate_def sample_migrate_env_def sample_env_def store_env.defs migrate_env.defs)
qed

theorem migration_completes_witness: "fst (migrate sample_migrate_env sample_old_file) = Inr ()"
  by (rule migration_completes [OF sample_old_file_at sample_old_file_unique sample_can_migrate])

text \<open>The storage opens where its calls succeed.\<close>

lemma storage_open_ok:
  assumes "file_at v (fc_file c)" "unique_on tevt_id (db_events (fl_db (fc_file c)))" "can_migrate E v (fc_file c)"
    and io: "\<And>n. mg_io_ok E n"
  shows "\<exists>conn c'. storage_open E to_text True c = (Inr conn, c')"
proof -
  have call: "file_call E x = (Inr (), x\<lparr>fc_tick := fc_tick x + 1\<rparr>)" for x by (simp add: file_call_def io)
  have set1: "fsql E setting x = (Inr (), x\<lparr>fc_tick := fc_tick x + 1\<rparr>)" for x
    using fsql_ok [OF assms(3), of setting x] by (simp add: setting_def)
  let ?c = "c\<lparr>fc_tick := fc_tick c + 8\<rparr>"
  have "fst (migrate E ?c) = Inr ()" using assms(1-3) by (intro migrate_completes) simp_all
  then obtain c' where "migrate E ?c = (Inr (), c')" by (cases "migrate E ?c") auto
  then show ?thesis
    by (simp add: storage_open_def initialize_connection_def prepare_database_path_def fbind_def call set1 eval_nat_numeral)
qed

end
