(* ===== verification/Fubun_Cli.thy ===== *)
theory Fubun_Cli
  imports Fubun_Host_Props
begin

text \<open>
  Model of \<open>apps/fubun-cli/src/main.rs\<close>: the command line client. The arguments are parsed by the derived parser
  of \<open>clap\<close>, so a command is given as the value it builds. The client connection is a function from a request to the
  result of \<open>FubunClient::request\<close>. Installing the native messaging host works on the files of
  \<open>Fubun_Paths\<close>, which the host reads later.
\<close>

section \<open>Results\<close>

text \<open>A call of the program's own code may also panic.\<close>

datatype 'a or_panic = Panics | Returns 'a

datatype cli_error =
    InvalidDuration string | UnexpectedResponse | CliJson | CliIo io_error | CliClient client_error | CliPath path_error

section \<open>Durations\<close>

text \<open>
  The crate \<open>time\<close>: a number of seconds from a number of units, and a point in time some seconds before
  another; both panic out of range.
\<close>

record time_env =
  te_seconds :: "int \<Rightarrow> int \<Rightarrow> int option"
  te_before :: "timestamp \<Rightarrow> int \<Rightarrow> timestamp option"

text \<open>\<open>str::parse::<i64>\<close>.\<close>

definition digit_value :: "char \<Rightarrow> int" where
  "digit_value c = int (byte_val c) - 48"

definition digits_value :: "string \<Rightarrow> int" where
  "digits_value s = foldl (\<lambda>n c. 10 * n + digit_value c) 0 s"

definition is_digits :: "string \<Rightarrow> bool" where
  "is_digits s = (s \<noteq> [] \<and> list_all (\<lambda>c. 48 \<le> byte_val c \<and> byte_val c \<le> 57) s)"

definition parse_i64 :: "string \<Rightarrow> int option" where
  "parse_i64 s =
     (let (negative, digits) = (case s of c # cs \<Rightarrow> if c = CHR ''-'' then (True, cs) else if c = CHR ''+'' then (False, cs)
            else (False, s) | [] \<Rightarrow> (False, s));
          n = (if negative then - digits_value digits else digits_value digits)
      in if is_digits digits \<and> - (2 ^ 63) \<le> n \<and> n < 2 ^ 63 then Some n else None)"

definition unit_seconds :: "string \<Rightarrow> int option" where
  "unit_seconds u =
     (if u = ''s'' then Some 1 else if u = ''m'' then Some 60 else if u = ''h'' then Some 3600
      else if u = ''d'' then Some 86400 else None)"

text \<open>
  \<open>split_at\<close> panics inside a character; the duration is built before the subtraction. A duration in seconds
  is built with no multiplication.
\<close>

definition parse_since :: "time_env \<Rightarrow> timestamp \<Rightarrow> string \<Rightarrow> (cli_error + timestamp) or_panic" where
  "parse_since T now input =
     (if length input < 2 then Returns (Inl (InvalidDuration input))
      else if is_continuation (last input) then Panics
      else (case Option.bind (parse_i64 (butlast input)) (\<lambda>v. if 0 < v then Some v else None) of
              None \<Rightarrow> Returns (Inl (InvalidDuration input))
            | Some value \<Rightarrow>
              (case unit_seconds [last input] of
                 None \<Rightarrow> Returns (Inl (InvalidDuration input))
               | Some factor \<Rightarrow>
                 (case (if factor = 1 then Some value else te_seconds T value factor) of
                    None \<Rightarrow> Panics
                  | Some duration \<Rightarrow>
                    (case te_before T now duration of None \<Rightarrow> Panics | Some t \<Rightarrow> Returns (Inr t))))))"

section \<open>Commands\<close>

datatype cli_command =
    CmdStatus
  | CmdEmitFixture
  | CmdEventsList "string option"
  | CmdDoctor
  | CmdResourceAddPath string string string     \<comment> \<open>label, path, sensitivity\<close>
  | CmdResourceList
  | CmdResourceShow uuid
  | CmdRitualValidate "string option" "string option"        \<comment> \<open>file, json\_file\<close>
  | CmdRitualCreate "string option" "string option"
  | CmdRitualUpdate uuid "string option" "string option"
  | CmdRitualList
  | CmdRitualShow uuid
  | CmdRitualPreview uuid
  | CmdRitualActivate uuid bool
  | CmdRitualPause uuid
  | CmdRitualRun uuid
  | CmdAdapterList
  | CmdAdapterStatus
  | CmdExecutionList
  | CmdExecutionShow uuid
  | CmdObservationsList "string option"
  | CmdObservationPause uuid
  | CmdIntegrationsStatus

text \<open>What is printed: a fixed text, a report, or a payload as JSON.\<close>

datatype cli_output =
    PrintValid | PrintStatus status_report | PrintStored uuid | PrintEvents "event list"
  | PrintDoctor doctor_report | PrintPayload response_payload

record cli_env =
  cl_time :: time_env
  cl_now :: timestamp
  cl_paths :: "path_error + fubun_paths"
  cl_connect :: "client_error + unit"
  cl_core :: "request_body \<Rightarrow> client_error + response_payload"
  cl_read :: "string \<Rightarrow> io_error + string"
  cl_definition :: "string \<Rightarrow> ritual_definition option"
  cl_fixture :: "event option"
  cl_pretty_ok :: "cli_output \<Rightarrow> bool"

definition read_definition_arg ::
    "cli_env \<Rightarrow> string option \<Rightarrow> string option \<Rightarrow> cli_error + ritual_definition" where
  "read_definition_arg C positional option =
     and_then (ok_or UnexpectedResponse (case option of Some p \<Rightarrow> Some p | None \<Rightarrow> positional)) (\<lambda>p.
     and_then (map_err CliIo (cl_read C p)) (\<lambda>bytes. ok_or CliJson (cl_definition C bytes)))"

definition sensitivity_arg :: "string \<Rightarrow> cli_error + sensitivity" where
  "sensitivity_arg s =
     (if s = ''normal'' then Inr SensNormal else if s = ''sensitive'' then Inr SensSensitive else Inl UnexpectedResponse)"

definition source_arg :: "string option \<Rightarrow> cli_error + observation_source option" where
  "source_arg source =
     (case source of None \<Rightarrow> Inr None
      | Some s \<Rightarrow> if s = ''browser.chromium'' then Inr (Some BrowserChromium)
          else if s = ''vscode.workspace'' then Inr (Some VscodeWorkspace) else Inl UnexpectedResponse)"

definition since_arg :: "cli_env \<Rightarrow> string option \<Rightarrow> (cli_error + timestamp option) or_panic" where
  "since_arg C since =
     (case since of None \<Rightarrow> Returns (Inr None)
      | Some s \<Rightarrow> (case parse_since (cl_time C) (cl_now C) s of Panics \<Rightarrow> Panics
          | Returns r \<Rightarrow> Returns (and_then r (\<lambda>t. Inr (Some t)))))"

text \<open>
  The request of a command; of the commands in \<open>checked_first\<close> it is built before the connection is made, of the
  others after it. A panic is a case of \<open>run_command\<close>.
\<close>

definition request_of :: "cli_env \<Rightarrow> cli_command \<Rightarrow> cli_error + request_body" where
  "request_of C c =
     (case c of
        CmdStatus \<Rightarrow> Inr SystemStatus
      | CmdEmitFixture \<Rightarrow> and_then (ok_or CliJson (cl_fixture C)) (\<lambda>e.
          and_then (map_err (\<lambda>_. UnexpectedResponse) (event_validate e)) (\<lambda>_. Inr (EventIngest e)))
      | CmdEventsList since \<Rightarrow>
          (case since_arg C since of Panics \<Rightarrow> Inl UnexpectedResponse
           | Returns r \<Rightarrow> and_then r (\<lambda>t. Inr (EventsList t 100)))
      | CmdDoctor \<Rightarrow> Inr SystemDoctor
      | CmdResourceAddPath label path sens \<Rightarrow> and_then (sensitivity_arg sens) (\<lambda>s.
          Inr (ResourceCreate \<lparr>rc_label = label, rc_path = path, rc_sensitivity = s\<rparr>))
      | CmdResourceList \<Rightarrow> Inr ResourceListReq
      | CmdResourceShow i \<Rightarrow> Inr (ResourceShow i)
      | CmdRitualValidate _ _ \<Rightarrow> Inl UnexpectedResponse
      | CmdRitualCreate f j \<Rightarrow> and_then (read_definition_arg C f j) (\<lambda>d. Inr (RitualCreate d))
      | CmdRitualUpdate i f j \<Rightarrow> and_then (read_definition_arg C f j) (\<lambda>d. Inr (RitualUpdate i d))
      | CmdRitualList \<Rightarrow> Inr RitualListReq
      | CmdRitualShow i \<Rightarrow> Inr (RitualShow i)
      | CmdRitualPreview i \<Rightarrow> Inr (RitualPreviewReq i)
      | CmdRitualActivate i approve \<Rightarrow> Inr (RitualActivate i approve)
      | CmdRitualPause i \<Rightarrow> Inr (RitualPause i)
      | CmdRitualRun i \<Rightarrow> Inr (RitualRun i)
      | CmdAdapterList \<Rightarrow> Inr AdapterListReq
      | CmdAdapterStatus \<Rightarrow> Inr AdapterStatusReq
      | CmdExecutionList \<Rightarrow> Inr ExecutionListReq
      | CmdExecutionShow i \<Rightarrow> Inr (ExecutionShow i)
      | CmdObservationsList source \<Rightarrow> and_then (source_arg source) (\<lambda>s. Inr (ObservationsList s))
      | CmdObservationPause i \<Rightarrow> Inr (ObservationPause i)
      | CmdIntegrationsStatus \<Rightarrow> Inr IntegrationsStatusReq)"

definition checked_first :: "cli_command \<Rightarrow> bool" where
  "checked_first c = (case c of CmdEmitFixture \<Rightarrow> True | CmdEventsList _ \<Rightarrow> True | CmdObservationsList _ \<Rightarrow> True | _ \<Rightarrow> False)"

text \<open>What a command makes of the answer: some expect one payload, the others print any.\<close>

definition output_of :: "cli_command \<Rightarrow> response_payload \<Rightarrow> cli_error + cli_output" where
  "output_of c p =
     (case c of
        CmdStatus \<Rightarrow> (case p of StatusPayload r \<Rightarrow> Inr (PrintStatus r) | _ \<Rightarrow> Inl (CliClient UnexpectedPayload))
      | CmdEmitFixture \<Rightarrow> (case p of EventIngested a \<Rightarrow> Inr (PrintStored (ack_event_id a)) | _ \<Rightarrow> Inl UnexpectedResponse)
      | CmdEventsList _ \<Rightarrow> (case p of EventList es \<Rightarrow> Inr (PrintEvents es) | _ \<Rightarrow> Inl UnexpectedResponse)
      | CmdDoctor \<Rightarrow> (case p of DoctorPayload r \<Rightarrow> Inr (PrintDoctor r) | _ \<Rightarrow> Inl UnexpectedResponse)
      | _ \<Rightarrow> Inr (PrintPayload p))"

definition printed :: "cli_env \<Rightarrow> cli_output \<Rightarrow> cli_error + cli_output" where
  "printed C o1 = (if cl_pretty_ok C o1 then Inr o1 else Inl CliJson)"

definition cli_panics :: "cli_env \<Rightarrow> cli_command \<Rightarrow> bool" where
  "cli_panics C c = (case c of CmdEventsList since \<Rightarrow> since_arg C since = Panics | _ \<Rightarrow> False)"

definition run_command :: "cli_env \<Rightarrow> cli_command \<Rightarrow> (cli_error + cli_output) or_panic" where
  "run_command C c =
     (case c of
        CmdRitualValidate f j \<Rightarrow>
          Returns (and_then (read_definition_arg C f j) (\<lambda>d.
            and_then (map_err (\<lambda>_. UnexpectedResponse) (ritual_validate d)) (\<lambda>_. Inr PrintValid)))
      | _ \<Rightarrow>
          if is_ok (cl_paths C) \<and> cli_panics C c then Panics
          else Returns
            (and_then (map_err CliPath (cl_paths C)) (\<lambda>_.
             let exchange = (\<lambda>body. and_then (map_err CliClient (cl_core C body)) (\<lambda>p. and_then (output_of c p) (printed C)))
             in if checked_first c
                then and_then (request_of C c) (\<lambda>body. and_then (map_err CliClient (cl_connect C)) (\<lambda>_. exchange body))
                else and_then (map_err CliClient (cl_connect C)) (\<lambda>_. and_then (request_of C c) exchange))))"

section \<open>Installing the native messaging host\<close>

record install_env =
  in_files :: files_env
  in_vars :: variables
  in_canonicalize :: "string \<Rightarrow> io_error + string"
  in_parse :: "string \<Rightarrow> json_value option"
  in_print :: "json_value \<Rightarrow> string option"

definition config_home_of :: "variables \<Rightarrow> string option" where
  "config_home_of vars = home_or vars ''XDG_CONFIG_HOME'' ''.config''"

definition native_host_paths :: "variables \<Rightarrow> string \<Rightarrow> cli_error + path_key \<times> path_key" where
  "native_host_paths vars browser =
     and_then (ok_or UnexpectedResponse (config_home_of vars)) (\<lambda>home.
     and_then (if browser = ''chrome'' then Inr (path_join home ''google-chrome/NativeMessagingHosts'')
               else if browser = ''chromium'' then Inr (path_join home ''chromium/NativeMessagingHosts'')
               else Inl UnexpectedResponse) (\<lambda>manifest_dir.
       Inr (path_key (host_config_path home), path_key (path_join manifest_dir ''dev.fubun.browser.json''))))"

definition validate_extension_id :: "string \<Rightarrow> cli_error + unit" where
  "validate_extension_id v = (if \<not> valid_extension_id v then Inl UnexpectedResponse else Inr ())"

definition atomic_private_write :: "files_env \<Rightarrow> path_key \<Rightarrow> string \<Rightarrow> (cli_error, unit) fio" where
  "atomic_private_write F k bytes =
     (let temporary = key_with_extension ''tmp'' k in
      io_map_err CliIo
        (io_bind (create_dir_all F (key_parent k)) (\<lambda>_.
         io_bind (write_file F temporary bytes) (\<lambda>_.
         io_bind (set_mode F temporary 384) (\<lambda>_.
         io_bind (rename_file F temporary k) (\<lambda>_. set_mode F k 384))))))"

text \<open>The ids of the configuration that is there: members of the array that are no strings are left out.\<close>

definition listed_ids :: "json_value \<Rightarrow> string list" where
  "listed_ids v =
     (case Option.bind (json_get ''allowed_extension_ids'' v) json_array of
        None \<Rightarrow> [] | Some vs \<Rightarrow> List.map_filter json_str vs)"

definition present_ids :: "install_env \<Rightarrow> path_key \<Rightarrow> (cli_error, string list) fio" where
  "present_ids I k =
     io_bind (file_exists (in_files I) k) (\<lambda>there.
     if \<not> there then io_ret []
     else io_bind (io_map_err CliIo (read_file (in_files I) k)) (\<lambda>bytes.
       io_bind (io_lift (ok_or CliJson (in_parse I bytes))) (\<lambda>v. io_ret (listed_ids v))))"

definition ids_with :: "string \<Rightarrow> string list \<Rightarrow> string list" where
  "ids_with i ids = sort (if i \<in> set ids then ids else ids @ [i])"

definition config_value :: "string list \<Rightarrow> json_value" where
  "config_value ids = json_object [(''allowed_extension_ids'', JArray (map JString ids))]"

definition manifest_value :: "string \<Rightarrow> string \<Rightarrow> json_value" where
  "manifest_value host_path extension_id =
     json_object [(''name'', JString ''dev.fubun.browser''), (''description'', JString ''Fubun browser integration''),
       (''path'', JString host_path), (''type'', JString ''stdio''),
       (''allowed_origins'', JArray [JString (''chrome-extension://'' @ extension_id @ ''/'')])]"

text \<open>\<open>create_dir_all\<close> and \<open>set_permissions\<close> of a directory.\<close>

definition private_directory :: "files_env \<Rightarrow> path_key \<Rightarrow> (cli_error, unit) fio" where
  "private_directory F k = io_map_err CliIo (io_bind (create_dir_all F k) (\<lambda>_. set_mode F k 448))"

definition install_native_host ::
    "install_env \<Rightarrow> string \<Rightarrow> string \<Rightarrow> string \<Rightarrow> (cli_error, unit) fio" where
  "install_native_host I browser extension_id host_arg =
     (let F = in_files I in
      io_bind (io_lift (validate_extension_id extension_id)) (\<lambda>_.
      io_bind (io_lift (map_err CliIo (in_canonicalize I host_arg))) (\<lambda>host_path.
      io_bind (io_map_err CliIo (file_metadata F (path_key host_path))) (\<lambda>m.
      if \<not> path_is_absolute host_path \<or> \<not> is_regular m \<or> nd_mode m AND 73 = 0 then io_err UnexpectedResponse
      else io_bind (io_lift (native_host_paths (in_vars I) browser)) (\<lambda>(config, manifest).
      io_bind (private_directory F (key_parent config)) (\<lambda>_.
      io_bind (present_ids I config) (\<lambda>ids.
      io_bind (io_lift (ok_or CliJson (in_print I (config_value (ids_with extension_id ids))))) (\<lambda>bytes.
      io_bind (atomic_private_write F config bytes) (\<lambda>_.
      io_bind (private_directory F (key_parent manifest)) (\<lambda>_.
      io_bind (io_lift (ok_or CliJson (in_print I (manifest_value host_path extension_id)))) (\<lambda>text.
        atomic_private_write F manifest text)))))))))))"

definition uninstall_native_host :: "install_env \<Rightarrow> string \<Rightarrow> (cli_error, unit) fio" where
  "uninstall_native_host I browser =
     (let F = in_files I; other = (if browser = ''chrome'' then ''chromium'' else ''chrome'') in
      io_bind (io_lift (native_host_paths (in_vars I) browser)) (\<lambda>(config, manifest).
      io_bind (file_exists F manifest) (\<lambda>there.
      io_bind (io_when there (io_map_err CliIo (remove_file F manifest))) (\<lambda>_.
      io_bind (io_lift (native_host_paths (in_vars I) other)) (\<lambda>(_, other_manifest).
      io_bind (file_exists F other_manifest) (\<lambda>other_there.
      io_bind (file_exists F config) (\<lambda>config_there.
        io_when (config_there \<and> \<not> other_there) (io_map_err CliIo (remove_file F config)))))))))"

text \<open>\<open>browser host status\<close>: the path of the configuration, and whether the two manifests exist.\<close>

definition browser_host_status :: "install_env \<Rightarrow> (cli_error, path_key \<times> bool \<times> bool) fio" where
  "browser_host_status I =
     io_bind (io_lift (native_host_paths (in_vars I) ''chrome'')) (\<lambda>(config, chrome).
     io_bind (io_lift (native_host_paths (in_vars I) ''chromium'')) (\<lambda>(_, chromium).
     io_bind (file_exists (in_files I) chrome) (\<lambda>a.
     io_bind (file_exists (in_files I) chromium) (\<lambda>b. io_ret (config, a, b)))))"

end
