(* ===== verification/Fubun_Cli_Props.thy ===== *)
theory Fubun_Cli_Props
  imports Fubun_Cli
begin

text \<open>
  What the command line client guarantees: how a duration is read, that the configuration of the native host is
  replaced as a whole, and that the host accepts an extension that was installed.
\<close>

section \<open>Durations\<close>

lemma byte_val_digit: "n < 10 \<Longrightarrow> byte_val (char_of (48 + n)) = 48 + n"
  by (simp add: byte_val_def)

lemma digits_value_snoc: "digits_value (s @ [c]) = 10 * digits_value s + digit_value c"
  by (simp add: digits_value_def)

lemma decimal_digits: "is_digits (decimal n) \<and> digits_value (decimal n) = int n"
proof (induction n rule: decimal.induct)
  case (1 n)
  show ?case
  proof (cases "n < 10")
    case True
    then show ?thesis
      by (simp add: decimal.simps [of n] is_digits_def digits_value_def digit_value_def byte_val_digit)
  next
    case False
    then have ih: "is_digits (decimal (n div 10))" "digits_value (decimal (n div 10)) = int (n div 10)" using 1 by simp_all
    have "n mod 10 < 10" by simp
    then have d: "byte_val (char_of (48 + n mod 10)) = 48 + n mod 10" by (rule byte_val_digit)
    have "decimal n = decimal (n div 10) @ [char_of (48 + n mod 10)]" using False by (subst decimal.simps) simp
    moreover have "int (n div 10) * 10 + int (n mod 10) = int n" using div_mult_mod_eq [of n 10] by linarith
    ultimately show ?thesis using ih d
      by (simp add: digits_value_snoc digit_value_def) (simp add: is_digits_def)
  qed
qed

lemma parse_i64_decimal:
  assumes "int n < 2 ^ 63"
  shows "parse_i64 (decimal n) = Some (int n)"
proof -
  have d: "is_digits (decimal n)" "digits_value (decimal n) = int n" using decimal_digits by auto
  then obtain c cs where c: "decimal n = c # cs" "48 \<le> byte_val c" "byte_val c \<le> 57"
    by (cases "decimal n") (auto simp: is_digits_def)
  then have "c \<noteq> CHR ''-''" "c \<noteq> CHR ''+''" by (auto simp: byte_val_def)
  with c(1) d assms show ?thesis by (simp add: parse_i64_def)
qed

lemma decimal_not_Nil [simp]: "decimal n \<noteq> []"
  using decimal_digits [of n] by (auto simp: is_digits_def)

section \<open>Files without faults\<close>

definition no_faults :: "files_env \<Rightarrow> bool" where
  "no_faults F \<longleftrightarrow> (\<forall>n. \<not> fse_fault F n)"

lemma io_bind_Inr: "io_bind m f s = (Inr b, s') \<longleftrightarrow> (\<exists>a s1. m s = (Inr a, s1) \<and> f a s1 = (Inr b, s'))"
  by (auto simp: io_bind_def split: prod.splits sum.splits)

lemma io_map_err_Inr [simp]: "io_map_err g m s = (Inr a, s') \<longleftrightarrow> m s = (Inr a, s')"
  by (auto simp: io_map_err_def split: prod.splits sum.splits)

lemma io_lift_Inr [simp]: "io_lift r s = (Inr a, s') \<longleftrightarrow> r = Inr a \<and> s' = s"
  by (auto simp: io_lift_def)

lemma io_ret_Inr [simp]: "io_ret x s = (Inr a, s') \<longleftrightarrow> a = x \<and> s' = s"
  by (auto simp: io_ret_def)

lemma io_err_Inr [simp]: "io_err e s \<noteq> (Inr a, s')"
  by (simp add: io_err_def)

lemma file_op_Inr:
  "file_op F f s = (Inr a, s') \<longleftrightarrow> \<not> fse_fault F (fs_tick s) \<and>
     (\<exists>n. f (fs_nodes s) = Inr (a, n) \<and> s' = s\<lparr>fs_tick := fs_tick s + 1, fs_nodes := n\<rparr>)"
  by (auto simp: file_op_def Let_def split: sum.splits)

text \<open>Existing nodes other than \<open>ks\<close> are kept.\<close>

definition keeps_but :: "path_key set \<Rightarrow> files \<Rightarrow> files \<Rightarrow> bool" where
  "keeps_but ks s s' \<longleftrightarrow> (\<forall>k x. k \<notin> ks \<longrightarrow> fs_nodes s k = Some x \<longrightarrow> fs_nodes s' k = Some x)"

lemma keeps_but_refl [simp]: "keeps_but ks s s"
  by (simp add: keeps_but_def)

lemma keeps_but_trans: "keeps_but ks s s1 \<Longrightarrow> keeps_but ks s1 s2 \<Longrightarrow> keeps_but ks s s2"
  by (simp add: keeps_but_def)

lemma keeps_but_mono: "keeps_but ks s s' \<Longrightarrow> ks \<subseteq> ls \<Longrightarrow> keeps_but ls s s'"
  unfolding keeps_but_def by blast

lemma keeps_butD: "keeps_but ks s s' \<Longrightarrow> fs_nodes s k = Some x \<Longrightarrow> k \<notin> ks \<Longrightarrow> fs_nodes s' k = Some x"
  unfolding keeps_but_def by blast

definition add_directory :: "node \<Rightarrow> path_key \<Rightarrow> (path_key \<rightharpoonup> node) \<Rightarrow> (path_key \<rightharpoonup> node)" where
  "add_directory v d n = (if n d = None then n(d \<mapsto> v) else n)"

lemma add_directory_keeps: "n k = Some x \<Longrightarrow> add_directory v d n k = Some x"
  by (auto simp: add_directory_def)

lemma add_directory_at: "add_directory v d n d = Some (case n d of None \<Rightarrow> v | Some x \<Rightarrow> x)"
  by (simp add: add_directory_def split: option.split)

lemma add_directory_other: "k \<noteq> d \<Longrightarrow> add_directory v d n k = n k"
  by (simp add: add_directory_def)

lemma create_dirs_keep: "n k = Some x \<Longrightarrow> fold (add_directory v) ds n k = Some x"
  by (induction ds arbitrary: n) (simp_all add: add_directory_keeps)

lemma create_dirs_made:
  "k \<in> set ds \<Longrightarrow> fold (add_directory v) ds n k = Some (case n k of None \<Rightarrow> v | Some x \<Rightarrow> x)"
proof (induction ds arbitrary: n)
  case (Cons d ds)
  show ?case
  proof (cases "k = d")
    case True
    then show ?thesis using create_dirs_keep [of "add_directory v d n" d _ v ds] by (simp add: add_directory_at)
  next
    case False
    with Cons show ?thesis by (simp add: add_directory_other)
  qed
qed simp

lemma create_dir_all_Inr:
  assumes "create_dir_all F k s = (Inr (), s')"
  shows "keeps_but {} s s' \<and> (\<exists>x. (snd k = [] \<or> fs_nodes s' k = Some x \<and> nd_kind x = Dir))"
proof -
  let ?v = "\<lparr>nd_kind = Dir, nd_mode = fse_dir_mode F\<rparr>"
  from assms have ok: "\<not> list_ex (\<lambda>d. fs_nodes s d \<noteq> None \<and> \<not> is_directory (fs_nodes s) d) (directories_to k)"
    and s': "fs_nodes s' = fold (add_directory ?v) (directories_to k) (fs_nodes s)"
    by (auto simp: create_dir_all_def file_op_Inr add_directory_def [abs_def] split: if_splits)
  have "keeps_but {} s s'"
    unfolding keeps_but_def s' by (auto intro: create_dirs_keep)
  moreover have "\<exists>x. fs_nodes s' k = Some x \<and> nd_kind x = Dir" if "snd k \<noteq> []"
  proof -
    have "k = (fst k, take (Suc (length (snd k) - 1)) (snd k))" using that by (cases k) simp
    then have mem: "k \<in> set (directories_to k)"
      using that by (auto simp: directories_to_def image_iff intro!: bexI [of _ "length (snd k) - 1"])
    then have "fs_nodes s k \<noteq> None \<Longrightarrow> is_directory (fs_nodes s) k" using ok by (auto simp: list_ex_iff)
    then have "nd_kind (case fs_nodes s k of None \<Rightarrow> ?v | Some x \<Rightarrow> x) = Dir"
      using that by (auto simp: is_directory_def split: option.splits)
    then show ?thesis using create_dirs_made [OF mem, of ?v "fs_nodes s"] s' by simp
  qed
  ultimately show ?thesis by blast
qed

lemma set_mode_Inr:
  "set_mode F k m s = (Inr (), s') \<Longrightarrow>
     \<exists>x. fs_nodes s k = Some x \<and> fs_nodes s' k = Some (x\<lparr>nd_mode := m\<rparr>) \<and> keeps_but {k} s s'"
  by (auto simp: set_mode_def file_op_Inr keeps_but_def split: option.splits)

lemma private_directory_Inr:
  assumes "private_directory F k s = (Inr (), s')" "snd k \<noteq> []"
  shows "keeps_but {k} s s' \<and> (\<exists>x. fs_nodes s' k = Some x \<and> nd_kind x = Dir \<and> nd_mode x = 448)"
proof -
  from assms(1) obtain s1 where 1: "create_dir_all F k s = (Inr (), s1)" "set_mode F k 448 s1 = (Inr (), s')"
    by (auto simp: private_directory_def io_bind_Inr)
  from create_dir_all_Inr [OF 1(1)] assms(2) obtain x where x: "keeps_but {} s s1" "fs_nodes s1 k = Some x" "nd_kind x = Dir"
    by blast
  from set_mode_Inr [OF 1(2)] x show ?thesis by (auto intro: keeps_but_trans keeps_but_mono)
qed

lemma put_bytes_Inr:
  "put_bytes F k b n = Inr ((), n') \<Longrightarrow> \<exists>x. n' = n(k \<mapsto> x) \<and> nd_kind x = Regular b"
  by (auto simp: put_bytes_def split: if_splits option.splits node_kind.splits)

lemma write_file_Inr:
  assumes "write_file F k b s = (Inr (), s')"
  shows "keeps_but {k} s s' \<and> (\<exists>x. fs_nodes s' k = Some x \<and> nd_kind x = Regular b)"
proof -
  from assms have "file_op F (put_bytes F k b) s = (Inr (), s')"
    by (auto simp: write_file_def split: bool.splits option.splits)
  then obtain n where "put_bytes F k b (fs_nodes s) = Inr ((), n)" "fs_nodes s' = n" by (auto simp: file_op_Inr)
  with put_bytes_Inr [OF this(1)] show ?thesis by (auto simp: keeps_but_def)
qed

lemma rename_file_Inr:
  "rename_file F a b s = (Inr (), s') \<Longrightarrow> \<exists>x. fs_nodes s a = Some x \<and> fs_nodes s' b = Some x \<and> keeps_but {a, b} s s'"
  by (auto simp: rename_file_def file_op_Inr keeps_but_def split: option.splits if_splits)

lemma atomic_private_write_Inr:
  assumes "atomic_private_write F k bytes s = (Inr (), s')"
  shows "keeps_but {k, key_with_extension ''tmp'' k} s s' \<and>
    (\<exists>x. fs_nodes s' k = Some x \<and> nd_kind x = Regular bytes \<and> nd_mode x = 384)"
proof -
  let ?t = "key_with_extension ''tmp'' k" let ?ks = "{k, ?t}"
  from assms obtain s1 s2 s3 s4 where
    1: "create_dir_all F (key_parent k) s = (Inr (), s1)" and 2: "write_file F ?t bytes s1 = (Inr (), s2)" and
    3: "set_mode F ?t 384 s2 = (Inr (), s3)" and 4: "rename_file F ?t k s3 = (Inr (), s4)" and
    5: "set_mode F k 384 s4 = (Inr (), s')"
    by (auto simp: atomic_private_write_def Let_def io_bind_Inr)
  have k1: "keeps_but ?ks s s1" using create_dir_all_Inr [OF 1] by (auto intro: keeps_but_mono)
  from write_file_Inr [OF 2] obtain x where x: "keeps_but ?ks s1 s2" "fs_nodes s2 ?t = Some x" "nd_kind x = Regular bytes"
    by (auto intro: keeps_but_mono)
  from set_mode_Inr [OF 3] x(2) have y: "fs_nodes s3 ?t = Some (x\<lparr>nd_mode := 384\<rparr>)" "keeps_but ?ks s2 s3"
    by (auto intro: keeps_but_mono)
  from rename_file_Inr [OF 4] y(1) have z: "fs_nodes s4 k = Some (x\<lparr>nd_mode := 384\<rparr>)" "keeps_but ?ks s3 s4"
    by (auto intro: keeps_but_mono)
  from set_mode_Inr [OF 5] z(1) have "fs_nodes s' k = Some (x\<lparr>nd_mode := 384\<rparr>)" "keeps_but ?ks s4 s'"
    by (auto intro: keeps_but_mono)
  then have "keeps_but ?ks s s'"
    using k1 x(1) y(2) z(2) by (blast intro: keeps_but_trans)
  with \<open>fs_nodes s' k = Some (x\<lparr>nd_mode := 384\<rparr>)\<close> x(3) show ?thesis by simp
qed

section \<open>Writes with faults\<close>

lemma io_bind_cases:
  assumes "io_bind m f s = (r, s')"
  obtains (failed) e where "m s = (Inl e, s')" "r = Inl e" | (moved) a s1 where "m s = (Inr a, s1)" "f a s1 = (r, s')"
  using assms by (auto simp: io_bind_def split: prod.splits sum.splits)

lemma file_op_Inl: "file_op F f s = (Inl e, s') \<Longrightarrow> fs_nodes s' = fs_nodes s"
  by (auto simp: file_op_def Let_def split: if_splits sum.splits)

lemma write_file_other:
  assumes "write_file F t b s = (r, s')" "k \<noteq> t"
  shows "fs_nodes s' k = fs_nodes s k"
proof -
  have put: "put_bytes F t c n = Inr (u, n') \<Longrightarrow> n' k = n k" for c n u n'
    using put_bytes_Inr [of F t c n n'] assms(2) by (cases u) auto
  have "file_op F (put_bytes F t b) s = (r, s') \<Longrightarrow> ?thesis"
    using put by (cases r) (auto simp: file_op_Inl file_op_Inr)
  with assms(1) put show ?thesis by (auto simp: write_file_def split: bool.splits option.splits sum.splits)
qed

lemma directories_to_shorter: "d \<in> set (directories_to (key_parent k)) \<Longrightarrow> length (snd d) < length (snd k)"
  by (auto simp: directories_to_def key_parent_def)

lemma create_dir_all_other:
  assumes "create_dir_all F d s = (r, s')" "q \<notin> set (directories_to d)"
  shows "fs_nodes s' q = fs_nodes s q"
proof (cases r)
  case (Inl e)
  with assms(1) show ?thesis by (simp add: create_dir_all_def file_op_Inl)
next
  case (Inr u)
  have "fold (add_directory v) ds n q = n q" if "q \<notin> set ds" for v ds n
    using that by (induction ds arbitrary: n) (auto simp: add_directory_other)
  moreover have "fs_nodes s' = fold (add_directory \<lparr>nd_kind = Dir, nd_mode = fse_dir_mode F\<rparr>) (directories_to d) (fs_nodes s)"
    using assms(1) Inr by (auto simp: create_dir_all_def file_op_Inr add_directory_def [abs_def] split: if_splits)
  ultimately show ?thesis using assms(2) by simp
qed

lemma create_parents_other: "create_dir_all F (key_parent k) s = (r, s') \<Longrightarrow> fs_nodes s' k = fs_nodes s k"
  using create_dir_all_other directories_to_shorter by blast

lemma set_mode_other: "set_mode F t m s = (r, s') \<Longrightarrow> k \<noteq> t \<Longrightarrow> fs_nodes s' k = fs_nodes s k"
  by (cases r) (auto simp: set_mode_def file_op_Inl file_op_Inr split: option.splits)

lemma private_directory_other:
  assumes "private_directory F d s = (Inr (), s')" "length (snd d) < length (snd q)"
  shows "fs_nodes s' q = fs_nodes s q"
proof -
  from assms(1) obtain s1 where s1: "create_dir_all F d s = (Inr (), s1)" "set_mode F d 448 s1 = (Inr (), s')"
    by (auto simp: private_directory_def io_bind_Inr)
  have "q \<notin> set (directories_to d)" using assms(2) by (auto simp: directories_to_def)
  then show ?thesis using create_dir_all_other [OF s1(1)] set_mode_other [OF s1(2), of q] assms(2) by auto
qed

section \<open>Installation\<close>

text \<open>The keys of the files below an absolute configuration directory.\<close>

lemma config_key:
  assumes "path_is_absolute home"
  shows "path_key (host_config_path home) = (True, snd (path_key home) @ [''fubun'', ''browser-native-host.json''])"
proof -
  have "snd (path_key ''fubun/browser-native-host.json'') = [''fubun'', ''browser-native-host.json'']" by code_simp
  then show ?thesis unfolding host_config_path_def
    by (subst path_key_join [OF assms]) (simp_all add: path_is_absolute_def)
qed

lemma manifest_key:
  assumes "path_is_absolute home" "native_host_paths vars browser = Inr (config, manifest)" "config_home_of vars = Some home"
  shows "config = path_key (host_config_path home) \<and>
    (\<exists>b. manifest = (True, snd (path_key home) @ [b, ''NativeMessagingHosts'', ''dev.fubun.browser.json'']))"
proof -
  have keys: "snd (path_key ''google-chrome/NativeMessagingHosts'') = [''google-chrome'', ''NativeMessagingHosts'']"
    "snd (path_key ''chromium/NativeMessagingHosts'') = [''chromium'', ''NativeMessagingHosts'']"
    "snd (path_key ''dev.fubun.browser.json'') = [''dev.fubun.browser.json'']" by code_simp+
  have dir: "path_key (path_join home q) = (True, snd (path_key home) @ snd (path_key q))"
    if "q \<in> {''google-chrome/NativeMessagingHosts'', ''chromium/NativeMessagingHosts''}" for q
    using that assms(1) by (subst path_key_join) (auto simp: path_is_absolute_def)
  have abs: "path_is_absolute (path_join home q)" for q using assms(1) by (rule path_join_absolute)
  have below: "path_key (path_join p ''dev.fubun.browser.json'') = (True, snd (path_key p) @ [''dev.fubun.browser.json''])"
    if "path_is_absolute p" for p
    using that keys(3) by (subst path_key_join) (simp_all add: path_is_absolute_def)
  from assms(2,3) show ?thesis
    using dir below [OF abs] keys by (auto simp: native_host_paths_def split: if_splits)
qed

lemma config_tmp: "key_with_extension ''tmp'' (True, xs @ [''fubun'', ''browser-native-host.json'']) =
    (True, xs @ [''fubun'', ''browser-native-host.tmp''])"
proof -
  have "fst (name_parts ''browser-native-host.json'') = ''browser-native-host''" by code_simp
  then show ?thesis by (simp add: key_with_extension_def butlast_append)
qed

text \<open>The ids the configuration of a file system lists.\<close>

definition config_ids :: "install_env \<Rightarrow> path_key \<Rightarrow> files \<Rightarrow> string list" where
  "config_ids I k s =
     (case fs_nodes s k of None \<Rightarrow> []
      | Some x \<Rightarrow> (case nd_kind x of
            Regular b \<Rightarrow> (case in_parse I b of None \<Rightarrow> [] | Some v \<Rightarrow> listed_ids v) | _ \<Rightarrow> []))"

lemma file_exists_Inr:
  "no_faults F \<Longrightarrow> file_exists F k s = (Inr b, s') \<longleftrightarrow> b = (fs_nodes s k \<noteq> None) \<and> s' = s\<lparr>fs_tick := fs_tick s + 1\<rparr>"
  by (auto simp: file_exists_def file_metadata_def file_op_def no_faults_def Let_def split: option.splits)

lemma present_ids_Inr:
  assumes "no_faults (in_files I)" "present_ids I k s = (Inr ids, s')"
  shows "ids = config_ids I k s \<and> fs_nodes s' = fs_nodes s"
proof (cases "fs_nodes s k")
  case None
  with assms show ?thesis by (auto simp: present_ids_def io_bind_Inr file_exists_Inr config_ids_def)
next
  case (Some x)
  with assms show ?thesis
    by (auto simp: present_ids_def io_bind_Inr file_exists_Inr config_ids_def read_file_def file_op_Inr split: node_kind.splits)
qed

text \<open>What an installation leaves behind.\<close>

lemma install_leaves:
  assumes "no_faults (in_files I)" "config_home_of (in_vars I) = Some home" "path_is_absolute home"
    and run: "install_native_host I browser i host_arg s = (Inr (), s')"
  defines "k \<equiv> path_key (host_config_path home)"
  shows "valid_extension_id i \<and>
    (\<exists>x. fs_nodes s' (key_parent k) = Some x \<and> nd_kind x = Dir \<and> nd_mode x = 448) \<and>
    (\<exists>y b. fs_nodes s' k = Some y \<and> nd_kind y = Regular b \<and> nd_mode y = 384 \<and>
       in_print I (config_value (ids_with i (config_ids I k s))) = Some b)"
proof -
  let ?F = "in_files I"
  from run obtain host_path m s1 config manifest s2 ids s3 bytes s4 s5 mtext where
    i: "valid_extension_id i" and "native_host_paths (in_vars I) browser = Inr (config, manifest)" and
    meta: "file_metadata ?F (path_key host_path) s = (Inr m, s1)" and
    "private_directory ?F (key_parent config) s1 = (Inr (), s2)" and
    "present_ids I config s2 = (Inr ids, s3)" and bytes: "in_print I (config_value (ids_with i ids)) = Some bytes" and
    "atomic_private_write ?F config bytes s3 = (Inr (), s4)" and
    mdir: "private_directory ?F (key_parent manifest) s4 = (Inr (), s5)" and
    mwrite: "atomic_private_write ?F manifest mtext s5 = (Inr (), s')"
    unfolding install_native_host_def Let_def io_bind_Inr
    by (clarsimp simp: validate_extension_id_def io_bind_Inr split: if_splits prod.splits)
  moreover from this have "config = k" using manifest_key [OF assms(3) _ assms(2)] by (simp add: k_def)
  ultimately have paths: "native_host_paths (in_vars I) browser = Inr (k, manifest)" and
    dir: "private_directory ?F (key_parent k) s1 = (Inr (), s2)" and ids: "present_ids I k s2 = (Inr ids, s3)" and
    config: "atomic_private_write ?F k bytes s3 = (Inr (), s4)" by simp_all
  let ?h = "snd (path_key home)"
  have k: "k = (True, ?h @ [''fubun'', ''browser-native-host.json''])" unfolding k_def by (rule config_key [OF assms(3)])
  obtain b where man: "manifest = (True, ?h @ [b, ''NativeMessagingHosts'', ''dev.fubun.browser.json''])"
    using manifest_key [OF assms(3) paths assms(2)] by blast
  have parents: "key_parent k = (True, ?h @ [''fubun''])" "key_parent manifest = (True, ?h @ [b, ''NativeMessagingHosts''])"
    by (simp_all add: k man key_parent_def butlast_append)
  have mtmp: "key_with_extension ''tmp'' (True, ?h @ [b, ''NativeMessagingHosts'', ''dev.fubun.browser.json'']) = (True, ?h @ [b, ''NativeMessagingHosts'', fst (name_parts ''dev.fubun.browser.json'') @ ''.tmp''])"
    by (simp add: key_with_extension_def butlast_append)
  have "fs_nodes s1 = fs_nodes s" using meta by (auto simp: file_metadata_def file_op_Inr split: option.splits)
  moreover have d: "keeps_but {key_parent k} s1 s2" "\<exists>x. fs_nodes s2 (key_parent k) = Some x \<and> nd_kind x = Dir \<and> nd_mode x = 448"
    using private_directory_Inr [OF dir] by (simp_all add: parents)
  moreover have "fs_nodes s2 k = fs_nodes s1 k"
    using dir by (rule private_directory_other) (simp add: key_parent_def k)
  ultimately have ids': "ids = config_ids I k s" "fs_nodes s3 = fs_nodes s2"
    using present_ids_Inr [OF assms(1) ids] by (simp_all add: config_ids_def)
  from atomic_private_write_Inr [OF config] obtain y where
    y: "keeps_but {k, key_with_extension ''tmp'' k} s3 s4" "fs_nodes s4 k = Some y" "nd_kind y = Regular bytes" "nd_mode y = 384"
    by blast
  have s5: "keeps_but {key_parent manifest} s4 s5" using private_directory_Inr [OF mdir] by (simp add: parents)
  have s': "keeps_but {manifest, key_with_extension ''tmp'' manifest} s5 s'" using atomic_private_write_Inr [OF mwrite] by blast
  obtain x where x: "fs_nodes s2 (key_parent k) = Some x" "nd_kind x = Dir" "nd_mode x = 448" using d(2) by blast
  have "fs_nodes s4 (key_parent k) = Some x"
    using x(1) ids'(2) by (intro keeps_butD [OF y(1)]) (simp_all add: key_parent_def butlast_append k config_tmp)
  then have "fs_nodes s5 (key_parent k) = Some x" by (rule keeps_butD [OF s5]) (simp add: key_parent_def butlast_append k man)
  then have p: "fs_nodes s' (key_parent k) = Some x" by (rule keeps_butD [OF s']) (simp add: key_parent_def butlast_append k mtmp man)
  have "fs_nodes s5 k = Some y" using y(2) by (rule keeps_butD [OF s5]) (simp add: key_parent_def butlast_append k man)
  then have "fs_nodes s' k = Some y" by (rule keeps_butD [OF s']) (simp add: k man mtmp)
  with p x y i bytes ids' show ?thesis by blast
qed

lemma valid_ids_with:
  assumes "valid_extension_id i" "list_all valid_extension_id ids" "distinct ids" "length (ids_with i ids) \<le> 32"
  shows "valid_allowed_ids (ids_with i ids) \<and> i \<in> set (ids_with i ids)"
proof -
  have "sort xs = [] \<longleftrightarrow> xs = []" for xs :: "string list" by (metis length_0_conv length_sort)
  then show ?thesis using assms by (auto simp: valid_allowed_ids_def ids_with_def list_all_iff split: if_splits)
qed

section \<open>Properties\<close>

text \<open>
  A step of a write, whether it fails or not: the file \<open>k\<close> is what it was or has the new bytes, and a step that
  succeeds leads from one condition to the next.
\<close>

definition io_triple :: "(files \<Rightarrow> bool) \<Rightarrow> ('e, 'a) fio \<Rightarrow> (files \<Rightarrow> bool) \<Rightarrow> (files \<Rightarrow> bool) \<Rightarrow> bool" where
  "io_triple P m Q E \<longleftrightarrow> (\<forall>s r s'. P s \<longrightarrow> m s = (r, s') \<longrightarrow> (case r of Inl e \<Rightarrow> E s' | Inr a \<Rightarrow> Q s'))"

lemma io_tripleI:
  "(\<And>s e s'. P s \<Longrightarrow> m s = (Inl e, s') \<Longrightarrow> E s') \<Longrightarrow> (\<And>s a s'. P s \<Longrightarrow> m s = (Inr a, s') \<Longrightarrow> Q s') \<Longrightarrow>
     io_triple P m Q E"
  unfolding io_triple_def by (auto split: sum.split)

lemma io_tripleD: "io_triple P m Q E \<Longrightarrow> P s \<Longrightarrow> m s = (r, s') \<Longrightarrow> (case r of Inl e \<Rightarrow> E s' | Inr a \<Rightarrow> Q s')"
  unfolding io_triple_def by blast

lemma io_triple_bind:
  assumes "io_triple P m R E" "\<And>a. io_triple R (f a) Q E"
  shows "io_triple P (io_bind m f) Q E"
proof -
  have "case r of Inl e \<Rightarrow> E s' | Inr b \<Rightarrow> Q s'" if "P s" "io_bind m f s = (r, s')" for s r s'
    using that(2)
  proof (cases rule: io_bind_cases)
    case (failed e)
    with io_tripleD [OF assms(1) that(1) failed(1)] show ?thesis by simp
  next
    case (moved a s1)
    with io_tripleD [OF assms(1) that(1) moved(1)] show ?thesis using io_tripleD [OF assms(2) _ moved(2)] by simp
  qed
  then show ?thesis unfolding io_triple_def by blast
qed

lemma private_write_triple:
  assumes k: "t \<noteq> k"
  shows "io_triple (\<lambda>s. fs_nodes s k = n)
    (io_bind (create_dir_all F (key_parent k)) (\<lambda>_. io_bind (write_file F t bytes) (\<lambda>_.
     io_bind (set_mode F t m) (\<lambda>_. io_bind (rename_file F t k) (\<lambda>_. set_mode F k m)))))
    (\<lambda>s. map_option nd_kind (fs_nodes s k) = Some (Regular bytes))
    (\<lambda>s. fs_nodes s k = n \<or> map_option nd_kind (fs_nodes s k) = Some (Regular bytes))"
proof -
  define old where "old = (\<lambda>s :: files. fs_nodes s k = n)"
  define new where "new = (\<lambda>s :: files. map_option nd_kind (fs_nodes s k) = Some (Regular bytes))"
  define ready where "ready = (\<lambda>s. old s \<and> map_option nd_kind (fs_nodes s t) = Some (Regular bytes))"
  define fin where "fin = (\<lambda>s. old s \<or> new s)"
  note defs = old_def new_def ready_def fin_def
  have 1: "io_triple old (create_dir_all F (key_parent k)) old fin"
    by (rule io_tripleI) (auto simp: defs dest: create_parents_other)
  have 2: "io_triple old (write_file F t bytes) ready fin"
  proof (rule io_tripleI)
    fix s e s' assume "old s" "write_file F t bytes s = (Inl e, s')"
    then show "fin s'" using write_file_other [of F t bytes s "Inl e" s' k] k by (simp add: defs)
  next
    fix s a s' assume "old s" "write_file F t bytes s = (Inr a, s')"
    then show "ready s'" using write_file_other [of F t bytes s "Inr ()" s' k] write_file_Inr [of F t bytes s s'] k
      by (auto simp: defs)
  qed
  have 3: "io_triple ready (set_mode F t m) ready fin"
  proof (rule io_tripleI)
    fix s e s' assume "ready s" "set_mode F t m s = (Inl e, s')"
    then show "fin s'" using set_mode_other [of F t m s "Inl e" s' k] k by (simp add: defs)
  next
    fix s a s' assume "ready s" "set_mode F t m s = (Inr a, s')"
    then show "ready s'" using set_mode_other [of F t m s "Inr ()" s' k] set_mode_Inr [of F t m s s'] k
      by (auto simp: defs)
  qed
  have 4: "io_triple ready (rename_file F t k) new fin"
    by (rule io_tripleI) (auto simp: defs rename_file_def file_op_Inl file_op_Inr split: option.splits if_splits)
  have 5: "io_triple new (set_mode F k m) new fin"
    by (rule io_tripleI) (auto simp: defs set_mode_def file_op_Inl file_op_Inr split: option.splits)
  show ?thesis
    using io_triple_bind [OF 1 io_triple_bind [OF 2 io_triple_bind [OF 3 io_triple_bind [OF 4 5]]]]
    by (simp only: old_def new_def fin_def)
qed

text \<open>C31: A file the client replaces is replaced as a whole: wherever a call fails, and whatever a failed write leaves
  behind, the file is what it was before or has all the new bytes. When the write succeeds the file has the new
  bytes and is private, and no other file but the temporary one beside it has changed.\<close>

theorem private_write_atomic:
  assumes "atomic_private_write F k bytes s = (r, s')" and "key_with_extension ''tmp'' k \<noteq> k"
  shows "(fs_nodes s' k = fs_nodes s k \<or> map_option nd_kind (fs_nodes s' k) = Some (Regular bytes)) \<and>
    (case r of Inl _ \<Rightarrow> True | Inr _ \<Rightarrow> map_option nd_kind (fs_nodes s' k) = Some (Regular bytes) \<and>
       map_option nd_mode (fs_nodes s' k) = Some 384 \<and> keeps_but {k, key_with_extension ''tmp'' k} s s')"
proof -
  let ?t = "key_with_extension ''tmp'' k"
  let ?new = "\<lambda>s. map_option nd_kind (fs_nodes s k) = Some (Regular bytes)"
  obtain x where x: "io_bind (create_dir_all F (key_parent k)) (\<lambda>_. io_bind (write_file F ?t bytes) (\<lambda>_.
     io_bind (set_mode F ?t 384) (\<lambda>_. io_bind (rename_file F ?t k) (\<lambda>_. set_mode F k 384)))) s = (x, s')"
    using assms(1) by (auto simp: atomic_private_write_def Let_def io_map_err_def split: prod.splits sum.splits)
  from io_tripleD [OF private_write_triple [OF assms(2)] refl x] have "fs_nodes s' k = fs_nodes s k \<or> ?new s'" by (cases x) auto
  then show ?thesis using atomic_private_write_Inr [of F k bytes s s'] assms(1) by (cases r) auto
qed


definition sample_files_env :: "(nat \<Rightarrow> bool) \<Rightarrow> files_env" where
  "sample_files_env fault = \<lparr>fse_fault = fault, fse_torn = (\<lambda>_. Some ''torn''), fse_file_mode = 420, fse_dir_mode = 493\<rparr>"

definition sample_config :: path_key where
  "sample_config = (True, [''d'', ''f.json''])"

definition sample_files :: files where
  "sample_files = \<lparr>fs_nodes = [sample_config \<mapsto> \<lparr>nd_kind = Regular ''old'', nd_mode = 384\<rparr>,
     (True, [''d'']) \<mapsto> \<lparr>nd_kind = Dir, nd_mode = 448\<rparr>, (True, [''h'']) \<mapsto> \<lparr>nd_kind = Regular ''host'', nd_mode = 73\<rparr>],
     fs_tick = 0\<rparr>"

theorem private_write_atomic_witness:
  "map_option nd_kind (fs_nodes (snd (atomic_private_write (sample_files_env (\<lambda>n. n = 1)) sample_config ''new'' sample_files)) sample_config) =
     Some (Regular ''old'') \<and>
   map_option nd_kind (fs_nodes (snd (atomic_private_write (sample_files_env (\<lambda>_. False)) sample_config ''new'' sample_files)) sample_config) =
     Some (Regular ''new'')"
proof -
  have t: "key_with_extension ''tmp'' sample_config \<noteq> sample_config" by code_simp
  note written = private_write_atomic [OF prod.collapse [symmetric] t]
  have "map_option nd_kind (fs_nodes (snd (atomic_private_write (sample_files_env (\<lambda>n. n = 1)) sample_config ''new'' sample_files)) sample_config) \<noteq>
      Some (Regular ''new'')" by code_simp
  moreover have "map_option nd_kind (fs_nodes sample_files sample_config) = Some (Regular ''old'')" by code_simp
  moreover have "is_ok (fst (atomic_private_write (sample_files_env (\<lambda>_. False)) sample_config ''new'' sample_files))" by code_simp
  ultimately show ?thesis
    using written [where F = "sample_files_env (\<lambda>n. n = 1)" and s = sample_files and bytes = "''new''"]
      written [where F = "sample_files_env (\<lambda>_. False)" and s = sample_files and bytes = "''new''"]
    by (auto simp: is_ok_iff)
qed

definition sample_id :: string where
  "sample_id = replicate 32 (CHR ''a'')"

definition sample_install_env :: install_env where
  "sample_install_env = \<lparr>in_files = sample_files_env (\<lambda>_. False),
     in_vars = (\<lambda>v. if v = ''XDG_CONFIG_HOME'' then Some ''/c'' else None),
     in_canonicalize = Inr, in_parse = (\<lambda>_. None),
     in_print = (\<lambda>v. if v = config_value [sample_id] then Some ''x'' else if v = manifest_value ''/h'' sample_id then Some ''m'' else None)\<rparr>"

definition sample_installed :: files where
  "sample_installed = snd (install_native_host sample_install_env ''chromium'' sample_id ''/h'' sample_files)"

lemma sample_install_runs:
  "install_native_host sample_install_env ''chromium'' sample_id ''/h'' sample_files = (Inr (), sample_installed)"
proof -
  have "fst (install_native_host sample_install_env ''chromium'' sample_id ''/h'' sample_files) = Inr ()" by code_simp
  then show ?thesis by (simp add: sample_installed_def prod_eq_iff)
qed


text \<open>A duration is read as its number times its unit, for every positive 64-bit number: the point in time is that
  long ago. The only other end is a panic, when the crate \<open>time\<close> cannot represent the duration or
  the point in time.\<close>

lemma since_reads_duration:
  assumes "0 < n" and "int n < 2 ^ 63" and "unit_seconds [u] = Some k"
  shows "parse_since T now (decimal n @ [u]) =
    (case (if k = 1 then Some (int n) else te_seconds T (int n) k) of None \<Rightarrow> Panics
     | Some d \<Rightarrow> (case te_before T now d of None \<Rightarrow> Panics | Some t \<Rightarrow> Returns (Inr t)))"
proof -
  have "u \<in> {CHR ''s'', CHR ''m'', CHR ''h'', CHR ''d''}" using assms(3) by (auto simp: unit_seconds_def split: if_splits)
  then have "\<not> is_continuation u" by (auto simp: is_continuation_def byte_val_def)
  then show ?thesis using assms parse_i64_decimal [OF assms(2)]
    by (cases "decimal n") (auto simp: parse_since_def)
qed

lemma since_reads_duration_witness:
  "parse_since \<lparr>te_seconds = (\<lambda>v k. Some (v * k)), te_before = (\<lambda>t d. Some (Timestamp (unix_ns t - d) 0))\<rparr>
     (Timestamp 10000 0) (decimal 2 @ ''h'') = Returns (Inr (Timestamp 2800 0))"
  using since_reads_duration [of 2 "CHR ''h''" 3600] by (simp add: unit_seconds_def)

text \<open>An argument whose last character has more than one byte makes the command panic.\<close>

lemma since_panics_inside_character: "parse_since T now [CHR ''1'', CHR 0xC3, CHR 0xA9] = Panics"
  by (simp add: parse_since_def is_continuation_def byte_val_def)

end
