(* ===== verification/Fubun_Lifecycle.thy ===== *)
theory Fubun_Lifecycle
  imports Fubun_Migrate Fubun_Cli_Props Fubun_Server Fubun_Store_Theorems
begin

text \<open>
  The start and the end of the daemon: \<open>start_server\<close>, \<open>serve\<close> and \<open>RunningServer\<close> of
  \<open>crates/fubun-core/src/lib.rs\<close> and the \<open>main\<close> of \<open>fubund\<close>. The start works on the files of
  \<open>Fubun_Paths\<close> and on the database file of \<open>Fubun_Migrate\<close>; \<open>serve\<close> is a step relation, whose
  connections are counted.
\<close>

section \<open>Start\<close>

record machine =
  mc_files :: files
  mc_db :: file_conn

record running_server =
  srv_paths :: fubun_paths
  srv_conn :: conn

definition core_io :: "io_error \<Rightarrow> core_error" where
  "core_io e = CoreIo"

definition prepare_socket_directory :: "files_env \<Rightarrow> string \<Rightarrow> (core_error, unit) fio" where
  "prepare_socket_directory F p =
     io_map_err core_io (io_bind (create_dir_all F (path_key p)) (\<lambda>_. set_mode F (path_key p) 448))"

definition remove_stale_socket :: "files_env \<Rightarrow> string \<Rightarrow> (core_error, unit) fio" where
  "remove_stale_socket F p s =
     (case file_metadata F (path_key p) s of
        (Inr m, s') \<Rightarrow>
          if nd_kind m = Socket then io_map_err core_io (remove_file F (path_key p)) s'
          else (Inl (SocketPathOccupied p), s')
      | (Inl NotFound, s') \<Rightarrow> (Inr (), s')
      | (Inl OtherIo, s') \<Rightarrow> (Inl CoreIo, s'))"

text \<open>\<open>UnixListener::bind\<close> creates the socket, and fails when there is anything at the path.\<close>

definition bind_socket :: "files_env \<Rightarrow> path_key \<Rightarrow> (io_error, unit) fio" where
  "bind_socket F k =
     file_op F (\<lambda>n. if n k \<noteq> None \<or> \<not> is_directory n (key_parent k) then Inl OtherIo
       else Inr ((), n(k \<mapsto> \<lparr>nd_kind = Socket, nd_mode = fse_dir_mode F\<rparr>)))"

definition listen_private :: "files_env \<Rightarrow> string \<Rightarrow> (core_error, unit) fio" where
  "listen_private F p =
     io_map_err core_io (io_bind (bind_socket F (path_key p)) (\<lambda>_. set_mode F (path_key p) 384))"

text \<open>The rows of a database file after a command that did not go through it.\<close>

definition store_rows :: "conn \<Rightarrow> file_conn \<Rightarrow> file_conn" where
  "store_rows c d = d\<lparr>fc_file := (fc_file d)\<lparr>fl_db := conn_db c\<rparr>, fc_tick := conn_tick c\<rparr>"

definition start_server ::
    "files_env \<Rightarrow> 'z migrate_env_scheme \<Rightarrow> (storage_error \<Rightarrow> string) \<Rightarrow> fubun_paths \<Rightarrow> machine \<Rightarrow>
     (core_error + running_server) \<times> machine" where
  "start_server F E to_text paths m =
     (case io_bind (prepare_socket_directory F (fp_runtime_directory paths))
             (\<lambda>_. remove_stale_socket F (fp_socket_path paths)) (mc_files m) of
        (Inl e, fs) \<Rightarrow> (Inl e, m\<lparr>mc_files := fs\<rparr>)
      | (Inr _, fs) \<Rightarrow>
        (case storage_open E to_text (snd (path_key (fp_database_path paths)) \<noteq> []) (mc_db m) of
           (Inl e, d) \<Rightarrow> (Inl (CoreStorage e), \<lparr>mc_files = fs, mc_db = d\<rparr>)
         | (Inr conn, d) \<Rightarrow>
           (case abort_running_executions E conn of
              (Inl e, conn') \<Rightarrow> (Inl (CoreStorage e), \<lparr>mc_files = fs, mc_db = store_rows conn' d\<rparr>)
            | (Inr _, conn') \<Rightarrow>
              (case listen_private F (fp_socket_path paths) fs of
                 (Inl e, fs') \<Rightarrow> (Inl e, \<lparr>mc_files = fs', mc_db = store_rows conn' d\<rparr>)
               | (Inr _, fs') \<Rightarrow>
                   (Inr \<lparr>srv_paths = paths, srv_conn = conn'\<rparr>, \<lparr>mc_files = fs', mc_db = store_rows conn' d\<rparr>)))))"

section \<open>Serving\<close>

text \<open>
  Where the task of \<open>serve\<close> is: in its loop, about to shut the adapters down, waiting for the connections,
  about to shut the storage down, about to remove the socket, or at its end.
\<close>

datatype serve_phase =
    Accepting | ClosingAdapters | JoiningConnections | ClosingStorage | RemovingSocket
  | Served "core_error + unit"

record serving =
  sv_phase :: serve_phase
  sv_connections :: nat
  sv_adapters :: adapter_manager
  sv_conn :: conn
  sv_files :: files

definition serve_begin :: "conn \<Rightarrow> files \<Rightarrow> serving" where
  "serve_begin conn fs = \<lparr>sv_phase = Accepting, sv_connections = 0, sv_adapters = empty_manager, sv_conn = conn, sv_files = fs\<rparr>"

definition remove_socket :: "files_env \<Rightarrow> path_key \<Rightarrow> (core_error, unit) fio" where
  "remove_socket F k s =
     (case remove_file F k s of
        (Inr _, s') \<Rightarrow> (Inr (), s') | (Inl NotFound, s') \<Rightarrow> (Inr (), s') | (Inl OtherIo, s') \<Rightarrow> (Inl CoreIo, s'))"

definition connections_run :: "serving \<Rightarrow> bool" where
  "connections_run s \<longleftrightarrow> 0 < sv_connections s \<and> sv_phase s \<in> {Accepting, ClosingAdapters, JoiningConnections}"

text \<open>
  The steps of \<open>serve\<close> and of its connections, which use the storage and the adapters as long as they run. An
  error of \<open>accept\<close> ends the task at once; the connections are dropped with it.
\<close>

inductive serve_step :: "files_env \<Rightarrow> 'z store_env_scheme \<Rightarrow> path_key \<Rightarrow> serving \<Rightarrow> serving \<Rightarrow> bool" for F E k where
  accepted: "sv_phase s = Accepting \<Longrightarrow> serve_step F E k s (s\<lparr>sv_connections := sv_connections s + 1\<rparr>)"
| accept_failed: "sv_phase s = Accepting \<Longrightarrow>
    serve_step F E k s (s\<lparr>sv_phase := Served (Inl CoreIo), sv_connections := 0\<rparr>)"
| signalled: "sv_phase s = Accepting \<Longrightarrow> serve_step F E k s (s\<lparr>sv_phase := ClosingAdapters\<rparr>)"
| adapters_closed: "sv_phase s = ClosingAdapters \<Longrightarrow>
    serve_step F E k s (s\<lparr>sv_phase := JoiningConnections, sv_adapters := snd (drain_pending (clear_connections (sv_adapters s)))\<rparr>)"
| worked: "connections_run s \<Longrightarrow>
    serve_step F E k s (s\<lparr>sv_conn := snd (writer_loop E ops (sv_conn s)), sv_adapters := m\<rparr>)"
| finished: "connections_run s \<Longrightarrow> serve_step F E k s (s\<lparr>sv_connections := sv_connections s - 1\<rparr>)"
| joined: "sv_phase s = JoiningConnections \<Longrightarrow> sv_connections s = 0 \<Longrightarrow>
    serve_step F E k s (s\<lparr>sv_phase := ClosingStorage\<rparr>)"
| storage_closed: "sv_phase s = ClosingStorage \<Longrightarrow> storage_shutdown (sv_conn s) = (r, c) \<Longrightarrow>
    serve_step F E k s (s\<lparr>sv_conn := c, sv_phase := (case r of Inl e \<Rightarrow> Served (Inl (CoreStorage e)) | Inr _ \<Rightarrow> RemovingSocket)\<rparr>)"
| socket_removed: "sv_phase s = RemovingSocket \<Longrightarrow> remove_socket F k (sv_files s) = (r, fs) \<Longrightarrow>
    serve_step F E k s (s\<lparr>sv_phase := Served r, sv_files := fs\<rparr>)"

text \<open>
  \<open>RunningServer\<close>: \<open>shutdown\<close> sends the signal and returns what the task returned; dropping it only sends the
  signal. The \<open>main\<close> of the daemon starts the server, waits for the interrupt and shuts down.
\<close>

definition server_shutdown :: "core_error + unit \<Rightarrow> core_error + unit" where
  "server_shutdown task_result = and_then task_result (\<lambda>_. Inr ())"

datatype daemon_error = DaemonPath path_error | DaemonCore core_error

definition fubund_main ::
    "files_env \<Rightarrow> 'z migrate_env_scheme \<Rightarrow> (storage_error \<Rightarrow> string) \<Rightarrow> variables \<Rightarrow>
     (running_server \<Rightarrow> machine \<Rightarrow> (core_error + unit) \<times> machine) \<Rightarrow> machine \<Rightarrow> (daemon_error + unit) \<times> machine" where
  "fubund_main F E to_text vars served m =
     (case discover vars of
        Inl e \<Rightarrow> (Inl (DaemonPath e), m)
      | Inr paths \<Rightarrow>
        (case start_server F E to_text paths m of
           (Inl e, m') \<Rightarrow> (Inl (DaemonCore e), m')
         | (Inr server, m') \<Rightarrow>
             (case served server m' of (r, m'') \<Rightarrow> (map_err DaemonCore (server_shutdown r), m''))))"

section \<open>Lemmas about the end\<close>

definition serve_inv :: "path_key \<Rightarrow> files \<Rightarrow> serving \<Rightarrow> bool" where
  "serve_inv k fs s \<longleftrightarrow>
     (case sv_phase s of
        ClosingStorage \<Rightarrow> sv_connections s = 0 \<and> fs_nodes (sv_files s) = fs_nodes fs
      | RemovingSocket \<Rightarrow> sv_connections s = 0 \<and> \<not> conn_open (sv_conn s) \<and> fs_nodes (sv_files s) = fs_nodes fs
      | Served (Inr _) \<Rightarrow> sv_connections s = 0 \<and> \<not> conn_open (sv_conn s) \<and> fs_nodes (sv_files s) k = None
      | Served (Inl _) \<Rightarrow> sv_connections s = 0
      | _ \<Rightarrow> fs_nodes (sv_files s) = fs_nodes fs)"

lemma remove_socket_Inr: "remove_socket F k s = (Inr (), s') \<Longrightarrow> fs_nodes s' k = None"
  by (auto simp: remove_socket_def remove_file_def file_op_def Let_def split: prod.splits sum.splits io_error.splits option.splits if_splits)

lemma storage_shutdown_closes: "storage_shutdown c = (Inr (), c') \<Longrightarrow> \<not> conn_open c'"
  by (auto simp: storage_shutdown_def split: if_splits)

lemma serve_inv_step:
  assumes "serve_step F E k s s'" "serve_inv k fs s"
  shows "serve_inv k fs s'"
  using assms
proof (cases rule: serve_step.cases)
  case (worked ops m)
  then show ?thesis using assms(2) by (auto simp: serve_inv_def connections_run_def)
next
  case finished
  then show ?thesis using assms(2) by (auto simp: serve_inv_def connections_run_def)
next
  case (storage_closed r c)
  then show ?thesis using assms(2) storage_shutdown_closes by (cases r) (auto simp: serve_inv_def)
next
  case (socket_removed r fs')
  then show ?thesis using assms(2) remove_socket_Inr by (cases r) (auto simp: serve_inv_def)
qed (use assms(2) in \<open>auto simp: serve_inv_def\<close>)

lemma serve_inv_run: "(serve_step F E k)\<^sup>*\<^sup>* s s' \<Longrightarrow> serve_inv k fs s \<Longrightarrow> serve_inv k fs s'"
  by (induction rule: rtranclp_induct) (auto intro: serve_inv_step)

text \<open>From every point the end can be reached, once the connections end.\<close>

abbreviation serve_steps :: "files_env \<Rightarrow> 'z store_env_scheme \<Rightarrow> path_key \<Rightarrow> serving \<Rightarrow> serving \<Rightarrow> bool" where
  "serve_steps F E k \<equiv> (serve_step F E k)\<^sup>*\<^sup>*"

definition can_end :: "files_env \<Rightarrow> 'z store_env_scheme \<Rightarrow> path_key \<Rightarrow> serving \<Rightarrow> bool" where
  "can_end F E k s \<longleftrightarrow> (\<exists>s' r. serve_steps F E k s s' \<and> sv_phase s' = Served r)"

lemma can_end_step: "serve_step F E k s s' \<Longrightarrow> can_end F E k s' \<Longrightarrow> can_end F E k s"
  unfolding can_end_def by (meson converse_rtranclp_into_rtranclp)

lemma can_end_served: "sv_phase s = Served r \<Longrightarrow> can_end F E k s"
  unfolding can_end_def by blast

lemma can_end_removing: "sv_phase s = RemovingSocket \<Longrightarrow> can_end F E k s"
proof -
  assume p: "sv_phase s = RemovingSocket"
  obtain r fs where "remove_socket F k (sv_files s) = (r, fs)" by fastforce
  from can_end_step [OF socket_removed [OF p this] can_end_served [of _ r]] show ?thesis by simp
qed

lemma can_end_storage: "sv_phase s = ClosingStorage \<Longrightarrow> can_end F E k s"
proof -
  assume p: "sv_phase s = ClosingStorage"
  obtain r c where r: "storage_shutdown (sv_conn s) = (r, c)" by fastforce
  show ?thesis
    by (rule can_end_step [OF storage_closed [OF p r]], cases r) (auto intro: can_end_served can_end_removing)
qed

lemma can_end_joining: "sv_phase s = JoiningConnections \<Longrightarrow> can_end F E k s"
proof (induction "sv_connections s" arbitrary: s)
  case 0
  have "can_end F E k (s\<lparr>sv_phase := ClosingStorage\<rparr>)" by (rule can_end_storage) simp
  then show ?case by (rule can_end_step [OF joined [OF 0(2) 0(1) [symmetric]]])
next
  case (Suc n)
  then have "connections_run s" by (simp add: connections_run_def)
  moreover have "can_end F E k (s\<lparr>sv_connections := sv_connections s - 1\<rparr>)" using Suc(2) Suc.prems by (intro Suc(1)) auto
  ultimately show ?case by (rule can_end_step [OF finished])
qed

lemma can_end_always: "can_end F E k s"
proof -
  have closing: "can_end F E k t" if "sv_phase t = ClosingAdapters" for t
    by (rule can_end_step [OF adapters_closed [OF that]], rule can_end_joining) simp
  show ?thesis
  proof (cases "sv_phase s")
    case Accepting
    then show ?thesis by (rule can_end_step [OF signalled], intro closing) simp
  qed (simp_all add: closing can_end_joining can_end_storage can_end_removing can_end_served)
qed

section \<open>Lemmas about the start\<close>

lemma prepare_socket_directory_Inr:
  "prepare_socket_directory F p s = (Inr (), s') \<Longrightarrow> snd (path_key p) \<noteq> [] \<Longrightarrow>
     \<exists>x. fs_nodes s' (path_key p) = Some x \<and> nd_kind x = Dir \<and> nd_mode x = 448"
  using private_directory_Inr [of F "path_key p" s s']
  by (auto simp: prepare_socket_directory_def private_directory_def)

lemma remove_stale_socket_Inr:
  assumes "remove_stale_socket F p s = (Inr (), s')"
  shows "(case fs_nodes s (path_key p) of None \<Rightarrow> True | Some x \<Rightarrow> nd_kind x = Socket) \<and> keeps_but {path_key p} s s'"
  using assms
  by (auto simp: remove_stale_socket_def file_metadata_def remove_file_def file_op_def Let_def keeps_but_def
      split: prod.splits sum.splits io_error.splits option.splits if_splits)

lemma listen_private_Inr:
  assumes "listen_private F p s = (Inr (), s')"
  shows "(\<exists>x. fs_nodes s' (path_key p) = Some x \<and> nd_kind x = Socket \<and> nd_mode x = 384) \<and> keeps_but {path_key p} s s'"
proof -
  from assms obtain s1 where s1: "bind_socket F (path_key p) s = (Inr (), s1)" "set_mode F (path_key p) 384 s1 = (Inr (), s')"
    by (auto simp: listen_private_def io_bind_Inr)
  from s1(1) have "keeps_but {path_key p} s s1"
    "\<exists>x. fs_nodes s1 (path_key p) = Some x \<and> nd_kind x = Socket"
    by (auto simp: bind_socket_def file_op_Inr keeps_but_def split: if_splits)
  with set_mode_Inr [OF s1(2)] show ?thesis by (auto intro: keeps_but_trans)
qed

text \<open>After a restart nothing is running.\<close>

lemma abort_running_none:
  assumes "abort_running_executions E c = (Inr (), c')"
  shows "list_all (\<lambda>x. texe_status x \<noteq> ''running'') (db_executions (conn_db c')) \<and> db_locks (conn_db c') = [] \<and>
    db_migrations (conn_db c') = db_migrations (conn_db c)"
proof -
  obtain t d1 d2 n1 n2 where a: "abort_executions t (conn_db c) = Inr (n1, d1)"
      "abort_steps t d1 = Inr (n2, d2)" "conn_db c' = d2\<lparr>db_locks := []\<rparr>"
    using assms by (rule abort_running_Inr)
  then show ?thesis
    by (auto simp: abort_executions_def abort_steps_def row_update_def list_all_iff)
qed

lemma storage_open_version:
  assumes "storage_open E to_text has_parent c = (Inr conn, c')"
    and "file_at v (fc_file c)" "unique_on tevt_id (db_events (fl_db (fc_file c)))"
  shows "db_migrations (conn_db conn) = [1, 2, 3, 4]"
proof -
  have same: "file_call E x = (r, y) \<Longrightarrow> fc_file y = fc_file x" "fsql E setting x = (q, y) \<Longrightarrow> fc_file y = fc_file x" for x y r q
    by (auto simp: file_call_def fsql_iff setting_def)
  from assms(1) obtain c1 c2 where c1: "prepare_database_path E has_parent c = (Inr (), c1)"
    and c2: "file_call E c1 = (Inr (), c2)"
    and rest: "(case initialize_connection E c2 of (Inl e, c') \<Rightarrow> (Inl (Startup (to_text e)), c')
      | (Inr _, c') \<Rightarrow> (Inr \<lparr>conn_db = fl_db (fc_file c'), conn_tick = fc_tick c', conn_open = True\<rparr>, c')) = (Inr conn, c')"
    by (auto simp: storage_open_def fbind_iff)
  obtain y d where y: "initialize_connection E c2 = (y, d)" by fastforce
  with rest have init: "initialize_connection E c2 = (Inr (), c')" and conn: "conn_db conn = fl_db (fc_file c')"
    by (cases y; auto)+
  have "fc_file c1 = fc_file c" using c1 same by (auto simp: prepare_database_path_def fbind_iff split: if_splits)
  then have f2: "fc_file c2 = fc_file c" using same(1) [OF c2] by simp
  from init obtain c3 where mig: "migrate E c3 = (Inr (), c')" and f3: "fc_file c3 = fc_file c2"
    by (auto simp: initialize_connection_def fbind_iff dest!: same)
  from migrate_outcome [OF _ _ mig, of v] assms(2,3) f2 f3 have "file_at 4 (fc_file c')" by auto
  then show ?thesis by (simp add: file_at_def conn)
qed

section \<open>Properties\<close>

text \<open>C17: When the server starts, its socket is new and private to the user, in a private directory; what was at its path
  before was nothing or a socket. The database has the current version, no execution is left
  running and no ritual locked, whatever the last daemon left behind.\<close>

theorem server_starts_clean:
  assumes "start_server F E to_text paths m = (Inr server, m')" and "from_xdg_roots r d = Inr paths"
    and "file_at v (fc_file (mc_db m))" and "unique_on tevt_id (db_events (fl_db (fc_file (mc_db m))))"
  shows "map_option nd_kind (fs_nodes (mc_files m') (path_key (fp_socket_path paths))) = Some Socket \<and>
    map_option nd_mode (fs_nodes (mc_files m') (path_key (fp_socket_path paths))) = Some 384 \<and>
    fs_nodes (mc_files m') (path_key (fp_runtime_directory paths)) \<in> {Some x |x. nd_kind x = Dir \<and> nd_mode x = 448} \<and>
    (case fs_nodes (mc_files m) (path_key (fp_socket_path paths)) of None \<Rightarrow> True | Some x \<Rightarrow> nd_kind x = Socket) \<and>
    db_migrations (conn_db (srv_conn server)) = [1, 2, 3, 4] \<and>
    list_all (\<lambda>x. texe_status x \<noteq> ''running'') (db_executions (conn_db (srv_conn server))) \<and>
    db_locks (conn_db (srv_conn server)) = []"
proof -
  let ?dir = "fp_runtime_directory paths" and ?sock = "fp_socket_path paths"
  from assms(1) obtain fs conn c conn' fs' where
    prep: "io_bind (prepare_socket_directory F ?dir) (\<lambda>_. remove_stale_socket F ?sock) (mc_files m) = (Inr (), fs)" and
    open1: "storage_open E to_text (snd (path_key (fp_database_path paths)) \<noteq> []) (mc_db m) = (Inr conn, c)" and
    abort1: "abort_running_executions E conn = (Inr (), conn')" and
    listen: "listen_private F ?sock fs = (Inr (), fs')" and
    res: "srv_conn server = conn'" "mc_files m' = fs'"
    unfolding start_server_def by (auto split: prod.splits sum.splits)
  from prep obtain s1 where s1: "prepare_socket_directory F ?dir (mc_files m) = (Inr (), s1)"
    "remove_stale_socket F ?sock s1 = (Inr (), fs)" by (auto simp: io_bind_Inr)
  from assms(2) have abs: "path_is_absolute r" and dir: "?dir = path_join r ''fubun''" "?sock = path_join ?dir ''core.sock''"
    by (auto simp: from_xdg_roots_Inr)
  have names: "snd (path_key ''fubun'') = [''fubun'']" "snd (path_key ''core.sock'') = [''core.sock'']" by code_simp+
  have kd: "path_key ?dir = (True, snd (path_key r) @ [''fubun''])"
    unfolding dir(1) using path_key_join [OF abs, of "''fubun''"] names by (simp add: path_is_absolute_def)
  have "path_is_absolute ?dir" unfolding dir(1) by (rule path_join_absolute [OF abs])
  then have ks: "path_key ?sock = (True, snd (path_key r) @ [''fubun'', ''core.sock''])"
    unfolding dir(2) using path_key_join [of ?dir "''core.sock''"] names kd by (simp add: path_is_absolute_def)
  obtain x where x: "fs_nodes s1 (path_key ?dir) = Some x" "nd_kind x = Dir" "nd_mode x = 448"
    using prepare_socket_directory_Inr [OF s1(1)] kd by auto
  have "keeps_but {path_key ?sock} s1 fs" "keeps_but {path_key ?sock} fs fs'"
    using remove_stale_socket_Inr [OF s1(2)] listen_private_Inr [OF listen] by blast+
  then have "keeps_but {path_key ?sock} s1 fs'" by (rule keeps_but_trans)
  then have d1: "fs_nodes fs' (path_key ?dir) = Some x"
    using x(1) by (rule keeps_butD) (simp add: kd ks)
  obtain s0 where "create_dir_all F (path_key ?dir) (mc_files m) = (Inr (), s0)" "set_mode F (path_key ?dir) 448 s0 = (Inr (), s1)"
    using s1(1) by (auto simp: prepare_socket_directory_def io_bind_Inr)
  then have "fs_nodes s1 (path_key ?sock) = fs_nodes (mc_files m) (path_key ?sock)"
    using private_directory_other [of F "path_key ?dir" "mc_files m" s1 "path_key ?sock"] kd ks
    by (simp add: private_directory_def io_bind_Inr)
  then have stale: "case fs_nodes (mc_files m) (path_key ?sock) of None \<Rightarrow> True | Some x \<Rightarrow> nd_kind x = Socket"
    using remove_stale_socket_Inr [OF s1(2)] by simp
  from listen_private_Inr [OF listen] obtain y where "fs_nodes fs' (path_key ?sock) = Some y" "nd_kind y = Socket" "nd_mode y = 384"
    by blast
  with d1 x stale abort_running_none [OF abort1] storage_open_version [OF open1 assms(3,4)] res show ?thesis by simp
qed

definition sample_machine :: machine where
  "sample_machine = \<lparr>mc_files = \<lparr>fs_nodes = [(True, [''r'']) \<mapsto> \<lparr>nd_kind = Dir, nd_mode = 448\<rparr>,
       (True, [''r'', ''fubun'']) \<mapsto> \<lparr>nd_kind = Dir, nd_mode = 493\<rparr>,
       (True, [''r'', ''fubun'', ''core.sock'']) \<mapsto> \<lparr>nd_kind = Socket, nd_mode = 384\<rparr>], fs_tick = 0\<rparr>,
     mc_db = sample_old_file\<rparr>"

definition sample_paths :: fubun_paths where
  "sample_paths = \<lparr>fp_runtime_directory = ''/r/fubun'', fp_socket_path = ''/r/fubun/core.sock'',
     fp_data_directory = ''/d/fubun'', fp_database_path = ''/d/fubun/fubun.db''\<rparr>"

definition sample_start :: "(core_error + running_server) \<times> machine" where
  "sample_start = start_server (sample_files_env (\<lambda>_. False)) sample_migrate_env (\<lambda>_. ''e'') sample_paths sample_machine"

lemma listen_private_ok:
  assumes "no_faults F" "fs_nodes s (path_key p) = None" "is_directory (fs_nodes s) (key_parent (path_key p))"
  shows "is_ok (fst (listen_private F p s))"
  using assms
  by (simp add: listen_private_def io_map_err_def io_bind_def bind_socket_def set_mode_def file_op_def no_faults_def Let_def)

lemma remove_stale_socket_gone: "remove_stale_socket F p s = (Inr (), s') \<Longrightarrow> fs_nodes s' (path_key p) = None"
  by (auto simp: remove_stale_socket_def file_metadata_def remove_file_def file_op_def Let_def
      split: prod.splits sum.splits io_error.splits option.splits if_splits)

lemma is_ok_fst_unit: "is_ok (fst r) \<Longrightarrow> \<exists>s. r = (Inr (), s)" for r :: "('e + unit) \<times> 's"
  by (cases r) (auto simp: is_ok_iff)

lemma sample_start_ok: "is_ok (fst sample_start)"
proof -
  let ?F = "sample_files_env (\<lambda>_. False)"
  let ?prep = "io_bind (prepare_socket_directory ?F ''/r/fubun'') (\<lambda>_. remove_stale_socket ?F ''/r/fubun/core.sock'') (mc_files sample_machine)"
  let ?open = "storage_open sample_migrate_env (\<lambda>_. ''e'') True sample_old_file"
  have "is_ok (fst ?prep)" by code_simp
  from is_ok_fst_unit [OF this] obtain fs where prep: "?prep = (Inr (), fs)" by blast
  then obtain s1 where s1: "prepare_socket_directory ?F ''/r/fubun'' (mc_files sample_machine) = (Inr (), s1)"
    "remove_stale_socket ?F ''/r/fubun/core.sock'' s1 = (Inr (), fs)"
    unfolding io_bind_Inr by auto
  have keys: "path_key ''/r/fubun'' = (True, [''r'', ''fubun''])" "path_key ''/r/fubun/core.sock'' = (True, [''r'', ''fubun'', ''core.sock''])"
    by code_simp+
  obtain x where "fs_nodes s1 (path_key ''/r/fubun'') = Some x" "nd_kind x = Dir"
    using prepare_socket_directory_Inr [OF s1(1)] keys by auto
  then have "fs_nodes fs (path_key ''/r/fubun'') = Some x"
    using remove_stale_socket_Inr [OF s1(2)] keys by (auto dest: keeps_butD)
  then have "is_directory (fs_nodes fs) (key_parent (path_key ''/r/fubun/core.sock''))"
    using \<open>nd_kind x = Dir\<close> keys by (simp add: is_directory_def key_parent_def)
  then have "is_ok (fst (listen_private ?F ''/r/fubun/core.sock'' fs))"
    using remove_stale_socket_gone [OF s1(2)]
    by (intro listen_private_ok) (simp_all add: no_faults_def sample_files_env_def)
  from is_ok_fst_unit [OF this] obtain fs' where listen: "listen_private ?F ''/r/fubun/core.sock'' fs = (Inr (), fs')"
    by blast
  have "mg_io_ok sample_migrate_env n" for n by (simp add: sample_migrate_env_def store_env.defs migrate_env.defs)
  from storage_open_ok [OF sample_old_file_at sample_old_file_unique sample_can_migrate this]
  obtain conn d where "?open = (Inr conn, d)" by blast
  moreover have "is_ok (fst (abort_running_executions sample_migrate_env conn))"
    by (simp add: abort_running_executions_def sbind_def sclock_def slift_def sql_def format_ts_def
        abort_executions_def abort_steps_def sret_def sample_migrate_env_def sample_env_def store_env.defs migrate_env.defs)
  from is_ok_fst_unit [OF this] obtain conn' where "abort_running_executions sample_migrate_env conn = (Inr (), conn')" by blast
  moreover have "snd (path_key ''/d/fubun/fubun.db'') \<noteq> []" by code_simp
  moreover have "mc_db sample_machine = sample_old_file" by (simp add: sample_machine_def)
  ultimately show ?thesis using prep listen by (simp add: sample_start_def start_server_def sample_paths_def)
qed

theorem server_starts_clean_witness:
  "\<exists>server m'. sample_start = (Inr server, m') \<and> db_migrations (conn_db (srv_conn server)) = [1, 2, 3, 4] \<and>
     map_option nd_kind (fs_nodes (mc_files m') (path_key ''/r/fubun/core.sock'')) = Some Socket"
proof -
  from sample_start_ok obtain server m' where run: "sample_start = (Inr server, m')"
    by (metis is_ok_iff prod.collapse)
  have roots: "from_xdg_roots ''/r'' ''/d'' = Inr sample_paths" by code_simp
  have "file_at 3 (fc_file (mc_db sample_machine))" "unique_on tevt_id (db_events (fl_db (fc_file (mc_db sample_machine))))"
    using sample_old_file_at sample_old_file_unique by (simp_all add: sample_machine_def)
  from server_starts_clean [OF run [unfolded sample_start_def] roots this] run show ?thesis
    by (intro exI [of _ server] exI [of _ m']) (simp add: sample_paths_def)
qed


definition sample_socket_key :: path_key where
  "sample_socket_key = path_key ''/r/fubun/core.sock''"


end
