(* ===== verification/Fubun_Cli_Daemon.thy ===== *)
theory Fubun_Cli_Daemon
  imports Fubun_Answers Fubun_Core_Samples Fubun_Cli
begin

text \<open>
  The command line client and the daemon together: what a client gets for a request, and that the client
  can read every answer of the daemon.
\<close>

section \<open>A request and its answer\<close>

text \<open>
  What a client gets for a request when its frames arrive: the daemon handles the request in the state \<open>s\<close>,
  and the client reads the response.
\<close>

definition daemon_core ::
    "('u, 'z) core_env_scheme \<Rightarrow> uuid \<Rightarrow> core_state \<Rightarrow> request_body \<Rightarrow> client_error + response_payload" where
  "daemon_core E i s body =
     client_request i (Inr ()) (Inr (Some (fst (process_request E (client_envelope i body) s))))"

lemma daemon_core_cases:
  obtains (served) p where "daemon_core E i s body = Inr p" "payload_fits body p"
  | (refused) code m where "daemon_core E i s body = Inl (Rejected code m)"
proof -
  let ?r = "fst (process_request E (client_envelope i body) s)"
  have "rsp_request_id ?r = i"
    using answers_process_request [of "client_envelope i body" E] by (simp add: answers_def client_envelope_def)
  moreover have "case rsp_body ?r of Ok p \<Rightarrow> payload_fits body p | Error e \<Rightarrow> True"
    using answers_process_request [of "client_envelope i body" E] by (simp add: answers_def client_envelope_def)
  ultimately show thesis
    using served refused by (auto simp: daemon_core_def client_request_def ok_or_def split: response_body.splits)
qed

lemma output_of_fitting:
  assumes "request_of C c = Inr body" "payload_fits body p"
  obtains out where "output_of c p = Inr out"
  using assms
  by (cases c) (auto simp: request_of_def output_of_def and_then_Inr_iff split: or_panic.splits
      elim: payload_fits_statusE payload_fits_doctorE payload_fits_ingestE payload_fits_eventsE)

lemma request_of_returns: "request_of C c = Inr body \<Longrightarrow> \<not> cli_panics C c"
  by (cases c) (auto simp: request_of_def cli_panics_def)

lemma run_command_exchange:
  assumes "request_of C c = Inr body" "is_ok (cl_paths C)" "is_ok (cl_connect C)"
  shows "run_command C c =
    Returns (and_then (map_err CliClient (cl_core C body)) (\<lambda>p. and_then (output_of c p) (printed C)))"
proof -
  have nv: "run_command C c = (if is_ok (cl_paths C) \<and> cli_panics C c then Panics
    else Returns (and_then (map_err CliPath (cl_paths C)) (\<lambda>_.
      let exchange = (\<lambda>body. and_then (map_err CliClient (cl_core C body)) (\<lambda>p. and_then (output_of c p) (printed C)))
      in if checked_first c
         then and_then (request_of C c) (\<lambda>body. and_then (map_err CliClient (cl_connect C)) (\<lambda>_. exchange body))
         else and_then (map_err CliClient (cl_connect C)) (\<lambda>_. and_then (request_of C c) exchange))))"
    using assms(1) by (cases c) (simp_all add: run_command_def request_of_def)
  from assms(2,3) obtain p u where "cl_paths C = Inr p" "cl_connect C = Inr u"
    by (cases "cl_paths C"; cases "cl_connect C") auto
  with assms(1) request_of_returns [OF assms(1)] show ?thesis by (simp add: nv Let_def)
qed



definition sample_client :: cli_env where
  "sample_client =
     \<lparr>cl_time = \<lparr>te_seconds = (\<lambda>_ _. None), te_before = (\<lambda>_ _. None)\<rparr>, cl_now = Timestamp 0 0,
      cl_paths = Inr \<lparr>fp_runtime_directory = ''/r'', fp_socket_path = ''/r/s'', fp_data_directory = ''/d'',
        fp_database_path = ''/d/db''\<rparr>, cl_connect = Inr (), cl_core = daemon_core sample_core_env 1 sample_state,
      cl_read = (\<lambda>_. Inl OtherIo), cl_definition = (\<lambda>_. None), cl_fixture = None, cl_pretty_ok = (\<lambda>_. True)\<rparr>"


end
