(* ===== verification/Fubun_Desktop.thy ===== *)
theory Fubun_Desktop
  imports Fubun_Core_Theorems Fubun_Linux_Props
begin

text \<open>
  The core and the Linux adapter together: which programs the adapter runs for the requests of a run, and what the
  user approved before.
\<close>

section \<open>Corresponding sublists\<close>

lemma list_all2_subseq:
  "list_all2 R xs ys \<Longrightarrow> subseq zs ys \<Longrightarrow> \<exists>ws. subseq ws xs \<and> list_all2 R ws zs"
proof (induction arbitrary: zs rule: list_all2_induct)
  case (Cons x xs y ys)
  from Cons.prems show ?case
  proof (cases rule: list_emb.cases)
    case list_emb_Cons
    then obtain ws where "subseq ws xs" "list_all2 R ws zs" using Cons.IH by blast
    then show ?thesis by (intro exI [of _ ws]) (simp add: list_emb.list_emb_Cons)
  next
    case (list_emb_Cons2 z ys')
    then obtain ws where "subseq ws xs" "list_all2 R ws ys'" using Cons.IH by blast
    with Cons.hyps list_emb_Cons2 show ?thesis by (intro exI [of _ "x # ws"]) auto
  qed auto
qed auto

lemma subseq_map_source:
  assumes "subseq ps (map f qs)"
  obtains qs' where "subseq qs' qs" "ps = map f qs'"
proof -
  have "list_all2 (\<lambda>q p. p = f q) qs (map f qs)" by (simp add: list.rel_map list.rel_refl)
  from list_all2_subseq [OF this assms] obtain qs' where "subseq qs' qs" "list_all2 (\<lambda>q p. p = f q) qs' ps" by blast
  moreover from this(2) have "ps = map f qs'" by (induction rule: list_all2_induct) auto
  ultimately show thesis using that by blast
qed

section \<open>The loop of the adapter\<close>

text \<open>A program run for a request, with the arguments this request permits.\<close>

definition run_for :: "linux_env \<Rightarrow> adapter_request_envelope \<Rightarrow> string \<times> string list \<times> exit_status \<Rightarrow> bool" where
  "run_for L q c \<longleftrightarrow> (\<exists>payload. arq_body q = ActionExecute payload \<and>
     permitted L (aer_action payload) (aer_resolved_resource payload) (fst c) (fst (snd c)))"

lemma serve_adapter_commands:
  "serve_adapter L qs s = (as, s') \<Longrightarrow>
     \<exists>ps cs. subseq ps qs \<and> list_all2 (run_for L) ps cs \<and> ls_commands s' = ls_commands s @ cs"
proof (induction qs arbitrary: s as)
  case Nil
  then show ?case by (intro exI [of _ "[]"]) (simp add: lret_def)
next
  case (Cons q qs)
  from Cons.prems obtain r s1 rs where r: "linux_handle_request L q s = (r, s1)" and rs: "serve_adapter L qs s1 = (rs, s')"
    by (auto simp: lbind_def lret_def split: prod.splits)
  from Cons.IH [OF rs] obtain ps cs where ps: "subseq ps qs" "list_all2 (run_for L) ps cs"
    "ls_commands s' = ls_commands s1 @ cs" by blast
  from linux_request_commands [OF r] show ?case
  proof (elim disjE exE conjE)
    assume "ls_commands s1 = ls_commands s"
    with ps show ?thesis by (intro exI [of _ ps] exI [of _ cs]) auto
  next
    fix payload exe args x
    assume "arq_body q = ActionExecute payload"
      "permitted L (aer_action payload) (aer_resolved_resource payload) exe args"
      "ls_commands s1 = ls_commands s @ [(exe, args, x)]"
    moreover from this have "run_for L q (exe, args, x)" by (simp add: run_for_def)
    ultimately show ?thesis using ps by (intro exI [of _ "q # ps"] exI [of _ "(exe, args, x) # cs"]) simp
  qed
qed

section \<open>The requests of a run\<close>

text \<open>The requests that reach one adapter, in order.\<close>

definition requests_to :: "uuid \<Rightarrow> (eligible_adapter \<times> adapter_request_envelope) list \<Rightarrow> adapter_request_envelope list" where
  "requests_to instance_id qs = map snd (filter (\<lambda>q. ea_instance_id (fst q) = instance_id) qs)"

text \<open>What an action may do to the desktop: a path is the canonical one of the resource in the database.\<close>

definition desktop_effect ::
    "('u, 'z) core_env_scheme \<Rightarrow> action_spec \<Rightarrow> string \<times> string list \<times> exit_status \<Rightarrow> bool" where
  "desktop_effect E a c \<longleftrightarrow>
     (case a of
        LinuxAppEnsureRunning app_id \<Rightarrow> fst c = ''gtk-launch'' \<and> fst (snd c) = [app_id]
      | LinuxPathOpen rid \<Rightarrow> fst c = ''xdg-open'' \<and>
          (\<exists>k r k'. handle_get_resource E rid k = (Inr r, k') \<and> fst (snd c) = [res_canonical_locator r])
      | DesktopNotificationShow title body \<Rightarrow> fst c = ''notify-send'' \<and> fst (snd c) = [title, body]
      | BrowserTabEnsureOpen _ \<Rightarrow> False)"

lemma request_effect:
  assumes "request_for E a q" "run_for L (snd q) c"
  shows "desktop_effect E a c"
proof -
  obtain resource t t' where res: "arq_body (snd q) = ActionExecute \<lparr>aer_action = a, aer_resolved_resource = resource\<rparr>"
    "resolve_resource E a t = (Inr resource, t')"
    using assms(1) unfolding request_for_def by blast
  then have "permitted L a resource (fst c) (fst (snd c))" using assms(2) by (simp add: run_for_def)
  then show ?thesis using res(2)
    by (cases a) (auto simp: permitted_def desktop_effect_def try_map_Inr_iff on_storage_iff, blast)
qed

lemma in_order_all2:
  assumes "in_order E as qs"
  shows "list_all2 (request_for E) (take (length qs) as) qs"
  using assms by (auto simp: in_order_def list_all2_conv_all_nth)

lemma served_effects:
  assumes "in_order E as qs" "serve_adapter L (requests_to i qs) l = (answers, l')"
  obtains as' cs where "subseq as' as" "list_all2 (desktop_effect E) as' cs" "ls_commands l' = ls_commands l @ cs"
proof -
  from serve_adapter_commands [OF assms(2)] obtain ps cs where
    ps: "subseq ps (requests_to i qs)" "list_all2 (run_for L) ps cs" "ls_commands l' = ls_commands l @ cs" by blast
  from ps(1) obtain qs' where qs': "subseq qs' (filter (\<lambda>q. ea_instance_id (fst q) = i) qs)" "ps = map snd qs'"
    unfolding requests_to_def by (rule subseq_map_source)
  then have "subseq qs' qs" by (meson subseq_filter_left subseq_order.order_trans)
  from list_all2_subseq [OF in_order_all2 [OF assms(1)] this] obtain as' where
    as': "subseq as' (take (length qs) as)" "list_all2 (request_for E) as' qs'" by blast
  have "list_all2 (\<lambda>q c. run_for L (snd q) c) qs' cs" using ps(2) qs'(2) by (simp add: list.rel_map)
  then have "list_all2 (desktop_effect E) as' cs"
    by (rule list_all2_trans [OF _ as'(2), rotated]) (rule request_effect)
  moreover have "subseq as' as" using as'(1) by (meson prefix_imp_subseq take_is_prefix subseq_order.order_trans)
  ultimately show thesis using ps(3) by (intro that)
qed

section \<open>Property\<close>


text \<open>The sample run sends its one request to the sample adapter, which opens the directory.\<close>

definition sample_desktop_env :: linux_env where
  "sample_desktop_env = sample_linux_env\<lparr>li_metadata := (\<lambda>n p. Some (if p = ''/d''
     then \<lparr>lm_is_file = False, lm_is_dir = True, lm_mode = 73, lm_uid = 1\<rparr>
     else \<lparr>lm_is_file = True, lm_is_dir = False, lm_mode = 73, lm_uid = 1\<rparr>))\<rparr>"

lemma sample_desktop_opens:
  assumes "arq_body q = ActionExecute \<lparr>aer_action = LinuxPathOpen 7, aer_resolved_resource =
      Some \<lparr>rr_resource_id = 7, rr_kind = Directory, rr_canonical_locator = ''/d''\<rparr>\<rparr>"
  shows "ls_commands (snd (serve_adapter sample_desktop_env [q] sample_linux_state)) = [(''xdg-open'', [''/d''], Exited True)]"
proof -
  have "linux_execute_action sample_desktop_env (LinuxPathOpen 7)
      (Some \<lparr>rr_resource_id = 7, rr_kind = Directory, rr_canonical_locator = ''/d''\<rparr>) sample_linux_state =
    (Inr \<lparr>ar_status = AdapterSucceeded, ar_result_code = ''opened'', ar_redacted_message = ''path open requested''\<rparr>,
     \<lparr>ls_tick = 5, ls_commands = [(''xdg-open'', [''/d''], Exited True)]\<rparr>)"
    by code_simp
  with assms show ?thesis by (simp add: linux_handle_request_def lbind_def lret_def)
qed


end
