(* ===== verification/Fubun_Dispatch.thy ===== *)
theory Fubun_Dispatch
  imports Fubun_Core_Samples
begin

text \<open>
  The two views of \<open>AdapterManager::execute\<close>. \<open>Fubun_Manager\<close> has it as a task among others, step by step;
  \<open>Fubun_Core\<close> has it as one call that looks at the manager at ticks. Here every return of the task is shown to
  be a return of the call.
\<close>

section \<open>What a task has seen\<close>

lemma manager_run_snoc:
  "manager_run E (es @ [ev]) w = Option.bind (manager_run E es w) (manager_step E ev)"
  by (induction es arbitrary: w) (auto split: bind_splits)

text \<open>
  After the first \<open>i\<close> events of a run the choice of an adapter gives \<open>sel\<close>; after \<open>j\<close> events, not fewer, the
  pending request can be inserted or not.
\<close>

definition looked ::
    "'z store_env_scheme \<Rightarrow> manager_event list \<Rightarrow> adapter_requirements \<Rightarrow> nat \<Rightarrow>
     eligibility_error + eligible_adapter \<times> uuid \<Rightarrow> bool" where
  "looked E es req i sel \<longleftrightarrow> i \<le> length es \<and>
     (\<exists>v. manager_run E (take i es) initial_world = Some v \<and> select_eligible E (mg_connections (w_manager v)) req = sel)"

definition tried ::
    "'z store_env_scheme \<Rightarrow> manager_event list \<Rightarrow> nat \<Rightarrow> nat \<Rightarrow> uuid \<Rightarrow> pending_request \<Rightarrow> bool \<Rightarrow> bool" where
  "tried E es i j rid p b \<longleftrightarrow> i \<le> j \<and> j \<le> length es \<and>
     (\<exists>v. manager_run E (take j es) initial_world = Some v \<and> (insert_pending_if_current rid p (w_manager v) \<noteq> None) = b)"

abbreviation pending_of :: "eligible_adapter \<Rightarrow> uuid \<Rightarrow> uuid \<Rightarrow> pending_request" where
  "pending_of a token aid \<equiv> \<lparr>pr_identity = a, pr_token = token, pr_action_execution_id = aid\<rparr>"

text \<open>What \<open>execute\<close> returns after the choice, given the insertion, the send and the wait.\<close>

definition outcome_of :: "eligible_adapter \<Rightarrow> bool \<Rightarrow> bool \<Rightarrow> dispatch_reply \<Rightarrow> dispatched_error + dispatched_result" where
  "outcome_of a inserted delivered reply =
     (if \<not> inserted \<or> \<not> delivered then Inl \<lparr>dae_identity = Some a, dae_kind = Disconnected\<rparr>
      else case reply of Replied r \<Rightarrow> dispatch_outcome a r
           | SenderDropped \<Rightarrow> Inl \<lparr>dae_identity = Some a, dae_kind = Disconnected\<rparr>
           | Elapsed \<Rightarrow> Inl \<lparr>dae_identity = Some a, dae_kind = Timeout\<rparr>)"

text \<open>A task in a phase has seen what leads to it.\<close>

definition asked ::
    "'z store_env_scheme \<Rightarrow> manager_event list \<Rightarrow> adapter_requirements \<Rightarrow> world \<Rightarrow> eligible_adapter \<Rightarrow> uuid \<Rightarrow> bool" where
  "asked E es req w a rid \<longleftrightarrow> (\<exists>i j token aid. looked E es req i (Inr (a, token)) \<and>
     tried E es i j rid (pending_of a token aid) True \<and> (rid, pending_of a token aid) \<in> set (w_issued w))"

definition returned ::
    "'z store_env_scheme \<Rightarrow> manager_event list \<Rightarrow> adapter_requirements \<Rightarrow> world \<Rightarrow>
     dispatched_error + dispatched_result \<Rightarrow> bool" where
  "returned E es req w out \<longleftrightarrow>
     (\<exists>i e. looked E es req i (Inl e) \<and> out = Inl (eligibility_dispatch_error e)) \<or>
     (\<exists>i j a token rid aid b d rep. looked E es req i (Inr (a, token)) \<and> tried E es i j rid (pending_of a token aid) b \<and>
        (b \<longrightarrow> (rid, pending_of a token aid) \<in> set (w_issued w)) \<and>
        (\<forall>r. rep = Replied r \<longrightarrow> (rid, r) \<in> set (w_settled w)) \<and> out = outcome_of a b d rep)"

fun explained ::
    "'z store_env_scheme \<Rightarrow> manager_event list \<Rightarrow> adapter_requirements \<Rightarrow> world \<Rightarrow> phase option \<Rightarrow> bool" where
  "explained E es req w None = False"
| "explained E es req w (Some (Starting q)) = (q = req)"
| "explained E es req w (Some (Chosen a token)) = (\<exists>i. looked E es req i (Inr (a, token)))"
| "explained E es req w (Some (Sending a rid)) = asked E es req w a rid"
| "explained E es req w (Some (Waiting a rid)) = asked E es req w a rid"
| "explained E es req w (Some (Finished out)) = returned E es req w out"
| "explained E es req w (Some Cancelled) = True"

section \<open>Steps\<close>

lemma looked_snoc: "looked E es req i sel \<Longrightarrow> looked E (es @ [ev]) req i sel"
  by (simp add: looked_def)

lemma tried_snoc: "tried E es i j rid p b \<Longrightarrow> tried E (es @ [ev]) i j rid p b"
  by (simp add: tried_def)

lemma looked_now:
  "manager_run E es initial_world = Some w \<Longrightarrow>
     looked E (es @ [ev]) req (length es) (select_eligible E (mg_connections (w_manager w)) req)"
  by (simp add: looked_def)

lemma tried_now:
  "manager_run E es initial_world = Some w \<Longrightarrow> looked E es req i sel \<Longrightarrow>
     tried E (es @ [ev]) i (length es) rid p (insert_pending_if_current rid p (w_manager w) \<noteq> None)"
  by (simp add: looked_def tried_def)

lemma explained_snoc:
  assumes "explained E es req w ph" "set (w_issued w) \<subseteq> set (w_issued w')" "set (w_settled w) \<subseteq> set (w_settled w')"
  shows "explained E (es @ [ev]) req w' ph"
proof (cases "(E, es, req, w, ph)" rule: explained.cases)
  case (3 E es req w a token)
  with assms show ?thesis by (auto intro: looked_snoc)
next
  case (4 E es req w a rid)
  with assms show ?thesis by (fastforce simp: asked_def intro: looked_snoc tried_snoc)
next
  case (5 E es req w a rid)
  with assms show ?thesis by (fastforce simp: asked_def intro: looked_snoc tried_snoc)
next
  case (6 E es req w out)
  with assms(1) have "returned E es req w out" by simp
  then consider (no) i e where "looked E es req i (Inl e)" "out = Inl (eligibility_dispatch_error e)"
    | (yes) i j a token rid aid b d rep where "looked E es req i (Inr (a, token))"
        "tried E es i j rid (pending_of a token aid) b"
        "b \<longrightarrow> (rid, pending_of a token aid) \<in> set (w_issued w)"
        "\<forall>r. rep = Replied r \<longrightarrow> (rid, r) \<in> set (w_settled w)" "out = outcome_of a b d rep"
    unfolding returned_def by blast
  then have "returned E (es @ [ev]) req w' out"
  proof cases
    case no
    then show ?thesis unfolding returned_def by (blast intro: looked_snoc)
  next
    case yes
    with assms(2,3) 6 show ?thesis unfolding returned_def by (blast intro: looked_snoc tried_snoc)
  qed
  with 6 show ?thesis by simp
qed (use assms in auto)

lemma manager_step_logs:
  assumes "manager_step E ev w = Some w'"
  shows "set (w_issued w) \<subseteq> set (w_issued w') \<and> set (w_settled w) \<subseteq> set (w_settled w')"
  using assms
  by (cases ev)
    (auto simp: settle_def set_phase_def Let_def split: sum.splits prod.splits if_splits option.splits phase.splits)

text \<open>The task an event is a step of.\<close>

fun mover :: "manager_event \<Rightarrow> nat option" where
  "mover (Begin t req) = Some t"
| "mover (Select t) = Some t"
| "mover (Insert t i j) = Some t"
| "mover (Send t b) = Some t"
| "mover (Receive t) = Some t"
| "mover (Elapse t) = Some t"
| "mover (Cancel t) = Some t"
| "mover _ = None"

lemma manager_step_other:
  assumes "manager_step E ev w = Some w'" "mover ev \<noteq> Some t"
  shows "w_tasks w' t = w_tasks w t"
  using assms
  by (cases ev)
    (auto simp: settle_def set_phase_def Let_def split: sum.splits prod.splits if_splits option.splits phase.splits)

lemma returned_failed:
  assumes "looked E es req i (Inr (a, token))" "tried E es i j rid (pending_of a token aid) b"
    "b \<longrightarrow> (rid, pending_of a token aid) \<in> set (w_issued w)"
    "\<forall>r. rep = Replied r \<longrightarrow> (rid, r) \<in> set (w_settled w)"
  shows "returned E es req w (outcome_of a b d rep)"
  using assms unfolding returned_def by blast

lemma asked_returned:
  assumes "asked E es req w a rid" "\<forall>r. rep = Replied r \<longrightarrow> (rid, r) \<in> set (w_settled w)"
  shows "returned E es req w (outcome_of a True d rep)"
  using assms unfolding asked_def by (blast intro: returned_failed)

text \<open>The step of the task itself keeps what its phase says.\<close>

lemma explained_move:
  assumes run: "manager_run E es initial_world = Some w" and step: "manager_step E ev w = Some w'"
    and t: "mover ev = Some t" and old: "explained E es req w (w_tasks w t)"
  shows "explained E (es @ [ev]) req w' (w_tasks w' t)"
proof -
  have keep: "explained E (es @ [ev]) req w' (w_tasks w t)"
    using explained_snoc [OF old] manager_step_logs [OF step] by blast
  show ?thesis
  proof (cases ev)
    case (Begin u q)
    with step t old show ?thesis by (simp split: if_splits)
  next
    case (Select u)
    with t step old looked_now [OF run, of ev req] show ?thesis
      by (fastforce simp: set_phase_def returned_def split: option.splits phase.splits sum.splits prod.splits)
  next
    case (Insert u rid aid)
    with t step obtain a token where ph: "w_tasks w t = Some (Chosen a token)" "rid \<notin> fst ` set (w_issued w)"
      by (auto split: option.splits phase.splits if_splits)
    with old obtain i where i: "looked E es req i (Inr (a, token))" by auto
    note now = looked_snoc [OF i, of ev] tried_now [OF run i, of ev rid "pending_of a token aid"]
    show ?thesis
    proof (cases "insert_pending_if_current rid (pending_of a token aid) (w_manager w)")
      case None
      with step ph Insert t have "w_tasks w' t = Some (Finished (outcome_of a False True Elapsed))"
        by (auto simp: set_phase_def outcome_of_def)
      with returned_failed [OF now(1), of "length es" rid aid False w' Elapsed True] now(2) None show ?thesis by simp
    next
      case (Some m)
      with step ph Insert t have "w_tasks w' t = Some (Sending a rid)" "(rid, pending_of a token aid) \<in> set (w_issued w')"
        by (auto simp: set_phase_def)
      with now Some show ?thesis by (fastforce simp: asked_def)
    qed
  next
    case (Send u d)
    with t step obtain a rid where ph: "w_tasks w t = Some (Sending a rid)"
      by (auto split: option.splits phase.splits)
    with keep have a: "asked E (es @ [ev]) req w' a rid" by simp
    have "w_tasks w' t = Some (if d then Waiting a rid else Finished (outcome_of a True False Elapsed))"
      using step ph Send t by (auto simp: set_phase_def outcome_of_def)
    with a asked_returned [OF a, of Elapsed False] show ?thesis by simp
  next
    case (Receive u)
    with t step obtain a rid where ph: "w_tasks w t = Some (Waiting a rid)"
      by (auto split: option.splits phase.splits)
    with keep have a: "asked E (es @ [ev]) req w' a rid" by simp
    show ?thesis
    proof (cases "map_of (w_settled w) rid")
      case None
      with step ph Receive t have "w_tasks w' t = Some (Finished (outcome_of a True True SenderDropped))"
        by (auto simp: set_phase_def outcome_of_def split: if_splits)
      with asked_returned [OF a, of SenderDropped True] show ?thesis by simp
    next
      case (Some r)
      with step ph Receive t have "w_tasks w' t = Some (Finished (outcome_of a True True (Replied r)))"
        "w_settled w' = w_settled w"
        by (auto simp: set_phase_def outcome_of_def)
      with asked_returned [OF a, of "Replied r" True] map_of_SomeD [OF Some] show ?thesis by simp
    qed
  next
    case (Elapse u)
    with t step obtain a rid where ph: "w_tasks w t = Some (Waiting a rid)"
      by (auto split: option.splits phase.splits)
    with keep have a: "asked E (es @ [ev]) req w' a rid" by simp
    have "w_tasks w' t = Some (Finished (outcome_of a True True Elapsed))"
      using step ph Elapse t by (auto simp: set_phase_def outcome_of_def)
    with asked_returned [OF a, of Elapsed True] show ?thesis by simp
  next
    case (Cancel u)
    with t step have "w_tasks w' t = Some Cancelled"
      by (auto simp: set_phase_def split: option.splits phase.splits)
    then show ?thesis by simp
  qed (use t in auto)
qed

lemma task_explained:
  assumes "manager_run E es initial_world = Some w" "Begin t req \<in> set es"
  shows "explained E es req w (w_tasks w t)"
  using assms
proof (induction es arbitrary: w rule: rev_induct)
  case Nil
  then show ?case by simp
next
  case (snoc ev es)
  then obtain v where v: "manager_run E es initial_world = Some v" "manager_step E ev v = Some w"
    by (auto simp: manager_run_snoc split: bind_splits)
  show ?case
  proof (cases "Begin t req \<in> set es")
    case True
    note old = snoc.IH [OF v(1) True]
    show ?thesis
    proof (cases "mover ev = Some t")
      case True
      from explained_move [OF v True old] show ?thesis .
    next
      case False
      with explained_snoc [OF old] manager_step_logs [OF v(2)] manager_step_other [OF v(2) False]
      show ?thesis by simp
    qed
  next
    case False
    with snoc.prems(2) v(2) show ?thesis by (auto simp: set_phase_def split: if_splits)
  qed
qed

section \<open>The call\<close>

text \<open>
  The environment \<open>E\<close> as a call at tick \<open>n\<close> sees it: the manager is \<open>m1\<close> at the choice and \<open>m2\<close> later, the two
  new ids are \<open>rid\<close> and \<open>aid\<close>.
\<close>

definition seen ::
    "('u, 'z) core_env_scheme \<Rightarrow> nat \<Rightarrow> adapter_manager \<Rightarrow> adapter_manager \<Rightarrow> uuid \<Rightarrow> uuid \<Rightarrow> bool \<Rightarrow> dispatch_reply \<Rightarrow>
     ('u, 'z) core_env_scheme" where
  "seen E n m1 m2 rid aid d rep =
     E\<lparr>ce_manager := (\<lambda>i. if i \<le> n then m1 else m2), ce_new_v4 := (\<lambda>i. if i \<le> n + 1 then rid else aid),
       ce_send_ok := (\<lambda>_. d), ce_reply := (\<lambda>_ _. rep)\<rparr>"

lemma select_eligible_cong: "se_uuid_text E = se_uuid_text C \<Longrightarrow> select_eligible E = select_eligible C"
  by (intro ext) (simp add: select_eligible_def)

lemma select_seen: "select_eligible (seen E n m1 m2 rid aid d rep) = select_eligible E"
  by (rule select_eligible_cong) (simp add: seen_def)

lemma execute_seen_refused:
  assumes "select_eligible E (mg_connections m1) (requirements_from_action action) = Inl e"
  shows "\<exists>s'. adapters_execute (seen E (conn_tick (cs_conn s)) m1 m2 rid aid d rep) action resolved timeout s =
      (Inl (eligibility_dispatch_error e), s') \<and> cs_sent s' = cs_sent s"
  using assms
  by (simp add: adapters_execute_def select_seen attempt_def ibind_def draw_def iret_def) (simp add: seen_def)

lemma execute_seen:
  assumes "select_eligible E (mg_connections m1) (requirements_from_action action) = Inr (a, token)"
    and "b = (insert_pending_if_current rid (pending_of a token aid) m2 \<noteq> None)"
  shows "\<exists>s'. adapters_execute (seen E (conn_tick (cs_conn s)) m1 m2 rid aid d rep) action resolved timeout s =
      (outcome_of a b d rep, s') \<and>
      cs_sent s' = cs_sent s @ (if b \<and> d then [(a, dispatch_envelope rid aid action resolved)] else [])"
proof -
  let ?C = "seen E (conn_tick (cs_conn s)) m1 m2 rid aid d rep"
  have "select_eligible ?C (mg_connections (ce_manager ?C (conn_tick (cs_conn s)))) (requirements_from_action action) = Inr (a, token)"
    using assms(1) by (simp add: select_seen) (simp add: seen_def)
  then show ?thesis using assms(2)
    by (simp add: adapters_execute_def attempt_def ibind_def draw_def iret_def log_sent_def new_v4_def Let_def
        outcome_of_def seen_def split: dispatch_reply.split)
qed

section \<open>Property\<close>

text \<open>C6: The call covers the task. Take any run of the manager with its tasks interleaved, and a task that has
  returned from the dispatch of an action. Then the call with which the handlers dispatch that action returns the same,
  in an environment whose looks at the manager are states of this run in their order, whose reply was
  settled in it for the request the call made, and every request it logs as sent was issued in the run for
  that adapter and action execution.\<close>

theorem dispatch_task_refines_call:
  fixes E :: "('u, 'z) core_env_scheme"
  assumes "manager_run E es initial_world = Some w" and "Begin t (requirements_from_action action) \<in> set es"
    and "w_tasks w t = Some (Finished out)"
  shows "\<exists>looks ids ok reply k s'.
    adapters_execute (E\<lparr>ce_manager := looks, ce_new_v4 := ids, ce_send_ok := ok, ce_reply := reply\<rparr>) action resolved timeout s = (out, s') \<and>
    mono k \<and>
    (\<forall>n. \<exists>v. manager_run E (take (k n) es) initial_world = Some v \<and> looks n = w_manager v) \<and>
    (\<forall>n r. reply n timeout = Replied r \<longrightarrow> (ids (conn_tick (cs_conn s) + 1), r) \<in> set (w_settled w)) \<and>
    (\<forall>q \<in> set (drop (length (cs_sent s)) (cs_sent s')). \<exists>p. (arq_request_id (snd q), p) \<in> set (w_issued w) \<and>
       pr_identity p = fst q \<and> pr_action_execution_id p = arq_action_execution_id (snd q))"
proof -
  let ?n = "conn_tick (cs_conn s)"
  have "returned E es (requirements_from_action action) w out"
    using task_explained [OF assms(1,2)] assms(3) by simp
  then consider (no) i e where "looked E es (requirements_from_action action) i (Inl e)" "out = Inl (eligibility_dispatch_error e)"
    | (yes) i j a token rid aid b d rep where "looked E es (requirements_from_action action) i (Inr (a, token))"
        "tried E es i j rid (pending_of a token aid) b"
        "b \<longrightarrow> (rid, pending_of a token aid) \<in> set (w_issued w)"
        "\<forall>r. rep = Replied r \<longrightarrow> (rid, r) \<in> set (w_settled w)" "out = outcome_of a b d rep"
    unfolding returned_def by blast
  then show ?thesis
  proof cases
    case no
    then obtain v where v: "manager_run E (take i es) initial_world = Some v"
        "select_eligible E (mg_connections (w_manager v)) (requirements_from_action action) = Inl e"
      by (auto simp: looked_def)
    let ?m = "w_manager v"
    from execute_seen_refused [OF v(2), of s ?m undefined undefined False Elapsed resolved timeout] obtain s' where
      "adapters_execute (seen E ?n ?m ?m undefined undefined False Elapsed) action resolved timeout s = (out, s')"
      "cs_sent s' = cs_sent s" using no(2) by auto
    with v(1) show ?thesis unfolding seen_def
      by (intro exI [of _ "\<lambda>n. if n \<le> ?n then ?m else ?m"] exI exI [of _ "\<lambda>_. False"] exI [of _ "\<lambda>_ _. Elapsed"]
          exI [of _ "\<lambda>_. i"] exI [of _ s'] conjI) (auto simp: monoI)
  next
    case yes
    from yes(1,2) obtain v u where v: "manager_run E (take i es) initial_world = Some v"
        "select_eligible E (mg_connections (w_manager v)) (requirements_from_action action) = Inr (a, token)"
      and u: "i \<le> j" "manager_run E (take j es) initial_world = Some u"
        "b = (insert_pending_if_current rid (pending_of a token aid) (w_manager u) \<noteq> None)"
      by (auto simp: looked_def tried_def)
    from execute_seen [OF v(2) u(3), of s d rep resolved timeout] yes(5) obtain s' where s':
      "adapters_execute (seen E ?n (w_manager v) (w_manager u) rid aid d rep) action resolved timeout s = (out, s')"
      "cs_sent s' = cs_sent s @ (if b \<and> d then [(a, dispatch_envelope rid aid action resolved)] else [])"
      by auto
    have mono: "mono (\<lambda>n. if n \<le> ?n then i else j)" using u(1) by (auto simp: mono_def)
    show ?thesis
      using s'(1) mono v(1) u(2) yes(3,4) s'(2) unfolding seen_def
      by (intro exI [of _ "\<lambda>n. if n \<le> ?n then w_manager v else w_manager u"] exI [of _ "\<lambda>n. if n \<le> ?n + 1 then rid else aid"]
          exI [of _ "\<lambda>_. d"] exI [of _ "\<lambda>_ _. rep"] exI [of _ "\<lambda>n. if n \<le> ?n then i else j"] exI [of _ s'])
        (auto simp: dispatch_envelope_def)
  qed
qed

theorem dispatch_task_refines_call_witness:
  "\<exists>looks ids ok reply s'.
    adapters_execute (sample_core_env\<lparr>ce_manager := looks, ce_new_v4 := ids, ce_send_ok := ok, ce_reply := reply\<rparr>)
        (BrowserTabEnsureOpen 3) None 5 sample_state =
      (Inr \<lparr>dar_identity = \<lparr>ea_adapter_id = BROWSER_ADAPTER_ID, ea_instance_id = 5\<rparr>,
        dar_result = \<lparr>ar_status = AdapterSucceeded, ar_result_code = ''ok'', ar_redacted_message = ''m''\<rparr>\<rparr>, s')"
    (is "\<exists>looks ids ok reply s'. adapters_execute _ _ _ _ _ = (?out, s')")
proof -
  let ?es = "sample_events @ [Respond sample_response, Receive 0]"
  have "map_option (\<lambda>w. w_tasks w 0) (manager_run sample_core_env ?es initial_world) = Some (Some (Finished ?out))"
    by code_simp
  then obtain w where w: "manager_run sample_core_env ?es initial_world = Some w" "w_tasks w 0 = Some (Finished ?out)"
    by auto
  moreover have "Begin 0 (requirements_from_action (BrowserTabEnsureOpen 3)) \<in> set ?es"
    by (simp add: sample_events_def)
  ultimately show ?thesis
    using dispatch_task_refines_call [of sample_core_env ?es w 0 "BrowserTabEnsureOpen 3" ?out None 5 sample_state]
    by metis
qed

end
