(* ===== verification/Spec2Isabelle.thy ===== *)
theory Spec2Isabelle
  imports Fubun_Store_Theorems Fubun_Core_Theorems Fubun_Ritual_Theorems
    Fubun_Server_Theorems Fubun_Host_Props Fubun_Linux_Props Fubun_Lifecycle Fubun_Cli_Daemon
    Fubun_Desktop Fubun_Dispatch
begin

text \<open>
  A verification library for fubun. The daemon \<open>fubund\<close> stores events of the user's desktop and runs
  rituals: short lists of actions (open a path or a page, start an application, show a notification)
  that the user has approved one by one. It performs no action itself. Adapters connect to its socket,
  announce what they can do, and receive one request per action; the command line client and the host of the
  browser extension are clients of the same socket.

    \<^item> \<open>crates/fubun-domain\<close>, \<open>crates/fubun-policy\<close> and \<open>crates/fubun-protocol\<close> are pure: the
      data and its validation, the registry of actions with the fields an approval binds, the
      envelopes and their framing.
    \<^item> \<open>crates/fubun-storage\<close> is one writer thread that owns a SQLite connection and takes commands from a queue.
    \<^item> \<open>crates/fubun-core\<close> has the adapter manager (\<open>adapter.rs\<close>), shared by all tasks under two
      locks, one task per connection that answers requests (\<open>lib.rs\<close>), and the paths (\<open>paths.rs\<close>).
    \<^item> \<open>apps/fubun-native-host\<close> and \<open>apps/fubun-linux-adapter\<close> are adapters, \<open>apps/fubun-cli\<close> is a
      client, \<open>apps/fubund\<close> starts the server.
\<close>

section \<open>The model\<close>

text \<open>
  Enums are datatypes with the constructors of the source, structs are records with a short prefix on the field
  names, machine integers are words of their width (an amount of nanoseconds and SQLite's INTEGER are
  \<open>int\<close>), a string is the list of its UTF-8 bytes, \<open>Result\<close> is a sum with the error on the left. A
  panic the code can reach is a value of its own (\<open>or_panic\<close>). Paths below are relative to \<open>src/\<close>.

    \<^item> \<open>Fubun_Prelude\<close>: the types, \<open>and_then\<close> and \<open>map_err\<close>, the string operations of the standard library
      the sources call, the locale \<open>text_codec\<close>, and lemmas the components share.
    \<^item> \<open>Fubun_Domain\<close>, \<open>Fubun_Policy\<close>, \<open>Fubun_Protocol\<close>: the three pure crates, function by function. A stream
      of frames is a byte string; \<open>read_all\<close> is the loop over it, which ends since every frame read
      shortens the string.
    \<^item> \<open>Fubun_Codec\<close>, \<open>Fubun_Tables\<close>, \<open>Fubun_Store\<close>: \<open>crates/fubun-storage/src/lib.rs\<close>. The state \<open>conn\<close>
      is the tables with their keys and constraints, a tick, and whether the writer still takes commands. A
      statement, a transaction and each function are state passing; \<open>execute_operation\<close> is the
      match over \<open>Operation\<close> and \<open>writer_loop\<close> the loop of the thread.
    \<^item> \<open>Fubun_Migrate\<close>: the opening of the database file, \<open>migrate\<close> and
      \<open>migrate_legacy_event_payloads\<close>, on a state that also holds the catalogue of the file.
    \<^item> \<open>Fubun_Handle\<close>: the methods of \<open>StorageHandle\<close>. The commands other tasks send first are an input.
    \<^item> \<open>Fubun_Adapter\<close>, \<open>Fubun_Manager\<close>: \<open>crates/fubun-core/src/adapter.rs\<close>. The map of connections is an
      association list whose order is the iteration order of the hash map. \<open>manager_step\<close> takes a label that
      says which task moves: register, disconnect, dispatch, send, answer, time out, be dropped, close. The handlers
      call the dispatch as one operation that looks at the manager at ticks (\<open>adapters_execute\<close> in \<open>Fubun_Core\<close>);
      \<open>Fubun_Dispatch\<close> relates the two.
    \<^item> \<open>Fubun_Core\<close>, \<open>Fubun_Observe\<close>, \<open>Fubun_Rituals\<close>, \<open>Fubun_Execute\<close>, \<open>Fubun_Server\<close>: the handlers of
      \<open>crates/fubun-core/src/lib.rs\<close>. The state \<open>core_state\<close> of a task is the storage and the list of requests
      sent to adapters. \<open>process_request\<close> is the dispatcher, \<open>handle_connection\<close> and
      \<open>handle_adapter_connection\<close> are the loops over the frames of a connection.
    \<^item> \<open>Fubun_Json\<close>, \<open>Fubun_Paths\<close>: the values of \<open>serde_json\<close> that code builds by hand;
      \<open>crates/fubun-core/src/paths.rs\<close>, with the files the programs read and write.
    \<^item> \<open>Fubun_Lifecycle\<close>: \<open>start_server\<close>, \<open>serve\<close> as the inductive relation \<open>serve_step\<close>, the shutdown, and
      \<open>apps/fubund/src/main.rs\<close>.
    \<^item> \<open>Fubun_Host\<close>: \<open>apps/fubun-native-host/src/main.rs\<close>. The state \<open>host\<close> has the table of
      waiting acknowledgements, the event tasks with the point each has reached, and the
      output queues; \<open>host_step\<close> runs one task from one await to the next.
    \<^item> \<open>Fubun_Linux\<close>: \<open>apps/fubun-linux-adapter/src/main.rs\<close>, with the programs it ran as part of the state.
    \<^item> \<open>Fubun_Cli\<close>: \<open>apps/fubun-cli/src/main.rs\<close>, from the parsed arguments to the value that is printed, and
      the installation of the native host.
\<close>

section \<open>What lies outside\<close>

text \<open>
  Code outside the repository is an argument of the definitions. The records \<open>store_env\<close>,
  \<open>migrate_env\<close>, \<open>handle_env\<close>, \<open>core_env\<close>, \<open>server_env\<close>, \<open>host_env\<close>, \<open>linux_env\<close>, \<open>files_env\<close>, \<open>time_env\<close>, \<open>cli_env\<close>
  and \<open>install_env\<close> hold the crates \<open>uuid\<close>, \<open>time\<close>, \<open>url\<close>, \<open>sha2\<close>, \<open>serde_json\<close> and \<open>rusqlite\<close> as far as they are
  called, the clock, the file system and the other processes. Whatever may change between two calls is a
  function of a tick that every call advances, and so every theorem holds for any behaviour of it: a statement of
  SQLite may fail at any tick, a call on a file may fail and leave torn bytes, an adapter may come and go between two
  looks at the registry, another task may send any commands to the writer first. The predicates \<open>store_env_laws\<close>
  and \<open>url_lib_laws\<close> state what is documented of the crates (a value that was formatted parses back); they are
  hypotheses only where they are needed, and \<open>Fubun_Samples\<close> has an environment that satisfies them.

  No definition carries fuel. Loops over lists are structural recursion, the loops over bytes have a measure. The
  concurrent parts are step functions and relations over explicit labels, and that
  they come to an end is a theorem about them (a measure of the work left in \<open>Fubun_Host_Props\<close>, a path to
  the end from every state in \<open>Fubun_Lifecycle\<close>, the reply or a wait on a live connection in \<open>Fubun_Manager\<close>).
\<close>

section \<open>What is proved\<close>

text \<open>
  Interfaces are locales, each interpreted on the model.

    \<^item> \<open>text_codec\<close> (a name and its parser), interpreted for the nine enums stored as text in \<open>Fubun_Codec\<close>.
    \<^item> \<open>keyed_rows\<close> (a row codec whose key is the text of an id), for the seven kinds of rows in \<open>Fubun_Store_Props\<close>.
    \<^item> \<open>statement_invariant\<close> (a predicate every statement keeps), for the growth of the history and
      for the encoding of stored events.
    \<^item> \<open>io_relation\<close> and its extension \<open>dispatching_relation\<close> (what each request handler
      keeps, and the dispatcher with them): interpreted in \<open>Fubun_Core_Inv\<close> for the requests sent, the consistency
      of the tables, and the growth of the history.

  The properties, from the parts to the whole:

    \<^item> Validation accepts exactly the well-formed values (\<open>Fubun_Domain\<close>, \<open>Fubun_Adapter\<close>), an approval
      binds exactly the target of its action (\<open>Fubun_Policy\<close>), frames are read back as written (\<open>Fubun_Protocol\<close>).
    \<^item> \<open>Fubun_Store_Inv\<close> is a Hoare logic for the storage; with it \<open>Fubun_Store_Theorems\<close> shows the invariant
      of the tables for every sequence of commands, that at most one execution of a ritual is running, what a
      failed command leaves, and that stored records read back. \<open>Fubun_Handle\<close> shows that the
      methods of the handle refine the storage functions.
    \<^item> \<open>Fubun_Migrate\<close>: a migration stopped anywhere leaves a file of some version from which it can go
      on, no row is lost, and without faults it completes.
    \<^item> \<open>Fubun_Manager\<close>: the invariant \<open>world_ok\<close> of all reachable worlds; a result is authentic, and no dispatch is
      stranded. \<open>Fubun_Dispatch\<close>: whatever a task of the manager returns, the call of the handlers
      returns in an environment made of the states of that run.
    \<^item> \<open>Fubun_Core_Theorems\<close>, \<open>Fubun_Ritual_Theorems\<close>, \<open>Fubun_Server_Theorems\<close>: a run sends only approved
      actions, in order, and leaves a complete record; how activation, update and events of adapters are guarded;
      what any frames on connections keep. \<open>Fubun_Answers\<close> has the typing of answers.
    \<^item> \<open>Fubun_Host_Props\<close>, \<open>Fubun_Linux_Props\<close>, \<open>Fubun_Cli_Props\<close>: the programs around the core.
    \<^item> Compositions: \<open>Fubun_Cli_Daemon\<close> runs the client against the dispatcher, \<open>Fubun_Desktop\<close> runs the Linux
      adapter on the requests of a run, so that a program started on the desktop is traced back to an
      approval in the database; \<open>Fubun_Cli_Props\<close> lets the host read the file the client installed.
\<close>

section \<open>Not modelled\<close>

text \<open>
    \<^item> The texts that are printed, the parser that \<open>clap\<close> derives (a command is the value it builds), the
      subscription to logging, and the texts of foreign errors.
    \<^item> The pragmas of SQLite and its indexes are statements that may fail, without an effect on the tables.
    \<^item> The bounded channels: a sender that waits for room is a task that takes its step later, and the tasks that copy
      a queue to a socket or to standard output are the order of that queue. The tasks \<open>run_host\<close>
      aborts when it returns are not followed after that.
    \<^item> In the file system of \<open>Fubun_Paths\<close> there are no symbolic links and no \<open>..\<close>; where a program calls
      \<open>canonicalize\<close>, its answer is an input.
    \<^item> \<open>Duration\<close> and \<open>OffsetDateTime\<close> out of their range panic in the code; in \<open>parse_since\<close> this is \<open>Panics\<close>,
      elsewhere the times come from the clock.
    \<^item> The extensions of the browser and of VS Code are TypeScript; to the model they are arbitrary frames on
      a connection. Tests, fixtures and scripts are not program code.
\<close>

end
